(* ===== verification/BD_Prelude.thy ===== *)
theory BD_Prelude
  imports Main "HOL-Library.AList" "HOL-Library.Sublist"
begin

text \<open>
  Shared vocabulary of the development.

  \<^item> A Python method that reads and writes an object and may raise is a function
    \<open>('s, 'e, 'a) pm\<close>: it maps the state before the call to the result (\<open>Inl\<close> the
    exception, \<open>Inr\<close> the returned value) and the state after it. A raise keeps the
    writes made before it, as Python does; a rollback is written out where the code has one.
  \<^item> A Python \<open>dict\<close> is an association list in insertion order. Assignment to an existing
    key keeps its place, assignment to a new key appends (\<open>AList.update\<close>).
  \<^item> A Python \<open>str\<close> is represented by its UTF-8 bytes, a HOL \<open>string\<close>. Concatenation,
    equality and the code-point order of \<open>sorted\<close> agree with the bytewise ones, and
    \<open>encode("utf-8")\<close> is the identity.
\<close>

named_theorems pm_simps "unfolding equations of the exception-and-state monad"
named_theorems dict_simps "facts on insertion-ordered dictionaries"

type_synonym ('s, 'e, 'a) pm = "'s \<Rightarrow> ('e + 'a) \<times> 's"

type_synonym ('k, 'v) dict = "('k \<times> 'v) list"

text \<open>Aware datetimes are UTC instants in microseconds since 1970-01-01T00:00:00Z.\<close>

type_synonym instant = int

subsection \<open>Exceptions and state\<close>

definition ret :: "'a \<Rightarrow> ('s, 'e, 'a) pm" where
  "ret a = (\<lambda>s. (Inr a, s))"

definition raise_err :: "'e \<Rightarrow> ('s, 'e, 'a) pm" where
  "raise_err e = (\<lambda>s. (Inl e, s))"

definition bind_pm :: "('s, 'e, 'a) pm \<Rightarrow> ('a \<Rightarrow> ('s, 'e, 'b) pm) \<Rightarrow> ('s, 'e, 'b) pm" where
  "bind_pm m k = (\<lambda>s. case m s of (Inl e, s') \<Rightarrow> (Inl e, s') | (Inr a, s') \<Rightarrow> k a s')"

definition get_pm :: "('s \<Rightarrow> 'a) \<Rightarrow> ('s, 'e, 'a) pm" where
  "get_pm f = (\<lambda>s. (Inr (f s), s))"

definition modify_pm :: "('s \<Rightarrow> 's) \<Rightarrow> ('s, 'e, unit) pm" where
  "modify_pm f = (\<lambda>s. (Inr (), f s))"

text \<open>\<open>require_that b e\<close> is \<^verbatim>\<open>if not b: raise e\<close>.\<close>

definition require_that :: "bool \<Rightarrow> 'e \<Rightarrow> ('s, 'e, unit) pm" where
  "require_that b e = (if b then ret () else raise_err e)"

definition lift_sum :: "'e + 'a \<Rightarrow> ('s, 'e, 'a) pm" where
  "lift_sum r = (\<lambda>s. (r, s))"

primrec for_each :: "('x \<Rightarrow> ('s, 'e, unit) pm) \<Rightarrow> 'x list \<Rightarrow> ('s, 'e, unit) pm" where
  "for_each f [] = ret ()"
| "for_each f (x # xs) = bind_pm (f x) (\<lambda>_. for_each f xs)"

text \<open>The same for pure code that may raise.\<close>

definition bind_sum :: "'e + 'a \<Rightarrow> ('a \<Rightarrow> 'e + 'b) \<Rightarrow> 'e + 'b" where
  "bind_sum r k = (case r of Inl e \<Rightarrow> Inl e | Inr a \<Rightarrow> k a)"

definition check_sum :: "bool \<Rightarrow> 'e \<Rightarrow> 'e + unit" where
  "check_sum b e = (if b then Inr () else Inl e)"

primrec map_sum_list :: "('x \<Rightarrow> 'e + 'y) \<Rightarrow> 'x list \<Rightarrow> 'e + 'y list" where
  "map_sum_list f [] = Inr []"
| "map_sum_list f (x # xs) =
     bind_sum (f x) (\<lambda>y. bind_sum (map_sum_list f xs) (\<lambda>ys. Inr (y # ys)))"

definition the_inr :: "'e + 'a \<Rightarrow> 'a option" where
  "the_inr r = (case r of Inl _ \<Rightarrow> None | Inr a \<Rightarrow> Some a)"

text \<open>Python's \<open>x or y\<close> on an optional string: the empty string is falsy.\<close>

definition str_or :: "string option \<Rightarrow> string option \<Rightarrow> string option" where
  "str_or a b = (if a = None \<or> a = Some [] then b else a)"

subsection \<open>Dictionaries\<close>

abbreviation dget :: "('k, 'v) dict \<Rightarrow> 'k \<Rightarrow> 'v option" where
  "dget \<equiv> map_of"

abbreviation dput :: "'k \<Rightarrow> 'v \<Rightarrow> ('k, 'v) dict \<Rightarrow> ('k, 'v) dict" where
  "dput \<equiv> AList.update"

definition dkeys :: "('k, 'v) dict \<Rightarrow> 'k list" where
  "dkeys d = map fst d"

definition dvals :: "('k, 'v) dict \<Rightarrow> 'v list" where
  "dvals d = map snd d"

definition dget_or :: "('k, 'v) dict \<Rightarrow> 'k \<Rightarrow> 'v \<Rightarrow> 'v" where
  "dget_or d k v = (case dget d k of None \<Rightarrow> v | Some x \<Rightarrow> x)"

text \<open>\<open>d1.update(d2)\<close>.\<close>

definition dict_update :: "('k, 'v) dict \<Rightarrow> ('k, 'v) dict \<Rightarrow> ('k, 'v) dict" where
  "dict_update d1 d2 = fold (\<lambda>(k, v). dput k v) d2 d1"

definition dict_ok :: "('k, 'v) dict \<Rightarrow> bool" where
  "dict_ok d \<longleftrightarrow> distinct (map fst d)"

subsection \<open>Laws of the monad\<close>

lemma ret_eq [pm_simps]: "ret a s = (Inr a, s)"
  by (simp add: ret_def)

lemma raise_err_eq [pm_simps]: "raise_err e s = (Inl e, s)"
  by (simp add: raise_err_def)

lemma get_pm_eq [pm_simps]: "get_pm f s = (Inr (f s), s)"
  by (simp add: get_pm_def)

lemma modify_pm_eq [pm_simps]: "modify_pm f s = (Inr (), f s)"
  by (simp add: modify_pm_def)

lemma lift_sum_eq [pm_simps]: "lift_sum r s = (r, s)"
  by (simp add: lift_sum_def)

lemma bind_pm_Inr_iff:
  "bind_pm m k s = (Inr b, t) \<longleftrightarrow> (\<exists>a s'. m s = (Inr a, s') \<and> k a s' = (Inr b, t))"
  by (auto simp: bind_pm_def split: prod.splits sum.splits)

lemma bind_pm_Inl_iff:
  "bind_pm m k s = (Inl e, t) \<longleftrightarrow>
     m s = (Inl e, t) \<or> (\<exists>a s'. m s = (Inr a, s') \<and> k a s' = (Inl e, t))"
  by (auto simp: bind_pm_def split: prod.splits sum.splits)

lemma bind_pm_step [pm_simps]: "m s = (Inr a, s') \<Longrightarrow> bind_pm m k s = k a s'"
  by (simp add: bind_pm_def)

lemma bind_pm_fail [pm_simps]: "m s = (Inl e, s') \<Longrightarrow> bind_pm m k s = (Inl e, s')"
  by (simp add: bind_pm_def)

lemma require_that_Inr_iff: "require_that b e s = (Inr u, t) \<longleftrightarrow> b \<and> t = s"
  by (auto simp: require_that_def pm_simps)

lemma require_that_Inl_iff: "require_that b e s = (Inl e', t) \<longleftrightarrow> \<not> b \<and> e' = e \<and> t = s"
  by (auto simp: require_that_def pm_simps)

lemma lift_sum_Inr_iff: "lift_sum r s = (Inr a, t) \<longleftrightarrow> r = Inr a \<and> t = s"
  by (auto simp: lift_sum_def)

lemma ret_Inr_iff: "ret a s = (Inr b, t) \<longleftrightarrow> b = a \<and> t = s"
  by (auto simp: ret_def)

lemma raise_err_Inr_iff [simp]: "raise_err e s = (Inr b, t) \<longleftrightarrow> False"
  by (simp add: raise_err_def)

lemma get_pm_Inr_iff: "get_pm f s = (Inr a, t) \<longleftrightarrow> a = f s \<and> t = s"
  by (auto simp: get_pm_def)

lemma modify_pm_Inr_iff: "modify_pm f s = (Inr u, t) \<longleftrightarrow> t = f s"
  by (simp add: modify_pm_def eq_commute)

lemmas pm_Inr_iffs =
  bind_pm_Inr_iff require_that_Inr_iff lift_sum_Inr_iff ret_Inr_iff get_pm_Inr_iff
  modify_pm_Inr_iff

lemma bind_sum_Inr_iff: "bind_sum r k = Inr b \<longleftrightarrow> (\<exists>a. r = Inr a \<and> k a = Inr b)"
  by (cases r) (simp_all add: bind_sum_def)

lemma bind_sum_Inr [simp]: "bind_sum (Inr a) k = k a"
  by (simp add: bind_sum_def)

lemma bind_sum_Inl [simp]: "bind_sum (Inl e) k = Inl e"
  by (simp add: bind_sum_def)

lemma check_sum_Inr_iff [simp]: "check_sum b e = Inr u \<longleftrightarrow> b"
  by (simp add: check_sum_def)

lemma check_sum_True [simp]: "check_sum True e = Inr ()"
  by (simp add: check_sum_def)

lemma check_sum_False [simp]: "check_sum False e = Inl e"
  by (simp add: check_sum_def)

lemma map_sum_list_Inr_length: "map_sum_list f xs = Inr ys \<Longrightarrow> length ys = length xs"
  by (induction xs arbitrary: ys) (auto simp: bind_sum_Inr_iff)

lemma map_sum_list_each:
  assumes "\<And>x. x \<in> set xs \<Longrightarrow> \<exists>y. f x = Inr y \<and> P x y"
  shows "\<exists>ys. map_sum_list f xs = Inr ys \<and> (\<forall>x \<in> set xs. \<exists>y \<in> set ys. P x y)"
  using assms
proof (induction xs)
  case (Cons x xs)
  obtain ys where ys: "map_sum_list f xs = Inr ys" "\<forall>x \<in> set xs. \<exists>y \<in> set ys. P x y"
    using Cons.IH [OF Cons.prems] by auto
  obtain y where y: "f x = Inr y" "P x y" using Cons.prems [of x] by auto
  then show ?case using ys by auto
qed simp

subsection \<open>Invariants of stateful code\<close>

text \<open>\<open>keeps I m\<close>: the call keeps \<open>I\<close>, whether it returns or raises.\<close>

definition keeps :: "('s \<Rightarrow> bool) \<Rightarrow> ('s, 'e, 'a) pm \<Rightarrow> bool" where
  "keeps I m \<longleftrightarrow> (\<forall>s. I s \<longrightarrow> I (snd (m s)))"

named_theorems keeps_intros "composition rules for invariants of calls"

lemma keepsI: "(\<And>s. I s \<Longrightarrow> I (snd (m s))) \<Longrightarrow> keeps I m"
  by (simp add: keeps_def)

lemma keepsD: "keeps I m \<Longrightarrow> I s \<Longrightarrow> I (snd (m s))"
  by (simp add: keeps_def)

lemma keeps_ret [keeps_intros]: "keeps I (ret a)"
  by (simp add: keeps_def ret_def)

lemma keeps_raise [keeps_intros]: "keeps I (raise_err e)"
  by (simp add: keeps_def raise_err_def)

lemma keeps_get [keeps_intros]: "keeps I (get_pm f)"
  by (simp add: keeps_def get_pm_def)

lemma keeps_lift [keeps_intros]: "keeps I (lift_sum r)"
  by (simp add: keeps_def lift_sum_def)

lemma keeps_require [keeps_intros]: "keeps I (require_that b e)"
  by (simp add: keeps_def require_that_def ret_def raise_err_def)

lemma keeps_modify: "(\<And>s. I s \<Longrightarrow> I (f s)) \<Longrightarrow> keeps I (modify_pm f)"
  by (simp add: keeps_def modify_pm_def)

lemma keeps_bind [keeps_intros]:
  assumes "keeps I m" and "\<And>a. keeps I (k a)"
  shows "keeps I (bind_pm m k)"
proof (rule keepsI)
  fix s assume "I s"
  then have m: "I (snd (m s))" using assms(1) by (rule keepsD [rotated])
  show "I (snd (bind_pm m k s))"
  proof (cases "fst (m s)")
    case (Inl e)
    then show ?thesis using m by (cases "m s") (simp add: bind_pm_def)
  next
    case (Inr a)
    then show ?thesis using m assms(2) [THEN keepsD] by (cases "m s") (simp add: bind_pm_def)
  qed
qed

lemma keeps_if [keeps_intros]: "keeps I m \<Longrightarrow> keeps I m' \<Longrightarrow> keeps I (if b then m else m')"
  by simp

lemma keeps_case_option [keeps_intros]:
  "keeps I m \<Longrightarrow> (\<And>x. keeps I (k x)) \<Longrightarrow> keeps I (case y of None \<Rightarrow> m | Some x \<Rightarrow> k x)"
  by (cases y) simp_all

lemma keeps_case_prod [keeps_intros]:
  "(\<And>a b. keeps I (k a b)) \<Longrightarrow> keeps I (case x of (a, b) \<Rightarrow> k a b)"
  by (cases x) simp

lemma keeps_for_each [keeps_intros]: "(\<And>x. keeps I (f x)) \<Longrightarrow> keeps I (for_each f xs)"
  by (induction xs) (auto intro: keeps_intros)

text \<open>\<open>atomic_on I m\<close>: from a state with \<open>I\<close>, a call that raises changes nothing.\<close>

definition atomic_on :: "('s \<Rightarrow> bool) \<Rightarrow> ('s, 'e, 'a) pm \<Rightarrow> bool" where
  "atomic_on I m \<longleftrightarrow> (\<forall>s e s'. I s \<longrightarrow> m s = (Inl e, s') \<longrightarrow> s' = s)"

definition readonly :: "('s, 'e, 'a) pm \<Rightarrow> bool" where
  "readonly m \<longleftrightarrow> (\<forall>s. snd (m s) = s)"

named_theorems atomic_intros "composition rules for calls that raise without effect"

lemma readonly_basic [atomic_intros]:
  "readonly (ret a)" "readonly (raise_err e)" "readonly (get_pm f)" "readonly (lift_sum r)"
  "readonly (require_that b e)"
  by (simp_all add: readonly_def ret_def raise_err_def get_pm_def lift_sum_def require_that_def)

lemma atomic_readonly: "readonly m \<Longrightarrow> atomic_on I m"
  unfolding readonly_def atomic_on_def by (metis snd_conv)

lemma atomic_bind_readonly [atomic_intros]:
  assumes "readonly m" and "\<And>a. atomic_on I (k a)"
  shows "atomic_on I (bind_pm m k)"
  unfolding atomic_on_def
proof (intro allI impI)
  fix s e s' assume I: "I s" and eq: "bind_pm m k s = (Inl e, s')"
  have m: "snd (m s) = s" using assms(1) by (simp add: readonly_def)
  from eq consider "m s = (Inl e, s')" | a t where "m s = (Inr a, t)" "k a t = (Inl e, s')"
    by (auto simp: bind_pm_Inl_iff)
  then show "s' = s"
  proof cases
    case 1
    then show ?thesis using m by simp
  next
    case 2
    then show ?thesis using m assms(2) I by (auto simp: atomic_on_def)
  qed
qed

lemma atomic_bind_ret [atomic_intros]: "atomic_on I m \<Longrightarrow> atomic_on I (bind_pm m (\<lambda>a. ret (f a)))"
  by (auto simp: atomic_on_def bind_pm_Inl_iff ret_def)

lemma atomic_modify [atomic_intros]: "atomic_on I (modify_pm f)"
  by (simp add: atomic_on_def modify_pm_def)

lemma atomic_if [atomic_intros]:
  "atomic_on I m \<Longrightarrow> atomic_on I m' \<Longrightarrow> atomic_on I (if b then m else m')"
  by simp

lemma atomic_basic [atomic_intros]:
  "atomic_on I (ret a)" "atomic_on I (raise_err e)" "atomic_on I (get_pm f)" "atomic_on I (lift_sum r)"
  by (simp_all add: atomic_readonly readonly_basic)

lemma atomic_case_prod [atomic_intros]:
  "(\<And>a b. atomic_on I (k a b)) \<Longrightarrow> atomic_on I (case x of (a, b) \<Rightarrow> k a b)"
  by (cases x) simp

text \<open>\<open>keeps_return I m\<close>: the call keeps \<open>I\<close> when it returns. It suffices where a raise discards the
  state.\<close>

definition keeps_return :: "('s \<Rightarrow> bool) \<Rightarrow> ('s, 'e, 'a) pm \<Rightarrow> bool" where
  "keeps_return I m \<longleftrightarrow> (\<forall>s a s'. I s \<longrightarrow> m s = (Inr a, s') \<longrightarrow> I s')"

named_theorems return_intros "composition rules for calls that return"

lemma keeps_returnI: "(\<And>s a s'. I s \<Longrightarrow> m s = (Inr a, s') \<Longrightarrow> I s') \<Longrightarrow> keeps_return I m"
  by (auto simp: keeps_return_def)

lemma keeps_returnD: "keeps_return I m \<Longrightarrow> I s \<Longrightarrow> m s = (Inr a, s') \<Longrightarrow> I s'"
  by (auto simp: keeps_return_def)

lemma keeps_return_keeps: "keeps I m \<Longrightarrow> keeps_return I m"
  unfolding keeps_def keeps_return_def by (metis snd_conv)

lemma return_readonly: "readonly m \<Longrightarrow> keeps_return I m"
  unfolding readonly_def keeps_return_def by (metis snd_conv)

lemma return_basic [return_intros]:
  "keeps_return I (ret a)" "keeps_return I (raise_err e)" "keeps_return I (get_pm f)"
  "keeps_return I (lift_sum r)" "keeps_return I (require_that b e)"
  by (simp_all add: return_readonly readonly_basic)

lemma return_bind [return_intros]:
  "keeps_return I m \<Longrightarrow> (\<And>a. keeps_return I (k a)) \<Longrightarrow> keeps_return I (bind_pm m k)"
  by (rule keeps_returnI) (auto simp: bind_pm_Inr_iff dest: keeps_returnD)

lemma return_if [return_intros]:
  "keeps_return I m \<Longrightarrow> keeps_return I m' \<Longrightarrow> keeps_return I (if b then m else m')"
  by simp

lemma return_case_option [return_intros]:
  "keeps_return I m \<Longrightarrow> (\<And>x. keeps_return I (k x)) \<Longrightarrow>
     keeps_return I (case y of None \<Rightarrow> m | Some x \<Rightarrow> k x)"
  by (cases y) simp_all

lemma return_case_prod [return_intros]:
  "(\<And>a b. keeps_return I (k a b)) \<Longrightarrow> keeps_return I (case x of (a, b) \<Rightarrow> k a b)"
  by (cases x) simp

lemma return_for_each [return_intros]:
  "(\<And>x. keeps_return I (f x)) \<Longrightarrow> keeps_return I (for_each f xs)"
  by (induction xs) (auto intro: return_intros)

lemma return_Let [return_intros]: "keeps_return I (m x) \<Longrightarrow> keeps_return I (let y = x in m y)"
  by simp

subsection \<open>Units of work\<close>

text \<open>What the clients of a store rely on: \<open>run body\<close> executes \<open>body\<close> on the staged copy \<open>start s\<close>. A
  raise of the body, or of the commit, leaves the committed state alone; a staged state that is
  admissible for \<open>s\<close> commits to one that keeps the invariant.\<close>

locale unit_of_work =
  fixes run :: "('t, 'e, 'a) pm \<Rightarrow> ('s, 'e, 'a) pm"
    and start :: "'s \<Rightarrow> 't"
    and inv :: "'s \<Rightarrow> bool"
    and staged :: "'s \<Rightarrow> 't \<Rightarrow> bool"
  assumes start_staged: "inv s \<Longrightarrow> staged s (start s)"
    and run_raise: "body (start s) = (Inl e, t) \<Longrightarrow> run body s = (Inl e, s)"
    and run_return: "inv s \<Longrightarrow> body (start s) = (Inr a, t) \<Longrightarrow> staged s t \<Longrightarrow>
      (\<exists>e. run body s = (Inl e, s)) \<or> (\<exists>s'. run body s = (Inr a, s') \<and> inv s')"
begin

lemma run_cases:
  assumes "inv s" and "keeps_return (staged s) body"
  obtains e where "run body s = (Inl e, s)"
    | a s' where "run body s = (Inr a, s')" "inv s'" "body (start s) = (Inr a, snd (body (start s)))"
proof (cases "body (start s)")
  case (Pair r t)
  then show thesis
  proof (cases r)
    case (Inl e)
    then show thesis using run_raise [of body s e t] Pair that(1) by simp
  next
    case (Inr a)
    then have "body (start s) = (Inr a, t)" using Pair by simp
    then have "(\<exists>e. run body s = (Inl e, s)) \<or> (\<exists>s'. run body s = (Inr a, s') \<and> inv s')"
      using run_return [OF assms(1)] keeps_returnD [OF assms(2) start_staged [OF assms(1)]] by blast
    then show thesis using that Pair Inr by auto
  qed
qed

lemma run_atomic:
  assumes "inv s" and "keeps_return (staged s) body" and "run body s = (Inl e, s')"
  shows "s' = s"
  using run_cases [OF assms(1,2)] assms(3) by auto

lemma atomic_run:
  assumes "\<And>s. keeps_return (staged s) body"
  shows "atomic_on inv (run body)"
  using run_atomic [OF _ assms] by (auto simp: atomic_on_def)

lemma run_keeps:
  assumes "\<And>s. keeps_return (staged s) body"
  shows "keeps inv (run body)"
proof (rule keepsI)
  fix s assume "inv s"
  then show "inv (snd (run body s))" using run_cases [OF _ assms, of s] by (metis snd_conv)
qed

end

subsection \<open>Laws of dictionaries\<close>

lemma dget_dput [dict_simps]: "dget (dput k v d) = (dget d)(k \<mapsto> v)"
  by (rule update_conv')

lemma dict_ok_Nil [dict_simps, simp]: "dict_ok []"
  by (simp add: dict_ok_def)

lemma dict_ok_dput [dict_simps]: "dict_ok d \<Longrightarrow> dict_ok (dput k v d)"
  by (simp add: dict_ok_def distinct_update)

lemma dput_fresh: "dget d k = None \<Longrightarrow> dput k v d = d @ [(k, v)]"
  by (induction d) (auto split: if_splits)

lemma dput_keys_existing: "dget d k \<noteq> None \<Longrightarrow> map fst (dput k v d) = map fst d"
  by (induction d) (auto split: if_splits)

lemma dict_update_Nil [simp]: "dict_update d [] = d"
  by (simp add: dict_update_def)

lemma dict_update_Cons: "dict_update d ((k, v) # d2) = dict_update (dput k v d) d2"
  by (simp add: dict_update_def)

lemma dict_update_fresh:
  assumes "dict_ok d2" and "\<And>k. k \<in> fst ` set d2 \<Longrightarrow> dget d1 k = None"
  shows "dict_update d1 d2 = d1 @ d2"
  using assms
proof (induction d2 arbitrary: d1)
  case Nil
  then show ?case by simp
next
  case (Cons kv d2)
  obtain k v where kv: "kv = (k, v)" by (cases kv)
  have fresh: "dget d1 k = None" using Cons.prems(2) [of k] kv by simp
  have "dict_update (d1 @ [(k, v)]) d2 = (d1 @ [(k, v)]) @ d2"
  proof (rule Cons.IH)
    show "dict_ok d2" using Cons.prems(1) kv by (simp add: dict_ok_def)
  next
    fix k' assume "k' \<in> fst ` set d2"
    then show "dget (d1 @ [(k, v)]) k' = None"
      using Cons.prems kv by (auto simp: dict_ok_def map_add_def image_iff split: option.splits)
  qed
  then show ?case using kv fresh by (simp add: dict_update_Cons dput_fresh)
qed

lemma dget_dict_update: "dget (dict_update d1 d2) = (dget d1)(map fst d2 [\<mapsto>] map snd d2)"
  by (induction d2 arbitrary: d1) (auto simp: dict_update_def dict_simps)

lemma dict_ok_dict_update [dict_simps]: "dict_ok d1 \<Longrightarrow> dict_ok (dict_update d1 d2)"
  by (induction d2 arbitrary: d1) (auto simp: dict_update_def dict_simps)

lemma dict_ok_append:
  "dict_ok (d1 @ d2) \<longleftrightarrow> dict_ok d1 \<and> dict_ok d2 \<and> fst ` set d1 \<inter> fst ` set d2 = {}"
  by (auto simp: dict_ok_def)

lemma dget_None_iff: "dget d k = None \<longleftrightarrow> k \<notin> fst ` set d"
  by (rule map_of_eq_None_iff)

lemma dget_append_None [dict_simps]:
  "dget d2 k = None \<Longrightarrow> dget (d1 @ d2) k = dget d1 k"
  by (simp add: map_add_def split: option.splits)

lemma dget_append_first: "dget d1 k = Some v \<Longrightarrow> dict_ok (d1 @ d2) \<Longrightarrow> dget (d1 @ d2) k = Some v"
  by (auto simp: dict_ok_def map_add_def dest!: map_of_SomeD split: option.splits)

lemma dget_Some_iff: "dict_ok d \<Longrightarrow> dget d k = Some v \<longleftrightarrow> (k, v) \<in> set d"
  by (auto simp: dict_ok_def dest: map_of_SomeD)

subsection \<open>Lists and strings\<close>

lemma sum_list_filter_le_nonneg:
  "(\<And>x. x \<in> set xs \<Longrightarrow> (0::int) \<le> f x) \<Longrightarrow> 0 \<le> (\<Sum>x\<leftarrow>filter P xs. f x)"
  by (rule sum_list_nonneg) auto

lemma sum_list_partition:
  "(\<Sum>x\<leftarrow>filter P xs. f x) + (\<Sum>x\<leftarrow>filter (\<lambda>x. \<not> P x) xs. f x) = (\<Sum>x\<leftarrow>xs. f x :: int)"
  by (induction xs) auto

lemma sum_list_group:
  fixes f :: "'x \<Rightarrow> int"
  assumes "finite A" and "g ` set xs \<subseteq> A"
  shows "(\<Sum>i\<in>A. \<Sum>x\<leftarrow>filter (\<lambda>x. g x = i) xs. f x) = (\<Sum>x\<leftarrow>xs. f x)"
  using assms(2)
proof (induction xs)
  case Nil
  then show ?case by simp
next
  case (Cons x xs)
  have "(\<Sum>i\<in>A. \<Sum>y\<leftarrow>filter (\<lambda>y. g y = i) (x # xs). f y) =
      (\<Sum>i\<in>A. (if i = g x then f x else 0) + (\<Sum>y\<leftarrow>filter (\<lambda>y. g y = i) xs. f y))"
    by (intro sum.cong) auto
  also have "\<dots> = f x + (\<Sum>y\<leftarrow>xs. f y)"
    using Cons assms(1) by (simp add: sum.distrib)
  finally show ?case by simp
qed

lemma append_cons_unique:
  assumes "xs @ c # ys = xs' @ c # ys'" and "c \<notin> set xs" and "c \<notin> set xs'"
  shows "xs = xs' \<and> ys = ys'"
  using assms
proof (induction xs arbitrary: xs')
  case Nil
  then show ?case by (cases xs') auto
next
  case (Cons x xs)
  then show ?case by (cases xs') auto
qed

end
