(* ===== verification/Py_Text.thy ===== *)
theory Py_Text
  imports BD_Prelude
begin

text \<open>
  The text forms of Python integers that the sources use: \<open>str(n)\<close>, the padded
  \<^verbatim>\<open>f"{n:02d}"\<close> and \<^verbatim>\<open>f"{n:04X}"\<close>, and \<open>int(s)\<close> on ASCII digits, with their
  round trips. They carry the injectivity of the hash preimages and of the QR fields.
\<close>

subsection \<open>Digits\<close>

definition digit_char :: "nat \<Rightarrow> char" where
  "digit_char d = char_of (48 + d)"

lemma digit_char_code [code]:
  "digit_char d = (if d < 10 then ''0123456789'' ! d else char_of (48 + d))"
proof (cases "d < 10")
  case True
  then have "d \<in> {0, 1, 2, 3, 4, 5, 6, 7, 8, 9}" by auto
  then show ?thesis by (auto simp: digit_char_def char_of_def bit_0)
qed (simp add: digit_char_def)

definition digit_val :: "char \<Rightarrow> nat" where
  "digit_val c = of_char c - 48"

definition is_digit :: "char \<Rightarrow> bool" where
  "is_digit c \<longleftrightarrow> (48::nat) \<le> of_char c \<and> of_char c \<le> (57::nat)"

fun dec_nat :: "nat \<Rightarrow> string" where
  "dec_nat n = (if n < 10 then [digit_char n] else dec_nat (n div 10) @ [digit_char (n mod 10)])"

declare dec_nat.simps [simp del]

definition nat_of_dec :: "string \<Rightarrow> nat" where
  "nat_of_dec s = foldl (\<lambda>a c. 10 * a + digit_val c) 0 s"

definition str_int :: "int \<Rightarrow> string" where
  "str_int n = (if n < 0 then CHR ''-'' # dec_nat (nat (- n)) else dec_nat (nat n))"

definition zero_pad :: "nat \<Rightarrow> string \<Rightarrow> string" where
  "zero_pad w s = replicate (w - length s) (CHR ''0'') @ s"

text \<open>\<^verbatim>\<open>f"{n:0wd}"\<close> for a non-negative \<open>n\<close>.\<close>

definition pad_dec :: "nat \<Rightarrow> nat \<Rightarrow> string" where
  "pad_dec w n = zero_pad w (dec_nat n)"

text \<open>\<open>len(s)\<close> counts code points: the bytes of the UTF-8 form that do not continue one.\<close>

definition py_len :: "string \<Rightarrow> nat" where
  "py_len s = length (filter (\<lambda>c. (of_char c :: nat) < 128 \<or> 192 \<le> (of_char c :: nat)) s)"

definition is_hex :: "char \<Rightarrow> bool" where
  "is_hex c \<longleftrightarrow> c \<in> set ''0123456789abcdef''"

lemma py_len_hex: "list_all is_hex s \<Longrightarrow> py_len s = length s"
  by (induction s) (auto simp: py_len_def is_hex_def)

subsection \<open>Facts on digits\<close>

lemma of_char_digit_char: "d < 10 \<Longrightarrow> of_char (digit_char d) = 48 + d"
  by (simp add: digit_char_def of_char_of)

lemma digit_val_digit_char [simp]: "d < 10 \<Longrightarrow> digit_val (digit_char d) = d"
  by (simp add: digit_val_def of_char_digit_char)

lemma is_digit_digit_char [simp]: "d < 10 \<Longrightarrow> is_digit (digit_char d)"
  by (simp add: is_digit_def of_char_digit_char)

lemma digit_char_0: "digit_char 0 = CHR ''0''"
  by code_simp

lemma digit_val_lt: "is_digit c \<Longrightarrow> digit_val c < 10"
  by (auto simp: is_digit_def digit_val_def)

lemma digit_char_digit_val [simp]: "is_digit c \<Longrightarrow> digit_char (digit_val c) = c"
  by (simp add: is_digit_def digit_val_def digit_char_def)

lemma dec_nat_digits: "c \<in> set (dec_nat n) \<Longrightarrow> is_digit c"
proof (induction n rule: dec_nat.induct)
  case (1 n)
  then show ?case
    by (cases "n < 10") (auto simp: dec_nat.simps [of n])
qed

lemma dec_nat_nonempty [simp]: "dec_nat n \<noteq> []"
  by (subst dec_nat.simps) simp

lemma nat_of_dec_snoc: "nat_of_dec (s @ [c]) = 10 * nat_of_dec s + digit_val c"
  by (simp add: nat_of_dec_def)

lemma nat_of_dec_Nil [simp]: "nat_of_dec [] = 0"
  by (simp add: nat_of_dec_def)

lemma nat_of_dec_dec_nat [simp]: "nat_of_dec (dec_nat n) = n"
proof (induction n rule: dec_nat.induct)
  case (1 n)
  show ?case
  proof (cases "n < 10")
    case True
    then show ?thesis by (simp add: dec_nat.simps [of n] nat_of_dec_def)
  next
    case False
    with "1.IH" have "nat_of_dec (dec_nat (n div 10)) = n div 10" by simp
    with False show ?thesis
      by (simp add: dec_nat.simps [of n] nat_of_dec_snoc)
  qed
qed

lemma dec_nat_inject [simp]: "dec_nat m = dec_nat n \<longleftrightarrow> m = n"
  by (metis nat_of_dec_dec_nat)

lemma foldl_dec_start:
  "foldl (\<lambda>a c. 10 * a + digit_val c) a s = a * 10 ^ length s + nat_of_dec s"
proof (induction s arbitrary: a)
  case Nil
  then show ?case by simp
next
  case (Cons c s)
  have "foldl (\<lambda>a c. 10 * a + digit_val c) (digit_val c) s =
      digit_val c * 10 ^ length s + nat_of_dec s"
    by (rule Cons.IH)
  then have "nat_of_dec (c # s) = digit_val c * 10 ^ length s + nat_of_dec s"
    by (simp add: nat_of_dec_def)
  with Cons.IH [of "10 * a + digit_val c"] show ?case
    by (simp add: algebra_simps)
qed

lemma nat_of_dec_append: "nat_of_dec (s @ t) = nat_of_dec s * 10 ^ length t + nat_of_dec t"
proof -
  have "nat_of_dec (s @ t) = foldl (\<lambda>a c. 10 * a + digit_val c) (nat_of_dec s) t"
    by (simp add: nat_of_dec_def)
  then show ?thesis by (simp add: foldl_dec_start)
qed

lemma nat_of_dec_Cons: "nat_of_dec (c # s) = digit_val c * 10 ^ length s + nat_of_dec s"
  using nat_of_dec_append [of "[c]" s] by (simp add: nat_of_dec_def)

lemma digit_val_0 [simp]: "digit_val (CHR ''0'') = 0"
  by (simp add: digit_val_def)

lemma nat_of_dec_zeros [simp]: "nat_of_dec (replicate n (CHR ''0'')) = 0"
  by (induction n) (simp_all add: nat_of_dec_Cons)

lemma nat_of_dec_zero_pad [simp]: "nat_of_dec (zero_pad w s) = nat_of_dec s"
  by (simp add: zero_pad_def nat_of_dec_append)

lemma nat_of_dec_pad_dec [simp]: "nat_of_dec (pad_dec w n) = n"
  by (simp add: pad_dec_def)

lemma is_digit_0 [simp]: "is_digit (CHR ''0'')"
  by (simp add: is_digit_def)

lemma pad_dec_digits: "c \<in> set (pad_dec w n) \<Longrightarrow> is_digit c"
  by (auto simp: pad_dec_def zero_pad_def dest: dec_nat_digits)

lemma pad_dec_nonempty [simp]: "pad_dec w n \<noteq> []"
  by (simp add: pad_dec_def zero_pad_def)

lemma nat_of_dec_bound: "(\<And>c. c \<in> set s \<Longrightarrow> is_digit c) \<Longrightarrow> nat_of_dec s < 10 ^ length s"
proof (induction s rule: rev_induct)
  case Nil
  then show ?case by simp
next
  case (snoc c s)
  then have "nat_of_dec s < 10 ^ length s" and "digit_val c < 10"
    by (auto intro: digit_val_lt)
  then show ?case by (simp add: nat_of_dec_snoc)
qed

text \<open>A number below \<open>10 ^ w\<close> has at most \<open>w\<close> digits.\<close>

lemma dec_nat_length_le: "n < 10 ^ w \<Longrightarrow> 0 < w \<Longrightarrow> length (dec_nat n) \<le> w"
proof (induction n arbitrary: w rule: dec_nat.induct)
  case (1 n)
  show ?case
  proof (cases "n < 10")
    case True
    then show ?thesis using "1.prems" by (simp add: dec_nat.simps [of n])
  next
    case False
    obtain v where w: "w = Suc v" and v: "0 < v"
    proof (cases w)
      case 0
      then show ?thesis using "1.prems" by simp
    next
      case (Suc v)
      have "0 < v" using False "1.prems"(1) Suc by (cases v) auto
      then show ?thesis using Suc that by blast
    qed
    have "n div 10 < 10 ^ v" using "1.prems"(1) w by (simp add: less_mult_imp_div_less)
    with False "1.IH" v have "length (dec_nat (n div 10)) \<le> v" by blast
    with False w show ?thesis by (simp add: dec_nat.simps [of n])
  qed
qed

lemma pad_dec_length: "n < 10 ^ w \<Longrightarrow> 0 < w \<Longrightarrow> length (pad_dec w n) = w"
  using dec_nat_length_le [of n w] by (simp add: pad_dec_def zero_pad_def)

text \<open>The first digit is not a zero, except for zero itself.\<close>

lemma dec_nat_hd: "0 < n \<Longrightarrow> hd (dec_nat n) \<noteq> CHR ''0''"
proof (induction n rule: dec_nat.induct)
  case (1 n)
  show ?case
  proof (cases "n < 10")
    case True
    have "digit_char n \<noteq> digit_char 0"
      using True "1.prems" digit_val_digit_char [of n] digit_val_digit_char [of 0] by fastforce
    then show ?thesis using True by (simp add: dec_nat.simps [of n] digit_char_0)
  next
    case False
    then have "hd (dec_nat (n div 10)) \<noteq> CHR ''0''" using "1.IH" by simp
    then show ?thesis using False by (simp add: dec_nat.simps [of n])
  qed
qed

text \<open>Digits of equal length with the same value are the same digits.\<close>

lemma nat_of_dec_inject:
  assumes "length s = length t" and "\<And>c. c \<in> set s \<Longrightarrow> is_digit c"
    and "\<And>c. c \<in> set t \<Longrightarrow> is_digit c" and "nat_of_dec s = nat_of_dec t"
  shows "s = t"
  using assms
proof (induction s arbitrary: t rule: rev_induct)
  case Nil
  then show ?case by simp
next
  case (snoc c s)
  obtain d u where t: "t = u @ [d]"
    using snoc.prems(1) by (cases t rule: rev_cases) auto
  have lt: "digit_val c < 10" "digit_val d < 10"
    using snoc.prems(2,3) t by (auto intro: digit_val_lt)
  have eq: "10 * nat_of_dec s + digit_val c = 10 * nat_of_dec u + digit_val d"
    using snoc.prems(4) t by (simp add: nat_of_dec_snoc)
  have "nat_of_dec s = nat_of_dec u" and cd: "digit_val c = digit_val d"
    using eq lt by presburger+
  moreover have "c = d"
    using cd snoc.prems(2,3) t by (metis digit_char_digit_val in_set_conv_decomp)
  ultimately show ?case using snoc t by simp
qed

lemma dec_of_digits:
  assumes "s \<noteq> []" and "\<And>c. c \<in> set s \<Longrightarrow> is_digit c"
    and "hd s \<noteq> CHR ''0'' \<or> length s = 1"
  shows "dec_nat (nat_of_dec s) = s"
  using assms
proof (induction s rule: rev_induct)
  case Nil
  then show ?case by simp
next
  case (snoc c s)
  have lt: "digit_val c < 10" using snoc.prems(2) by (auto intro: digit_val_lt)
  show ?case
  proof (cases "s = []")
    case True
    then show ?thesis using lt snoc.prems(2)
      by (simp add: nat_of_dec_Cons dec_nat.simps [of "digit_val c"])
  next
    case False
    have hd: "hd s \<noteq> CHR ''0''" using snoc.prems(3) False by auto
    have IH: "dec_nat (nat_of_dec s) = s" using snoc.IH snoc.prems(2) False hd by simp
    have pos: "nat_of_dec s \<noteq> 0"
    proof
      assume "nat_of_dec s = 0"
      then have "s = [digit_char 0]" using IH by (simp add: dec_nat.simps [of 0])
      then show False using hd by (simp add: digit_char_0)
    qed
    let ?n = "10 * nat_of_dec s + digit_val c"
    have "\<not> ?n < 10" "?n div 10 = nat_of_dec s" "?n mod 10 = digit_val c"
      using pos lt by auto
    then show ?thesis using IH snoc.prems(2)
      by (simp add: nat_of_dec_snoc dec_nat.simps [of ?n])
  qed
qed

subsection \<open>\<open>str(n)\<close>\<close>

lemma not_digit_minus: "\<not> is_digit (CHR ''-'')"
  by (simp add: is_digit_def)

lemma str_int_inject [simp]: "str_int m = str_int n \<longleftrightarrow> m = n"
proof -
  have "CHR ''-'' \<notin> set (dec_nat k)" for k
    using dec_nat_digits not_digit_minus by blast
  then have neq: "dec_nat a \<noteq> CHR ''-'' # t" "CHR ''-'' # t \<noteq> dec_nat a" for a t
    by (metis list.set_intros(1))+
  show ?thesis
    by (auto simp: str_int_def neq split: if_splits)
qed

lemma str_int_chars: "c \<in> set (str_int n) \<Longrightarrow> is_digit c \<or> c = CHR ''-''"
  by (auto simp: str_int_def dest: dec_nat_digits split: if_splits)

lemma str_int_nonempty [simp]: "str_int n \<noteq> []"
  by (simp add: str_int_def)

end
