(* ===== verification/Canonical.thy ===== *)
theory Canonical
  imports Py_Text "HOL-Library.List_Lexorder" "HOL-Library.Char_ord"
begin

text \<open>
  Canonical JSON (\<^verbatim>\<open>platform/canonical.py\<close>), the content-addressed ids built on it
  (\<^verbatim>\<open>platform/ids.py\<close>, \<^verbatim>\<open>ledger/ids_ext.py\<close>, \<^verbatim>\<open>ledger/account_ids.py\<close>) and the canonical
  timestamp of \<^verbatim>\<open>ledger/hash_chain.py\<close>.

  \<open>canonical_json\<close> is total on the Python values the module knows, the rejected ones included.
  \<open>json_of\<close> is its specification: the JSON document a value denotes. The printer is shown
  uniquely readable, so two values have the same canonical bytes exactly when they denote the
  same document. SHA-256 is the argument \<open>h\<close> of every definition that hashes.
\<close>

subsection \<open>Timestamps\<close>

text \<open>Year, month and day of a day count from 1970-01-01 in the proleptic Gregorian calendar,
  the fields \<open>dt.year\<close>, \<open>dt.month\<close>, \<open>dt.day\<close> of a UTC \<open>datetime\<close>.\<close>

definition civil_of_days :: "int \<Rightarrow> int \<times> int \<times> int" where
  "civil_of_days n =
     (let z = n + 719468; era = z div 146097; doe = z mod 146097;
          yoe = (doe - doe div 1460 + doe div 36524 - doe div 146096) div 365;
          doy = doe - (365 * yoe + yoe div 4 - yoe div 100);
          mp = (5 * doy + 2) div 153;
          d = doy - (153 * mp + 2) div 5 + 1;
          m = (if mp < 10 then mp + 3 else mp - 9);
          y = yoe + era * 400
      in (if m \<le> 2 then y + 1 else y, m, d))"

text \<open>\<^verbatim>\<open>f"{dt.year:04d}-{dt.month:02d}-{dt.day:02d}T...{dt.microsecond // 1000:03d}Z"\<close>\<close>

definition to_canonical_ts :: "instant \<Rightarrow> string" where
  "to_canonical_ts t =
     (let (y, m, d) = civil_of_days (t div 86400000000);
          r = t mod 86400000000
      in pad_dec 4 (nat y) @ ''-'' @ pad_dec 2 (nat m) @ ''-'' @ pad_dec 2 (nat d) @
         ''T'' @ pad_dec 2 (nat (r div 3600000000)) @
         '':'' @ pad_dec 2 (nat (r div 60000000 mod 60)) @
         '':'' @ pad_dec 2 (nat (r div 1000000 mod 60)) @
         ''.'' @ pad_dec 3 (nat (r mod 1000000 div 1000)) @ ''Z'')"

subsection \<open>Python values and canonical JSON\<close>

datatype canon_error =
    NaiveDatetimeRejected | FloatRejected | EnumNotStr | NonFiniteDecimal | SetRejected
  | DuplicateCanonicalKey string | KeyNotStr | NotSerializable

datatype py_datetime = Aware instant | Naive

datatype pykey = KStr string | KStrEnum string | KPlainEnum | KOther

datatype pyobj =
    PNone
  | PBool bool
  | PFloat
  | PStrEnum string
  | PPlainEnum
  | PStr string
  | PInt int
  | PDecimal "string option"
  | PDatetime py_datetime
  | PSet
  | PDict "(pykey \<times> pyobj) list"
  | PList "pyobj list"
  | POther

text \<open>\<open>str.lower\<close> on ASCII text; the Enum values of the sources are ASCII.\<close>

definition ascii_lower :: "string \<Rightarrow> string" where
  "ascii_lower s = map (\<lambda>c. if (65::nat) \<le> of_char c \<and> of_char c \<le> (90::nat)
     then char_of (of_char c + 32 :: nat) else c) s"

definition format_datetime :: "py_datetime \<Rightarrow> canon_error + string" where
  "format_datetime dt = (case dt of Naive \<Rightarrow> Inl NaiveDatetimeRejected
     | Aware t \<Rightarrow> Inr (to_canonical_ts t))"

definition hex_digit :: "nat \<Rightarrow> char" where
  "hex_digit d = (if d < 10 then char_of (48 + d) else char_of (87 + d))"

text \<open>\<^verbatim>\<open>json.dumps(value, ensure_ascii=False)\<close>: the escapes of one character.\<close>

definition json_escape :: "char \<Rightarrow> string" where
  "json_escape c =
     (let n = (of_char c :: nat) in
      if n = 34 then [CHR 0x5C, CHR 0x22]
      else if n = 92 then [CHR 0x5C, CHR 0x5C]
      else if n = 10 then [CHR 0x5C, CHR ''n'']
      else if n = 13 then [CHR 0x5C, CHR ''r'']
      else if n = 9 then [CHR 0x5C, CHR ''t'']
      else if n = 12 then [CHR 0x5C, CHR ''f'']
      else if n = 8 then [CHR 0x5C, CHR ''b'']
      else if n < 32 then [CHR 0x5C, CHR ''u'', CHR ''0'', CHR ''0'',
                           hex_digit (n div 16), hex_digit (n mod 16)]
      else [c])"

text \<open>Evaluation by the bits of the character: the control characters have bits 5 to 7 clear.\<close>

lemma json_escape_code [code]:
  "json_escape (Char b0 b1 b2 b3 b4 b5 b6 b7) =
     (let c = Char b0 b1 b2 b3 b4 b5 b6 b7 in
      if c = CHR 0x22 then [CHR 0x5C, CHR 0x22]
      else if c = CHR 0x5C then [CHR 0x5C, CHR 0x5C]
      else if b5 \<or> b6 \<or> b7 then [c]
      else if c = CHR 0x0A then [CHR 0x5C, CHR ''n'']
      else if c = CHR 0x0D then [CHR 0x5C, CHR ''r'']
      else if c = CHR 0x09 then [CHR 0x5C, CHR ''t'']
      else if c = CHR 0x0C then [CHR 0x5C, CHR ''f'']
      else if c = CHR 0x08 then [CHR 0x5C, CHR ''b'']
      else [CHR 0x5C, CHR ''u'', CHR ''0'', CHR ''0'',
            hex_digit (of_char c div 16), hex_digit (of_char c mod 16)])"
  by (cases b0; cases b1; cases b2; cases b3; cases b4; cases b5; cases b6; cases b7)
    (simp_all add: json_escape_def Let_def)

definition json_string :: "string \<Rightarrow> string" where
  "json_string s = CHR 0x22 # concat (map json_escape s) @ [CHR 0x22]"

definition key_string :: "pykey \<Rightarrow> canon_error + string" where
  "key_string k = (case k of KStr s \<Rightarrow> Inr s | KStrEnum s \<Rightarrow> Inr (ascii_lower s)
     | KPlainEnum \<Rightarrow> Inl EnumNotStr | KOther \<Rightarrow> Inl KeyNotStr)"

fun adjacent_dup :: "string list \<Rightarrow> string option" where
  "adjacent_dup (a # b # xs) = (if a = b then Some a else adjacent_dup (b # xs))"
| "adjacent_dup _ = None"

primrec join_comma :: "string list \<Rightarrow> string" where
  "join_comma [] = []"
| "join_comma (x # xs) = x @ concat (map (\<lambda>y. CHR '','' # y) xs)"

text \<open>The keys of a dict, normalised, sorted and checked for duplicates, each with its value
  (written or not).\<close>

definition sorted_items :: "(pykey \<times> 'w) list \<Rightarrow> canon_error + (string \<times> 'w) list" where
  "sorted_items kvs =
     bind_sum (map_sum_list (\<lambda>(k, w). bind_sum (key_string k) (\<lambda>t. Inr (t, w))) kvs) (\<lambda>items.
       let items = sort_key fst items in
       case adjacent_dup (map fst items) of
         Some k \<Rightarrow> Inl (DuplicateCanonicalKey k)
       | None \<Rightarrow> Inr items)"

fun write_obj :: "pyobj \<Rightarrow> canon_error + string" where
  "write_obj PNone = Inr ''null''"
| "write_obj (PBool b) = Inr (if b then ''true'' else ''false'')"
| "write_obj PFloat = Inl FloatRejected"
| "write_obj (PStrEnum s) = Inr (json_string (ascii_lower s))"
| "write_obj PPlainEnum = Inl EnumNotStr"
| "write_obj (PStr s) = Inr (json_string s)"
| "write_obj (PInt n) = Inr (str_int n)"
| "write_obj (PDecimal d) =
     (case d of None \<Rightarrow> Inl NonFiniteDecimal | Some s \<Rightarrow> Inr (json_string s))"
| "write_obj (PDatetime dt) =
     bind_sum (format_datetime dt) (\<lambda>s. Inr (CHR 0x22 # s @ [CHR 0x22]))"
| "write_obj PSet = Inl SetRejected"
| "write_obj (PDict kvs) =
     bind_sum (sorted_items (map (\<lambda>(k, v). (k, write_obj v)) kvs)) (\<lambda>items.
     bind_sum (map_sum_list (\<lambda>(t, w). bind_sum w (\<lambda>x. Inr (json_string t @ '':'' @ x))) items)
       (\<lambda>parts. Inr (''{'' @ join_comma parts @ ''}'')))"
| "write_obj (PList xs) =
     bind_sum (map_sum_list (\<lambda>w. w) (map write_obj xs))
       (\<lambda>parts. Inr (''['' @ join_comma parts @ '']''))"
| "write_obj POther = Inl NotSerializable"

definition canonical_json :: "pyobj \<Rightarrow> canon_error + string" where
  "canonical_json obj = write_obj obj"

definition sha256_canonical :: "(string \<Rightarrow> string) \<Rightarrow> pyobj \<Rightarrow> canon_error + string" where
  "sha256_canonical h obj = bind_sum (canonical_json obj) (\<lambda>b. Inr (h b))"

subsection \<open>Content-addressed ids\<close>

abbreviation str_dict :: "(string \<times> pyobj) list \<Rightarrow> pyobj" where
  "str_dict kvs \<equiv> PDict (map (\<lambda>(k, v). (KStr k, v)) kvs)"

datatype id_error = IdPrefixError string | IdCanonicalError canon_error

definition PREFIXES :: "string list" where
  "PREFIXES = [''mrch'', ''cust'', ''part'', ''pi'', ''pa'', ''rfnd'', ''acct'', ''je'', ''post'',
     ''chn'', ''aud'', ''sbatch'', ''swin'', ''sinst'', ''recon'', ''rexc'', ''posn'', ''ndc'',
     ''kyc'', ''kyb'', ''aml'', ''str'', ''ctr'', ''sanc'', ''pack'', ''cres'', ''idem'', ''obx'',
     ''tcsa'', ''appr'', ''ins'', ''creg'', ''cmode'', ''chlth'', ''cbrk'', ''winb'', ''simsc'',
     ''certr'', ''fcor'']"

definition HASH_LENGTH :: nat where
  "HASH_LENGTH = 24"

definition mint_id :: "(string \<Rightarrow> string) \<Rightarrow> string \<Rightarrow> pyobj \<Rightarrow> id_error + string" where
  "mint_id h pfx payload =
     (case sha256_canonical h payload of
        Inl e \<Rightarrow> Inl (IdCanonicalError e)
      | Inr d \<Rightarrow> Inr (pfx @ ''_'' @ take HASH_LENGTH d))"

definition make_id :: "(string \<Rightarrow> string) \<Rightarrow> string \<Rightarrow> (string \<times> pyobj) list \<Rightarrow> id_error + string" where
  "make_id h pfx payload =
     bind_sum (check_sum (pfx \<in> set PREFIXES) (IdPrefixError pfx)) (\<lambda>_.
       mint_id h pfx (PDict (map (\<lambda>(k, v). (KStr k, v)) payload)))"

definition LEDGER_INTERNAL_PREFIXES :: "string list" where
  "LEDGER_INTERNAL_PREFIXES = [''hold'', ''lckp'', ''rply'', ''frule'']"

definition make_ledger_id :: "(string \<Rightarrow> string) \<Rightarrow> string \<Rightarrow> (string \<times> pyobj) list \<Rightarrow> id_error + string" where
  "make_ledger_id h pfx payload =
     (if pfx \<in> set PREFIXES then make_id h pfx payload
      else bind_sum (check_sum (pfx \<in> set LEDGER_INTERNAL_PREFIXES) (IdPrefixError pfx)) (\<lambda>_.
        mint_id h pfx (PDict (map (\<lambda>(k, v). (KStr k, v)) payload))))"

definition is_well_formed :: "string \<Rightarrow> string \<Rightarrow> bool" where
  "is_well_formed id_str pfx \<longleftrightarrow>
     length id_str = length pfx + 1 + HASH_LENGTH \<and>
     take (length pfx + 1) id_str = pfx @ ''_'' \<and>
     (\<forall>c \<in> set (drop (length pfx + 1) id_str). c \<in> set ''0123456789abcdef'')"

definition opt_str :: "string option \<Rightarrow> pyobj" where
  "opt_str s = (case s of None \<Rightarrow> PNone | Some x \<Rightarrow> PStr x)"

definition account_id :: "(string \<Rightarrow> string) \<Rightarrow> string \<Rightarrow> string option \<Rightarrow> string option \<Rightarrow> string
    \<Rightarrow> id_error + string" where
  "account_id h account_subtype purpose_tag owner_id currency =
     make_id h ''acct'' [(''owner_id'', opt_str owner_id), (''account_subtype'', PStr account_subtype),
       (''currency'', PStr currency), (''purpose_tag'', opt_str purpose_tag)]"

definition system_account_id :: "(string \<Rightarrow> string) \<Rightarrow> string \<Rightarrow> string \<Rightarrow> id_error + string" where
  "system_account_id h account_subtype purpose_tag =
     account_id h account_subtype (Some purpose_tag) None ''BDT''"

definition merchant_settlement_id :: "(string \<Rightarrow> string) \<Rightarrow> string \<Rightarrow> id_error + string" where
  "merchant_settlement_id h merchant_id =
     account_id h ''MERCHANT_SETTLEMENT'' (Some ''settlement_main'') (Some merchant_id) ''BDT''"

definition merchant_hold_reserve_id :: "(string \<Rightarrow> string) \<Rightarrow> string \<Rightarrow> id_error + string" where
  "merchant_hold_reserve_id h merchant_id =
     account_id h ''MERCHANT_HOLD_RESERVE'' (Some ''hold_reserve'') (Some merchant_id) ''BDT''"

subsection \<open>The document a value denotes\<close>

datatype json =
    JNull | JBool bool | JInt int | JStr string
  | JObj "(string \<times> json) list" | JArr "json list"

fun json_of :: "pyobj \<Rightarrow> canon_error + json" where
  "json_of PNone = Inr JNull"
| "json_of (PBool b) = Inr (JBool b)"
| "json_of PFloat = Inl FloatRejected"
| "json_of (PStrEnum s) = Inr (JStr (ascii_lower s))"
| "json_of PPlainEnum = Inl EnumNotStr"
| "json_of (PStr s) = Inr (JStr s)"
| "json_of (PInt n) = Inr (JInt n)"
| "json_of (PDecimal d) = (case d of None \<Rightarrow> Inl NonFiniteDecimal | Some s \<Rightarrow> Inr (JStr s))"
| "json_of (PDatetime dt) = bind_sum (format_datetime dt) (\<lambda>s. Inr (JStr s))"
| "json_of PSet = Inl SetRejected"
| "json_of (PDict kvs) =
     bind_sum (sorted_items (map (\<lambda>(k, v). (k, json_of v)) kvs)) (\<lambda>items.
     bind_sum (map_sum_list (\<lambda>(t, w). bind_sum w (\<lambda>x. Inr (t, x))) items)
       (\<lambda>ms. Inr (JObj ms)))"
| "json_of (PList xs) =
     bind_sum (map_sum_list (\<lambda>w. w) (map json_of xs)) (\<lambda>js. Inr (JArr js))"
| "json_of POther = Inl NotSerializable"

fun print_json :: "json \<Rightarrow> string" where
  "print_json JNull = ''null''"
| "print_json (JBool b) = (if b then ''true'' else ''false'')"
| "print_json (JInt n) = str_int n"
| "print_json (JStr s) = json_string s"
| "print_json (JObj ms) =
     ''{'' @ join_comma (map (\<lambda>(t, j). json_string t @ '':'' @ print_json j) ms) @ ''}''"
| "print_json (JArr js) = ''['' @ join_comma (map print_json js) @ '']''"

subsection \<open>The printer is the specification\<close>

lemma insort_key_map_snd:
  "insort_key fst (k, f w) (map (\<lambda>(t, w). (t, f w)) xs) =
     map (\<lambda>(t, w). (t, f w)) (insort_key fst (k, w) xs)"
  by (induction xs) auto

lemma sort_key_map_snd:
  "sort_key fst (map (\<lambda>(t, w). (t, f w)) xs) =
     map (\<lambda>(t :: string, w). (t, f w)) (sort_key fst xs)"
  by (induction xs) (auto simp: insort_key_map_snd)

lemma map_sum_list_keys_map_snd:
  "map_sum_list (\<lambda>(k, w). bind_sum (key_string k) (\<lambda>t. Inr (t, w))) (map (\<lambda>(k, w). (k, f w)) kvs) =
     (case map_sum_list (\<lambda>(k, w). bind_sum (key_string k) (\<lambda>t. Inr (t, w))) kvs of
        Inl e \<Rightarrow> Inl e | Inr xs \<Rightarrow> Inr (map (\<lambda>(t, w). (t, f w)) xs))"
  by (induction kvs) (auto simp: bind_sum_def split: sum.splits)

lemma sorted_items_map_snd:
  "sorted_items (map (\<lambda>(k, w). (k, f w)) kvs) =
     (case sorted_items kvs of Inl e \<Rightarrow> Inl e | Inr xs \<Rightarrow> Inr (map (\<lambda>(t, w). (t, f w)) xs))"
proof -
  have fst: "fst \<circ> (\<lambda>(t :: string, w). (t, f w)) = fst"
    by auto
  show ?thesis
    unfolding sorted_items_def map_sum_list_keys_map_snd
    by (auto simp: bind_sum_def Let_def sort_key_map_snd fst split: sum.splits option.splits)
qed

definition print_result :: "canon_error + json \<Rightarrow> canon_error + string" where
  "print_result r = bind_sum r (\<lambda>j. Inr (print_json j))"

lemma write_members:
  "map_sum_list (\<lambda>(t, w). bind_sum w (\<lambda>x. Inr (json_string t @ '':'' @ x)))
       (map (\<lambda>(t, r). (t, print_result r)) items) =
     bind_sum (map_sum_list (\<lambda>(t, w). bind_sum w (\<lambda>x. Inr (t, x))) items)
       (\<lambda>ms. Inr (map (\<lambda>(t, j). json_string t @ '':'' @ print_json j) ms))"
  by (induction items) (auto simp: print_result_def bind_sum_def split: sum.splits)

lemma write_elements:
  "map_sum_list (\<lambda>w. w) (map print_result rs) =
     bind_sum (map_sum_list (\<lambda>w. w) rs) (\<lambda>js. Inr (map print_json js))"
  by (induction rs) (auto simp: print_result_def bind_sum_def split: sum.splits)

lemma bind_sum_assoc: "bind_sum (bind_sum r f) g = bind_sum r (\<lambda>a. bind_sum (f a) g)"
  by (cases r) simp_all

lemma json_string_ts: "json_string (to_canonical_ts t) = CHR 0x22 # to_canonical_ts t @ [CHR 0x22]"
proof -
  have plain: "json_escape c = [c]" if "is_digit c \<or> c \<in> set ''-T:.Z''" for c
    using that by (auto simp: json_escape_def is_digit_def Let_def)
  have "c \<in> set (to_canonical_ts t) \<Longrightarrow> is_digit c \<or> c \<in> set ''-T:.Z''" for c
    by (auto simp: to_canonical_ts_def Let_def split: prod.splits dest: pad_dec_digits)
  then have "concat (map json_escape (to_canonical_ts t)) = concat (map (\<lambda>c. [c]) (to_canonical_ts t))"
    using plain by (intro arg_cong [where f = concat] map_cong) auto
  then show ?thesis by (simp add: json_string_def)
qed

lemma write_obj_print: "write_obj obj = print_result (json_of obj)"
proof (induction obj rule: write_obj.induct)
  case (9 dt)
  show ?case
    by (cases dt) (simp_all add: format_datetime_def print_result_def json_string_ts)
next
  case (11 kvs)
  have "map (\<lambda>(k, v). (k, write_obj v)) kvs =
      map (\<lambda>(k, r). (k, print_result r)) (map (\<lambda>(k, v). (k, json_of v)) kvs)"
    using 11 by auto
  then have items: "sorted_items (map (\<lambda>(k, v). (k, write_obj v)) kvs) =
      (case sorted_items (map (\<lambda>(k, v). (k, json_of v)) kvs) of
         Inl e \<Rightarrow> Inl e | Inr xs \<Rightarrow> Inr (map (\<lambda>(t, r). (t, print_result r)) xs))"
    by (simp only: sorted_items_map_snd)
  show ?case
  proof (cases "sorted_items (map (\<lambda>(k, v). (k, json_of v)) kvs)")
    case (Inl e)
    then show ?thesis by (simp add: items print_result_def)
  next
    case (Inr xs)
    then show ?thesis
      by (simp add: items write_members [simplified] bind_sum_assoc print_result_def [of "bind_sum _ _"])
  qed
next
  case (12 xs)
  have "map write_obj xs = map print_result (map json_of xs)" using 12 by auto
  then show ?case
    by (simp only: write_obj.simps json_of.simps write_elements)
      (simp add: bind_sum_assoc print_result_def)
qed (auto simp: print_result_def split: option.splits)


subsection \<open>Unique readability\<close>

lemma hex_digit_inject: "a < 16 \<Longrightarrow> b < 16 \<Longrightarrow> hex_digit a = hex_digit b \<longleftrightarrow> a = b"
proof -
  have "of_char (hex_digit d) = (if d < 10 then 48 + d else 87 + d)" if "d < 16" for d :: nat
    using that by (simp add: hex_digit_def)
  note val = this
  show "hex_digit a = hex_digit b \<longleftrightarrow> a = b" if "a < 16" "b < 16"
  proof
    assume "hex_digit a = hex_digit b"
    then have "(if a < 10 then 48 + a else 87 + a) = (if b < 10 then 48 + b else 87 + b)"
      using val [OF that(1)] val [OF that(2)] by simp
    then show "a = b" by (simp split: if_splits)
  qed simp
qed

lemma json_escape_neq_Nil: "json_escape c \<noteq> []"
  by (simp add: json_escape_def Let_def)

lemma json_escape_no_quote: "json_escape c @ u \<noteq> CHR 0x22 # v"
  by (auto simp: json_escape_def Let_def)

lemma hex_pair_inject:
  assumes "m < 32" and "n < 32" and "hex_digit (m div 16) = hex_digit (n div 16)"
    and "hex_digit (m mod 16) = hex_digit (n mod 16)"
  shows "m = n"
proof -
  have "m div 16 = n div 16" using assms(1-3) by (simp add: hex_digit_inject)
  moreover have "m mod 16 = n mod 16" using assms(4) by (simp add: hex_digit_inject)
  ultimately show ?thesis by (metis div_mult_mod_eq)
qed

lemma json_escape_prefix:
  assumes "json_escape c @ u = json_escape d @ v"
  shows "c = d \<and> u = v"
proof -
  have "(of_char c :: nat) = of_char d \<and> u = v"
    using assms
    by (simp add: json_escape_def Let_def del: of_char_eq_iff split: if_splits)
      (auto dest: hex_pair_inject simp del: of_char_eq_iff)
  then show ?thesis by simp
qed

lemma escaped_prefix:
  "concat (map json_escape s) @ CHR 0x22 # x = concat (map json_escape t) @ CHR 0x22 # y \<Longrightarrow>
     s = t \<and> x = y"
proof (induction s arbitrary: t)
  case Nil
  then show ?case
    using json_escape_no_quote [symmetric] by (cases t) simp_all
next
  case (Cons c s)
  then show ?case
  proof (cases t)
    case Nil
    then show ?thesis using Cons.prems json_escape_no_quote by simp
  next
    case (Cons d t')
    then have "c = d \<and> concat (map json_escape s) @ CHR 0x22 # x =
        concat (map json_escape t') @ CHR 0x22 # y"
      using Cons.prems json_escape_prefix by simp
    then show ?thesis using Cons.IH Cons by blast
  qed
qed

lemma json_string_prefix: "json_string s @ x = json_string t @ y \<Longrightarrow> s = t \<and> x = y"
  using escaped_prefix [of s x t y] by (simp add: json_string_def)

text \<open>What may follow a value inside a document: nothing, or a closing or separating character.\<close>

definition closes :: "string \<Rightarrow> bool" where
  "closes x \<longleftrightarrow> x = [] \<or> hd x \<in> set '',}]''"

lemma closes_not_digit: "closes (c # x) \<Longrightarrow> \<not> is_digit c"
  by (auto simp: closes_def is_digit_def)

lemma digits_prefix:
  "a @ x = b @ y \<Longrightarrow> list_all is_digit a \<Longrightarrow> list_all is_digit b \<Longrightarrow> closes x \<Longrightarrow> closes y \<Longrightarrow>
     a = b \<and> x = y"
proof (induction a arbitrary: b)
  case Nil
  then show ?case by (cases b) (simp_all add: closes_not_digit)
next
  case (Cons c a)
  then show ?case
  proof (cases b)
    case Nil
    then have "closes (c # a @ x)" using Cons.prems by simp
    then show ?thesis using Cons.prems closes_not_digit by simp
  next
    case (Cons d b')
    then show ?thesis using Cons.prems Cons.IH by simp
  qed
qed

lemma str_int_prefix:
  assumes "str_int m @ x = str_int n @ y" and "closes x" and "closes y"
  shows "m = n \<and> x = y"
proof -
  have hd: "is_digit (hd (dec_nat k))" for k
    using dec_nat_digits [of "hd (dec_nat k)" k] by simp
  have neq: "dec_nat k @ u \<noteq> CHR ''-'' # v" for k u v
    using hd [of k] not_digit_minus by (cases "dec_nat k") auto
  have dig: "dec_nat a @ x = dec_nat b @ y \<Longrightarrow> a = b \<and> x = y" for a b
    using digits_prefix [of "dec_nat a" x "dec_nat b" y] dec_nat_digits assms(2,3)
    by (simp add: list_all_iff)
  consider "m < 0" "n < 0" | "m < 0" "\<not> n < 0" | "\<not> m < 0" "n < 0" | "\<not> m < 0" "\<not> n < 0"
    by blast
  then show ?thesis
  proof cases
    case 1
    then show ?thesis using assms(1) dig [of "nat (- m)" "nat (- n)"]
      by (auto simp: str_int_def eq_nat_nat_iff)
  next
    case 2
    then show ?thesis using assms(1) neq [symmetric] by (simp add: str_int_def)
  next
    case 3
    then show ?thesis using assms(1) neq by (simp add: str_int_def)
  next
    case 4
    then show ?thesis using assms(1) dig [of "nat m" "nat n"]
      by (auto simp: str_int_def eq_nat_nat_iff)
  qed
qed


text \<open>The first character of a printed value tells its kind.\<close>

definition json_kind :: "json \<Rightarrow> nat" where
  "json_kind j = (case j of JNull \<Rightarrow> 0 | JBool b \<Rightarrow> if b then 1 else 2 | JInt _ \<Rightarrow> 3 | JStr _ \<Rightarrow> 4
     | JObj _ \<Rightarrow> 5 | JArr _ \<Rightarrow> 6)"

definition char_kind :: "char \<Rightarrow> nat" where
  "char_kind c = (if c = CHR ''n'' then 0 else if c = CHR ''t'' then 1 else if c = CHR ''f'' then 2
     else if is_digit c \<or> c = CHR ''-'' then 3 else if c = CHR 0x22 then 4
     else if c = CHR ''{'' then 5 else if c = CHR ''['' then 6 else 7)"

lemma print_json_neq_Nil [simp]: "print_json j \<noteq> []"
  by (cases j) (auto simp: json_string_def)

lemma print_json_kind: "char_kind (hd (print_json j)) = json_kind j"
proof (cases j)
  case (JInt n)
  have "hd (str_int n) \<in> set (str_int n)" by simp
  then have "is_digit (hd (str_int n)) \<or> hd (str_int n) = CHR ''-''" by (rule str_int_chars)
  then show ?thesis using JInt by (auto simp: char_kind_def json_kind_def is_digit_def)
qed (auto simp: json_string_def char_kind_def json_kind_def is_digit_def)

lemma print_json_same_kind:
  assumes "print_json j @ x = print_json k @ y"
  shows "json_kind j = json_kind k"
proof -
  have "hd (print_json j) = hd (print_json k)"
    using arg_cong [OF assms, of hd] by (simp add: hd_append)
  then show ?thesis using print_json_kind by metis
qed

text \<open>A list of printed items, read one after the other.\<close>

lemma items_prefix:
  assumes "concat (map (\<lambda>y. CHR '','' # f y) xs) @ [e] @ x = concat (map (\<lambda>y. CHR '','' # f y) ys) @ [e] @ y"
    and "e = CHR '']'' \<or> e = CHR ''}''"
    and "\<And>a b u v. a \<in> set xs \<Longrightarrow> b \<in> set ys \<Longrightarrow> f a @ u = f b @ v \<Longrightarrow> closes u \<Longrightarrow> closes v \<Longrightarrow>
      a = b \<and> u = v"
  shows "xs = ys \<and> x = y"
  using assms
proof (induction xs arbitrary: ys)
  case Nil
  then show ?case by (cases ys) auto
next
  case (Cons a xs)
  obtain b ys' where ys: "ys = b # ys'" using Cons.prems(1,2) by (cases ys) auto
  have tail: "closes (concat (map (\<lambda>y. CHR '','' # f y) zs) @ [e] @ z)" for zs z
    using Cons.prems(2) by (cases zs) (auto simp: closes_def)
  have "a = b \<and> concat (map (\<lambda>y. CHR '','' # f y) xs) @ [e] @ x =
      concat (map (\<lambda>y. CHR '','' # f y) ys') @ [e] @ y"
    using Cons.prems(1) ys tail by (intro Cons.prems(3)) simp_all
  moreover have "concat (map (\<lambda>y. CHR '','' # f y) xs) @ [e] @ x =
      concat (map (\<lambda>y. CHR '','' # f y) ys') @ [e] @ y \<Longrightarrow> xs = ys' \<and> x = y"
    using Cons.prems(2,3) ys by (intro Cons.IH) auto
  ultimately show ?case using ys by simp
qed

lemma joined_prefix:
  assumes "join_comma (map f xs) @ [e] @ x = join_comma (map f ys) @ [e] @ y"
    and "e = CHR '']'' \<or> e = CHR ''}''"
    and "\<And>a u v. f a @ u \<noteq> e # v"
    and "\<And>a b u v. a \<in> set xs \<Longrightarrow> b \<in> set ys \<Longrightarrow> f a @ u = f b @ v \<Longrightarrow> closes u \<Longrightarrow> closes v \<Longrightarrow>
      a = b \<and> u = v"
  shows "xs = ys \<and> x = y"
proof (cases xs; cases ys)
  assume "xs = []" "ys = []"
  then show ?thesis using assms(1) by simp
next
  fix b ys' assume "xs = []" "ys = b # ys'"
  then show ?thesis using assms(1) assms(3) [symmetric] by simp
next
  fix a xs' assume "xs = a # xs'" "ys = []"
  then show ?thesis using assms(1,3) by simp
next
  fix a xs' b ys' assume eq: "xs = a # xs'" "ys = b # ys'"
  have "concat (map (\<lambda>y. CHR '','' # f y) xs) @ [e] @ x = concat (map (\<lambda>y. CHR '','' # f y) ys) @ [e] @ y"
    using assms(1) eq by (simp add: comp_def)
  then show ?thesis using assms(2,4) by (rule items_prefix)
qed


lemma print_json_prefix:
  "print_json j @ x = print_json k @ y \<Longrightarrow> closes x \<Longrightarrow> closes y \<Longrightarrow> j = k \<and> x = y"
proof (induction j arbitrary: k x y)
  case JNull
  then show ?case using print_json_same_kind [of JNull x k y]
    by (cases k) (auto simp: json_kind_def split: if_splits)
next
  case (JBool b)
  then show ?case using print_json_same_kind [of "JBool b" x k y]
    by (cases k) (auto simp: json_kind_def split: if_splits)
next
  case (JInt n)
  then obtain m where "k = JInt m"
    using print_json_same_kind [of "JInt n" x k y]
    by (cases k) (auto simp: json_kind_def split: if_splits)
  then show ?case using JInt str_int_prefix [of n x m y] by simp
next
  case (JStr s)
  then obtain t where "k = JStr t"
    using print_json_same_kind [of "JStr s" x k y]
    by (cases k) (auto simp: json_kind_def split: if_splits)
  then show ?case using JStr json_string_prefix [of s x t y] by simp
next
  case (JObj ms)
  then obtain ns where k: "k = JObj ns"
    using print_json_same_kind [of "JObj ms" x k y]
    by (cases k) (auto simp: json_kind_def split: if_splits)
  let ?f = "\<lambda>(t, j). json_string t @ '':'' @ print_json j"
  have "ms = ns \<and> x = y"
  proof (rule joined_prefix [where f = ?f and e = "CHR ''}''"])
    show "join_comma (map ?f ms) @ [CHR ''}''] @ x = join_comma (map ?f ns) @ [CHR ''}''] @ y"
      using JObj.prems(1) k by simp
  next
    fix a b u v
    assume ab: "a \<in> set ms" "b \<in> set ns" and eq: "?f a @ u = ?f b @ v" and cl: "closes u" "closes v"
    obtain s i t l where a: "a = (s, i)" and b: "b = (t, l)" by (cases a, cases b)
    have st: "s = t \<and> '':'' @ print_json i @ u = '':'' @ print_json l @ v"
      using eq a b by (intro json_string_prefix) simp
    then have "print_json i @ u = print_json l @ v" by simp
    then have "i = l \<and> u = v"
      by (rule JObj.IH [rotated 2]) (use ab(1) a cl in auto)
    then show "a = b \<and> u = v" using a b st by simp
  qed (auto simp: json_string_def split: prod.splits)
  then show ?case using k by simp
next
  case (JArr js)
  then obtain ks where k: "k = JArr ks"
    using print_json_same_kind [of "JArr js" x k y]
    by (cases k) (auto simp: json_kind_def split: if_splits)
  have "js = ks \<and> x = y"
  proof (rule joined_prefix [where f = print_json and e = "CHR '']''"])
    show "join_comma (map print_json js) @ [CHR '']''] @ x = join_comma (map print_json ks) @ [CHR '']''] @ y"
      using JArr.prems(1) k by simp
  next
    fix a u v
    have "char_kind (hd (print_json a)) \<noteq> char_kind (CHR '']'')"
      unfolding print_json_kind
      by (cases a) (auto simp: json_kind_def char_kind_def is_digit_def)
    then show "print_json a @ u \<noteq> CHR '']'' # v"
      by (metis hd_append2 list.sel(1) print_json_neq_Nil)
  qed (use JArr.IH in auto)
  then show ?case using k by simp
qed

lemma print_json_inject: "print_json j = print_json k \<longleftrightarrow> j = k"
  using print_json_prefix [of j "[]" k "[]"] by (auto simp: closes_def)


lemma canonical_json_spec: "canonical_json obj = print_result (json_of obj)"
  by (simp add: canonical_json_def write_obj_print)

lemma canonical_json_same:
  assumes "canonical_json a = Inr s" and "canonical_json b = Inr s"
  shows "json_of a = json_of b"
proof -
  obtain j where "json_of a = Inr j" "print_json j = s"
    using assms(1) by (auto simp only: canonical_json_spec print_result_def bind_sum_Inr_iff sum.inject)
  moreover obtain k where "json_of b = Inr k" "print_json k = s"
    using assms(2) by (auto simp only: canonical_json_spec print_result_def bind_sum_Inr_iff sum.inject)
  ultimately show ?thesis using print_json_inject [of j k] by simp
qed

subsection \<open>Ids of flat payloads\<close>

lemma map_fst_insort: "map fst (insort_key fst x xs) = insort (fst x) (map fst xs)"
  by (induction xs) auto

lemma map_fst_sort: "map fst (sort_key fst xs) = sort (map fst xs)"
  by (induction xs) (auto simp: map_fst_insort)

lemma adjacent_dup_distinct: "distinct xs \<Longrightarrow> adjacent_dup xs = None"
  by (induction xs rule: adjacent_dup.induct) auto

lemma adjacent_dup_sorted: "sorted xs \<Longrightarrow> adjacent_dup xs = None \<Longrightarrow> distinct xs"
  by (induction xs rule: adjacent_dup.induct) (auto split: if_splits)

lemma sorted_items_KStr:
  assumes "distinct (map fst kvs)"
  shows "sorted_items (map (\<lambda>(k, v). (KStr k, v)) kvs) = Inr (sort_key fst kvs)"
proof -
  have "map_sum_list (\<lambda>(k, w). bind_sum (key_string k) (\<lambda>t. Inr (t, w)))
      (map (\<lambda>(k, v). (KStr k, v)) kvs) = Inr kvs"
    by (induction kvs) (auto simp: key_string_def)
  moreover have "adjacent_dup (map fst (sort_key fst kvs)) = None"
    using assms by (intro adjacent_dup_distinct) (simp add: map_fst_sort)
  ultimately show ?thesis by (simp add: sorted_items_def)
qed

lemma map_sum_list_total:
  "(\<And>x. x \<in> set xs \<Longrightarrow> \<exists>y. f x = Inr y) \<Longrightarrow> \<exists>ys. map_sum_list f xs = Inr ys"
  by (induction xs) (auto, metis bind_sum_Inr)

text \<open>A payload is writable when its keys are distinct strings and each value is writable;
  then \<open>make_id\<close> returns an id of the prefix.\<close>

definition writable :: "pyobj \<Rightarrow> bool" where
  "writable v \<longleftrightarrow> (\<exists>s. write_obj v = Inr s)"

lemma writable_simps [simp]:
  "writable PNone" "writable (PStr s)" "writable (PInt n)" "writable (PBool b)" "writable (opt_str x)"
  "writable (PDatetime (Aware t))"
  by (simp_all add: writable_def opt_str_def format_datetime_def split: option.splits)

lemma write_dict_total:
  assumes "distinct (map fst kvs)" and "\<And>v. v \<in> set (map snd kvs) \<Longrightarrow> writable v"
  shows "\<exists>s. write_obj (PDict (map (\<lambda>(k, v). (KStr k, v)) kvs)) = Inr s"
proof -
  let ?ws = "map (\<lambda>(k, v). (k, write_obj v)) kvs"
  have "map (\<lambda>(k, v). (k, write_obj v)) (map (\<lambda>(k, v). (KStr k, v)) kvs) =
      map (\<lambda>(k, v). (KStr k, v)) ?ws"
    by (induction kvs) auto
  moreover have "sorted_items (map (\<lambda>(k, v). (KStr k, v)) ?ws) = Inr (sort_key fst ?ws)"
    using assms(1) by (intro sorted_items_KStr) (simp add: comp_def case_prod_unfold)
  moreover obtain ys where "map_sum_list (\<lambda>(t, w). bind_sum w (\<lambda>x. Inr (json_string t @ '':'' @ x)))
      (sort_key fst ?ws) = Inr ys"
  proof -
    have "\<exists>ys. map_sum_list (\<lambda>(t, w). bind_sum w (\<lambda>x. Inr (json_string t @ '':'' @ x)))
        (sort_key fst ?ws) = Inr ys"
      using assms(2) by (intro map_sum_list_total) (fastforce simp: writable_def)
    then show ?thesis using that by blast
  qed
  ultimately have "write_obj (PDict (map (\<lambda>(k, v). (KStr k, v)) kvs)) =
      Inr (''{'' @ join_comma ys @ ''}'')"
    by (simp only: write_obj.simps bind_sum_Inr)
  then show ?thesis by blast
qed

lemma mint_id_total:
  assumes "distinct (map fst kvs)" and "\<And>v. v \<in> set (map snd kvs) \<Longrightarrow> writable v"
  shows "\<exists>d. mint_id h p (PDict (map (\<lambda>(k, v). (KStr k, v)) kvs)) =
    Inr (p @ ''_'' @ take HASH_LENGTH (h d))"
  using write_dict_total [OF assms]
  by (fastforce simp: mint_id_def sha256_canonical_def canonical_json_def)

lemma make_id_total:
  assumes "p \<in> set PREFIXES" and "distinct (map fst kvs)"
    and "\<And>v. v \<in> set (map snd kvs) \<Longrightarrow> writable v"
  shows "\<exists>d. make_id h p kvs = Inr (p @ ''_'' @ take HASH_LENGTH (h d))"
  using mint_id_total [OF assms(2,3)] assms(1) by (simp add: make_id_def)

lemma make_id_shape:
  assumes "make_id h p kvs = Inr i"
  shows "\<exists>d. i = p @ ''_'' @ take HASH_LENGTH (h d) \<and>
    canonical_json (PDict (map (\<lambda>(k, v). (KStr k, v)) kvs)) = Inr d"
  using assms by (auto simp: make_id_def mint_id_def sha256_canonical_def bind_sum_Inr_iff
    split: sum.splits)

lemma make_ledger_id_shape:
  assumes "make_ledger_id h p kvs = Inr i"
  shows "\<exists>d. i = p @ ''_'' @ take HASH_LENGTH (h d)"
  using assms make_id_shape [of h p kvs i]
  by (auto simp: make_ledger_id_def mint_id_def sha256_canonical_def bind_sum_Inr_iff
    split: sum.splits if_splits)

subsection \<open>Properties\<close>

text \<open>C5. Canonical JSON is a content address: two values that serialise have the same canonical
  bytes exactly when they denote the same JSON document (dict order, Enum case and the type a
  string came from apart). The hash of the bytes is therefore a hash of the document.\<close>

theorem canonical_json_injective:
  assumes "canonical_json a = Inr s" and "canonical_json b = Inr t"
  shows "s = t \<longleftrightarrow> json_of a = json_of b"
  using assms canonical_json_same [of a s b] by (auto simp: canonical_json_spec)

theorem canonical_json_injective_witness:
  "canonical_json (PDict [(KStr ''b'', PInt 1), (KStr ''a'', PStr ''x'')]) =
     canonical_json (PDict [(KStr ''a'', PStr ''x''), (KStr ''b'', PInt 1)])"
proof -
  let ?a = "PDict [(KStr ''b'', PInt 1), (KStr ''a'', PStr ''x'')]"
  let ?b = "PDict [(KStr ''a'', PStr ''x''), (KStr ''b'', PInt 1)]"
  have a: "canonical_json ?a = Inr (the (the_inr (canonical_json ?a)))" by code_simp
  have b: "canonical_json ?b = Inr (the (the_inr (canonical_json ?b)))" by code_simp
  have "json_of ?a = json_of ?b" by code_simp
  then have "the (the_inr (canonical_json ?a)) = the (the_inr (canonical_json ?b))"
    using canonical_json_injective [OF a b] by blast
  then show ?thesis using a b by simp
qed

text \<open>C6. Ids are content addresses: two serialisable payloads get the same id under one
  registered prefix exactly when they denote the same JSON document, or when their own canonical
  bytes differ and collide on the first 24 characters of the hash.\<close>

theorem make_id_content_addressed:
  assumes "p \<in> set PREFIXES"
    and "canonical_json (str_dict a) = Inr s" and "canonical_json (str_dict b) = Inr t"
  shows "make_id h p a = make_id h p b \<longleftrightarrow>
    json_of (str_dict a) = json_of (str_dict b) \<or>
    (s \<noteq> t \<and> take HASH_LENGTH (h s) = take HASH_LENGTH (h t))"
proof -
  have "make_id h p a = Inr (p @ ''_'' @ take HASH_LENGTH (h s))"
    and "make_id h p b = Inr (p @ ''_'' @ take HASH_LENGTH (h t))"
    using assms by (simp_all add: make_id_def mint_id_def sha256_canonical_def)
  moreover have "s = t \<longleftrightarrow> json_of (str_dict a) = json_of (str_dict b)"
    using assms(2,3) canonical_json_same [of "str_dict a" s "str_dict b"]
    by (auto simp: canonical_json_spec)
  ultimately show ?thesis by auto
qed

theorem make_id_content_addressed_witness:
  "make_id (\<lambda>s. rev s) ''je'' [(''a'', PInt 1)] \<noteq> make_id (\<lambda>s. rev s) ''je'' [(''a'', PInt 2)]"
proof -
  have s: "canonical_json (str_dict [(''a'', PInt n)]) =
      Inr (''{'' @ json_string ''a'' @ '':'' @ str_int n @ ''}'')" for n
    by (simp add: canonical_json_def sorted_items_def key_string_def)
  have "\<not> (json_of (str_dict [(''a'', PInt 1)]) = json_of (str_dict [(''a'', PInt 2)]) \<or>
      (''{'' @ json_string ''a'' @ '':'' @ str_int 1 @ ''}'' \<noteq>
         ''{'' @ json_string ''a'' @ '':'' @ str_int 2 @ ''}'' \<and>
       take HASH_LENGTH (rev (''{'' @ json_string ''a'' @ '':'' @ str_int 1 @ ''}'')) =
       take HASH_LENGTH (rev (''{'' @ json_string ''a'' @ '':'' @ str_int 2 @ ''}''))))"
    by code_simp
  moreover have p: "''je'' \<in> set PREFIXES" by (simp add: PREFIXES_def)
  ultimately show ?thesis
    using make_id_content_addressed [where h = "\<lambda>s. rev s", OF p s [of 1] s [of 2]] by blast
qed

end
