(* ===== verification/Ledger_Types.thy ===== *)
theory Ledger_Types
  imports Canonical "HOL-Library.Product_Lexorder"
begin

text \<open>
  The ledger's vocabularies and rows (\<^verbatim>\<open>ledger/types.py\<close>) and its exceptions
  (\<^verbatim>\<open>ledger/errors.py\<close>). A \<open>frozenset\<close> of names is the list of its members; a dataclass is
  a record, its field names prefixed by the class (\<open>po_side\<close> for \<open>PostingRow.side\<close>).
  Amounts are \<open>int\<close>, as Python's; the run-time checks that reject \<open>bool\<close> and \<open>float\<close> amounts
  are discharged by the type.
\<close>

subsection \<open>Vocabularies\<close>

definition SIDES :: "string list" where
  "SIDES = [''DEBIT'', ''CREDIT'']"

definition ACCOUNT_TYPES :: "string list" where
  "ACCOUNT_TYPES = [''ASSET'', ''LIABILITY'', ''EQUITY'', ''INCOME'', ''EXPENSE'']"

definition DEBIT_NORMAL_TYPES :: "string list" where
  "DEBIT_NORMAL_TYPES = [''ASSET'', ''EXPENSE'']"

definition ACCOUNT_SUBTYPES :: "string list" where
  "ACCOUNT_SUBTYPES = [''SPONSOR_BANK_TCSA'', ''IN_TRANSIT'', ''FEE_RECEIVABLE'', ''SUSPENSE'',
     ''CONNECTOR_CLEARING'', ''CUSTOMER_FLOAT'', ''CUSTOMER_HOLD_RESERVE'',
     ''MERCHANT_SETTLEMENT'', ''MERCHANT_HOLD_RESERVE'', ''MERCHANT_ROLLING_RESERVE'',
     ''REFUND_RESERVE'', ''PARTICIPANT_POSITION'', ''NET_DEBIT_CAP'', ''RETAINED_EARNINGS'',
     ''PAID_UP_CAPITAL'', ''MDR_INCOME'', ''SWITCHING_FEE_INCOME'', ''INTERCHANGE_INCOME'',
     ''FLOAT_INTEREST_INCOME'', ''OFFER_COMMISSION_INCOME'', ''SPONSOR_BANK_FEE'',
     ''NETWORK_FEE'', ''REFUND_EXPENSE'', ''CONNECTIVITY_EXPENSE'',
     ''OFFER_MARKETING_EXPENSE'']"

definition OWNER_TYPES :: "string list" where
  "OWNER_TYPES = [''MERCHANT'', ''CUSTOMER'', ''PARTICIPANT'', ''SYSTEM'']"

definition HOLD_STATUSES :: "string list" where
  "HOLD_STATUSES = [''OPEN'', ''CAPTURED'', ''VOIDED'', ''EXPIRED'']"

definition ENTRY_TYPES :: "string list" where
  "ENTRY_TYPES = [''payment_authorized'', ''payment_captured'', ''payment_failed'', ''payment_reversed'',
     ''refund_initiated'', ''refund_settled'', ''fee_collected'', ''hold_opened'',
     ''hold_captured'', ''hold_voided'', ''hold_expired'', ''rolling_reserve_withheld'',
     ''rolling_reserve_released'', ''settlement_batch_open'', ''settlement_batch_close'',
     ''settlement_confirmed'', ''tcsa_balance_update'', ''participant_debit_cap_set'',
     ''position_updated'', ''suspense_entry'', ''suspense_cleared'',
     ''connector_clearing_in'', ''connector_clearing_out'', ''adjustment_debit'',
     ''adjustment_credit'', ''offer_commission_collected'', ''offer_commission_reversed'',
     ''offer_subsidy_granted'', ''offer_subsidy_reversed'', ''disbursement_funded'',
     ''disbursement_item_paid'', ''disbursement_item_returned'',
     ''disbursement_failed_release'', ''settlement_batch_open_reversal'']"

definition REFERENCE_TYPES :: "string list" where
  "REFERENCE_TYPES = [''PAYMENT'', ''SETTLEMENT'', ''REFUND'', ''FEE'', ''REVERSAL'', ''ADJUSTMENT'', ''TCSA'',
     ''HOLD'', ''RESERVE'']"

definition AUDIT_EVENT_TYPES :: "string list" where
  "AUDIT_EVENT_TYPES = [''PAYMENT_STATE_TRANSITION'', ''PAYMENT_ATTEMPT_STATE_TRANSITION'',
     ''REFUND_STATE_TRANSITION'', ''HOLD_OPENED'', ''HOLD_CAPTURED'', ''HOLD_VOIDED'',
     ''HOLD_EXPIRED'', ''KYC_VERIFIED'', ''KYC_TIER_ASSIGNED'', ''KYC_REVIEW_TRIGGERED'',
     ''KYB_VERIFIED'', ''MERCHANT_STATE_TRANSITION'', ''MERCHANT_SUSPENDED'',
     ''MERCHANT_TERMINATED'', ''RULE_ACTIVATED'', ''RULE_DEACTIVATED'', ''CONFIG_CHANGED'',
     ''APPROVAL_REQUESTED'', ''APPROVAL_GRANTED'', ''APPROVAL_DENIED'', ''APPROVAL_EXECUTED'',
     ''SANCTIONS_HIT'', ''SANCTIONS_CLEARED'', ''AML_ALERT_RAISED'', ''STR_FILED'',
     ''CTR_FILED'', ''CONNECTOR_CALL'', ''CONNECTOR_RESULT'', ''CHAIN_VERIFY_STARTED'',
     ''CHAIN_VERIFY_COMPLETED'', ''CHAIN_TAMPER_DETECTED'', ''CHAIN_VERIFY_ERROR'',
     ''REPLAY_STARTED'', ''REPLAY_COMPLETED'', ''REPLAY_FAILED'',
     ''SETTLEMENT_BATCH_STATE_TRANSITION'', ''TCSA_SHORTFALL_DETECTED'',
     ''POSITION_LIMIT_BREACHED'', ''ARCHIVAL_STARTED'', ''ARCHIVAL_COMPLETED'',
     ''OPERATOR_LOGIN'', ''OPERATOR_ACTION'', ''BB_INSPECTOR_ACCESS'',
     ''SETTLEMENT_INSTRUCTION_STATE_TRANSITION'', ''RECONCILIATION_RECORD_STATE_TRANSITION'',
     ''RECONCILIATION_EXCEPTION_STATE_TRANSITION'', ''SETTLEMENT_WINDOW_STATE_TRANSITION'',
     ''NDC_BREACH_BLOCKED'', ''TCSA_SHORTFALL_RESOLVED'', ''SANCTIONS_LIST_INGESTED'',
     ''SANCTIONS_SCREENING_COMPLETED'', ''SANCTIONS_HIT_DETECTED'',
     ''SANCTIONS_HIT_STATE_TRANSITION'', ''AML_ALERT_STATE_TRANSITION'',
     ''AML_PREFLIGHT_RULE_PACK_MISSING'', ''MONITOR_EVALUATION_FAILED'',
     ''AML_MONITOR_RULE_PACK_MISSING'', ''RULE_PACK_LOADED'', ''RULE_PACK_ACTIVATED'',
     ''CAMLCO_EXPORT_STARTED'', ''CAMLCO_EXPORT_COMPLETED'', ''FACT_CORRECTION_VERIFIED'',
     ''DOSSIER_EXPORT_STARTED'', ''DOSSIER_EXPORT_COMPLETED'', ''DOSSIER_ASSEMBLY_STARTED'',
     ''DOSSIER_ASSEMBLY_COMPLETED'', ''DOSSIER_ASSEMBLY_FAILED'',
     ''FACT_CORRECTION_RECORDED'', ''FACT_CORRECTION_RETRACTED'', ''QR_ISSUED'',
     ''QR_SUSPEND'', ''QR_REACTIVATE'', ''QR_REVOKE'', ''QR_PAY_INITIATED'',
     ''KYB_STATE_TRANSITION'', ''KYB_DOCUMENT_UPLOADED'', ''KYB_UBO_ADDED'',
     ''KYB_UBO_VERIFICATION'', ''KYB_AGREEMENT_SIGNED'', ''PAYMENT_LINK_CREATED'',
     ''PAYMENT_LINK_PAID'', ''PAYMENT_LINK_EXPIRED'', ''PAYMENT_LINK_CANCELLED'',
     ''SANDBOX_SIGNUP_CREATED'', ''SANDBOX_SIGNUP_VERIFIED'', ''SANDBOX_SIGNUP_PROVISIONED'',
     ''SANDBOX_SIGNUP_EXPIRED'', ''SANDBOX_SIGNUP_REVOKED'', ''OFFER_STATE_TRANSITION'',
     ''SUBSCRIPTION_STATE_TRANSITION'', ''SUBSCRIPTION_CYCLE_STATE_TRANSITION'',
     ''DISBURSEMENT_BATCH_STATE_TRANSITION'', ''DISBURSEMENT_ITEM_STATE_TRANSITION'',
     ''PARTICIPANT_APPLICATION_SUBMITTED'', ''PARTICIPANT_DOCS_REQUESTED'',
     ''PARTICIPANT_DOCUMENT_UPLOADED'', ''PARTICIPANT_DOCUMENT_VERIFIED'',
     ''PARTICIPANT_DOCUMENT_REJECTED'', ''PARTICIPANT_LICENSE_INVALID'',
     ''PARTICIPANT_MOU_SIGNED'', ''PARTICIPANT_CONFORMANCE_STARTED'',
     ''PARTICIPANT_CONFORMANCE_PASSED'', ''PARTICIPANT_CONFORMANCE_FAILED'',
     ''PARTICIPANT_CONFORMANCE_EXHAUSTED'', ''PARTICIPANT_ACTIVATION_REQUESTED'',
     ''PARTICIPANT_ACTIVATED'', ''PARTICIPANT_SUSPENDED'', ''PARTICIPANT_REINSTATED'',
     ''PARTICIPANT_TERMINATED'', ''PARTICIPANT_REJECTED'',
     ''CONFORMANCE_RUN_EVIDENCE_MISMATCH'', ''CONFORMANCE_RUN_STARTED'',
     ''CONFORMANCE_RUN_COMPLETED'', ''NETTING_COMPLETED'', ''NETTING_INTEGRITY_FAILURE'',
     ''WINDOW_PARTICIPANT_SUSPENDED'', ''WINDOW_UNWOUND'']"

definition ACTOR_TYPES :: "string list" where
  "ACTOR_TYPES = [''OPERATOR'', ''CUSTOMER'', ''MERCHANT'', ''SERVICE'', ''BB_INSPECTOR'']"

definition CHECKPOINT_INTERVAL :: int where
  "CHECKPOINT_INTERVAL = 1000"

definition PRODUCER :: string where
  "PRODUCER = ''ledger-service@1''"

definition GENESIS_ENTRY_TYPE :: string where
  "GENESIS_ENTRY_TYPE = ''genesis''"

subsection \<open>Exceptions\<close>

datatype ledger_error =
    LedgerImbalanceError int int
  | LedgerDuplicateError string string
  | LedgerDuplicateEventError string
  | LedgerAccountNotFoundError string
  | LedgerAmountError string
  | LedgerValidationError string
  | LedgerWriteGateEngagedError "string option"
  | TrialBalanceViolationError int int
  | MemoryConstraintError string
  | HashChainError string
  | LedgerIdError id_error
  | LedgerCanonicalError canon_error
  | LedgerKeyError | LedgerAttributeError

subsection \<open>Input specs\<close>

record posting_spec =
  ps_account_id :: string
  ps_side :: string
  ps_amount_minor :: int
  ps_currency :: string

record journal_entry_spec =
  js_reference_id :: string
  js_reference_type :: string
  js_entry_type :: string
  js_description :: string
  js_produced_by :: string
  js_idempotency_key :: string
  js_postings :: "posting_spec list"

record audit_event_spec =
  as_event_type :: string
  as_actor_id :: string
  as_actor_type :: string
  as_subject_type :: string
  as_subject_id :: string
  as_from_state :: "string option"
  as_to_state :: "string option"
  as_payload :: "(string \<times> pyobj) list"

record account_spec =
  sp_account_type :: string
  sp_account_subtype :: string
  sp_owner_id :: "string option"
  sp_owner_type :: "string option"
  sp_parent_id :: "string option"
  sp_purpose_tag :: "string option"
  sp_is_system :: bool
  sp_currency :: string

subsection \<open>Stored rows\<close>

record account_row =
  ac_account_id :: string
  ac_account_type :: string
  ac_account_subtype :: string
  ac_currency :: string
  ac_owner_id :: "string option"
  ac_owner_type :: "string option"
  ac_parent_id :: "string option"
  ac_purpose_tag :: "string option"
  ac_is_system :: bool
  ac_created_at :: instant
  ac_closed_at :: "instant option"
  ac_schema_version :: int

record journal_entry_row =
  je_entry_id :: string
  je_entry_index :: int
  je_reference_id :: string
  je_reference_type :: string
  je_entry_type :: string
  je_description :: string
  je_produced_by :: string
  je_produced_at :: instant
  je_idempotency_key :: string
  je_schema_version :: int

record posting_row =
  po_posting_id :: string
  po_entry_id :: string
  po_account_id :: string
  po_side :: string
  po_amount_minor :: int
  po_currency :: string
  po_produced_at :: instant
  po_schema_version :: int

record account_hold_row =
  ho_hold_id :: string
  ho_account_id :: string
  ho_hold_reserve_account_id :: string
  ho_source_account_id :: string
  ho_reference_id :: string
  ho_amount_minor :: int
  ho_hold_reason :: string
  ho_status :: string
  ho_hold_opened_at :: instant
  ho_hold_expires_at :: instant
  ho_hold_closed_at :: "instant option"
  ho_open_je_id :: string
  ho_close_je_id :: "string option"
  ho_schema_version :: int

record chain_entry_row =
  ce_chain_domain :: string
  ce_chain_index :: int
  ce_entry_type :: string
  ce_payload_hash :: string
  ce_payload_pointer :: string
  ce_prev_chain_hash :: string
  ce_amount_minor_sum :: int
  ce_chain_hash :: string
  ce_is_checkpoint :: bool
  ce_checkpoint_sequence_in_domain :: "int option"
  ce_checkpoint_sig :: "string option"
  ce_checkpoint_public_key_b64 :: "string option"
  ce_producer :: string
  ce_produced_at :: instant
  ce_schema_version :: int

record checkpoint_row =
  cp_checkpoint_id :: string
  cp_chain_domain :: string
  cp_checkpoint_sequence_in_domain :: int
  cp_chain_index_from :: int
  cp_chain_index_to :: int
  cp_chain_hash_at_checkpoint :: string
  cp_checkpoint_sig :: string
  cp_checkpoint_public_key_b64 :: string
  cp_entries_in_segment :: int
  cp_signed_at :: instant
  cp_schema_version :: int

record outbox_row =
  ob_event_id :: string
  ob_topic :: string
  ob_event_type :: string
  ob_subject_type :: string
  ob_subject_id :: string
  ob_payload_json :: string
  ob_producer :: string
  ob_occurred_at :: instant
  ob_published :: bool
  ob_schema_version :: int

record audit_event_row =
  ae_event_id :: string
  ae_entry_index :: int
  ae_event_type :: string
  ae_actor_id :: string
  ae_actor_type :: string
  ae_subject_type :: string
  ae_subject_id :: string
  ae_from_state :: "string option"
  ae_to_state :: "string option"
  ae_payload_hash :: string
  ae_payload_pointer :: string
  ae_payload_json :: string
  ae_prev_chain_hash :: string
  ae_chain_hash :: string
  ae_pii_redacted :: bool
  ae_occurred_at :: instant
  ae_schema_version :: int

subsection \<open>Results\<close>

record chain_verification_result =
  vr_status :: string
  vr_entries_checked :: int
  vr_first_broken_index :: "int option"
  vr_checkpoints_verified :: int
  vr_detail :: "string option"

record trial_balance =
  tb_total_debit_minor :: int
  tb_total_credit_minor :: int

record write_gate_state =
  wg_engaged :: bool
  wg_reason :: "string option"
  wg_engaged_at :: "instant option"

record chain_tip =
  ct_chain_index :: int
  ct_chain_hash :: string

definition VERIFY_COMPLETED :: string where
  "VERIFY_COMPLETED = ''COMPLETED''"

definition VERIFY_FAILED_BROKEN_CHAIN :: string where
  "VERIFY_FAILED_BROKEN_CHAIN = ''FAILED_BROKEN_CHAIN''"

definition VERIFY_FAILED_INVALID_CHECKPOINT_SIG :: string where
  "VERIFY_FAILED_INVALID_CHECKPOINT_SIG = ''FAILED_INVALID_CHECKPOINT_SIG''"

definition VERIFY_FAILED_ERROR :: string where
  "VERIFY_FAILED_ERROR = ''FAILED_ERROR''"

definition vr_ok :: "chain_verification_result \<Rightarrow> bool" where
  "vr_ok r \<longleftrightarrow> vr_status r = VERIFY_COMPLETED"

definition balanced :: "trial_balance \<Rightarrow> bool" where
  "balanced tb \<longleftrightarrow> tb_total_debit_minor tb = tb_total_credit_minor tb"

end
