(* ===== verification/Ledger_Store.thy ===== *)
theory Ledger_Store
  imports Ledger_Types
begin

text \<open>
  The in-memory ledger store (\<^verbatim>\<open>ledger/memory_store.py\<close>): the committed tables, the staged
  unit of work \<open>_MemTx\<close> with the mirrors of the table constraints, the deferred balance check and
  the commit. A body that raises leaves the committed tables as they were.
\<close>

subsection \<open>State\<close>

record gate_row =
  gr_reason :: string
  gr_engaged_at :: instant
  gr_cleared_at :: "instant option"

record ledger_store =
  s_accounts :: "(string, account_row) dict"
  s_journal :: "(string, journal_entry_row) dict"
  s_journal_by_idem :: "(string, string) dict"
  s_postings :: "(string, posting_row) dict"
  s_postings_by_entry :: "(string, string list) dict"
  s_chains :: "(string, (int, chain_entry_row) dict) dict"
  s_checkpoints :: "(string, checkpoint_row list) dict"
  s_outbox :: "(string, outbox_row) dict"
  s_audit :: "(string, audit_event_row) dict"
  s_holds :: "(string, account_hold_row) dict"
  s_balances :: "(string, int) dict"
  s_gate_rows :: "gate_row list"
  s_entry_index_seq :: int
  s_audit_index_seq :: int

record mem_tx =
  t_store :: ledger_store
  t_accounts :: "(string, account_row) dict"
  t_journal :: "(string, journal_entry_row) dict"
  t_journal_by_idem :: "(string, string) dict"
  t_postings :: "(string, posting_row) dict"
  t_chain :: "(string \<times> int, chain_entry_row) dict"
  t_checkpoints :: "checkpoint_row list"
  t_outbox :: "(string, outbox_row) dict"
  t_audit :: "(string, audit_event_row) dict"
  t_holds :: "(string, account_hold_row) dict"
  t_gate_rows :: "gate_row list"
  t_next_entry_index :: int
  t_next_audit_index :: int

type_synonym 'a tx_op = "(mem_tx, ledger_error, 'a) pm"
type_synonym 'a store_op = "(ledger_store, ledger_error, 'a) pm"

definition new_store :: ledger_store where
  "new_store = \<lparr>s_accounts = [], s_journal = [], s_journal_by_idem = [], s_postings = [],
     s_postings_by_entry = [], s_chains = [], s_checkpoints = [], s_outbox = [], s_audit = [],
     s_holds = [], s_balances = [], s_gate_rows = [], s_entry_index_seq = 0,
     s_audit_index_seq = 0\<rparr>"

definition new_tx :: "ledger_store \<Rightarrow> mem_tx" where
  "new_tx st = \<lparr>t_store = st, t_accounts = [], t_journal = [], t_journal_by_idem = [],
     t_postings = [], t_chain = [], t_checkpoints = [], t_outbox = [], t_audit = [], t_holds = [],
     t_gate_rows = [], t_next_entry_index = s_entry_index_seq st + 1,
     t_next_audit_index = s_audit_index_seq st + 1\<rparr>"

definition normal_balance_delta :: "string \<Rightarrow> string \<Rightarrow> int \<Rightarrow> int" where
  "normal_balance_delta account_type side amount_minor =
     (if account_type \<in> {''ASSET'', ''EXPENSE''}
      then (if side = ''DEBIT'' then amount_minor else - amount_minor)
      else (if side = ''CREDIT'' then amount_minor else - amount_minor))"

subsection \<open>Reads of the unit of work (staged rows first)\<close>

definition tx_get_account :: "mem_tx \<Rightarrow> string \<Rightarrow> account_row option" where
  "tx_get_account tx i = (case dget (t_accounts tx) i of
     Some a \<Rightarrow> Some a | None \<Rightarrow> dget (s_accounts (t_store tx)) i)"

definition find_entry_id_by_idempotency_key :: "mem_tx \<Rightarrow> string \<Rightarrow> string option" where
  "find_entry_id_by_idempotency_key tx key =
     str_or (dget (t_journal_by_idem tx) key) (dget (s_journal_by_idem (t_store tx)) key)"

definition journal_entry_exists :: "mem_tx \<Rightarrow> string \<Rightarrow> bool" where
  "journal_entry_exists tx i \<longleftrightarrow>
     dget (t_journal tx) i \<noteq> None \<or> dget (s_journal (t_store tx)) i \<noteq> None"

definition lock_chain_tip :: "mem_tx \<Rightarrow> string \<Rightarrow> ledger_error + chain_tip option" where
  "lock_chain_tip tx dmn =
     (let staged = map snd (filter (\<lambda>k. fst k = dmn) (dkeys (t_chain tx)));
          committed = dget_or (s_chains (t_store tx)) dmn [];
          best = (if staged = [] then None else Some (Max (set staged)));
          best = (if committed = [] then best
                  else (let m = Max (set (dkeys committed)) in
                        case best of None \<Rightarrow> Some m | Some b \<Rightarrow> Some (max b m)))
      in case best of
           None \<Rightarrow> Inr None
         | Some i \<Rightarrow>
             (case dget (t_chain tx) (dmn, i) of
                Some row \<Rightarrow> Inr (Some \<lparr>ct_chain_index = ce_chain_index row, ct_chain_hash = ce_chain_hash row\<rparr>)
              | None \<Rightarrow>
                  (case dget committed i of
                     Some row \<Rightarrow> Inr (Some \<lparr>ct_chain_index = ce_chain_index row, ct_chain_hash = ce_chain_hash row\<rparr>)
                   | None \<Rightarrow> Inl LedgerKeyError)))"

definition gate_state :: "gate_row list \<Rightarrow> write_gate_state option" where
  "gate_state rows = (case filter (\<lambda>r. gr_cleared_at r = None) rows of
     [] \<Rightarrow> None
   | r # _ \<Rightarrow> Some \<lparr>wg_engaged = True, wg_reason = Some (gr_reason r), wg_engaged_at = Some (gr_engaged_at r)\<rparr>)"

definition write_gate_state :: "ledger_store \<Rightarrow> write_gate_state" where
  "write_gate_state st = (case gate_state (s_gate_rows st) of
     Some g \<Rightarrow> g | None \<Rightarrow> \<lparr>wg_engaged = False, wg_reason = None, wg_engaged_at = None\<rparr>)"

definition tx_write_gate_state :: "mem_tx \<Rightarrow> write_gate_state" where
  "tx_write_gate_state tx = (case gate_state (t_gate_rows tx) of
     Some g \<Rightarrow> g | None \<Rightarrow> write_gate_state (t_store tx))"

definition tx_get_account_hold :: "mem_tx \<Rightarrow> string \<Rightarrow> account_hold_row option" where
  "tx_get_account_hold tx i = (case dget (t_holds tx) i of
     Some r \<Rightarrow> Some r | None \<Rightarrow> dget (s_holds (t_store tx)) i)"

text \<open>\<open>min(rows, key=lambda row: (row.hold_opened_at, row.hold_id), default=None)\<close>\<close>

definition first_hold :: "account_hold_row list \<Rightarrow> account_hold_row option" where
  "first_hold rows = (case sort_key (\<lambda>r. (ho_hold_opened_at r, ho_hold_id r)) rows of
     [] \<Rightarrow> None | r # _ \<Rightarrow> Some r)"

definition tx_get_open_account_hold_by_reference :: "mem_tx \<Rightarrow> string \<Rightarrow> account_hold_row option" where
  "tx_get_open_account_hold_by_reference tx ref =
     first_hold (filter (\<lambda>r. ho_reference_id r = ref \<and> ho_status r = ''OPEN'')
       (dvals (s_holds (t_store tx)) @ dvals (t_holds tx)))"

definition tx_get_balance :: "mem_tx \<Rightarrow> string \<Rightarrow> int" where
  "tx_get_balance tx i = (case tx_get_account tx i of
     None \<Rightarrow> 0
   | Some a \<Rightarrow> dget_or (s_balances (t_store tx)) i 0 +
       (\<Sum>p\<leftarrow>filter (\<lambda>p. po_account_id p = i) (dvals (t_postings tx)).
          normal_balance_delta (ac_account_type a) (po_side p) (po_amount_minor p)))"

subsection \<open>Staged writes\<close>

definition insert_account :: "account_row \<Rightarrow> unit tx_op" where
  "insert_account row =
     bind_pm (get_pm (\<lambda>tx. tx_get_account tx (ac_account_id row))) (\<lambda>found.
     bind_pm (require_that (found = None) (MemoryConstraintError ''duplicate account_id'')) (\<lambda>_.
     modify_pm (\<lambda>tx. tx\<lparr>t_accounts := dput (ac_account_id row) row (t_accounts tx)\<rparr>)))"

definition insert_journal_entry :: "journal_entry_row \<Rightarrow> int tx_op" where
  "insert_journal_entry row =
     bind_pm (get_pm id) (\<lambda>tx.
     bind_pm (require_that (\<not> journal_entry_exists tx (je_entry_id row))
       (MemoryConstraintError ''duplicate entry_id'')) (\<lambda>_.
     bind_pm (require_that (find_entry_id_by_idempotency_key tx (je_idempotency_key row) = None)
       (MemoryConstraintError ''duplicate idempotency_key'')) (\<lambda>_.
     bind_pm (modify_pm (\<lambda>tx. tx\<lparr>t_next_entry_index := t_next_entry_index tx + 1,
         t_journal := dput (je_entry_id row)
           (row\<lparr>je_entry_index := t_next_entry_index tx\<rparr>) (t_journal tx),
         t_journal_by_idem := dput (je_idempotency_key row) (je_entry_id row)
           (t_journal_by_idem tx)\<rparr>)) (\<lambda>_.
     ret (t_next_entry_index tx)))))"

definition insert_posting :: "posting_row \<Rightarrow> unit tx_op" where
  "insert_posting row =
     bind_pm (get_pm id) (\<lambda>tx.
     bind_pm (require_that (dget (t_postings tx) (po_posting_id row) = None \<and>
         dget (s_postings (t_store tx)) (po_posting_id row) = None)
       (MemoryConstraintError ''duplicate posting_id'')) (\<lambda>_.
     bind_pm (require_that (po_side row \<in> set SIDES) (MemoryConstraintError ''postings_side_check'')) (\<lambda>_.
     bind_pm (require_that (0 < po_amount_minor row) (MemoryConstraintError ''postings_amount_positive'')) (\<lambda>_.
     bind_pm (require_that (po_currency row = ''BDT'') (MemoryConstraintError ''postings_currency_check'')) (\<lambda>_.
     bind_pm (require_that (tx_get_account tx (po_account_id row) \<noteq> None)
       (MemoryConstraintError ''FK violation: account absent'')) (\<lambda>_.
     bind_pm (require_that (journal_entry_exists tx (po_entry_id row))
       (MemoryConstraintError ''FK violation: journal entry absent'')) (\<lambda>_.
     modify_pm (\<lambda>tx. tx\<lparr>t_postings := dput (po_posting_id row) row (t_postings tx)\<rparr>))))))))"

definition insert_chain_entry :: "chain_entry_row \<Rightarrow> unit tx_op" where
  "insert_chain_entry row =
     bind_pm (get_pm id) (\<lambda>tx.
     bind_pm (require_that (dget (t_chain tx) (ce_chain_domain row, ce_chain_index row) = None \<and>
         dget (dget_or (s_chains (t_store tx)) (ce_chain_domain row) []) (ce_chain_index row) = None)
       (MemoryConstraintError ''duplicate chain entry'')) (\<lambda>_.
     bind_pm (require_that (ce_chain_domain row \<in> {''MONEY'', ''AUDIT''})
       (MemoryConstraintError ''chain_domain_check'')) (\<lambda>_.
     bind_pm (require_that (\<not> (ce_is_checkpoint row \<and> (ce_checkpoint_sig row = None \<or>
         ce_checkpoint_public_key_b64 row = None \<or> ce_checkpoint_sequence_in_domain row = None)))
       (MemoryConstraintError ''checkpoint rows require sig + public key + sequence'')) (\<lambda>_.
     bind_pm (require_that (\<not> (\<not> ce_is_checkpoint row \<and> (ce_checkpoint_sig row \<noteq> None \<or>
         ce_checkpoint_public_key_b64 row \<noteq> None \<or> ce_checkpoint_sequence_in_domain row \<noteq> None)))
       (MemoryConstraintError ''non-checkpoint rows must not carry checkpoint fields'')) (\<lambda>_.
     modify_pm (\<lambda>tx. tx\<lparr>t_chain := dput (ce_chain_domain row, ce_chain_index row) row (t_chain tx)\<rparr>))))))"

definition insert_checkpoint :: "checkpoint_row \<Rightarrow> unit tx_op" where
  "insert_checkpoint row =
     bind_pm (get_pm (\<lambda>tx. filter (\<lambda>c. cp_chain_domain c = cp_chain_domain row \<and>
         cp_checkpoint_sequence_in_domain c = cp_checkpoint_sequence_in_domain row)
       (dget_or (s_checkpoints (t_store tx)) (cp_chain_domain row) [] @ t_checkpoints tx))) (\<lambda>existing.
     bind_pm (require_that (existing = []) (MemoryConstraintError ''duplicate checkpoint sequence'')) (\<lambda>_.
     bind_pm (require_that (0 < cp_entries_in_segment row)
       (MemoryConstraintError ''checkpoints_entries_positive'')) (\<lambda>_.
     modify_pm (\<lambda>tx. tx\<lparr>t_checkpoints := t_checkpoints tx @ [row]\<rparr>))))"

definition insert_outbox :: "outbox_row \<Rightarrow> unit tx_op" where
  "insert_outbox row =
     bind_pm (get_pm id) (\<lambda>tx.
     bind_pm (require_that (dget (t_outbox tx) (ob_event_id row) = None \<and>
         dget (s_outbox (t_store tx)) (ob_event_id row) = None)
       (LedgerDuplicateEventError (ob_event_id row))) (\<lambda>_.
     modify_pm (\<lambda>tx. tx\<lparr>t_outbox := dput (ob_event_id row) row (t_outbox tx)\<rparr>)))"

definition insert_audit_event :: "audit_event_row \<Rightarrow> int tx_op" where
  "insert_audit_event row =
     bind_pm (get_pm id) (\<lambda>tx.
     bind_pm (require_that (dget (t_audit tx) (ae_event_id row) = None \<and>
         dget (s_audit (t_store tx)) (ae_event_id row) = None)
       (LedgerDuplicateEventError (ae_event_id row))) (\<lambda>_.
     bind_pm (modify_pm (\<lambda>tx. tx\<lparr>t_next_audit_index := t_next_audit_index tx + 1,
         t_audit := dput (ae_event_id row) (row\<lparr>ae_entry_index := t_next_audit_index tx\<rparr>)
           (t_audit tx)\<rparr>)) (\<lambda>_.
     ret (t_next_audit_index tx))))"

definition insert_account_hold :: "account_hold_row \<Rightarrow> unit tx_op" where
  "insert_account_hold row =
     bind_pm (get_pm id) (\<lambda>tx.
     bind_pm (require_that (tx_get_account_hold tx (ho_hold_id row) = None)
       (MemoryConstraintError ''duplicate hold_id'')) (\<lambda>_.
     bind_pm (require_that (tx_get_account tx (ho_account_id row) \<noteq> None)
       (MemoryConstraintError ''FK violation: hold account absent'')) (\<lambda>_.
     bind_pm (require_that (tx_get_account tx (ho_hold_reserve_account_id row) \<noteq> None)
       (MemoryConstraintError ''FK violation: hold reserve absent'')) (\<lambda>_.
     bind_pm (require_that (tx_get_account tx (ho_source_account_id row) \<noteq> None)
       (MemoryConstraintError ''FK violation: hold source absent'')) (\<lambda>_.
     bind_pm (require_that (journal_entry_exists tx (ho_open_je_id row))
       (MemoryConstraintError ''FK violation: open journal absent'')) (\<lambda>_.
     bind_pm (require_that (ho_status row \<in> set HOLD_STATUSES)
       (MemoryConstraintError ''holds_status_check'')) (\<lambda>_.
     bind_pm (require_that (0 < ho_amount_minor row)
       (MemoryConstraintError ''holds_amount_positive'')) (\<lambda>_.
     modify_pm (\<lambda>tx. tx\<lparr>t_holds := dput (ho_hold_id row) row (t_holds tx)\<rparr>)))))))))"

definition update_account_hold :: "account_hold_row \<Rightarrow> unit tx_op" where
  "update_account_hold row =
     bind_pm (get_pm id) (\<lambda>tx.
     bind_pm (require_that (tx_get_account_hold tx (ho_hold_id row) \<noteq> None)
       (MemoryConstraintError ''unknown hold_id'')) (\<lambda>_.
     bind_pm (require_that (ho_status row \<in> set HOLD_STATUSES)
       (MemoryConstraintError ''holds_status_check'')) (\<lambda>_.
     bind_pm (require_that (case ho_close_je_id row of None \<Rightarrow> True
         | Some j \<Rightarrow> journal_entry_exists tx j)
       (MemoryConstraintError ''FK violation: close journal absent'')) (\<lambda>_.
     modify_pm (\<lambda>tx. tx\<lparr>t_holds := dput (ho_hold_id row) row (t_holds tx)\<rparr>)))))"

definition tx_engage_write_gate :: "string \<Rightarrow> instant \<Rightarrow> unit tx_op" where
  "tx_engage_write_gate reason at =
     modify_pm (\<lambda>tx. tx\<lparr>t_gate_rows := t_gate_rows tx @
       [\<lparr>gr_reason = reason, gr_engaged_at = at, gr_cleared_at = None\<rparr>]\<rparr>)"

subsection \<open>Commit\<close>

definition debit_sum :: "posting_row list \<Rightarrow> int" where
  "debit_sum ps = (\<Sum>p\<leftarrow>filter (\<lambda>p. po_side p = ''DEBIT'') ps. po_amount_minor p)"

definition credit_sum :: "posting_row list \<Rightarrow> int" where
  "credit_sum ps = (\<Sum>p\<leftarrow>filter (\<lambda>p. po_side p \<noteq> ''DEBIT'') ps. po_amount_minor p)"

definition all_postings_for_entry :: "mem_tx \<Rightarrow> string \<Rightarrow> posting_row list" where
  "all_postings_for_entry tx i =
     filter (\<lambda>p. po_entry_id p = i) (dvals (s_postings (t_store tx))) @
     filter (\<lambda>p. po_entry_id p = i) (dvals (t_postings tx))"

definition deferred_balance_check :: "mem_tx \<Rightarrow> ledger_error + unit" where
  "deferred_balance_check tx =
     check_sum (\<forall>i \<in> set (map po_entry_id (dvals (t_postings tx))).
         debit_sum (all_postings_for_entry tx i) = credit_sum (all_postings_for_entry tx i))
       (MemoryConstraintError ''Ledger imbalance'')"

definition apply_posting :: "posting_row \<Rightarrow> unit store_op" where
  "apply_posting p =
     bind_pm (modify_pm (\<lambda>st. st\<lparr>
         s_postings := dput (po_posting_id p) p (s_postings st),
         s_postings_by_entry := dput (po_entry_id p)
           (dget_or (s_postings_by_entry st) (po_entry_id p) [] @ [po_posting_id p])
           (s_postings_by_entry st)\<rparr>)) (\<lambda>_.
     bind_pm (get_pm (\<lambda>st. dget (s_accounts st) (po_account_id p))) (\<lambda>found.
     case found of
       None \<Rightarrow> raise_err LedgerKeyError
     | Some a \<Rightarrow> modify_pm (\<lambda>st. st\<lparr>s_balances := dput (po_account_id p)
         (dget_or (s_balances st) (po_account_id p) 0 +
            normal_balance_delta (ac_account_type a) (po_side p) (po_amount_minor p))
         (s_balances st)\<rparr>)))"

definition apply_chain_row :: "(string \<times> int) \<times> chain_entry_row \<Rightarrow> ledger_store \<Rightarrow> ledger_store" where
  "apply_chain_row kr st = st\<lparr>s_chains := dput (fst (fst kr))
     (dput (snd (fst kr)) (snd kr) (dget_or (s_chains st) (fst (fst kr)) [])) (s_chains st)\<rparr>"

definition apply_checkpoint :: "checkpoint_row \<Rightarrow> ledger_store \<Rightarrow> ledger_store" where
  "apply_checkpoint c st = st\<lparr>s_checkpoints := dput (cp_chain_domain c)
     (dget_or (s_checkpoints st) (cp_chain_domain c) [] @ [c]) (s_checkpoints st)\<rparr>"

definition apply_tx :: "mem_tx \<Rightarrow> unit store_op" where
  "apply_tx tx =
     bind_pm (modify_pm (\<lambda>st. st\<lparr>
         s_accounts := dict_update (s_accounts st) (t_accounts tx),
         s_journal := dict_update (s_journal st) (t_journal tx),
         s_journal_by_idem := dict_update (s_journal_by_idem st) (t_journal_by_idem tx)\<rparr>)) (\<lambda>_.
     bind_pm (for_each apply_posting (dvals (t_postings tx))) (\<lambda>_.
     modify_pm (\<lambda>st.
       let st = fold apply_chain_row (t_chain tx) st;
           st = fold apply_checkpoint (t_checkpoints tx) st
       in st\<lparr>s_outbox := dict_update (s_outbox st) (t_outbox tx),
             s_audit := dict_update (s_audit st) (t_audit tx),
             s_holds := dict_update (s_holds st) (t_holds tx),
             s_gate_rows := s_gate_rows st @ t_gate_rows tx,
             s_entry_index_seq := t_next_entry_index tx - 1,
             s_audit_index_seq := t_next_audit_index tx - 1\<rparr>)))"

text \<open>\<open>with store.transaction() as tx: body\<close>. A raise of the body or of the deferred check
  discards the staged rows.\<close>

definition transaction :: "'a tx_op \<Rightarrow> 'a store_op" where
  "transaction body st =
     (case body (new_tx st) of
        (Inl e, _) \<Rightarrow> (Inl e, st)
      | (Inr a, tx) \<Rightarrow>
          (case deferred_balance_check tx of
             Inl e \<Rightarrow> (Inl e, st)
           | Inr _ \<Rightarrow> bind_pm (apply_tx tx) (\<lambda>_. ret a) st))"

subsection \<open>Reads of the committed tables\<close>

definition get_balance :: "ledger_store \<Rightarrow> string \<Rightarrow> int" where
  "get_balance st i = dget_or (s_balances st) i 0"

definition get_balance_as_of :: "ledger_store \<Rightarrow> string \<Rightarrow> instant \<Rightarrow> int" where
  "get_balance_as_of st i as_of = (case dget (s_accounts st) i of
     None \<Rightarrow> 0
   | Some a \<Rightarrow> (\<Sum>p\<leftarrow>filter (\<lambda>p. po_account_id p = i \<and> po_produced_at p \<le> as_of) (dvals (s_postings st)).
       normal_balance_delta (ac_account_type a) (po_side p) (po_amount_minor p)))"

definition sum_balance_by_subtype :: "ledger_store \<Rightarrow> string \<Rightarrow> int" where
  "sum_balance_by_subtype st sub =
     (\<Sum>a\<leftarrow>filter (\<lambda>a. ac_account_subtype a = sub) (dvals (s_accounts st)).
        dget_or (s_balances st) (ac_account_id a) 0)"

definition trial_balance_of :: "ledger_store \<Rightarrow> trial_balance" where
  "trial_balance_of st = \<lparr>tb_total_debit_minor = debit_sum (dvals (s_postings st)),
     tb_total_credit_minor = credit_sum (dvals (s_postings st))\<rparr>"

definition list_journal_entries :: "ledger_store \<Rightarrow> nat \<Rightarrow> nat \<Rightarrow> journal_entry_row list" where
  "list_journal_entries st limit offset =
     take limit (drop offset (sort_key (\<lambda>r. - je_entry_index r) (dvals (s_journal st))))"

definition list_journal_entries_by_reference_and_type ::
    "ledger_store \<Rightarrow> string \<Rightarrow> string \<Rightarrow> journal_entry_row list" where
  "list_journal_entries_by_reference_and_type st ref ty =
     sort_key je_entry_index
       (filter (\<lambda>r. je_reference_id r = ref \<and> je_entry_type r = ty) (dvals (s_journal st)))"

definition get_postings_for_entry :: "ledger_store \<Rightarrow> string \<Rightarrow> posting_row list" where
  "get_postings_for_entry st i =
     concat (map (\<lambda>pid. case dget (s_postings st) pid of None \<Rightarrow> [] | Some p \<Rightarrow> [p])
       (dget_or (s_postings_by_entry st) i []))"

definition has_outbox_event :: "ledger_store \<Rightarrow> string \<Rightarrow> string \<Rightarrow> bool" where
  "has_outbox_event st ty sub =
     list_ex (\<lambda>r. ob_event_type r = ty \<and> ob_subject_id r = sub) (dvals (s_outbox st))"

definition list_outbox_by_subject :: "ledger_store \<Rightarrow> string \<Rightarrow> string \<Rightarrow> outbox_row list" where
  "list_outbox_by_subject st ty sub =
     sort_key (\<lambda>r. (ob_occurred_at r, ob_event_id r))
       (filter (\<lambda>r. ob_event_type r = ty \<and> ob_subject_id r = sub) (dvals (s_outbox st)))"

definition list_outbox :: "ledger_store \<Rightarrow> outbox_row list" where
  "list_outbox st = sort_key (\<lambda>r. (ob_occurred_at r, ob_event_id r)) (dvals (s_outbox st))"

definition list_audit_events ::
    "ledger_store \<Rightarrow> string option \<Rightarrow> string option \<Rightarrow> audit_event_row list" where
  "list_audit_events st sty sid =
     sort_key ae_entry_index
       (filter (\<lambda>r. (sty = None \<or> sty = Some (ae_subject_type r)) \<and>
                    (sid = None \<or> sid = Some (ae_subject_id r))) (dvals (s_audit st)))"

definition get_open_account_hold_by_reference :: "ledger_store \<Rightarrow> string \<Rightarrow> account_hold_row option" where
  "get_open_account_hold_by_reference st ref =
     first_hold (filter (\<lambda>r. ho_reference_id r = ref \<and> ho_status r = ''OPEN'') (dvals (s_holds st)))"

definition chain_of :: "ledger_store \<Rightarrow> string \<Rightarrow> (int, chain_entry_row) dict" where
  "chain_of st dmn = dget_or (s_chains st) dmn []"

definition iter_chain :: "ledger_store \<Rightarrow> string \<Rightarrow> int \<Rightarrow> int option \<Rightarrow> chain_entry_row list" where
  "iter_chain st dmn from_index to_index =
     (let domain = chain_of st dmn;
          indexes = sort (filter (\<lambda>i. from_index \<le> i \<and> (case to_index of None \<Rightarrow> True | Some t \<Rightarrow> i \<le> t))
            (dkeys domain))
      in concat (map (\<lambda>i. case dget domain i of None \<Rightarrow> [] | Some r \<Rightarrow> [r]) indexes))"

definition get_chain_entry :: "ledger_store \<Rightarrow> string \<Rightarrow> int \<Rightarrow> chain_entry_row option" where
  "get_chain_entry st dmn i = dget (chain_of st dmn) i"

definition max_chain_index :: "ledger_store \<Rightarrow> string \<Rightarrow> int option" where
  "max_chain_index st dmn = (if chain_of st dmn = [] then None else Some (Max (set (dkeys (chain_of st dmn)))))"

definition list_checkpoints :: "ledger_store \<Rightarrow> string \<Rightarrow> checkpoint_row list" where
  "list_checkpoints st dmn =
     sort_key cp_checkpoint_sequence_in_domain (dget_or (s_checkpoints st) dmn [])"

definition engage_write_gate :: "string \<Rightarrow> instant \<Rightarrow> ledger_store \<Rightarrow> ledger_store" where
  "engage_write_gate reason at st = st\<lparr>s_gate_rows := s_gate_rows st @
     [\<lparr>gr_reason = reason, gr_engaged_at = at, gr_cleared_at = None\<rparr>]\<rparr>"

subsection \<open>The privileged tamper path\<close>

definition dba_replace_chain_entry ::
    "string \<Rightarrow> int \<Rightarrow> (chain_entry_row \<Rightarrow> chain_entry_row) \<Rightarrow> unit store_op" where
  "dba_replace_chain_entry dmn i changes st =
     (case dget (chain_of st dmn) i of
        None \<Rightarrow> (Inl LedgerKeyError, st)
      | Some row \<Rightarrow> (Inr (), st\<lparr>s_chains := dput dmn (dput i (changes row) (chain_of st dmn)) (s_chains st)\<rparr>))"

definition dba_delete_chain_entry :: "string \<Rightarrow> int \<Rightarrow> unit store_op" where
  "dba_delete_chain_entry dmn i st =
     (case dget (chain_of st dmn) i of
        None \<Rightarrow> (Inl LedgerKeyError, st)
      | Some row \<Rightarrow> (Inr (), st\<lparr>s_chains := dput dmn (AList.delete i (chain_of st dmn)) (s_chains st)\<rparr>))"

definition dba_replace_posting :: "string \<Rightarrow> (posting_row \<Rightarrow> posting_row) \<Rightarrow> unit store_op" where
  "dba_replace_posting pid changes st =
     (case dget (s_postings st) pid of
        None \<Rightarrow> (Inl LedgerKeyError, st)
      | Some row \<Rightarrow> (Inr (), st\<lparr>s_postings := dput pid (changes row) (s_postings st)\<rparr>))"

definition dba_delete_posting :: "string \<Rightarrow> unit store_op" where
  "dba_delete_posting pid st =
     (case dget (s_postings st) pid of
        None \<Rightarrow> (Inl LedgerKeyError, st)
      | Some row \<Rightarrow> (Inr (), st\<lparr>s_postings := AList.delete pid (s_postings st)\<rparr>))"

definition dba_delete_journal_entry :: "string \<Rightarrow> unit store_op" where
  "dba_delete_journal_entry i st =
     (case dget (s_journal st) i of
        None \<Rightarrow> (Inl LedgerKeyError, st)
      | Some row \<Rightarrow> (Inr (), st\<lparr>s_journal := AList.delete i (s_journal st)\<rparr>))"

definition dba_replace_journal_entry ::
    "string \<Rightarrow> (journal_entry_row \<Rightarrow> journal_entry_row) \<Rightarrow> unit store_op" where
  "dba_replace_journal_entry i changes st =
     (case dget (s_journal st) i of
        None \<Rightarrow> (Inl LedgerKeyError, st)
      | Some row \<Rightarrow> (Inr (), st\<lparr>s_journal := dput i (changes row) (s_journal st)\<rparr>))"

definition dba_insert_journal_entry :: "journal_entry_row \<Rightarrow> ledger_store \<Rightarrow> ledger_store" where
  "dba_insert_journal_entry row st = st\<lparr>
     s_entry_index_seq := s_entry_index_seq st + 1,
     s_journal := dput (je_entry_id row) (row\<lparr>je_entry_index := s_entry_index_seq st + 1\<rparr>) (s_journal st),
     s_journal_by_idem := dput (je_idempotency_key row) (je_entry_id row) (s_journal_by_idem st)\<rparr>"

definition dba_clear_write_gate :: "instant \<Rightarrow> ledger_store \<Rightarrow> ledger_store" where
  "dba_clear_write_gate at st = st\<lparr>s_gate_rows := map (\<lambda>r. if gr_cleared_at r = None
     then r\<lparr>gr_cleared_at := Some at\<rparr> else r) (s_gate_rows st)\<rparr>"

end
