(* ===== verification/Ledger_Service.thy ===== *)
theory Ledger_Service
  imports Ledger_Store
begin

text \<open>
  The ledger service (\<^verbatim>\<open>ledger/service.py\<close>), the chain hash (\<^verbatim>\<open>ledger/hash_chain.py\<close>) and the
  hashed payloads (\<^verbatim>\<open>ledger/payloads.py\<close>): every operation of \<open>LedgerService\<close>, over the in-memory
  store.

  The service's configuration is \<open>ledger_env\<close>; SHA-256, Ed25519 and the PII redactor are fields of
  it. Each operation reads the clock at most once, and the reading is the argument \<open>now\<close>. The text
  of an exception is a label.
\<close>

record ledger_env =
  le_h :: "string \<Rightarrow> string"
  le_redact :: "string \<Rightarrow> string"
  le_sign :: "string \<Rightarrow> string \<times> string"
  le_verify :: "string \<Rightarrow> string \<Rightarrow> string \<Rightarrow> bool"
  le_producer :: string
  le_interval :: int
  le_trusted_keys :: "string list"

definition map_err :: "('e \<Rightarrow> 'f) \<Rightarrow> 'e + 'a \<Rightarrow> 'f + 'a" where
  "map_err f r = (case r of Inl e \<Rightarrow> Inl (f e) | Inr a \<Rightarrow> Inr a)"

definition ledger_id :: "id_error + string \<Rightarrow> ledger_error + string" where
  "ledger_id r = map_err LedgerIdError r"

definition ledger_canonical :: "canon_error + string \<Rightarrow> ledger_error + string" where
  "ledger_canonical r = map_err LedgerCanonicalError r"

definition MONEY_DOMAIN :: string where
  "MONEY_DOMAIN = ''MONEY''"

definition AUDIT_DOMAIN :: string where
  "AUDIT_DOMAIN = ''AUDIT''"

definition CHAIN_DOMAINS :: "string list" where
  "CHAIN_DOMAINS = [''MONEY'', ''AUDIT'']"

definition GENESIS_PREV_HASH :: string where
  "GENESIS_PREV_HASH = replicate 64 (CHR ''0'')"

definition GENESIS_PAYLOAD_HASH :: "(string \<Rightarrow> string) \<Rightarrow> string" where
  "GENESIS_PAYLOAD_HASH h = h ''genesis''"

definition DEFAULT_HOLD_TTL :: int where
  "DEFAULT_HOLD_TTL = 7 * 86400000000"

definition TOPICS :: "string list" where
  "TOPICS = [''payment.events'', ''settlement.events'', ''aml.events'', ''recon.events'',
     ''kyc.events'', ''connector.events'', ''qr.events'', ''vault.events'', ''platform.events'',
     ''notification.events'', ''offer.events'']"

subsection \<open>Chain hash\<close>

definition chain_preimage ::
    "string \<Rightarrow> int \<Rightarrow> string \<Rightarrow> string \<Rightarrow> string \<Rightarrow> string \<Rightarrow> int \<Rightarrow> string \<Rightarrow> string \<Rightarrow> string" where
  "chain_preimage prev_hash chain_index dmn entry_type payload_hash payload_pointer
       amount_minor_sum producer produced_at =
     prev_hash @ ''|'' @ str_int chain_index @ ''|'' @ dmn @ ''|'' @ entry_type @ ''|'' @
     payload_hash @ ''|'' @ payload_pointer @ ''|'' @ str_int amount_minor_sum @ ''|'' @
     producer @ ''|'' @ produced_at"

definition ends_with :: "string \<Rightarrow> string \<Rightarrow> bool" where
  "ends_with s t \<longleftrightarrow> suffix t s"

definition compute_entry_hash ::
    "(string \<Rightarrow> string) \<Rightarrow> string \<Rightarrow> int \<Rightarrow> string \<Rightarrow> string \<Rightarrow> string \<Rightarrow> string \<Rightarrow> int \<Rightarrow> string \<Rightarrow> string
      \<Rightarrow> ledger_error + string" where
  "compute_entry_hash h prev_hash chain_index dmn entry_type payload_hash payload_pointer
       amount_minor_sum producer produced_at =
     bind_sum (check_sum (dmn \<in> set CHAIN_DOMAINS) (HashChainError ''chain_domain'')) (\<lambda>_.
     bind_sum (check_sum (payload_pointer \<noteq> []) (HashChainError ''payload_pointer is mandatory'')) (\<lambda>_.
     bind_sum (check_sum (py_len prev_hash = 64) (HashChainError ''prev_hash must be a 64-char hex digest'')) (\<lambda>_.
     bind_sum (check_sum (0 \<le> chain_index) (HashChainError ''chain_index must be >= 0'')) (\<lambda>_.
     bind_sum (check_sum (0 \<le> amount_minor_sum) (HashChainError ''amount_minor_sum'')) (\<lambda>_.
     bind_sum (check_sum (ends_with produced_at ''Z'') (HashChainError ''produced_at'')) (\<lambda>_.
     Inr (h (chain_preimage prev_hash chain_index dmn entry_type payload_hash payload_pointer
       amount_minor_sum producer produced_at))))))))"

subsection \<open>Hashed payloads\<close>

definition LEDGER_POINTER_PREFIX :: string where
  "LEDGER_POINTER_PREFIX = ''s3://bd-pay-ledger''"

definition AUDIT_POINTER_PREFIX :: string where
  "AUDIT_POINTER_PREFIX = ''s3://bd-pay-audit''"

definition POINTER_SUFFIX :: string where
  "POINTER_SUFFIX = ''.json.enc''"

definition posting_payload :: "posting_row \<Rightarrow> pyobj" where
  "posting_payload p = str_dict [(''posting_id'', PStr (po_posting_id p)),
     (''account_id'', PStr (po_account_id p)), (''side'', PStr (po_side p)),
     (''amount_minor'', PInt (po_amount_minor p)), (''currency'', PStr (po_currency p))]"

definition journal_entry_payload :: "journal_entry_row \<Rightarrow> posting_row list \<Rightarrow> pyobj" where
  "journal_entry_payload entry postings = str_dict [
     (''entry_id'', PStr (je_entry_id entry)),
     (''reference_id'', PStr (je_reference_id entry)),
     (''reference_type'', PStr (je_reference_type entry)),
     (''entry_type'', PStr (je_entry_type entry)),
     (''description'', PStr (je_description entry)),
     (''produced_by'', PStr (je_produced_by entry)),
     (''produced_at'', PStr (to_canonical_ts (je_produced_at entry))),
     (''idempotency_key'', PStr (je_idempotency_key entry)),
     (''schema_version'', PInt (je_schema_version entry)),
     (''postings'', PList (map posting_payload (sort_key po_posting_id postings)))]"

definition journal_entry_payload_hash ::
    "(string \<Rightarrow> string) \<Rightarrow> journal_entry_row \<Rightarrow> posting_row list \<Rightarrow> ledger_error + string" where
  "journal_entry_payload_hash h entry postings =
     ledger_canonical (sha256_canonical h (journal_entry_payload entry postings))"

text \<open>The slices \<open>ts[0:4]\<close>, \<open>ts[5:7]\<close> and \<open>ts[8:10]\<close> of the timestamp name the folder.\<close>

definition pointer_for :: "string \<Rightarrow> string \<Rightarrow> instant \<Rightarrow> string" where
  "pointer_for pfx entity_id at =
     (let ts = to_canonical_ts at;
          yyyy = take 4 ts; mm = take 2 (drop 5 ts); dd = take 2 (drop 8 ts)
      in pfx @ ''/'' @ yyyy @ ''/'' @ mm @ ''/'' @ dd @ ''/'' @ entity_id @ POINTER_SUFFIX)"

definition payload_pointer_for :: "string \<Rightarrow> instant \<Rightarrow> string" where
  "payload_pointer_for entry_id produced_at = pointer_for LEDGER_POINTER_PREFIX entry_id produced_at"

definition audit_payload_pointer_for :: "string \<Rightarrow> instant \<Rightarrow> string" where
  "audit_payload_pointer_for event_id occurred_at = pointer_for AUDIT_POINTER_PREFIX event_id occurred_at"

definition basename :: "string \<Rightarrow> string" where
  "basename s = rev (takeWhile (\<lambda>c. c \<noteq> CHR ''/'') (rev s))"

definition entry_id_from_pointer :: "string \<Rightarrow> string option" where
  "entry_id_from_pointer pointer =
     (if \<not> prefix (LEDGER_POINTER_PREFIX @ ''/'') pointer \<or> \<not> ends_with pointer POINTER_SUFFIX then None
      else let b = basename pointer;
               entry_id = take (length b - length POINTER_SUFFIX) b
           in if entry_id = [] then None else Some entry_id)"

definition audit_event_payload :: "audit_event_row \<Rightarrow> pyobj" where
  "audit_event_payload row = str_dict [
     (''event_id'', PStr (ae_event_id row)), (''event_type'', PStr (ae_event_type row)),
     (''actor_id'', PStr (ae_actor_id row)), (''actor_type'', PStr (ae_actor_type row)),
     (''subject_type'', PStr (ae_subject_type row)), (''subject_id'', PStr (ae_subject_id row)),
     (''from_state'', opt_str (ae_from_state row)), (''to_state'', opt_str (ae_to_state row)),
     (''payload_hash'', PStr (ae_payload_hash row)),
     (''occurred_at'', PStr (to_canonical_ts (ae_occurred_at row))),
     (''schema_version'', PInt (ae_schema_version row))]"

subsection \<open>Validation and redaction\<close>

definition now_of :: "py_datetime \<Rightarrow> ledger_error + instant" where
  "now_of dt = (case dt of Naive \<Rightarrow> Inl (LedgerValidationError ''clock returned a naive datetime'')
     | Aware t \<Rightarrow> Inr t)"

definition require_amount_minor :: "int \<Rightarrow> ledger_error + int" where
  "require_amount_minor v =
     (if v \<le> 0 then Inl (LedgerAmountError ''amount_minor must be > 0'') else Inr v)"

fun validate_postings :: "posting_spec list \<Rightarrow> int \<Rightarrow> int \<Rightarrow> ledger_error + int \<times> int" where
  "validate_postings [] debit credit = Inr (debit, credit)"
| "validate_postings (p # ps) debit credit =
     bind_sum (check_sum (ps_side p \<in> set SIDES) (LedgerValidationError ''posting side must be DEBIT|CREDIT'')) (\<lambda>_.
     bind_sum (check_sum (ps_account_id p \<noteq> []) (LedgerValidationError ''posting account_id is required'')) (\<lambda>_.
     bind_sum (check_sum (ps_currency p = ''BDT'') (LedgerValidationError ''posting currency must be BDT'')) (\<lambda>_.
     bind_sum (require_amount_minor (ps_amount_minor p)) (\<lambda>amount.
     if ps_side p = ''DEBIT'' then validate_postings ps (debit + amount) credit
     else validate_postings ps debit (credit + amount)))))"

definition validate_entry_spec :: "journal_entry_spec \<Rightarrow> ledger_error + unit" where
  "validate_entry_spec spec =
     bind_sum (check_sum (js_reference_id spec \<noteq> []) (LedgerValidationError ''reference_id is required'')) (\<lambda>_.
     bind_sum (check_sum (js_reference_type spec \<in> set REFERENCE_TYPES) (LedgerValidationError ''unknown reference_type'')) (\<lambda>_.
     bind_sum (check_sum (js_entry_type spec \<in> set ENTRY_TYPES) (LedgerValidationError ''unknown entry_type'')) (\<lambda>_.
     bind_sum (check_sum (js_description spec \<noteq> []) (LedgerValidationError ''description is required'')) (\<lambda>_.
     bind_sum (check_sum (js_produced_by spec \<noteq> []) (LedgerValidationError ''produced_by is required'')) (\<lambda>_.
     bind_sum (check_sum (js_idempotency_key spec \<noteq> []) (LedgerValidationError ''idempotency_key is required'')) (\<lambda>_.
     bind_sum (check_sum (2 \<le> length (js_postings spec)) (LedgerValidationError ''at least 2 postings'')) (\<lambda>_.
     bind_sum (validate_postings (js_postings spec) 0 0) (\<lambda>(debit, credit).
     check_sum (debit = credit) (LedgerImbalanceError debit credit)))))))))"

definition is_opaque_identifier_key :: "string \<Rightarrow> bool" where
  "is_opaque_identifier_key key \<longleftrightarrow>
     key = ''idempotency_key'' \<or> ends_with key ''_id'' \<or> ends_with key ''_ref''"

text \<open>A string under a key that is no string raises at \<open>key.endswith\<close> (\<open>KOther\<close> stands for such a
  key other than \<open>None\<close>).\<close>

definition key_opaque :: "pykey option \<Rightarrow> ledger_error + bool" where
  "key_opaque k = (case k of None \<Rightarrow> Inr False
     | Some (KStr s) \<Rightarrow> Inr (is_opaque_identifier_key s)
     | Some (KStrEnum s) \<Rightarrow> Inr (is_opaque_identifier_key s)
     | Some KPlainEnum \<Rightarrow> Inl LedgerAttributeError | Some KOther \<Rightarrow> Inl LedgerAttributeError)"

fun redact_payload :: "(string \<Rightarrow> string) \<Rightarrow> pykey option \<Rightarrow> pyobj \<Rightarrow> ledger_error + pyobj" where
  "redact_payload r k (PStr s) =
     bind_sum (key_opaque k) (\<lambda>b. Inr (if b then PStr s else PStr (r s)))"
| "redact_payload r k (PStrEnum s) =
     bind_sum (key_opaque k) (\<lambda>b. Inr (if b then PStrEnum s else PStr (r s)))"
| "redact_payload r k (PDict kvs) =
     bind_sum (map_sum_list (\<lambda>x. x)
       (map (\<lambda>(key, item). bind_sum (redact_payload r (Some key) item) (\<lambda>v. Inr (key, v))) kvs))
       (\<lambda>kvs'. Inr (PDict kvs'))"
| "redact_payload r k (PList xs) =
     bind_sum (map_sum_list (\<lambda>x. x) (map (\<lambda>item. redact_payload r None item) xs))
       (\<lambda>xs'. Inr (PList xs'))"
| "redact_payload r k v = Inr v"

subsection \<open>Chain mechanics\<close>

definition insert_genesis :: "ledger_env \<Rightarrow> string \<Rightarrow> instant \<Rightarrow> chain_entry_row tx_op" where
  "insert_genesis env dmn produced_at =
     bind_pm (lift_sum (compute_entry_hash (le_h env) GENESIS_PREV_HASH 0 dmn GENESIS_ENTRY_TYPE
       (GENESIS_PAYLOAD_HASH (le_h env)) (''genesis://bdpay/'' @ dmn) 0 (le_producer env)
       (to_canonical_ts produced_at))) (\<lambda>chain_hash.
     let row = \<lparr>ce_chain_domain = dmn, ce_chain_index = 0, ce_entry_type = GENESIS_ENTRY_TYPE,
       ce_payload_hash = GENESIS_PAYLOAD_HASH (le_h env),
       ce_payload_pointer = ''genesis://bdpay/'' @ dmn, ce_prev_chain_hash = GENESIS_PREV_HASH,
       ce_amount_minor_sum = 0, ce_chain_hash = chain_hash, ce_is_checkpoint = False,
       ce_checkpoint_sequence_in_domain = None, ce_checkpoint_sig = None,
       ce_checkpoint_public_key_b64 = None, ce_producer = le_producer env,
       ce_produced_at = produced_at, ce_schema_version = 1\<rparr> in
     bind_pm (insert_chain_entry row) (\<lambda>_. ret row))"

definition checkpoint_payload :: "string \<Rightarrow> int \<Rightarrow> string \<Rightarrow> (string \<times> pyobj) list" where
  "checkpoint_payload dmn sq chain_hash = [(''chain_domain'', PStr dmn),
     (''checkpoint_sequence_in_domain'', PInt sq), (''chain_hash'', PStr chain_hash)]"

text \<open>The entry that follows a given row: its hash, and the checkpoint when its index is due.\<close>

definition linked_row ::
    "ledger_env \<Rightarrow> string \<Rightarrow> string \<Rightarrow> string \<Rightarrow> string \<Rightarrow> int \<Rightarrow> instant \<Rightarrow> int \<Rightarrow> string \<Rightarrow> string
      \<Rightarrow> chain_entry_row" where
  "linked_row env dmn entry_type payload_hash payload_pointer amount_minor_sum produced_at
       next_index prev_hash chain_hash =
     (let is_checkpoint = (next_index mod le_interval env = 0) in
      \<lparr>ce_chain_domain = dmn, ce_chain_index = next_index,
       ce_entry_type = entry_type, ce_payload_hash = payload_hash,
       ce_payload_pointer = payload_pointer, ce_prev_chain_hash = prev_hash,
       ce_amount_minor_sum = amount_minor_sum, ce_chain_hash = chain_hash,
       ce_is_checkpoint = is_checkpoint,
       ce_checkpoint_sequence_in_domain =
         (if is_checkpoint then Some (next_index div le_interval env) else None),
       ce_checkpoint_sig = (if is_checkpoint then Some (fst (le_sign env chain_hash)) else None),
       ce_checkpoint_public_key_b64 =
         (if is_checkpoint then Some (snd (le_sign env chain_hash)) else None),
       ce_producer = le_producer env, ce_produced_at = produced_at, ce_schema_version = 1\<rparr>)"

definition linked_checkpoint ::
    "ledger_env \<Rightarrow> string \<Rightarrow> string \<Rightarrow> int \<Rightarrow> string \<Rightarrow> instant \<Rightarrow> checkpoint_row" where
  "linked_checkpoint env checkpoint_id dmn next_index chain_hash produced_at =
     \<lparr>cp_checkpoint_id = checkpoint_id, cp_chain_domain = dmn,
      cp_checkpoint_sequence_in_domain = next_index div le_interval env,
      cp_chain_index_from = next_index - le_interval env + 1, cp_chain_index_to = next_index,
      cp_chain_hash_at_checkpoint = chain_hash, cp_checkpoint_sig = fst (le_sign env chain_hash),
      cp_checkpoint_public_key_b64 = snd (le_sign env chain_hash),
      cp_entries_in_segment = le_interval env, cp_signed_at = produced_at, cp_schema_version = 1\<rparr>"

definition append_linked_entry ::
    "ledger_env \<Rightarrow> string \<Rightarrow> string \<Rightarrow> string \<Rightarrow> string \<Rightarrow> int \<Rightarrow> instant \<Rightarrow> int \<Rightarrow> string
      \<Rightarrow> (int \<times> string \<times> string) tx_op" where
  "append_linked_entry env dmn entry_type payload_hash payload_pointer amount_minor_sum produced_at
       prev_index prev_hash =
    (let next_index = prev_index + 1 in
     bind_pm (lift_sum (compute_entry_hash (le_h env) prev_hash next_index dmn entry_type payload_hash
       payload_pointer amount_minor_sum (le_producer env) (to_canonical_ts produced_at))) (\<lambda>chain_hash.
     bind_pm (insert_chain_entry (linked_row env dmn entry_type payload_hash payload_pointer
       amount_minor_sum produced_at next_index prev_hash chain_hash)) (\<lambda>_.
     bind_pm (if next_index mod le_interval env = 0 then
         bind_pm (lift_sum (ledger_id (make_ledger_id (le_h env) ''lckp''
           (checkpoint_payload dmn (next_index div le_interval env) chain_hash)))) (\<lambda>checkpoint_id.
         insert_checkpoint (linked_checkpoint env checkpoint_id dmn next_index chain_hash produced_at))
       else ret ()) (\<lambda>_.
     ret (next_index, chain_hash, prev_hash)))))"

definition append_chain_entry ::
    "ledger_env \<Rightarrow> string \<Rightarrow> string \<Rightarrow> string \<Rightarrow> string \<Rightarrow> int \<Rightarrow> instant \<Rightarrow> (int \<times> string \<times> string) tx_op" where
  "append_chain_entry env dmn entry_type payload_hash payload_pointer amount_minor_sum produced_at =
     bind_pm (bind_pm (get_pm (\<lambda>tx. lock_chain_tip tx dmn)) lift_sum) (\<lambda>tip.
     bind_pm (case tip of
         None \<Rightarrow> bind_pm (insert_genesis env dmn produced_at) (\<lambda>g. ret (ce_chain_index g, ce_chain_hash g))
       | Some t \<Rightarrow> ret (ct_chain_index t, ct_chain_hash t)) (\<lambda>(prev_index, prev_hash).
     append_linked_entry env dmn entry_type payload_hash payload_pointer amount_minor_sum produced_at
       prev_index prev_hash))"

definition initialize_chain :: "ledger_env \<Rightarrow> string \<Rightarrow> py_datetime \<Rightarrow> unit store_op" where
  "initialize_chain env dmn now =
     bind_pm (lift_sum (now_of now)) (\<lambda>produced_at.
     transaction (
       bind_pm (bind_pm (get_pm (\<lambda>tx. lock_chain_tip tx dmn)) lift_sum) (\<lambda>tip.
       if tip = None then bind_pm (insert_genesis env dmn produced_at) (\<lambda>_. ret ()) else ret ())))"

subsection \<open>Accounts\<close>

definition create_account :: "ledger_env \<Rightarrow> account_spec \<Rightarrow> py_datetime \<Rightarrow> string store_op" where
  "create_account env spec now =
     bind_pm (require_that (sp_account_type spec \<in> set ACCOUNT_TYPES) (LedgerValidationError ''unknown account_type'')) (\<lambda>_.
     bind_pm (require_that (sp_account_subtype spec \<in> set ACCOUNT_SUBTYPES) (LedgerValidationError ''unknown account_subtype'')) (\<lambda>_.
     bind_pm (require_that (case sp_owner_type spec of None \<Rightarrow> True | Some t \<Rightarrow> t \<in> set OWNER_TYPES)
       (LedgerValidationError ''unknown owner_type'')) (\<lambda>_.
     bind_pm (require_that (sp_currency spec = ''BDT'') (LedgerValidationError ''currency must be BDT'')) (\<lambda>_.
     bind_pm (lift_sum (ledger_id (account_id (le_h env) (sp_account_subtype spec) (sp_purpose_tag spec)
       (sp_owner_id spec) (sp_currency spec)))) (\<lambda>i.
     bind_pm (lift_sum (now_of now)) (\<lambda>created_at.
     bind_pm (transaction (
       bind_pm (get_pm id) (\<lambda>tx.
       bind_pm (require_that (tx_get_account tx i = None) (LedgerValidationError ''account already exists'')) (\<lambda>_.
       bind_pm (require_that (case sp_parent_id spec of None \<Rightarrow> True | Some q \<Rightarrow> tx_get_account tx q \<noteq> None)
         (LedgerAccountNotFoundError ''parent account not found'')) (\<lambda>_.
       insert_account \<lparr>ac_account_id = i, ac_account_type = sp_account_type spec,
         ac_account_subtype = sp_account_subtype spec, ac_currency = sp_currency spec,
         ac_owner_id = sp_owner_id spec, ac_owner_type = sp_owner_type spec,
         ac_parent_id = sp_parent_id spec, ac_purpose_tag = sp_purpose_tag spec,
         ac_is_system = sp_is_system spec, ac_created_at = created_at, ac_closed_at = None,
         ac_schema_version = 1\<rparr>))))) (\<lambda>_.
     ret i)))))))"

subsection \<open>The atomic bundle\<close>

definition entry_id_payload :: "journal_entry_spec \<Rightarrow> (string \<times> pyobj) list" where
  "entry_id_payload spec = [(''reference_id'', PStr (js_reference_id spec)),
     (''entry_type'', PStr (js_entry_type spec)), (''idempotency_key'', PStr (js_idempotency_key spec))]"

definition posting_id_payload :: "string \<Rightarrow> posting_spec \<Rightarrow> int \<Rightarrow> (string \<times> pyobj) list" where
  "posting_id_payload entry_id p ordinal = [(''entry_id'', PStr entry_id),
     (''account_id'', PStr (ps_account_id p)), (''side'', PStr (ps_side p)),
     (''amount_minor'', PInt (ps_amount_minor p)), (''ordinal'', PInt ordinal)]"

definition account_usable :: "mem_tx \<Rightarrow> string \<Rightarrow> bool" where
  "account_usable tx i \<longleftrightarrow> (case tx_get_account tx i of None \<Rightarrow> False | Some a \<Rightarrow> ac_closed_at a = None)"

fun append_postings ::
    "(string \<Rightarrow> string) \<Rightarrow> string \<Rightarrow> instant \<Rightarrow> int \<Rightarrow> posting_spec list \<Rightarrow> posting_row list tx_op" where
  "append_postings h entry_id produced_at ordinal [] = ret []"
| "append_postings h entry_id produced_at ordinal (p # ps) =
     bind_pm (lift_sum (ledger_id (make_id h ''post'' (posting_id_payload entry_id p ordinal)))) (\<lambda>posting_id.
     let row = \<lparr>po_posting_id = posting_id, po_entry_id = entry_id, po_account_id = ps_account_id p,
       po_side = ps_side p, po_amount_minor = ps_amount_minor p, po_currency = ps_currency p,
       po_produced_at = produced_at, po_schema_version = 1\<rparr> in
     bind_pm (insert_posting row) (\<lambda>_.
     bind_pm (append_postings h entry_id produced_at (ordinal + 1) ps) (\<lambda>rows.
     ret (row # rows))))"

definition posted_envelope ::
    "ledger_env \<Rightarrow> string \<Rightarrow> string \<Rightarrow> journal_entry_spec \<Rightarrow> int \<Rightarrow> instant \<Rightarrow> pyobj" where
  "posted_envelope env event_id entry_id spec amount_minor_sum produced_at = str_dict [
     (''event_id'', PStr event_id), (''type'', PStr ''journal_entry.posted''),
     (''occurred_at'', PStr (to_canonical_ts produced_at)),
     (''subject_type'', PStr ''JournalEntry''), (''subject_id'', PStr entry_id),
     (''schema_version'', PInt 1), (''producer'', PStr (le_producer env)),
     (''payload'', str_dict [(''entry_id'', PStr entry_id), (''entry_type'', PStr (js_entry_type spec)),
       (''reference_id'', PStr (js_reference_id spec)),
       (''reference_type'', PStr (js_reference_type spec)),
       (''amount_minor_sum'', PInt amount_minor_sum)])]"

definition append_journal_entry ::
    "ledger_env \<Rightarrow> journal_entry_spec \<Rightarrow> instant \<Rightarrow> string tx_op" where
  "append_journal_entry env spec produced_at =
     bind_pm (lift_sum (validate_entry_spec spec)) (\<lambda>_.
     bind_pm (lift_sum (ledger_id (make_id (le_h env) ''je'' (entry_id_payload spec)))) (\<lambda>entry_id.
     bind_pm (get_pm id) (\<lambda>tx.
     bind_pm (require_that (\<not> wg_engaged (tx_write_gate_state tx))
       (LedgerWriteGateEngagedError (wg_reason (tx_write_gate_state tx)))) (\<lambda>_.
     bind_pm (case find_entry_id_by_idempotency_key tx (js_idempotency_key spec) of
         None \<Rightarrow> ret ()
       | Some existing \<Rightarrow> raise_err (LedgerDuplicateError (js_idempotency_key spec) existing)) (\<lambda>_.
     bind_pm (require_that (\<forall>i \<in> set (map ps_account_id (js_postings spec)). account_usable tx i)
       (LedgerAccountNotFoundError ''posting account is absent or closed'')) (\<lambda>_.
     let new_row = \<lparr>je_entry_id = entry_id, je_entry_index = 0, je_reference_id = js_reference_id spec,
       je_reference_type = js_reference_type spec, je_entry_type = js_entry_type spec,
       je_description = js_description spec, je_produced_by = js_produced_by spec,
       je_produced_at = produced_at, je_idempotency_key = js_idempotency_key spec,
       je_schema_version = 1\<rparr> in
     bind_pm (insert_journal_entry new_row) (\<lambda>entry_index.
     let entry_row = new_row\<lparr>je_entry_index := entry_index\<rparr> in
     bind_pm (append_postings (le_h env) entry_id produced_at 0 (js_postings spec)) (\<lambda>posting_rows.
     bind_pm (lift_sum (journal_entry_payload_hash (le_h env) entry_row posting_rows)) (\<lambda>payload_hash.
     let amount_minor_sum = (\<Sum>p\<leftarrow>posting_rows. po_amount_minor p) in
     bind_pm (append_chain_entry env MONEY_DOMAIN (js_entry_type spec) payload_hash
       (payload_pointer_for entry_id produced_at) amount_minor_sum produced_at) (\<lambda>_.
     bind_pm (lift_sum (ledger_id (make_id (le_h env) ''obx''
       [(''type'', PStr ''journal_entry.posted''), (''subject_id'', PStr entry_id)]))) (\<lambda>event_id.
     bind_pm (lift_sum (ledger_canonical (canonical_json
       (posted_envelope env event_id entry_id spec amount_minor_sum produced_at)))) (\<lambda>payload_json.
     bind_pm (insert_outbox \<lparr>ob_event_id = event_id, ob_topic = ''payment.events'',
       ob_event_type = ''journal_entry.posted'', ob_subject_type = ''JournalEntry'',
       ob_subject_id = entry_id, ob_payload_json = payload_json, ob_producer = le_producer env,
       ob_occurred_at = produced_at, ob_published = False, ob_schema_version = 1\<rparr>) (\<lambda>_.
     ret entry_id)))))))))))))"

definition post_journal_entry :: "ledger_env \<Rightarrow> journal_entry_spec \<Rightarrow> py_datetime \<Rightarrow> string store_op" where
  "post_journal_entry env spec now =
     bind_pm (lift_sum (validate_entry_spec spec)) (\<lambda>_.
     bind_pm (lift_sum (now_of now)) (\<lambda>produced_at.
     transaction (append_journal_entry env spec produced_at)))"

subsection \<open>Holds\<close>

definition bdt_posting :: "string \<Rightarrow> string \<Rightarrow> int \<Rightarrow> posting_spec" where
  "bdt_posting i side amount =
     \<lparr>ps_account_id = i, ps_side = side, ps_amount_minor = amount, ps_currency = ''BDT''\<rparr>"

definition hold_opened_spec ::
    "ledger_env \<Rightarrow> string \<Rightarrow> string \<Rightarrow> string \<Rightarrow> string \<Rightarrow> string \<Rightarrow> int \<Rightarrow> journal_entry_spec" where
  "hold_opened_spec env idem_key reference_id hold_reason source_id reserve_id amount =
     \<lparr>js_reference_id = reference_id, js_reference_type = ''HOLD'', js_entry_type = ''hold_opened'',
      js_description = ''hold opened: '' @ hold_reason, js_produced_by = le_producer env,
      js_idempotency_key = idem_key,
      js_postings = [bdt_posting source_id ''DEBIT'' amount, bdt_posting reserve_id ''CREDIT'' amount]\<rparr>"

definition truthy_or :: "string option \<Rightarrow> string \<Rightarrow> string" where
  "truthy_or a b = (case a of None \<Rightarrow> b | Some s \<Rightarrow> if s = [] then b else s)"

definition open_hold ::
    "ledger_env \<Rightarrow> string \<Rightarrow> int \<Rightarrow> string \<Rightarrow> string \<Rightarrow> string option \<Rightarrow> string option \<Rightarrow> instant option
      \<Rightarrow> py_datetime \<Rightarrow> string store_op" where
  "open_hold env i amount_minor hold_reason reference_id source_account_id hold_reserve_account_id
       hold_expires_at now =
     bind_pm (lift_sum (require_amount_minor amount_minor)) (\<lambda>amount.
     bind_pm (require_that (i \<noteq> [] \<and> reference_id \<noteq> [] \<and> hold_reason \<noteq> [])
       (LedgerValidationError ''account_id, reference_id and hold_reason are required'')) (\<lambda>_.
     let source_id = truthy_or source_account_id i;
         reserve_id = truthy_or hold_reserve_account_id i in
     bind_pm (lift_sum (now_of now)) (\<lambda>opened_at.
     let expires_at = (case hold_expires_at of None \<Rightarrow> opened_at + DEFAULT_HOLD_TTL | Some t \<Rightarrow> t) in
     bind_pm (lift_sum (ledger_id (make_ledger_id (le_h env) ''hold'' [(''account_id'', PStr i),
       (''reference_id'', PStr reference_id), (''amount_minor'', PInt amount),
       (''hold_opened_at'', PStr (to_canonical_ts opened_at))]))) (\<lambda>hold_id.
     transaction (
       bind_pm (get_pm id) (\<lambda>tx.
       case tx_get_open_account_hold_by_reference tx reference_id of
         Some existing \<Rightarrow> ret (ho_hold_id existing)
       | None \<Rightarrow>
         bind_pm (for_each (\<lambda>c. require_that (account_usable tx c)
           (LedgerAccountNotFoundError c)) [i, source_id, reserve_id]) (\<lambda>_.
         bind_pm (lift_sum (ledger_id (make_id (le_h env) ''je'' [(''hold_id'', PStr hold_id),
           (''reference_id'', PStr reference_id), (''entry_type'', PStr ''hold_opened'')]))) (\<lambda>idem_key.
         bind_pm (append_journal_entry env
           (hold_opened_spec env idem_key reference_id hold_reason source_id reserve_id amount)
           opened_at) (\<lambda>open_je_id.
         bind_pm (insert_account_hold \<lparr>ho_hold_id = hold_id, ho_account_id = i,
           ho_hold_reserve_account_id = reserve_id, ho_source_account_id = source_id,
           ho_reference_id = reference_id, ho_amount_minor = amount, ho_hold_reason = hold_reason,
           ho_status = ''OPEN'', ho_hold_opened_at = opened_at, ho_hold_expires_at = expires_at,
           ho_hold_closed_at = None, ho_open_je_id = open_je_id, ho_close_je_id = None,
           ho_schema_version = 1\<rparr>) (\<lambda>_.
         ret hold_id))))))))))"

definition release_entry_type :: "string \<Rightarrow> string" where
  "release_entry_type outcome = (if outcome = ''CAPTURED'' then ''hold_captured''
     else if outcome = ''VOIDED'' then ''hold_voided'' else ''hold_expired'')"

definition release_postings :: "account_hold_row \<Rightarrow> string \<Rightarrow> int \<Rightarrow> posting_spec list" where
  "release_postings hold outcome capture_amount =
     (if outcome = ''CAPTURED'' then
        [bdt_posting (ho_hold_reserve_account_id hold) ''DEBIT'' (ho_amount_minor hold),
         bdt_posting (ho_account_id hold) ''CREDIT'' capture_amount] @
        (if 0 < ho_amount_minor hold - capture_amount
         then [bdt_posting (ho_source_account_id hold) ''CREDIT'' (ho_amount_minor hold - capture_amount)]
         else [])
      else
        [bdt_posting (ho_hold_reserve_account_id hold) ''DEBIT'' (ho_amount_minor hold),
         bdt_posting (ho_source_account_id hold) ''CREDIT'' (ho_amount_minor hold)])"

definition release_spec ::
    "ledger_env \<Rightarrow> string \<Rightarrow> account_hold_row \<Rightarrow> string \<Rightarrow> int \<Rightarrow> journal_entry_spec" where
  "release_spec env idem_key hold outcome capture_amount =
     \<lparr>js_reference_id = ho_reference_id hold, js_reference_type = ''HOLD'',
      js_entry_type = release_entry_type outcome, js_description = ''hold '' @ ascii_lower outcome,
      js_produced_by = le_producer env, js_idempotency_key = idem_key,
      js_postings = release_postings hold outcome capture_amount\<rparr>"

definition release_hold ::
    "ledger_env \<Rightarrow> string \<Rightarrow> string \<Rightarrow> int option \<Rightarrow> py_datetime \<Rightarrow> unit store_op" where
  "release_hold env hold_id outcome amount_minor now =
     bind_pm (require_that (outcome \<in> {''CAPTURED'', ''VOIDED'', ''EXPIRED''})
       (LedgerValidationError ''hold outcome must be one of CAPTURED, VOIDED or EXPIRED'')) (\<lambda>_.
     bind_pm (lift_sum (now_of now)) (\<lambda>closed_at.
     transaction (
       bind_pm (get_pm (\<lambda>tx. tx_get_account_hold tx hold_id)) (\<lambda>found.
       case found of
         None \<Rightarrow> raise_err (LedgerValidationError ''unknown hold'')
       | Some hold \<Rightarrow>
         if ho_status hold \<noteq> ''OPEN'' then
           (if ho_status hold = outcome then ret ()
            else raise_err (LedgerValidationError ''hold cannot be released''))
         else
           bind_pm (lift_sum (case amount_minor of None \<Rightarrow> Inr (ho_amount_minor hold)
             | Some a \<Rightarrow> require_amount_minor a)) (\<lambda>capture_amount.
           bind_pm (require_that (capture_amount \<le> ho_amount_minor hold)
             (LedgerAmountError ''hold release amount must be <= the open hold amount'')) (\<lambda>_.
           bind_pm (require_that (outcome = ''CAPTURED'' \<or> amount_minor = None \<or>
               capture_amount = ho_amount_minor hold)
             (LedgerAmountError ''void/expiry must release the full hold amount'')) (\<lambda>_.
           bind_pm (lift_sum (ledger_id (make_id (le_h env) ''je'' [(''hold_id'', PStr (ho_hold_id hold)),
             (''entry_type'', PStr (release_entry_type outcome)),
             (''amount_minor'', PInt capture_amount)]))) (\<lambda>idem_key.
           bind_pm (append_journal_entry env (release_spec env idem_key hold outcome capture_amount)
             closed_at) (\<lambda>close_je_id.
           update_account_hold (hold\<lparr>ho_status := outcome, ho_hold_closed_at := Some closed_at,
             ho_close_je_id := Some close_je_id\<rparr>))))))))))"

definition get_open_hold_id :: "bool \<Rightarrow> string \<Rightarrow> string option store_op" where
  "get_open_hold_id conn reference_id =
     bind_pm (if conn
       then transaction (get_pm (\<lambda>tx. tx_get_open_account_hold_by_reference tx reference_id))
       else get_pm (\<lambda>st. get_open_account_hold_by_reference st reference_id)) (\<lambda>hold.
     ret (map_option ho_hold_id hold))"

subsection \<open>Audit events\<close>

definition str_or_empty :: "string option \<Rightarrow> string" where
  "str_or_empty s = (case s of None \<Rightarrow> [] | Some t \<Rightarrow> t)"

definition assert_audit_event_identity ::
    "audit_event_row \<Rightarrow> audit_event_spec \<Rightarrow> string \<Rightarrow> instant \<Rightarrow> ledger_error + unit" where
  "assert_audit_event_identity existing spec actor_id occurred_at =
     bind_sum (check_sum (ae_event_type existing = as_event_type spec) (LedgerValidationError ''different event_type'')) (\<lambda>_.
     bind_sum (check_sum (ae_actor_id existing = actor_id) (LedgerValidationError ''different actor_id'')) (\<lambda>_.
     bind_sum (check_sum (ae_actor_type existing = as_actor_type spec) (LedgerValidationError ''different actor_type'')) (\<lambda>_.
     bind_sum (check_sum (ae_subject_type existing = as_subject_type spec) (LedgerValidationError ''different subject_type'')) (\<lambda>_.
     bind_sum (check_sum (ae_subject_id existing = as_subject_id spec) (LedgerValidationError ''different subject_id'')) (\<lambda>_.
     bind_sum (check_sum (str_or_empty (ae_from_state existing) = str_or_empty (as_from_state spec))
       (LedgerValidationError ''different from_state'')) (\<lambda>_.
     bind_sum (check_sum (str_or_empty (ae_to_state existing) = str_or_empty (as_to_state spec))
       (LedgerValidationError ''different to_state'')) (\<lambda>_.
     check_sum (to_canonical_ts (ae_occurred_at existing) = to_canonical_ts occurred_at)
       (LedgerValidationError ''different occurred_at''))))))))"

definition audit_id_payload :: "audit_event_spec \<Rightarrow> string \<Rightarrow> instant \<Rightarrow> (string \<times> pyobj) list" where
  "audit_id_payload spec actor_id occurred_at = [(''actor_id'', PStr actor_id),
     (''subject_type'', PStr (as_subject_type spec)), (''subject_id'', PStr (as_subject_id spec)),
     (''event_type'', PStr (as_event_type spec)),
     (''from_state'', PStr (str_or_empty (as_from_state spec))),
     (''to_state'', PStr (str_or_empty (as_to_state spec))),
     (''occurred_at'', PStr (to_canonical_ts occurred_at))]"

text \<open>\<open>occurred_at or self._now()\<close>; a supplied naive value is refused later, by \<open>to_canonical_ts\<close>.\<close>

definition occurred_or_now :: "py_datetime option \<Rightarrow> py_datetime \<Rightarrow> ledger_error + py_datetime" where
  "occurred_or_now occurred now = (case occurred of
     Some dt \<Rightarrow> Inr dt | None \<Rightarrow> bind_sum (now_of now) (\<lambda>t. Inr (Aware t)))"

definition aware_instant :: "py_datetime \<Rightarrow> ledger_error + instant" where
  "aware_instant dt = (case dt of Naive \<Rightarrow> Inl (HashChainError ''naive datetime rejected'') | Aware t \<Rightarrow> Inr t)"

text \<open>What \<open>write_audit_event\<close> and \<open>audit_event_exists\<close> derive from the event: the instant, the
  redacted actor and payload, the payload hash and the event id.\<close>

definition audit_identity ::
    "ledger_env \<Rightarrow> audit_event_spec \<Rightarrow> py_datetime option \<Rightarrow> py_datetime
      \<Rightarrow> ledger_error + (instant \<times> string \<times> pyobj \<times> string \<times> string)" where
  "audit_identity env spec occurred now =
     bind_sum (occurred_or_now occurred now) (\<lambda>dt.
     let actor_id = le_redact env (as_actor_id spec) in
     bind_sum (redact_payload (le_redact env) None (str_dict (as_payload spec))) (\<lambda>redacted.
     bind_sum (ledger_canonical (sha256_canonical (le_h env) redacted)) (\<lambda>payload_hash.
     bind_sum (aware_instant dt) (\<lambda>at.
     bind_sum (ledger_id (make_id (le_h env) ''aud'' (audit_id_payload spec actor_id at))) (\<lambda>event_id.
     Inr (at, actor_id, redacted, payload_hash, event_id))))))"

definition audit_replay ::
    "audit_event_row option \<Rightarrow> audit_event_spec \<Rightarrow> string \<Rightarrow> instant \<Rightarrow> string \<Rightarrow> string
      \<Rightarrow> ledger_error + string" where
  "audit_replay existing spec actor_id at payload_hash event_id = (case existing of
     None \<Rightarrow> Inl (LedgerValidationError ''audit event already exists with a different payload'')
   | Some row \<Rightarrow>
       bind_sum (assert_audit_event_identity row spec actor_id at) (\<lambda>_.
       bind_sum (check_sum (ae_payload_hash row = payload_hash)
         (LedgerValidationError ''audit event already exists with a different payload'')) (\<lambda>_.
       Inr event_id)))"

definition audit_bundle ::
    "ledger_env \<Rightarrow> audit_event_spec \<Rightarrow> instant \<Rightarrow> string \<Rightarrow> pyobj \<Rightarrow> string \<Rightarrow> string \<Rightarrow> unit tx_op" where
  "audit_bundle env spec at actor_id redacted payload_hash event_id =
     bind_pm (lift_sum (ledger_canonical (canonical_json redacted))) (\<lambda>payload_json.
     let payload_pointer = audit_payload_pointer_for event_id at;
         row = \<lparr>ae_event_id = event_id, ae_entry_index = 0, ae_event_type = as_event_type spec,
           ae_actor_id = actor_id, ae_actor_type = as_actor_type spec,
           ae_subject_type = as_subject_type spec, ae_subject_id = as_subject_id spec,
           ae_from_state = as_from_state spec, ae_to_state = as_to_state spec,
           ae_payload_hash = payload_hash, ae_payload_pointer = payload_pointer,
           ae_payload_json = payload_json, ae_prev_chain_hash = [], ae_chain_hash = [],
           ae_pii_redacted = True, ae_occurred_at = at, ae_schema_version = 1\<rparr> in
     bind_pm (lift_sum (ledger_canonical (sha256_canonical (le_h env) (audit_event_payload row)))) (\<lambda>envelope_hash.
     bind_pm (append_chain_entry env AUDIT_DOMAIN (as_event_type spec) envelope_hash payload_pointer 0 at)
       (\<lambda>(_, chain_hash, prev_hash).
     bind_pm (insert_audit_event (row\<lparr>ae_prev_chain_hash := prev_hash, ae_chain_hash := chain_hash\<rparr>)) (\<lambda>_.
     ret ()))))"

definition write_audit_event ::
    "ledger_env \<Rightarrow> audit_event_spec \<Rightarrow> py_datetime option \<Rightarrow> py_datetime \<Rightarrow> string store_op" where
  "write_audit_event env spec occurred now =
     bind_pm (require_that (as_event_type spec \<in> set AUDIT_EVENT_TYPES) (LedgerValidationError ''unknown audit event_type'')) (\<lambda>_.
     bind_pm (require_that (as_actor_type spec \<in> set ACTOR_TYPES) (LedgerValidationError ''unknown actor_type'')) (\<lambda>_.
     bind_pm (require_that (as_actor_id spec \<noteq> []) (LedgerValidationError ''actor_id is required'')) (\<lambda>_.
     bind_pm (require_that (as_subject_type spec \<noteq> []) (LedgerValidationError ''subject_type is required'')) (\<lambda>_.
     bind_pm (require_that (as_subject_id spec \<noteq> []) (LedgerValidationError ''subject_id is required'')) (\<lambda>_.
     bind_pm (lift_sum (audit_identity env spec occurred now))
       (\<lambda>(at, actor_id, redacted, payload_hash, event_id).
     \<lambda>st. case dget (s_audit st) event_id of
         Some row \<Rightarrow> (audit_replay (Some row) spec actor_id at payload_hash event_id, st)
       | None \<Rightarrow>
         (case transaction (audit_bundle env spec at actor_id redacted payload_hash event_id) st of
            (Inr _, st') \<Rightarrow> (Inr event_id, st')
          | (Inl (LedgerDuplicateEventError _), st') \<Rightarrow>
              (audit_replay (dget (s_audit st') event_id) spec actor_id at payload_hash event_id, st')
          | (Inl e, st') \<Rightarrow> (Inl e, st'))))))))"

definition audit_event_exists ::
    "ledger_env \<Rightarrow> ledger_store \<Rightarrow> audit_event_spec \<Rightarrow> py_datetime option \<Rightarrow> py_datetime \<Rightarrow> ledger_error + bool" where
  "audit_event_exists env st spec occurred now =
     bind_sum (audit_identity env spec occurred now) (\<lambda>(at, actor_id, redacted, payload_hash, event_id).
     Inr (case dget (s_audit st) event_id of None \<Rightarrow> False | Some row \<Rightarrow> ae_payload_hash row = payload_hash))"

subsection \<open>Outbox events\<close>

definition outbox_id ::
    "ledger_env \<Rightarrow> string \<Rightarrow> string \<Rightarrow> string \<Rightarrow> pyobj \<Rightarrow> py_datetime \<Rightarrow> ledger_error + (instant \<times> string)" where
  "outbox_id env event_type subject_type subject_id redacted dt =
     bind_sum (aware_instant dt) (\<lambda>at.
     bind_sum (ledger_canonical (sha256_canonical (le_h env) redacted)) (\<lambda>payload_hash.
     bind_sum (ledger_id (make_id (le_h env) ''obx'' [(''type'', PStr event_type),
       (''subject_type'', PStr subject_type), (''subject_id'', PStr subject_id),
       (''occurred_at'', PStr (to_canonical_ts at)), (''payload_hash'', PStr payload_hash)])) (\<lambda>event_id.
     Inr (at, event_id))))"

definition event_envelope ::
    "string \<Rightarrow> string \<Rightarrow> instant \<Rightarrow> string \<Rightarrow> string \<Rightarrow> string \<Rightarrow> pyobj \<Rightarrow> pyobj" where
  "event_envelope event_id event_type at subject_type subject_id producer redacted = str_dict [
     (''event_id'', PStr event_id), (''type'', PStr event_type),
     (''occurred_at'', PStr (to_canonical_ts at)), (''subject_type'', PStr subject_type),
     (''subject_id'', PStr subject_id), (''schema_version'', PInt 1), (''producer'', PStr producer),
     (''payload'', redacted)]"

definition outbox_replay ::
    "outbox_row option \<Rightarrow> string \<Rightarrow> string \<Rightarrow> string \<Rightarrow> ledger_error + string" where
  "outbox_replay existing envelope_json topic event_id = (case existing of
     None \<Rightarrow> Inl (LedgerValidationError ''outbox event already exists with a different payload'')
   | Some row \<Rightarrow>
       bind_sum (check_sum (ob_payload_json row = envelope_json)
         (LedgerValidationError ''outbox event already exists with a different payload'')) (\<lambda>_.
       bind_sum (check_sum (ob_topic row = topic)
         (LedgerValidationError ''outbox event already exists with a different topic'')) (\<lambda>_.
       Inr event_id)))"

definition emit_event ::
    "ledger_env \<Rightarrow> string \<Rightarrow> string \<Rightarrow> string \<Rightarrow> (string \<times> pyobj) list \<Rightarrow> string \<Rightarrow> string option
      \<Rightarrow> py_datetime option \<Rightarrow> py_datetime \<Rightarrow> string store_op" where
  "emit_event env event_type subject_type subject_id payload topic producer occurred now =
     bind_pm (require_that (topic \<in> set TOPICS) (LedgerValidationError ''unknown topic'')) (\<lambda>_.
     bind_pm (require_that (CHR ''.'' \<in> set event_type) (LedgerValidationError ''event_type'')) (\<lambda>_.
     bind_pm (lift_sum (occurred_or_now occurred now)) (\<lambda>dt.
     let producer = truthy_or producer (le_producer env) in
     bind_pm (lift_sum (redact_payload (le_redact env) None (str_dict payload))) (\<lambda>redacted.
     bind_pm (lift_sum (outbox_id env event_type subject_type subject_id redacted dt)) (\<lambda>(at, event_id).
     bind_pm (lift_sum (ledger_canonical (canonical_json
       (event_envelope event_id event_type at subject_type subject_id producer redacted)))) (\<lambda>envelope_json.
     \<lambda>st. case dget (s_outbox st) event_id of
         Some row \<Rightarrow> (outbox_replay (Some row) envelope_json topic event_id, st)
       | None \<Rightarrow>
         (case transaction (insert_outbox \<lparr>ob_event_id = event_id, ob_topic = topic,
             ob_event_type = event_type, ob_subject_type = subject_type, ob_subject_id = subject_id,
             ob_payload_json = envelope_json, ob_producer = producer, ob_occurred_at = at,
             ob_published = False, ob_schema_version = 1\<rparr>) st of
            (Inr _, st') \<Rightarrow> (Inr event_id, st')
          | (Inl (LedgerDuplicateEventError _), st') \<Rightarrow>
              (outbox_replay (dget (s_outbox st') event_id) envelope_json topic event_id, st')
          | (Inl e, st') \<Rightarrow> (Inl e, st'))))))))"

definition outbox_event_exists ::
    "ledger_env \<Rightarrow> ledger_store \<Rightarrow> string \<Rightarrow> string \<Rightarrow> string \<Rightarrow> (string \<times> pyobj) list \<Rightarrow> py_datetime
      \<Rightarrow> ledger_error + bool" where
  "outbox_event_exists env st event_type subject_type subject_id payload occurred_at =
     bind_sum (redact_payload (le_redact env) None (str_dict payload)) (\<lambda>redacted.
     bind_sum (outbox_id env event_type subject_type subject_id redacted occurred_at) (\<lambda>(_, event_id).
     Inr (dget (s_outbox st) event_id \<noteq> None)))"

subsection \<open>Balances\<close>

definition service_get_balance ::
    "bool \<Rightarrow> string \<Rightarrow> instant option \<Rightarrow> int store_op" where
  "service_get_balance conn i as_of =
     (if conn \<and> as_of = None then
        transaction (
          bind_pm (get_pm (\<lambda>tx. tx_get_account tx i)) (\<lambda>found.
          bind_pm (require_that (found \<noteq> None) (LedgerAccountNotFoundError i)) (\<lambda>_.
          get_pm (\<lambda>tx. tx_get_balance tx i))))
      else
        bind_pm (get_pm (\<lambda>st. dget (s_accounts st) i)) (\<lambda>found.
        bind_pm (require_that (found \<noteq> None) (LedgerAccountNotFoundError i)) (\<lambda>_.
        get_pm (\<lambda>st. case as_of of None \<Rightarrow> get_balance st i | Some t \<Rightarrow> get_balance_as_of st i t))))"

definition trial_balance_assertion :: "py_datetime \<Rightarrow> unit store_op" where
  "trial_balance_assertion now =
     bind_pm (get_pm trial_balance_of) (\<lambda>tb.
     if balanced tb then ret ()
     else
       bind_pm (lift_sum (now_of now)) (\<lambda>at.
       bind_pm (modify_pm (engage_write_gate (''trial balance violated: debit='' @
         str_int (tb_total_debit_minor tb) @ '' credit='' @ str_int (tb_total_credit_minor tb)) at)) (\<lambda>_.
       raise_err (TrialBalanceViolationError (tb_total_debit_minor tb) (tb_total_credit_minor tb)))))"

end
