(* ===== verification/Ledger_Verify.thy ===== *)
theory Ledger_Verify
  imports Ledger_Service
begin

text \<open>
  The chain verifier of \<^verbatim>\<open>ledger/service.py\<close>: \<open>_verify_chain_inner\<close> with its walk over the chain
  rows, the cross-check of the checkpoint table and the count check, \<open>_deep_verify_money_row\<close>, and
  the two callers, of which \<open>verify_chain\<close> engages the write gate on a detected break.
\<close>

definition broken_result :: "int option \<Rightarrow> string \<Rightarrow> int \<Rightarrow> int \<Rightarrow> chain_verification_result" where
  "broken_result index detail checked cps =
     \<lparr>vr_status = VERIFY_FAILED_BROKEN_CHAIN, vr_entries_checked = checked,
      vr_first_broken_index = index, vr_checkpoints_verified = cps, vr_detail = Some detail\<rparr>"

definition bad_sig_result :: "int \<Rightarrow> string \<Rightarrow> int \<Rightarrow> int \<Rightarrow> chain_verification_result" where
  "bad_sig_result index detail checked cps =
     \<lparr>vr_status = VERIFY_FAILED_INVALID_CHECKPOINT_SIG, vr_entries_checked = checked,
      vr_first_broken_index = Some index, vr_checkpoints_verified = cps, vr_detail = Some detail\<rparr>"

definition completed_result :: "int \<Rightarrow> int \<Rightarrow> chain_verification_result" where
  "completed_result checked cps =
     \<lparr>vr_status = VERIFY_COMPLETED, vr_entries_checked = checked, vr_first_broken_index = None,
      vr_checkpoints_verified = cps, vr_detail = None\<rparr>"

definition deep_verify_money_row ::
    "ledger_env \<Rightarrow> ledger_store \<Rightarrow> chain_entry_row \<Rightarrow> ledger_error + string option" where
  "deep_verify_money_row env st row =
     (case entry_id_from_pointer (ce_payload_pointer row) of
        None \<Rightarrow> Inr (Some ''payload_pointer is not a parseable ledger pointer'')
      | Some entry_id \<Rightarrow>
        (case dget (s_journal st) entry_id of
           None \<Rightarrow> Inr (Some (''journal entry '' @ entry_id @
             '' referenced by the chain is missing (row deleted)''))
         | Some entry \<Rightarrow>
           let postings = get_postings_for_entry st entry_id;
               debit = (\<Sum>p\<leftarrow>filter (\<lambda>p. po_side p = ''DEBIT'') postings. po_amount_minor p);
               credit = (\<Sum>p\<leftarrow>filter (\<lambda>p. po_side p = ''CREDIT'') postings. po_amount_minor p)
           in
           if length postings < 2 then
             Inr (Some (''journal entry '' @ entry_id @ '' has '' @ dec_nat (length postings) @
               '' postings (rows deleted)''))
           else if debit \<noteq> credit then
             Inr (Some (''journal entry '' @ entry_id @ '' is imbalanced: debit='' @ str_int debit @
               '' credit='' @ str_int credit))
           else if debit + credit \<noteq> ce_amount_minor_sum row then
             Inr (Some (''amount_minor_sum mismatch for '' @ entry_id @ '': chain says '' @
               str_int (ce_amount_minor_sum row) @ '', postings sum to '' @ str_int (debit + credit) @
               '' (amounts mutated)''))
           else if je_entry_type entry \<noteq> ce_entry_type row then
             Inr (Some (''entry_type mismatch for '' @ entry_id @ '' (journal row mutated)''))
           else if to_canonical_ts (je_produced_at entry) \<noteq> to_canonical_ts (ce_produced_at row) then
             Inr (Some (''produced_at mismatch for '' @ entry_id @ '' (journal row mutated)''))
           else
             bind_sum (journal_entry_payload_hash (le_h env) entry postings) (\<lambda>recomputed.
             Inr (if recomputed \<noteq> ce_payload_hash row then
               Some (''payload_hash mismatch for '' @ entry_id @
                 '': journal/posting content does not match the hash sealed into the chain'')
               else None))))"

text \<open>The checks on a checkpoint row; \<open>None\<close> means it passed.\<close>

definition verify_checkpoint_row ::
    "ledger_env \<Rightarrow> chain_entry_row \<Rightarrow> int \<Rightarrow> int \<Rightarrow> chain_verification_result option" where
  "verify_checkpoint_row env row checked cps =
     (case (ce_checkpoint_sig row, ce_checkpoint_public_key_b64 row) of
        (Some sig, Some pub) \<Rightarrow>
          if pub \<notin> set (le_trusted_keys env) then
            Some (bad_sig_result (ce_chain_index row)
              ''checkpoint signed with an UNTRUSTED public key (forged checkpoint)'' checked cps)
          else if \<not> le_verify env (ce_chain_hash row) sig pub then
            Some (bad_sig_result (ce_chain_index row)
              ''Ed25519 checkpoint signature verification failed'' checked cps)
          else if ce_checkpoint_sequence_in_domain row \<noteq> Some (ce_chain_index row div le_interval env) then
            Some (broken_result (Some (ce_chain_index row))
              ''checkpoint_sequence_in_domain inconsistent with chain_index'' checked cps)
          else None
      | _ \<Rightarrow> Some (bad_sig_result (ce_chain_index row)
          ''checkpoint row is missing signature or public key'' checked cps))"

text \<open>One turn of the walk: \<open>Inl\<close> a verdict that ends it, \<open>Inr\<close> the number of checkpoints so far.\<close>

definition verify_row ::
    "ledger_env \<Rightarrow> ledger_store \<Rightarrow> string \<Rightarrow> bool \<Rightarrow> chain_entry_row \<Rightarrow> string \<Rightarrow> int \<Rightarrow> int \<Rightarrow> int
      \<Rightarrow> ledger_error + (chain_verification_result + int)" where
  "verify_row env st dmn deep row prev_hash expected checked cps =
     (if ce_chain_index row \<noteq> expected then
        Inr (Inl (broken_result (Some (ce_chain_index row)) (''chain gap: expected index '' @
          str_int expected @ '', found '' @ str_int (ce_chain_index row) @
          '' (row deleted or reordered)'') checked cps))
      else if ce_prev_chain_hash row \<noteq> prev_hash then
        Inr (Inl (broken_result (Some (ce_chain_index row))
          ''prev_chain_hash does not match the preceding row's chain_hash'' checked cps))
      else
        bind_sum (compute_entry_hash (le_h env) prev_hash (ce_chain_index row) (ce_chain_domain row)
          (ce_entry_type row) (ce_payload_hash row) (ce_payload_pointer row)
          (ce_amount_minor_sum row) (ce_producer row) (to_canonical_ts (ce_produced_at row))) (\<lambda>expected_hash.
        if expected_hash \<noteq> ce_chain_hash row then
          Inr (Inl (broken_result (Some (ce_chain_index row))
            ''recomputed chain_hash does not match the stored chain_hash'' checked cps))
        else if (0 < ce_chain_index row \<and> ce_chain_index row mod le_interval env = 0) \<noteq> ce_is_checkpoint row then
          Inr (Inl (broken_result (Some (ce_chain_index row))
            ''checkpoint placement violated (is_checkpoint flag tampered)'' checked cps))
        else
          (case (if ce_is_checkpoint row then verify_checkpoint_row env row checked cps else None) of
             Some verdict \<Rightarrow> Inr (Inl verdict)
           | None \<Rightarrow>
             let cps = (if ce_is_checkpoint row then cps + 1 else cps) in
             if deep \<and> dmn = MONEY_DOMAIN \<and> 0 < ce_chain_index row then
               bind_sum (deep_verify_money_row env st row) (\<lambda>d. Inr (case d of
                   Some detail \<Rightarrow> Inl (broken_result (Some (ce_chain_index row)) detail checked cps)
                 | None \<Rightarrow> Inr cps))
             else Inr (Inr cps))))"

fun verify_rows ::
    "ledger_env \<Rightarrow> ledger_store \<Rightarrow> string \<Rightarrow> bool \<Rightarrow> chain_entry_row list \<Rightarrow> string \<Rightarrow> int \<Rightarrow> int \<Rightarrow> int
      \<Rightarrow> ledger_error + (chain_verification_result + int \<times> int)" where
  "verify_rows env st dmn deep [] prev_hash expected checked cps = Inr (Inr (checked, cps))"
| "verify_rows env st dmn deep (row # rows) prev_hash expected checked cps =
     bind_sum (verify_row env st dmn deep row prev_hash expected checked cps) (\<lambda>r. case r of
         Inl verdict \<Rightarrow> Inr (Inl verdict)
       | Inr cps' \<Rightarrow> verify_rows env st dmn deep rows (ce_chain_hash row) (expected + 1) (checked + 1) cps')"

fun verify_checkpoint_table ::
    "ledger_env \<Rightarrow> ledger_store \<Rightarrow> string \<Rightarrow> checkpoint_row list \<Rightarrow> int \<Rightarrow> int \<Rightarrow> chain_verification_result option" where
  "verify_checkpoint_table env st dmn [] checked cps = None"
| "verify_checkpoint_table env st dmn (cp # cs) checked cps =
     (let i = cp_chain_index_to cp in
      if (case max_chain_index st dmn of None \<Rightarrow> True | Some m \<Rightarrow> m < i) then
        Some (broken_result (Some i) ''ledger_checkpoints references a chain index beyond the tip (chain truncated below a signed checkpoint)'' checked cps)
      else
        case get_chain_entry st dmn i of
          None \<Rightarrow> Some (broken_result (Some i)
            ''checkpoint summary row has no matching checkpoint chain row'' checked cps)
        | Some chain_row \<Rightarrow>
            if \<not> ce_is_checkpoint chain_row then
              Some (broken_result (Some i)
                ''checkpoint summary row has no matching checkpoint chain row'' checked cps)
            else if ce_chain_hash chain_row \<noteq> cp_chain_hash_at_checkpoint cp \<or>
                ce_checkpoint_sig chain_row \<noteq> Some (cp_checkpoint_sig cp) then
              Some (broken_result (Some i)
                ''checkpoint summary row disagrees with the chain row (forged checkpoint)'' checked cps)
            else if cp_checkpoint_public_key_b64 cp \<notin> set (le_trusted_keys env) then
              Some (bad_sig_result i ''checkpoint summary signed with an UNTRUSTED public key'' checked cps)
            else if \<not> le_verify env (cp_chain_hash_at_checkpoint cp) (cp_checkpoint_sig cp)
                (cp_checkpoint_public_key_b64 cp) then
              Some (bad_sig_result i ''checkpoint summary Ed25519 signature verification failed'' checked cps)
            else verify_checkpoint_table env st dmn cs checked cps)"

definition verify_empty ::
    "ledger_store \<Rightarrow> string \<Rightarrow> int \<Rightarrow> int option \<Rightarrow> bool \<Rightarrow> chain_verification_result" where
  "verify_empty st dmn from_index to_index deep =
     (let checkpoints = list_checkpoints st dmn in
      if checkpoints \<noteq> [] \<and> from_index = 0 then
        broken_result (Some (cp_chain_index_to (hd checkpoints)))
          ''signed checkpoints exist but the chain is empty (chain truncated)'' 0 0
      else case to_index of
        Some t \<Rightarrow> broken_result (Some from_index)
          (''requested range ['' @ str_int from_index @ '','' @ str_int t @ ''] is empty'') 0 0
      | None \<Rightarrow>
        if deep \<and> dmn = MONEY_DOMAIN \<and> from_index = 0 \<and> 0 < length (s_journal st) then
          broken_result (Some 0) (dec_nat (length (s_journal st)) @
            '' journal entries exist but the chain is empty'') 0 0
        else completed_result 0 0)"

text \<open>After the walk: the checkpoint table, then the count of journal entries.\<close>

definition verify_tail ::
    "ledger_env \<Rightarrow> ledger_store \<Rightarrow> string \<Rightarrow> int \<Rightarrow> int option \<Rightarrow> bool \<Rightarrow> int \<Rightarrow> int \<Rightarrow> chain_verification_result" where
  "verify_tail env st dmn from_index to_index deep checked cps =
     (case verify_checkpoint_table env st dmn (list_checkpoints st dmn) checked cps of
        Some verdict \<Rightarrow> verdict
      | None \<Rightarrow>
        if deep \<and> dmn = MONEY_DOMAIN \<and> from_index = 0 \<and> to_index = None \<and>
           int (length (s_journal st)) \<noteq> checked - 1 then
          broken_result None (''journal/chain count mismatch: '' @
            dec_nat (length (s_journal st)) @ '' journal entries vs '' @
            str_int (checked - 1) @ '' chain entries'') checked cps
        else completed_result checked cps)"

definition verify_chain_inner ::
    "ledger_env \<Rightarrow> ledger_store \<Rightarrow> string \<Rightarrow> int \<Rightarrow> int option \<Rightarrow> bool \<Rightarrow> ledger_error + chain_verification_result" where
  "verify_chain_inner env st dmn from_index to_index deep =
     (let rows = iter_chain st dmn from_index to_index;
          anchor = (if from_index = 0 then Some GENESIS_PREV_HASH
            else map_option ce_chain_hash (get_chain_entry st dmn (from_index - 1)))
      in case anchor of
           None \<Rightarrow> Inr (broken_result (Some (from_index - 1)) ''anchor row before from_index is missing'' 0 0)
         | Some prev_hash \<Rightarrow>
             if rows = [] then Inr (verify_empty st dmn from_index to_index deep)
             else
               bind_sum (verify_rows env st dmn deep rows prev_hash from_index 0 0) (\<lambda>r. Inr (case r of
                   Inl verdict \<Rightarrow> verdict
                 | Inr (checked, cps) \<Rightarrow> verify_tail env st dmn from_index to_index deep checked cps)))"

definition error_result :: "ledger_error \<Rightarrow> chain_verification_result" where
  "error_result e = \<lparr>vr_status = VERIFY_FAILED_ERROR, vr_entries_checked = 0,
     vr_first_broken_index = None, vr_checkpoints_verified = 0,
     vr_detail = Some (case e of HashChainError m \<Rightarrow> ''HashChainError: '' @ m | _ \<Rightarrow> ''Exception'')\<rparr>"

definition verify_chain_status ::
    "ledger_env \<Rightarrow> ledger_store \<Rightarrow> string \<Rightarrow> int \<Rightarrow> int option \<Rightarrow> bool \<Rightarrow> chain_verification_result" where
  "verify_chain_status env st dmn from_index to_index deep =
     (case verify_chain_inner env st dmn from_index to_index deep of
        Inl e \<Rightarrow> error_result e | Inr r \<Rightarrow> r)"

definition opt_int_text :: "int option \<Rightarrow> string" where
  "opt_int_text i = (case i of None \<Rightarrow> ''None'' | Some n \<Rightarrow> str_int n)"

definition verify_chain ::
    "ledger_env \<Rightarrow> string \<Rightarrow> int \<Rightarrow> int option \<Rightarrow> bool \<Rightarrow> py_datetime \<Rightarrow> chain_verification_result store_op" where
  "verify_chain env dmn from_index to_index deep now =
     bind_pm (get_pm (\<lambda>st. verify_chain_status env st dmn from_index to_index deep)) (\<lambda>r.
     if vr_status r \<in> {VERIFY_FAILED_BROKEN_CHAIN, VERIFY_FAILED_INVALID_CHECKPOINT_SIG} then
       bind_pm (lift_sum (now_of now)) (\<lambda>at.
       bind_pm (modify_pm (engage_write_gate (''CHAIN_TAMPER_DETECTED domain='' @ dmn @
         '' first_broken_index='' @ opt_int_text (vr_first_broken_index r) @ '' detail='' @
         (case vr_detail r of None \<Rightarrow> ''None'' | Some d \<Rightarrow> d)) at)) (\<lambda>_.
       ret r))
     else ret r)"

end
