(* ===== verification/Ledger_Invariants.thy ===== *)
theory Ledger_Invariants
  imports Ledger_Verify
begin

text \<open>
  The books of the ledger. \<open>money_inv\<close> is the invariant of the committed tables: keys, foreign keys,
  positive amounts, every entry balanced, and the running balances and the per-entry index equal
  to what the postings table says. The store's own checks keep it, whatever a unit of work
  inserts; \<open>staged_ok\<close> is the matching condition on the staged rows.
\<close>

subsection \<open>The invariant\<close>

definition keyed :: "('v \<Rightarrow> 'k) \<Rightarrow> ('k, 'v) dict \<Rightarrow> bool" where
  "keyed f d \<longleftrightarrow> (\<forall>(k, v) \<in> set d. f v = k)"

definition table_ok :: "('v \<Rightarrow> 'k) \<Rightarrow> ('k, 'v) dict \<Rightarrow> bool" where
  "table_ok f d \<longleftrightarrow> dict_ok d \<and> keyed f d"

definition entry_postings :: "ledger_store \<Rightarrow> string \<Rightarrow> posting_row list" where
  "entry_postings st i = filter (\<lambda>p. po_entry_id p = i) (dvals (s_postings st))"

definition account_postings :: "ledger_store \<Rightarrow> string \<Rightarrow> posting_row list" where
  "account_postings st i = filter (\<lambda>p. po_account_id p = i) (dvals (s_postings st))"

definition delta_sum :: "string \<Rightarrow> posting_row list \<Rightarrow> int" where
  "delta_sum ty ps = (\<Sum>p\<leftarrow>ps. normal_balance_delta ty (po_side p) (po_amount_minor p))"

text \<open>The balance an account should have: the fold of its postings.\<close>

definition balance_spec :: "ledger_store \<Rightarrow> string \<Rightarrow> int" where
  "balance_spec st i = (case dget (s_accounts st) i of
     None \<Rightarrow> 0 | Some a \<Rightarrow> delta_sum (ac_account_type a) (account_postings st i))"

definition posting_valid :: "posting_row \<Rightarrow> bool" where
  "posting_valid p \<longleftrightarrow> po_side p \<in> set SIDES \<and> 0 < po_amount_minor p \<and> po_currency p = ''BDT''"

definition money_inv :: "ledger_store \<Rightarrow> bool" where
  "money_inv st \<longleftrightarrow>
     table_ok ac_account_id (s_accounts st) \<and> table_ok je_entry_id (s_journal st) \<and>
     table_ok po_posting_id (s_postings st) \<and>
     (\<forall>p \<in> set (dvals (s_postings st)). posting_valid p \<and>
        dget (s_accounts st) (po_account_id p) \<noteq> None \<and> dget (s_journal st) (po_entry_id p) \<noteq> None) \<and>
     (\<forall>i. debit_sum (entry_postings st i) = credit_sum (entry_postings st i)) \<and>
     (\<forall>i. get_balance st i = balance_spec st i) \<and>
     (\<forall>i. dget_or (s_postings_by_entry st) i [] = map po_posting_id (entry_postings st i))"

text \<open>The staged rows: new keys, and postings that pass the checks of \<open>insert_posting\<close>.\<close>

definition staged_ok :: "ledger_store \<Rightarrow> mem_tx \<Rightarrow> bool" where
  "staged_ok st tx \<longleftrightarrow> t_store tx = st \<and>
     table_ok ac_account_id (t_accounts tx) \<and> table_ok je_entry_id (t_journal tx) \<and>
     table_ok po_posting_id (t_postings tx) \<and>
     (\<forall>k \<in> fst ` set (t_accounts tx). dget (s_accounts st) k = None) \<and>
     (\<forall>k \<in> fst ` set (t_journal tx). dget (s_journal st) k = None) \<and>
     (\<forall>k \<in> fst ` set (t_postings tx). dget (s_postings st) k = None) \<and>
     (\<forall>p \<in> set (dvals (t_postings tx)). posting_valid p \<and>
        tx_get_account tx (po_account_id p) \<noteq> None \<and> journal_entry_exists tx (po_entry_id p))"

subsection \<open>Tables\<close>

lemma table_ok_Nil [simp]: "table_ok f []"
  by (simp add: table_ok_def keyed_def)

lemma fst_set_dput: "fst ` set (dput k v d) = insert k (fst ` set d)"
  by (induction d) auto

lemma table_ok_put: "table_ok f d \<Longrightarrow> f v = k \<Longrightarrow> table_ok f (dput k v d)"
proof (induction d)
  case Nil
  then show ?case by (simp add: table_ok_def keyed_def dict_ok_def)
next
  case (Cons kv d)
  obtain k' v' where kv: "kv = (k', v')" by (cases kv)
  then have "table_ok f (dput k v d)"
    using Cons by (auto simp: table_ok_def keyed_def dict_ok_def)
  then show ?case
    using Cons.prems kv by (auto simp: table_ok_def keyed_def dict_ok_def fst_set_dput image_iff)
qed

lemma keyed_dvals: "keyed f d \<Longrightarrow> map f (dvals d) = map fst d"
  by (induction d) (auto simp: keyed_def dvals_def)

lemma table_ok_append:
  "table_ok f d1 \<Longrightarrow> table_ok f d2 \<Longrightarrow> (\<And>k. k \<in> fst ` set d2 \<Longrightarrow> dget d1 k = None) \<Longrightarrow>
     table_ok f (d1 @ d2)"
  by (auto simp: table_ok_def keyed_def dict_ok_append dget_None_iff)

lemma dvals_append [simp]: "dvals (d1 @ d2) = dvals d1 @ dvals d2"
  by (simp add: dvals_def)

lemma dvals_Nil [simp]: "dvals [] = []"
  by (simp add: dvals_def)

lemma dget_or_Nil [simp]: "dget_or [] k v = v"
  by (simp add: dget_or_def)

lemma dget_or_put: "dget_or (dput k v d) i x = (if i = k then v else dget_or d i x)"
  by (simp add: dget_or_def dict_simps)

lemma dget_append: "dget (d1 @ d2) k = (case dget d1 k of None \<Rightarrow> dget d2 k | Some v \<Rightarrow> Some v)"
  by (simp add: map_add_def)

declare map_of_append [simp del]

subsection \<open>Staged writes keep the staged invariant\<close>

lemma tx_get_account_frame [simp]:
  "tx_get_account (tx\<lparr>t_journal := a\<rparr>) = tx_get_account tx"
  "tx_get_account (tx\<lparr>t_journal_by_idem := b\<rparr>) = tx_get_account tx"
  "tx_get_account (tx\<lparr>t_postings := c\<rparr>) = tx_get_account tx"
  "tx_get_account (tx\<lparr>t_chain := d\<rparr>) = tx_get_account tx"
  "tx_get_account (tx\<lparr>t_checkpoints := e\<rparr>) = tx_get_account tx"
  "tx_get_account (tx\<lparr>t_outbox := f\<rparr>) = tx_get_account tx"
  "tx_get_account (tx\<lparr>t_audit := g\<rparr>) = tx_get_account tx"
  "tx_get_account (tx\<lparr>t_holds := hs\<rparr>) = tx_get_account tx"
  "tx_get_account (tx\<lparr>t_gate_rows := gs\<rparr>) = tx_get_account tx"
  "tx_get_account (tx\<lparr>t_next_entry_index := n\<rparr>) = tx_get_account tx"
  "tx_get_account (tx\<lparr>t_next_audit_index := m\<rparr>) = tx_get_account tx"
  by (rule ext, simp add: tx_get_account_def cong: option.case_cong)+

lemma journal_entry_exists_frame [simp]:
  "journal_entry_exists (tx\<lparr>t_accounts := a\<rparr>) = journal_entry_exists tx"
  "journal_entry_exists (tx\<lparr>t_journal_by_idem := b\<rparr>) = journal_entry_exists tx"
  "journal_entry_exists (tx\<lparr>t_postings := c\<rparr>) = journal_entry_exists tx"
  "journal_entry_exists (tx\<lparr>t_chain := d\<rparr>) = journal_entry_exists tx"
  "journal_entry_exists (tx\<lparr>t_checkpoints := e\<rparr>) = journal_entry_exists tx"
  "journal_entry_exists (tx\<lparr>t_outbox := f\<rparr>) = journal_entry_exists tx"
  "journal_entry_exists (tx\<lparr>t_audit := g\<rparr>) = journal_entry_exists tx"
  "journal_entry_exists (tx\<lparr>t_holds := hs\<rparr>) = journal_entry_exists tx"
  "journal_entry_exists (tx\<lparr>t_gate_rows := gs\<rparr>) = journal_entry_exists tx"
  "journal_entry_exists (tx\<lparr>t_next_entry_index := n\<rparr>) = journal_entry_exists tx"
  "journal_entry_exists (tx\<lparr>t_next_audit_index := m\<rparr>) = journal_entry_exists tx"
  by (rule ext, simp add: journal_entry_exists_def)+

lemma staged_ok_start: "staged_ok st (new_tx st)"
  by (simp add: staged_ok_def new_tx_def)

lemma staged_ok_account:
  assumes "staged_ok st tx" and "tx_get_account tx (ac_account_id row) = None"
  shows "staged_ok st (tx\<lparr>t_accounts := dput (ac_account_id row) row (t_accounts tx)\<rparr>)"
proof -
  have "dget (s_accounts st) (ac_account_id row) = None"
    using assms by (auto simp: tx_get_account_def staged_ok_def split: option.splits)
  moreover have "tx_get_account (tx\<lparr>t_accounts := dput (ac_account_id row) row (t_accounts tx)\<rparr>) i \<noteq> None"
    if "tx_get_account tx i \<noteq> None" for i
    using that by (simp add: tx_get_account_def dict_simps cong: option.case_cong)
  ultimately show ?thesis
    using assms(1) by (simp add: staged_ok_def table_ok_put fst_set_dput)
qed

lemma staged_ok_journal:
  assumes "staged_ok st tx" and "\<not> journal_entry_exists tx (je_entry_id row)"
  shows "staged_ok st (tx\<lparr>t_next_entry_index := n,
     t_journal := dput (je_entry_id row) (row\<lparr>je_entry_index := m\<rparr>) (t_journal tx),
     t_journal_by_idem := d\<rparr>)"
  using assms
  by (auto simp: staged_ok_def table_ok_put fst_set_dput journal_entry_exists_def dict_simps)

lemma staged_ok_posting:
  assumes "staged_ok st tx"
    and "dget (s_postings (t_store tx)) (po_posting_id row) = None" and "posting_valid row"
    and "tx_get_account tx (po_account_id row) \<noteq> None" and "journal_entry_exists tx (po_entry_id row)"
    and "dget (t_postings tx) (po_posting_id row) = None"
  shows "staged_ok st (tx\<lparr>t_postings := dput (po_posting_id row) row (t_postings tx)\<rparr>)"
proof -
  have "set (dvals (dput (po_posting_id row) row (t_postings tx))) = insert row (set (dvals (t_postings tx)))"
    using assms(6) by (simp add: dput_fresh dvals_def)
  then show ?thesis using assms by (simp add: staged_ok_def table_ok_put fst_set_dput)
qed

lemma staged_ok_others [simp]:
  "staged_ok st (tx\<lparr>t_chain := a\<rparr>) = staged_ok st tx"
  "staged_ok st (tx\<lparr>t_checkpoints := b\<rparr>) = staged_ok st tx"
  "staged_ok st (tx\<lparr>t_outbox := c\<rparr>) = staged_ok st tx"
  "staged_ok st (tx\<lparr>t_next_audit_index := n, t_audit := d\<rparr>) = staged_ok st tx"
  "staged_ok st (tx\<lparr>t_holds := e\<rparr>) = staged_ok st tx"
  "staged_ok st (tx\<lparr>t_gate_rows := f\<rparr>) = staged_ok st tx"
  by (simp_all add: staged_ok_def)

lemma keeps_staged_account [keeps_intros]: "keeps (staged_ok st) (insert_account row)"
  by (rule keepsI) (auto simp: insert_account_def bind_pm_def get_pm_def require_that_def ret_def
    raise_err_def modify_pm_def staged_ok_account)

lemma keeps_staged_journal [keeps_intros]: "keeps (staged_ok st) (insert_journal_entry row)"
  by (rule keepsI) (auto simp: insert_journal_entry_def bind_pm_def get_pm_def require_that_def ret_def
    raise_err_def modify_pm_def staged_ok_journal)

lemma keeps_staged_posting [keeps_intros]: "keeps (staged_ok st) (insert_posting row)"
  by (rule keepsI) (auto simp: insert_posting_def bind_pm_def get_pm_def require_that_def ret_def
    raise_err_def modify_pm_def staged_ok_posting posting_valid_def)

lemma keeps_staged_others [keeps_intros]:
  "keeps (staged_ok st) (insert_chain_entry c)"
  "keeps (staged_ok st) (insert_checkpoint cp)"
  "keeps (staged_ok st) (insert_outbox ob)"
  "keeps (staged_ok st) (insert_audit_event ae)"
  "keeps (staged_ok st) (insert_account_hold ho)"
  "keeps (staged_ok st) (update_account_hold ho)"
  "keeps (staged_ok st) (tx_engage_write_gate reason at)"
  unfolding insert_chain_entry_def insert_checkpoint_def insert_outbox_def insert_audit_event_def
    insert_account_hold_def update_account_hold_def tx_engage_write_gate_def
  by (intro keeps_intros keeps_modify; simp)+

subsection \<open>The commit\<close>

definition post_row :: "posting_row \<Rightarrow> ledger_store \<Rightarrow> ledger_store" where
  "post_row p st = st\<lparr>
     s_postings := dput (po_posting_id p) p (s_postings st),
     s_postings_by_entry := dput (po_entry_id p)
       (dget_or (s_postings_by_entry st) (po_entry_id p) [] @ [po_posting_id p]) (s_postings_by_entry st),
     s_balances := dput (po_account_id p)
       (dget_or (s_balances st) (po_account_id p) 0 +
        normal_balance_delta (ac_account_type (the (dget (s_accounts st) (po_account_id p))))
          (po_side p) (po_amount_minor p)) (s_balances st)\<rparr>"

lemma apply_posting_post_row:
  "dget (s_accounts st) (po_account_id p) \<noteq> None \<Longrightarrow> apply_posting p st = (Inr (), post_row p st)"
  by (auto simp: apply_posting_def bind_pm_def modify_pm_def get_pm_def post_row_def)

lemma post_row_accounts [simp]: "s_accounts (post_row p st) = s_accounts st"
  by (simp add: post_row_def)

lemma fold_post_row_accounts [simp]: "s_accounts (fold post_row ps st) = s_accounts st"
  by (induction ps arbitrary: st) simp_all

lemma for_each_apply_posting:
  "(\<And>p. p \<in> set ps \<Longrightarrow> dget (s_accounts st) (po_account_id p) \<noteq> None) \<Longrightarrow>
     for_each apply_posting ps st = (Inr (), fold post_row ps st)"
  by (induction ps arbitrary: st) (simp_all add: pm_simps apply_posting_post_row)

lemma fold_post_row_postings:
  "s_postings (fold post_row ps st) = dict_update (s_postings st) (map (\<lambda>p. (po_posting_id p, p)) ps)"
  by (induction ps arbitrary: st) (simp_all add: dict_update_Cons post_row_def)

lemma fold_post_row_index:
  "dget_or (s_postings_by_entry (fold post_row ps st)) i [] =
     dget_or (s_postings_by_entry st) i [] @ map po_posting_id (filter (\<lambda>p. po_entry_id p = i) ps)"
  by (induction ps arbitrary: st) (simp_all add: post_row_def dget_or_put)

lemma fold_post_row_balance:
  "dget_or (s_balances (fold post_row ps st)) i 0 = dget_or (s_balances st) i 0 +
     delta_sum (ac_account_type (the (dget (s_accounts st) i))) (filter (\<lambda>p. po_account_id p = i) ps)"
  by (induction ps arbitrary: st)
    (simp_all add: post_row_def dget_or_put delta_sum_def del: fold_post_row_accounts)

definition put_chain_row ::
    "(string \<times> int) \<times> chain_entry_row \<Rightarrow> (string, (int, chain_entry_row) dict) dict
      \<Rightarrow> (string, (int, chain_entry_row) dict) dict" where
  "put_chain_row kr d = dput (fst (fst kr)) (dput (snd (fst kr)) (snd kr) (dget_or d (fst (fst kr)) [])) d"

definition put_checkpoint ::
    "checkpoint_row \<Rightarrow> (string, checkpoint_row list) dict \<Rightarrow> (string, checkpoint_row list) dict" where
  "put_checkpoint c d = dput (cp_chain_domain c) (dget_or d (cp_chain_domain c) [] @ [c]) d"

lemma fold_apply_chain_row:
  "fold apply_chain_row krs st = st\<lparr>s_chains := fold put_chain_row krs (s_chains st)\<rparr>"
  by (induction krs arbitrary: st) (simp_all add: apply_chain_row_def put_chain_row_def)

lemma fold_apply_checkpoint:
  "fold apply_checkpoint cs st = st\<lparr>s_checkpoints := fold put_checkpoint cs (s_checkpoints st)\<rparr>"
  by (induction cs arbitrary: st) (simp_all add: apply_checkpoint_def put_checkpoint_def)

lemma fold_post_row_frame [simp]:
  "s_journal (fold post_row ps st) = s_journal st"
  "s_journal_by_idem (fold post_row ps st) = s_journal_by_idem st"
  "s_chains (fold post_row ps st) = s_chains st"
  "s_checkpoints (fold post_row ps st) = s_checkpoints st"
  "s_outbox (fold post_row ps st) = s_outbox st"
  "s_audit (fold post_row ps st) = s_audit st"
  "s_holds (fold post_row ps st) = s_holds st"
  "s_gate_rows (fold post_row ps st) = s_gate_rows st"
  by (induction ps arbitrary: st; simp add: post_row_def)+

text \<open>The committed store as one expression: the new rows appended to each table.\<close>

definition commit_tx :: "mem_tx \<Rightarrow> ledger_store \<Rightarrow> ledger_store" where
  "commit_tx tx st = (fold post_row (dvals (t_postings tx))
     (st\<lparr>s_accounts := s_accounts st @ t_accounts tx, s_journal := s_journal st @ t_journal tx,
        s_journal_by_idem := dict_update (s_journal_by_idem st) (t_journal_by_idem tx)\<rparr>))
     \<lparr>s_chains := fold put_chain_row (t_chain tx) (s_chains st),
      s_checkpoints := fold put_checkpoint (t_checkpoints tx) (s_checkpoints st),
      s_outbox := dict_update (s_outbox st) (t_outbox tx),
      s_audit := dict_update (s_audit st) (t_audit tx),
      s_holds := dict_update (s_holds st) (t_holds tx),
      s_gate_rows := s_gate_rows st @ t_gate_rows tx,
      s_entry_index_seq := t_next_entry_index tx - 1,
      s_audit_index_seq := t_next_audit_index tx - 1\<rparr>"

lemma commit_tx_fields [simp]:
  "s_accounts (commit_tx tx st) = s_accounts st @ t_accounts tx"
  "s_journal (commit_tx tx st) = s_journal st @ t_journal tx"
  "s_journal_by_idem (commit_tx tx st) = dict_update (s_journal_by_idem st) (t_journal_by_idem tx)"
  "s_chains (commit_tx tx st) = fold put_chain_row (t_chain tx) (s_chains st)"
  "s_checkpoints (commit_tx tx st) = fold put_checkpoint (t_checkpoints tx) (s_checkpoints st)"
  "s_outbox (commit_tx tx st) = dict_update (s_outbox st) (t_outbox tx)"
  "s_audit (commit_tx tx st) = dict_update (s_audit st) (t_audit tx)"
  "s_holds (commit_tx tx st) = dict_update (s_holds st) (t_holds tx)"
  "s_gate_rows (commit_tx tx st) = s_gate_rows st @ t_gate_rows tx"
  "s_entry_index_seq (commit_tx tx st) = t_next_entry_index tx - 1"
  "s_audit_index_seq (commit_tx tx st) = t_next_audit_index tx - 1"
  by (simp_all add: commit_tx_def)

lemma map_keyed_dvals: "keyed f d \<Longrightarrow> map (\<lambda>v. (f v, v)) (dvals d) = d"
  by (induction d) (auto simp: keyed_def dvals_def)

lemma commit_tx_postings:
  assumes "staged_ok st tx"
  shows "s_postings (commit_tx tx st) = s_postings st @ t_postings tx"
proof -
  have "dict_update (s_postings st) (t_postings tx) = s_postings st @ t_postings tx"
    using assms by (intro dict_update_fresh) (auto simp: staged_ok_def table_ok_def)
  then show ?thesis
    using assms by (simp add: commit_tx_def fold_post_row_postings staged_ok_def table_ok_def map_keyed_dvals)
qed

lemma commit_tx_index:
  "dget_or (s_postings_by_entry (commit_tx tx st)) i [] = dget_or (s_postings_by_entry st) i [] @
     map po_posting_id (filter (\<lambda>p. po_entry_id p = i) (dvals (t_postings tx)))"
  by (simp add: commit_tx_def fold_post_row_index)

lemma commit_tx_balance:
  "get_balance (commit_tx tx st) i = get_balance st i +
     delta_sum (ac_account_type (the (dget (s_accounts st @ t_accounts tx) i)))
       (filter (\<lambda>p. po_account_id p = i) (dvals (t_postings tx)))"
  by (simp add: commit_tx_def get_balance_def fold_post_row_balance)

lemma dget_accounts_staged:
  assumes "staged_ok st tx"
  shows "dget (s_accounts st @ t_accounts tx) i = tx_get_account tx i"
proof (cases "dget (t_accounts tx) i")
  case None
  then show ?thesis using assms by (simp add: dget_append tx_get_account_def staged_ok_def split: option.splits)
next
  case (Some a)
  then have "dget (s_accounts st) i = None"
    using assms map_of_SomeD [OF Some] by (auto simp: staged_ok_def)
  then show ?thesis using Some by (simp add: dget_append tx_get_account_def)
qed

lemma dget_journal_staged:
  assumes "staged_ok st tx"
  shows "dget (s_journal st @ t_journal tx) i \<noteq> None \<longleftrightarrow> journal_entry_exists tx i"
  using assms by (auto simp: dget_append journal_entry_exists_def staged_ok_def split: option.splits)

lemma apply_tx_commit:
  assumes "staged_ok st tx"
  shows "apply_tx tx st = (Inr (), commit_tx tx st)"
proof -
  have acc: "dict_update (s_accounts st) (t_accounts tx) = s_accounts st @ t_accounts tx"
    and jou: "dict_update (s_journal st) (t_journal tx) = s_journal st @ t_journal tx"
    using assms by (auto intro!: dict_update_fresh simp: staged_ok_def table_ok_def)
  let ?st = "st\<lparr>s_accounts := s_accounts st @ t_accounts tx, s_journal := s_journal st @ t_journal tx,
        s_journal_by_idem := dict_update (s_journal_by_idem st) (t_journal_by_idem tx)\<rparr>"
  have "for_each apply_posting (dvals (t_postings tx)) ?st = (Inr (), fold post_row (dvals (t_postings tx)) ?st)"
  proof (rule for_each_apply_posting)
    fix p assume "p \<in> set (dvals (t_postings tx))"
    then show "dget (s_accounts ?st) (po_account_id p) \<noteq> None"
      using assms dget_accounts_staged [OF assms] by (simp add: staged_ok_def)
  qed
  then show ?thesis
    by (simp add: apply_tx_def bind_pm_def modify_pm_def acc jou commit_tx_def
      fold_apply_chain_row fold_apply_checkpoint)
qed

lemma delta_sum_append [simp]: "delta_sum ty (ps @ qs) = delta_sum ty ps + delta_sum ty qs"
  by (simp add: delta_sum_def)

lemma delta_sum_Nil [simp]: "delta_sum ty [] = 0"
  by (simp add: delta_sum_def)

lemma entry_postings_commit:
  "staged_ok st tx \<Longrightarrow> entry_postings (commit_tx tx st) i = all_postings_for_entry tx i"
  by (simp add: entry_postings_def commit_tx_postings all_postings_for_entry_def staged_ok_def)

lemma debit_credit_append [simp]:
  "debit_sum (ps @ qs) = debit_sum ps + debit_sum qs"
  "credit_sum (ps @ qs) = credit_sum ps + credit_sum qs"
  "debit_sum [] = 0" "credit_sum [] = 0"
  by (simp_all add: debit_sum_def credit_sum_def)

lemma commit_balanced:
  assumes "money_inv st" and "staged_ok st tx" and "deferred_balance_check tx = Inr u"
  shows "debit_sum (entry_postings (commit_tx tx st) i) = credit_sum (entry_postings (commit_tx tx st) i)"
proof (cases "i \<in> set (map po_entry_id (dvals (t_postings tx)))")
  case True
  then show ?thesis
    using assms(3) by (auto simp: deferred_balance_check_def entry_postings_commit [OF assms(2)])
next
  case False
  then have "filter (\<lambda>p. po_entry_id p = i) (dvals (t_postings tx)) = []"
    by (auto simp: filter_empty_conv)
  then have "all_postings_for_entry tx i = entry_postings st i"
    using assms(2) by (simp add: all_postings_for_entry_def entry_postings_def staged_ok_def)
  then show ?thesis using assms(1) by (simp add: entry_postings_commit [OF assms(2)] money_inv_def)
qed

lemma commit_balances:
  assumes "money_inv st" and "staged_ok st tx"
  shows "get_balance (commit_tx tx st) i = balance_spec (commit_tx tx st) i"
proof -
  have old: "get_balance st i = balance_spec st i" using assms(1) by (simp add: money_inv_def)
  have post: "account_postings (commit_tx tx st) i =
      account_postings st i @ filter (\<lambda>p. po_account_id p = i) (dvals (t_postings tx))"
    by (simp add: account_postings_def commit_tx_postings [OF assms(2)])
  have nonew: "filter (\<lambda>p. po_account_id p = i) (dvals (t_postings tx)) = []"
    if "tx_get_account tx i = None"
    using that assms(2) by (auto simp: staged_ok_def filter_empty_conv)
  have noold: "account_postings st i = []" if "dget (s_accounts st) i = None"
    using that assms(1) by (auto simp: money_inv_def account_postings_def filter_empty_conv)
  show ?thesis
  proof (cases "dget (s_accounts st @ t_accounts tx) i")
    case None
    then have "tx_get_account tx i = None" using dget_accounts_staged [OF assms(2)] by simp
    moreover have "dget (s_accounts st) i = None" using None by (simp add: dget_append split: option.splits)
    ultimately show ?thesis
      using None old nonew by (simp add: commit_tx_balance balance_spec_def)
  next
    case (Some a)
    have "balance_spec st i = delta_sum (ac_account_type a) (account_postings st i)"
      using Some noold by (simp add: balance_spec_def dget_append split: option.splits)
    then show ?thesis using Some old post by (simp add: commit_tx_balance balance_spec_def)
  qed
qed

lemma commit_money_inv:
  assumes inv: "money_inv st" and ok: "staged_ok st tx" and chk: "deferred_balance_check tx = Inr u"
  shows "money_inv (commit_tx tx st)"
proof -
  have tabs: "table_ok ac_account_id (s_accounts st @ t_accounts tx)"
    "table_ok je_entry_id (s_journal st @ t_journal tx)"
    "table_ok po_posting_id (s_postings st @ t_postings tx)"
    using inv ok by (auto intro!: table_ok_append simp: money_inv_def staged_ok_def)
  have old: "tx_get_account tx (po_account_id p) \<noteq> None \<and> journal_entry_exists tx (po_entry_id p)"
    if "p \<in> set (dvals (s_postings st))" for p
  proof -
    have "dget (s_accounts st) (po_account_id p) \<noteq> None" "dget (s_journal st) (po_entry_id p) \<noteq> None"
      using that inv by (simp_all add: money_inv_def)
    moreover have "t_store tx = st" using ok by (simp add: staged_ok_def)
    ultimately show ?thesis
      by (simp add: tx_get_account_def journal_entry_exists_def split: option.splits)
  qed
  have fk: "posting_valid p \<and> dget (s_accounts st @ t_accounts tx) (po_account_id p) \<noteq> None \<and>
      dget (s_journal st @ t_journal tx) (po_entry_id p) \<noteq> None"
    if "p \<in> set (dvals (s_postings st @ t_postings tx))" for p
    unfolding dget_accounts_staged [OF ok] dget_journal_staged [OF ok]
    using that inv ok old by (auto simp: money_inv_def staged_ok_def)
  have idx: "dget_or (s_postings_by_entry (commit_tx tx st)) i [] =
      map po_posting_id (entry_postings (commit_tx tx st) i)" for i
    using inv ok by (simp add: commit_tx_index entry_postings_def commit_tx_postings money_inv_def)
  show ?thesis
    unfolding money_inv_def commit_tx_fields commit_tx_postings [OF ok]
    using tabs fk idx commit_balanced [OF inv ok chk] commit_balances [OF inv ok] by blast
qed

lemma transaction_raise: "body (new_tx st) = (Inl e, tx) \<Longrightarrow> transaction body st = (Inl e, st)"
  by (simp add: transaction_def)

lemma transaction_return:
  assumes "body (new_tx st) = (Inr a, tx)" and "staged_ok st tx"
  shows "transaction body st = (case deferred_balance_check tx of
    Inl e \<Rightarrow> (Inl e, st) | Inr _ \<Rightarrow> (Inr a, commit_tx tx st))"
  using assms by (simp add: transaction_def bind_pm_def ret_def apply_tx_commit split: sum.splits)

interpretation books: unit_of_work transaction new_tx money_inv staged_ok
proof unfold_locales
  fix st :: ledger_store and body :: "'a tx_op" and a tx
  assume "money_inv st" and body: "body (new_tx st) = (Inr a, tx)" and ok: "staged_ok st tx"
  then show "(\<exists>e. transaction body st = (Inl e, st)) \<or>
      (\<exists>s'. transaction body st = (Inr a, s') \<and> money_inv s')"
    using commit_money_inv [of st tx]
    by (cases "deferred_balance_check tx") (simp_all add: transaction_return [where body = body, OF body ok])
qed (simp_all add: staged_ok_start transaction_raise)

end
