(* ===== verification/Ledger_Reach.thy ===== *)
theory Ledger_Reach
  imports Ledger_Invariants
begin

text \<open>
  Histories of the ledger: a state is reachable when it results from the empty store by any
  sequence of service calls, failed ones included. The lemmas show that each call keeps the
  books and that a call that raises changes nothing.
\<close>

datatype ledger_call =
    CreateAccount account_spec py_datetime
  | PostJournalEntry journal_entry_spec py_datetime
  | OpenHold string int string string "string option" "string option" "instant option" py_datetime
  | ReleaseHold string string "int option" py_datetime
  | GetOpenHoldId bool string
  | WriteAuditEvent audit_event_spec "py_datetime option" py_datetime
  | EmitEvent string string string "(string \<times> pyobj) list" string "string option"
      "py_datetime option" py_datetime
  | InitializeChain string py_datetime
  | GetBalance bool string "instant option"
  | TrialBalanceAssertion py_datetime
  | VerifyChain string int "int option" bool py_datetime

datatype call_result =
    RUnit | RId string | ROptId "string option" | RInt int | RVerdict chain_verification_result

definition returns :: "('a \<Rightarrow> 'b) \<Rightarrow> 'a store_op \<Rightarrow> 'b store_op" where
  "returns f m = bind_pm m (\<lambda>a. ret (f a))"

fun exec_call :: "ledger_env \<Rightarrow> ledger_call \<Rightarrow> call_result store_op" where
  "exec_call env (CreateAccount spec now) = returns RId (create_account env spec now)"
| "exec_call env (PostJournalEntry spec now) = returns RId (post_journal_entry env spec now)"
| "exec_call env (OpenHold i amt reason ref src res expires now) =
     returns RId (open_hold env i amt reason ref src res expires now)"
| "exec_call env (ReleaseHold i outcome amt now) =
     returns (\<lambda>_. RUnit) (release_hold env i outcome amt now)"
| "exec_call env (GetOpenHoldId conn ref) = returns ROptId (get_open_hold_id conn ref)"
| "exec_call env (WriteAuditEvent spec at now) = returns RId (write_audit_event env spec at now)"
| "exec_call env (EmitEvent ty sty sid payload topic producer at now) =
     returns RId (emit_event env ty sty sid payload topic producer at now)"
| "exec_call env (InitializeChain dmn now) = returns (\<lambda>_. RUnit) (initialize_chain env dmn now)"
| "exec_call env (GetBalance conn i as_of) = returns RInt (service_get_balance conn i as_of)"
| "exec_call env (TrialBalanceAssertion now) = returns (\<lambda>_. RUnit) (trial_balance_assertion now)"
| "exec_call env (VerifyChain dmn lo hi deep now) = returns RVerdict (verify_chain env dmn lo hi deep now)"

inductive ledger_reach :: "ledger_env \<Rightarrow> ledger_store \<Rightarrow> bool" for env where
  start: "ledger_reach env new_store"
| call: "ledger_reach env st \<Longrightarrow> ledger_reach env (snd (exec_call env c st))"

subsection \<open>Bodies of the calls keep the staged rows admissible\<close>

lemma keeps_Let [keeps_intros]: "keeps I (m x) \<Longrightarrow> keeps I (let y = x in m y)"
  by simp

lemma keeps_insert_genesis [keeps_intros]: "keeps (staged_ok st) (insert_genesis env dmn at)"
  unfolding insert_genesis_def by (intro keeps_intros)

lemma keeps_append_chain_entry [keeps_intros]:
  "keeps (staged_ok st) (append_chain_entry env dmn ty ph pp amt at)"
  unfolding append_chain_entry_def append_linked_entry_def by (intro keeps_intros)

lemma keeps_append_postings [keeps_intros]:
  "keeps (staged_ok st) (append_postings h i at n ps)"
  by (induction ps arbitrary: n) (auto intro!: keeps_intros)

lemma keeps_append_journal_entry [keeps_intros]:
  "keeps (staged_ok st) (append_journal_entry env spec at)"
  unfolding append_journal_entry_def by (intro keeps_intros)

lemma keeps_audit_bundle [keeps_intros]:
  "keeps (staged_ok st) (audit_bundle env spec at actor red ph ev)"
  unfolding audit_bundle_def by (intro keeps_intros)

lemmas keeps_transaction [keeps_intros] = books.run_keeps [OF keeps_return_keeps]
lemmas atomic_transaction [atomic_intros] = books.atomic_run [OF keeps_return_keeps]

subsection \<open>Every call keeps the books\<close>

lemma gate_money_inv [simp]: "money_inv (engage_write_gate r at st) = money_inv st"
  by (simp add: money_inv_def engage_write_gate_def get_balance_def balance_spec_def
    entry_postings_def account_postings_def cong: option.case_cong)

lemma keeps_create_account: "keeps money_inv (create_account env spec now)"
  unfolding create_account_def by (intro keeps_intros)

lemma keeps_post_journal_entry: "keeps money_inv (post_journal_entry env spec now)"
  unfolding post_journal_entry_def by (intro keeps_intros)

lemma keeps_open_hold: "keeps money_inv (open_hold env i amt reason ref src res expires now)"
  unfolding open_hold_def by (intro keeps_intros)

lemma keeps_release_hold: "keeps money_inv (release_hold env i outcome amt now)"
  unfolding release_hold_def by (intro keeps_intros)

lemma keeps_get_open_hold_id: "keeps money_inv (get_open_hold_id conn ref)"
  unfolding get_open_hold_id_def by (intro keeps_intros)

lemma keeps_service_get_balance: "keeps money_inv (service_get_balance conn i as_of)"
  unfolding service_get_balance_def by (intro keeps_intros)

lemma keeps_initialize_chain: "keeps money_inv (initialize_chain env dmn now)"
  unfolding initialize_chain_def by (intro keeps_intros)

lemma keeps_trial_balance_assertion: "keeps money_inv (trial_balance_assertion now)"
  unfolding trial_balance_assertion_def by (intro keeps_intros keeps_modify) simp

lemma keeps_verify_chain: "keeps money_inv (verify_chain env dmn lo hi deep now)"
  unfolding verify_chain_def by (intro keeps_intros keeps_modify) simp

text \<open>The handler of a duplicate event returns or raises on the state the transaction left.\<close>

lemma keeps_duplicate_handler:
  assumes "keeps I m"
  shows "keeps I (\<lambda>st. case d st of Some row \<Rightarrow> (f row, st)
    | None \<Rightarrow> (case m st of (Inr _, st') \<Rightarrow> (Inr i, st')
       | (Inl (LedgerDuplicateEventError _), st') \<Rightarrow> (g st', st') | (Inl e, st') \<Rightarrow> (Inl e, st')))"
proof (rule keepsI)
  fix s assume "I s"
  then have "I (snd (m s))" using assms by (rule keepsD [rotated])
  then show "I (snd (case d s of Some row \<Rightarrow> (f row, s)
    | None \<Rightarrow> (case m s of (Inr _, st') \<Rightarrow> (Inr i, st')
       | (Inl (LedgerDuplicateEventError _), st') \<Rightarrow> (g st', st') | (Inl e, st') \<Rightarrow> (Inl e, st'))))"
    using \<open>I s\<close> by (auto split: option.splits prod.splits sum.splits ledger_error.splits)
qed

lemma keeps_write_audit_event: "keeps money_inv (write_audit_event env spec at now)"
  unfolding write_audit_event_def by (intro keeps_intros keeps_duplicate_handler)

lemma keeps_emit_event: "keeps money_inv (emit_event env ty sty sid payload topic producer at now)"
  unfolding emit_event_def by (intro keeps_intros keeps_duplicate_handler)

lemmas keeps_calls = keeps_create_account keeps_post_journal_entry keeps_open_hold keeps_release_hold
  keeps_get_open_hold_id keeps_service_get_balance keeps_initialize_chain
  keeps_trial_balance_assertion keeps_verify_chain keeps_write_audit_event keeps_emit_event

lemma keeps_exec_call: "keeps money_inv (exec_call env c)"
  by (cases c) (auto simp: returns_def intro!: keeps_intros keeps_calls)

lemma money_inv_new_store: "money_inv new_store"
  by (simp add: money_inv_def new_store_def entry_postings_def get_balance_def balance_spec_def)

lemma reach_money_inv: "ledger_reach env st \<Longrightarrow> money_inv st"
  by (induction rule: ledger_reach.induct) (simp_all add: money_inv_new_store keepsD [OF keeps_exec_call])

subsection \<open>The books balance\<close>

definition signed_amount :: "posting_row \<Rightarrow> int" where
  "signed_amount p = (if po_side p = ''DEBIT'' then po_amount_minor p else - po_amount_minor p)"

lemma debit_minus_credit: "debit_sum ps - credit_sum ps = (\<Sum>p\<leftarrow>ps. signed_amount p)"
  by (induction ps) (simp_all add: debit_sum_def credit_sum_def signed_amount_def)

lemma money_inv_signed_zero:
  assumes "money_inv st"
  shows "(\<Sum>p\<leftarrow>dvals (s_postings st). signed_amount p) = 0"
proof -
  let ?A = "po_entry_id ` set (dvals (s_postings st))"
  have "(\<Sum>p\<leftarrow>filter (\<lambda>p. po_entry_id p = i) (dvals (s_postings st)). signed_amount p) = 0" for i
    using assms debit_minus_credit [of "entry_postings st i"] by (simp add: money_inv_def entry_postings_def)
  then show ?thesis
    using sum_list_group [of ?A po_entry_id "dvals (s_postings st)" signed_amount] by simp
qed

lemma money_inv_balanced: "money_inv st \<Longrightarrow> balanced (trial_balance_of st)"
  using debit_minus_credit [of "dvals (s_postings st)"] money_inv_signed_zero [of st]
  by (simp add: balanced_def trial_balance_of_def)

definition debit_normal :: "account_row \<Rightarrow> bool" where
  "debit_normal a \<longleftrightarrow> ac_account_type a \<in> set DEBIT_NORMAL_TYPES"

lemma delta_sum_signed:
  "\<forall>p \<in> set ps. po_side p \<in> set SIDES \<Longrightarrow>
     delta_sum (ac_account_type a) ps = (if debit_normal a then 1 else -1) * (\<Sum>p\<leftarrow>ps. signed_amount p)"
  by (induction ps)
    (auto simp: delta_sum_def normal_balance_delta_def signed_amount_def debit_normal_def
      DEBIT_NORMAL_TYPES_def SIDES_def algebra_simps)

lemma signed_balance:
  assumes "money_inv st" and "a \<in> set (dvals (s_accounts st))"
  shows "(if debit_normal a then 1 else -1) * get_balance st (ac_account_id a) =
    (\<Sum>p\<leftarrow>account_postings st (ac_account_id a). signed_amount p)"
proof -
  have "(ac_account_id a, a) \<in> set (s_accounts st)"
    using assms by (auto simp: money_inv_def table_ok_def keyed_def dvals_def)
  then have "dget (s_accounts st) (ac_account_id a) = Some a"
    using assms(1) by (simp add: dget_Some_iff money_inv_def table_ok_def)
  then have "get_balance st (ac_account_id a) =
      delta_sum (ac_account_type a) (account_postings st (ac_account_id a))"
    using assms(1) by (simp add: money_inv_def balance_spec_def)
  moreover have "\<forall>p \<in> set (account_postings st (ac_account_id a)). po_side p \<in> set SIDES"
    using assms(1) by (auto simp: money_inv_def account_postings_def posting_valid_def)
  ultimately show ?thesis using delta_sum_signed by simp
qed

lemma money_inv_account_equation:
  assumes inv: "money_inv st"
  shows "(\<Sum>a\<leftarrow>filter debit_normal (dvals (s_accounts st)). get_balance st (ac_account_id a)) =
    (\<Sum>a\<leftarrow>filter (\<lambda>a. \<not> debit_normal a) (dvals (s_accounts st)). get_balance st (ac_account_id a))"
proof -
  let ?as = "dvals (s_accounts st)"
  have ids: "map ac_account_id ?as = map fst (s_accounts st)"
    using inv by (simp add: money_inv_def table_ok_def keyed_dvals)
  have dist: "distinct (map ac_account_id ?as)"
    using inv by (simp add: ids money_inv_def table_ok_def dict_ok_def)
  have sub: "po_account_id ` set (dvals (s_postings st)) \<subseteq> set (map ac_account_id ?as)"
  proof
    fix i assume "i \<in> po_account_id ` set (dvals (s_postings st))"
    then have "dget (s_accounts st) i \<noteq> None" using inv by (auto simp: money_inv_def)
    then show "i \<in> set (map ac_account_id ?as)" unfolding ids by (simp add: dget_None_iff)
  qed
  have "(\<Sum>a\<leftarrow>?as. (if debit_normal a then 1 else -1) * get_balance st (ac_account_id a)) =
      (\<Sum>i\<leftarrow>map ac_account_id ?as. \<Sum>p\<leftarrow>account_postings st i. signed_amount p)"
    using signed_balance [OF inv] by (simp add: comp_def cong: map_cong)
  also have "\<dots> = (\<Sum>i\<in>set (map ac_account_id ?as). \<Sum>p\<leftarrow>account_postings st i. signed_amount p)"
    using dist by (simp only: sum_list_distinct_conv_sum_set)
  also have "\<dots> = 0"
    unfolding account_postings_def
    by (simp only: sum_list_group [OF finite_set sub] money_inv_signed_zero [OF inv])
  finally have "(\<Sum>a\<leftarrow>?as. (if debit_normal a then 1 else -1) * get_balance st (ac_account_id a)) = 0" .
  moreover have "(\<Sum>a\<leftarrow>as. (if debit_normal a then 1 else -1) * get_balance st (ac_account_id a)) =
      (\<Sum>a\<leftarrow>filter debit_normal as. get_balance st (ac_account_id a)) -
      (\<Sum>a\<leftarrow>filter (\<lambda>a. \<not> debit_normal a) as. get_balance st (ac_account_id a))" for as
    by (induction as) auto
  ultimately show ?thesis by simp
qed

subsection \<open>A call that raises changes nothing\<close>

lemma atomic_duplicate_handler:
  assumes "atomic_on I m"
  shows "atomic_on I (\<lambda>st. case d st of Some row \<Rightarrow> (f row, st)
    | None \<Rightarrow> (case m st of (Inr _, st') \<Rightarrow> (Inr i, st')
       | (Inl (LedgerDuplicateEventError _), st') \<Rightarrow> (g st', st') | (Inl e, st') \<Rightarrow> (Inl e, st')))"
  unfolding atomic_on_def
proof (intro allI impI)
  fix s e s'
  assume I: "I s" and eq: "(case d s of Some row \<Rightarrow> (f row, s)
    | None \<Rightarrow> (case m s of (Inr _, st') \<Rightarrow> (Inr i, st')
       | (Inl (LedgerDuplicateEventError _), st') \<Rightarrow> (g st', st') | (Inl e, st') \<Rightarrow> (Inl e, st'))) = (Inl e, s')"
  have "t = s" if "m s = (Inl x, t)" for x t
    using assms I that by (auto simp: atomic_on_def)
  then show "s' = s" using eq by (auto split: option.splits prod.splits sum.splits ledger_error.splits)
qed

lemma atomic_trial_balance_assertion: "atomic_on money_inv (trial_balance_assertion now)"
  unfolding atomic_on_def
  by (simp add: trial_balance_assertion_def bind_pm_def get_pm_def money_inv_balanced ret_def)

lemmas call_defs = create_account_def post_journal_entry_def open_hold_def release_hold_def
  get_open_hold_id_def service_get_balance_def initialize_chain_def verify_chain_def
  write_audit_event_def emit_event_def

lemma atomic_exec_call: "atomic_on money_inv (exec_call env c)"
proof (cases c)
  case (TrialBalanceAssertion now)
  then show ?thesis
    by (simp add: returns_def atomic_trial_balance_assertion atomic_bind_ret)
qed (simp_all only: exec_call.simps returns_def call_defs Let_def,
  (intro atomic_intros atomic_duplicate_handler keeps_intros)+)

subsection \<open>A sample history\<close>

text \<open>A service with a sample hash of 64 hexadecimal characters and a sample signer, and a history
  that opens two accounts and moves 500 paisa twice between them.\<close>

definition demo_hash :: "string \<Rightarrow> string" where
  "demo_hash s = take 64 (filter is_hex (rev s) @ replicate 64 (CHR ''0''))"

definition demo_env :: ledger_env where
  "demo_env = \<lparr>le_h = demo_hash, le_redact = id, le_sign = (\<lambda>m. (m @ ''s'', ''key'')),
     le_verify = (\<lambda>m s k. s = m @ ''s'' \<and> k = ''key''), le_producer = ''ledger'', le_interval = 2,
     le_trusted_keys = [''key'']\<rparr>"

definition demo_account :: "string \<Rightarrow> string \<Rightarrow> string \<Rightarrow> account_spec" where
  "demo_account ty sub tag = \<lparr>sp_account_type = ty, sp_account_subtype = sub, sp_owner_id = None,
     sp_owner_type = None, sp_parent_id = None, sp_purpose_tag = Some tag, sp_is_system = True,
     sp_currency = ''BDT''\<rparr>"

definition demo_post :: "string \<Rightarrow> string \<Rightarrow> string \<Rightarrow> int \<Rightarrow> journal_entry_spec" where
  "demo_post k a b n = \<lparr>js_reference_id = ''pi_1'' @ k, js_reference_type = ''PAYMENT'',
     js_entry_type = ''payment_captured'', js_description = ''capture'', js_produced_by = ''kernel'',
     js_idempotency_key = k, js_postings =
       [\<lparr>ps_account_id = a, ps_side = ''DEBIT'', ps_amount_minor = n, ps_currency = ''BDT''\<rparr>,
        \<lparr>ps_account_id = b, ps_side = ''CREDIT'', ps_amount_minor = n, ps_currency = ''BDT''\<rparr>]\<rparr>"

definition demo_calls :: "ledger_call list" where
  "demo_calls =
     [CreateAccount (demo_account ''ASSET'' ''SPONSOR_BANK_TCSA'' ''tcsa'') (Aware 0),
      CreateAccount (demo_account ''LIABILITY'' ''CUSTOMER_FLOAT'' ''flo'') (Aware 0),
      PostJournalEntry (demo_post ''k1'' ''acct_acaedececebcca0000000000''
        ''acct_faedececebcca00000000000'' 500) (Aware 0),
      PostJournalEntry (demo_post ''k2'' ''acct_faedececebcca00000000000''
        ''acct_acaedececebcca0000000000'' 500) (Aware 1000000)]"

fun run_calls :: "ledger_env \<Rightarrow> ledger_call list \<Rightarrow> ledger_store \<Rightarrow> ledger_store" where
  "run_calls env [] st = st"
| "run_calls env (c # cs) st = run_calls env cs (snd (exec_call env c st))"

lemma reach_run_calls: "ledger_reach env st \<Longrightarrow> ledger_reach env (run_calls env cs st)"
  by (induction cs arbitrary: st) (auto intro: ledger_reach.call)

definition demo_ledger :: ledger_store where
  "demo_ledger = run_calls demo_env demo_calls new_store"

lemma reach_demo_ledger: "ledger_reach demo_env demo_ledger"
  unfolding demo_ledger_def by (intro reach_run_calls ledger_reach.start)

subsection \<open>Properties\<close>

text \<open>C1. In every state the service can reach, debits equal credits over all postings and within
  every journal entry, so the trial-balance assertion returns.\<close>

theorem reachable_ledger_balances:
  assumes "ledger_reach env st"
  shows "balanced (trial_balance_of st) \<and>
    (\<forall>i. debit_sum (entry_postings st i) = credit_sum (entry_postings st i)) \<and>
    trial_balance_assertion now st = (Inr (), st)"
proof -
  have inv: "money_inv st" using assms by (rule reach_money_inv)
  then have "balanced (trial_balance_of st)" by (rule money_inv_balanced)
  then show ?thesis
    using inv by (simp add: trial_balance_assertion_def bind_pm_def get_pm_def ret_def money_inv_def)
qed

theorem reachable_ledger_balances_witness:
  "balanced (trial_balance_of demo_ledger) \<and>
    trial_balance_assertion (Aware 0) demo_ledger = (Inr (), demo_ledger)"
  using reachable_ledger_balances [OF reach_demo_ledger, of "Aware 0"] by blast

text \<open>C2. The accounting equation: in every reachable state the balances of the debit-normal
  accounts (assets, expenses) sum to those of the credit-normal accounts.\<close>

theorem reachable_accounting_equation:
  assumes "ledger_reach env st"
  shows "(\<Sum>a\<leftarrow>filter debit_normal (dvals (s_accounts st)). get_balance st (ac_account_id a)) =
    (\<Sum>a\<leftarrow>filter (\<lambda>a. \<not> debit_normal a) (dvals (s_accounts st)). get_balance st (ac_account_id a))"
  using assms by (intro money_inv_account_equation reach_money_inv)

theorem reachable_accounting_equation_witness:
  "(\<Sum>a\<leftarrow>filter debit_normal (dvals (s_accounts demo_ledger)). get_balance demo_ledger (ac_account_id a)) =
    (\<Sum>a\<leftarrow>filter (\<lambda>a. \<not> debit_normal a) (dvals (s_accounts demo_ledger)).
       get_balance demo_ledger (ac_account_id a))"
  by (rule reachable_accounting_equation [OF reach_demo_ledger])

text \<open>C3. The running balance that commits maintain is the fold of the account's postings: it is
  what \<open>get_balance_as_of\<close> recomputes from the postings table at any time after the last one.\<close>

theorem running_balance_is_fold:
  assumes "ledger_reach env st" and "\<And>p. p \<in> set (dvals (s_postings st)) \<Longrightarrow> po_produced_at p \<le> t"
  shows "get_balance st i = get_balance_as_of st i t"
proof -
  have "filter (\<lambda>p. po_account_id p = i \<and> po_produced_at p \<le> t) (dvals (s_postings st)) =
      account_postings st i"
    unfolding account_postings_def using assms(2) by (intro filter_cong) auto
  then show ?thesis
    using reach_money_inv [OF assms(1)]
    by (simp add: money_inv_def balance_spec_def get_balance_as_of_def delta_sum_def
      cong: option.case_cong)
qed

theorem running_balance_is_fold_witness:
  "\<exists>t. get_balance demo_ledger ''acct_acaedececebcca0000000000'' =
    get_balance_as_of demo_ledger ''acct_acaedececebcca0000000000'' t"
proof -
  let ?t = "Max (insert 0 (po_produced_at ` set (dvals (s_postings demo_ledger))))"
  have "po_produced_at p \<le> ?t" if "p \<in> set (dvals (s_postings demo_ledger))" for p
    using that by (intro Max_ge) auto
  then show ?thesis using running_balance_is_fold [OF reach_demo_ledger, of ?t] by blast
qed

text \<open>C4. Atomicity: on a reachable ledger, a service call that raises leaves every table as it
  was, the write gate included.\<close>

theorem raising_call_changes_nothing:
  assumes "ledger_reach env st" and "exec_call env' c st = (Inl e, st')"
  shows "st' = st"
  using atomic_exec_call reach_money_inv [OF assms(1)] assms(2) by (auto simp: atomic_on_def)

theorem raising_call_changes_nothing_witness:
  "\<exists>e. exec_call demo_env (ReleaseHold ''hold_1'' ''VOIDED'' None (Aware 0)) new_store = (Inl e, new_store)"
proof -
  have "\<exists>e st'. exec_call demo_env (ReleaseHold ''hold_1'' ''VOIDED'' None (Aware 0)) new_store = (Inl e, st')"
    by (simp add: returns_def release_hold_def transaction_def tx_get_account_hold_def new_tx_def
      new_store_def now_of_def bind_pm_def require_that_def ret_def raise_err_def lift_sum_def get_pm_def)
  then obtain e st' where call:
      "exec_call demo_env (ReleaseHold ''hold_1'' ''VOIDED'' None (Aware 0)) new_store = (Inl e, st')"
    by blast
  then have "st' = new_store" by (rule raising_call_changes_nothing [OF ledger_reach.start])
  then show ?thesis using call by blast
qed

end
