(* ===== verification/Ledger_Chain.thy ===== *)
theory Ledger_Chain
  imports Ledger_Reach
begin

text \<open>
  The hash chain of a ledger history. \<open>chain_ok\<close> says what the rows of one domain look like when only
  the service wrote them; it is kept by \<open>append_chain_entry\<close>, so it holds of every reachable ledger,
  for the committed rows and inside a unit of work alike.
\<close>

subsection \<open>Well-linked rows\<close>

definition row_hash :: "ledger_env \<Rightarrow> string \<Rightarrow> chain_entry_row \<Rightarrow> ledger_error + string" where
  "row_hash env prev r = compute_entry_hash (le_h env) prev (ce_chain_index r) (ce_chain_domain r)
     (ce_entry_type r) (ce_payload_hash r) (ce_payload_pointer r) (ce_amount_minor_sum r)
     (ce_producer r) (to_canonical_ts (ce_produced_at r))"

definition checkpoint_fields_ok :: "ledger_env \<Rightarrow> chain_entry_row \<Rightarrow> bool" where
  "checkpoint_fields_ok env r \<longleftrightarrow>
     ce_is_checkpoint r = (0 < ce_chain_index r \<and> ce_chain_index r mod le_interval env = 0) \<and>
     ce_checkpoint_sequence_in_domain r =
       (if ce_is_checkpoint r then Some (ce_chain_index r div le_interval env) else None) \<and>
     ce_checkpoint_sig r = (if ce_is_checkpoint r then Some (fst (le_sign env (ce_chain_hash r))) else None) \<and>
     ce_checkpoint_public_key_b64 r =
       (if ce_is_checkpoint r then Some (snd (le_sign env (ce_chain_hash r))) else None)"

definition row_ok :: "ledger_env \<Rightarrow> string \<Rightarrow> string \<Rightarrow> int \<Rightarrow> chain_entry_row \<Rightarrow> bool" where
  "row_ok env dmn prev n r \<longleftrightarrow> ce_chain_index r = n \<and> ce_chain_domain r = dmn \<and>
     ce_prev_chain_hash r = prev \<and> row_hash env prev r = Inr (ce_chain_hash r) \<and>
     ce_producer r = le_producer env \<and> checkpoint_fields_ok env r \<and>
     (n = 0 \<longrightarrow> ce_entry_type r = GENESIS_ENTRY_TYPE \<and>
        ce_payload_hash r = GENESIS_PAYLOAD_HASH (le_h env) \<and>
        ce_payload_pointer r = ''genesis://bdpay/'' @ dmn)"

fun chain_from :: "ledger_env \<Rightarrow> string \<Rightarrow> string \<Rightarrow> int \<Rightarrow> chain_entry_row list \<Rightarrow> bool" where
  "chain_from env dmn prev n [] \<longleftrightarrow> True"
| "chain_from env dmn prev n (r # rs) \<longleftrightarrow>
     row_ok env dmn prev n r \<and> chain_from env dmn (ce_chain_hash r) (n + 1) rs"

definition tip_hash :: "string \<Rightarrow> chain_entry_row list \<Rightarrow> string" where
  "tip_hash prev rs = (if rs = [] then prev else ce_chain_hash (last rs))"

lemma chain_from_append:
  "chain_from env dmn prev n (rs @ ss) \<longleftrightarrow>
     chain_from env dmn prev n rs \<and> chain_from env dmn (tip_hash prev rs) (n + int (length rs)) ss"
  by (induction rs arbitrary: prev n) (auto simp: tip_hash_def algebra_simps)

lemma chain_from_nth:
  "chain_from env dmn prev n rs \<Longrightarrow> i < length rs \<Longrightarrow>
     row_ok env dmn (tip_hash prev (take i rs)) (n + int i) (rs ! i)"
proof (induction rs arbitrary: prev n i)
  case Nil
  then show ?case by simp
next
  case (Cons r rs)
  then show ?case
  proof (cases i)
    case 0
    then show ?thesis using Cons.prems by (simp add: tip_hash_def)
  next
    case (Suc j)
    then have "row_ok env dmn (tip_hash (ce_chain_hash r) (take j rs)) (n + 1 + int j) (rs ! j)"
      using Cons by simp
    then show ?thesis using Suc by (auto simp: tip_hash_def algebra_simps)
  qed
qed

text \<open>The rows of a domain and their keys.\<close>

definition chain_ok :: "ledger_env \<Rightarrow> string \<Rightarrow> (int, chain_entry_row) dict \<Rightarrow> bool" where
  "chain_ok env dmn c \<longleftrightarrow> dkeys c = map int [0..<length c] \<and>
     chain_from env dmn GENESIS_PREV_HASH 0 (dvals c)"

lemma chain_ok_Nil [simp]: "chain_ok env dmn []"
  by (simp add: chain_ok_def dkeys_def)

lemma length_dvals [simp]: "length (dvals d) = length d"
  by (simp add: dvals_def)

lemma chain_ok_snoc:
  "chain_ok env dmn c \<Longrightarrow> row_ok env dmn (tip_hash GENESIS_PREV_HASH (dvals c)) (int (length c)) r \<Longrightarrow>
     chain_ok env dmn (c @ [(int (length c), r)])"
  by (simp add: chain_ok_def chain_from_append dkeys_def) (simp add: dvals_def)

lemma chain_ok_dict: "chain_ok env dmn c \<Longrightarrow> dict_ok c"
  by (simp add: chain_ok_def dict_ok_def dkeys_def distinct_map)

lemma chain_ok_get:
  assumes "chain_ok env dmn c"
  shows "dget c i = (if 0 \<le> i \<and> nat i < length c then Some (dvals c ! nat i) else None)"
proof (cases "0 \<le> i \<and> nat i < length c")
  case True
  have "map fst c ! nat i = i" using assms True by (simp add: chain_ok_def dkeys_def)
  then have "c ! nat i = (i, dvals c ! nat i)" using True by (simp add: dvals_def prod_eq_iff)
  then have "(i, dvals c ! nat i) \<in> set c" using True by (metis nth_mem)
  then show ?thesis using True dget_Some_iff [OF chain_ok_dict [OF assms]] by simp
next
  case False
  have "fst ` set c = int ` {0..<length c}"
    using assms by (metis chain_ok_def dkeys_def list.set_map set_upt)
  then have "i \<notin> fst ` set c" using False by auto
  then have "dget c i = None" by (simp add: dget_None_iff)
  then show ?thesis using False by simp
qed

lemma Max_int_upt: "0 < n \<Longrightarrow> Max (int ` {0..<n}) = int n - 1"
  by (rule Max_eqI) (auto intro!: image_eqI [of _ _ "n - 1"])

lemma chain_ok_keys: "chain_ok env dmn c \<Longrightarrow> set (dkeys c) = int ` {0..<length c}"
  by (metis chain_ok_def list.set_map set_upt)

subsection \<open>The chain inside a unit of work\<close>

definition staged_chain :: "mem_tx \<Rightarrow> string \<Rightarrow> (int, chain_entry_row) dict" where
  "staged_chain tx dmn = map (\<lambda>(k, r). (snd k, r)) (filter (\<lambda>(k, r). fst k = dmn) (t_chain tx))"

definition tx_chain :: "mem_tx \<Rightarrow> string \<Rightarrow> (int, chain_entry_row) dict" where
  "tx_chain tx dmn = chain_of (t_store tx) dmn @ staged_chain tx dmn"

lemma staged_indexes:
  "map snd (filter (\<lambda>k. fst k = dmn) (dkeys (t_chain tx))) = dkeys (staged_chain tx dmn)"
  by (simp add: staged_chain_def dkeys_def filter_map comp_def case_prod_unfold)

lemma staged_get: "dget (t_chain tx) (dmn, i) = dget (staged_chain tx dmn) i"
proof -
  have "dget d (dmn, i) = dget (map (\<lambda>(k, r). (snd k, r)) (filter (\<lambda>(k, r). fst k = dmn) d)) i" for d
    by (induction d) auto
  then show ?thesis by (simp add: staged_chain_def)
qed

lemma Max_int_range: "m < n \<Longrightarrow> Max (int ` {m..<n}) = int n - 1"
  by (rule Max_eqI) (auto intro!: image_eqI [of _ _ "n - 1"])

lemma staged_keys:
  assumes "chain_ok env dmn (tx_chain tx dmn)"
  shows "dkeys (staged_chain tx dmn) =
    map int [length (chain_of (t_store tx) dmn)..<length (tx_chain tx dmn)]"
proof -
  let ?m = "length (chain_of (t_store tx) dmn)"
  have "dkeys (staged_chain tx dmn) = drop ?m (dkeys (tx_chain tx dmn))"
    by (simp add: tx_chain_def dkeys_def)
  also have "\<dots> = drop ?m (map int [0..<length (tx_chain tx dmn)])"
    using assms by (simp add: chain_ok_def)
  finally show ?thesis by (simp add: drop_map)
qed

lemma lock_chain_tip_ok:
  assumes ok: "chain_ok env dmn (tx_chain tx dmn)" and st: "chain_ok env dmn (chain_of (t_store tx) dmn)"
  shows "lock_chain_tip tx dmn = Inr (if tx_chain tx dmn = [] then None else
    Some \<lparr>ct_chain_index = int (length (tx_chain tx dmn)) - 1,
          ct_chain_hash = ce_chain_hash (last (dvals (tx_chain tx dmn)))\<rparr>)"
proof -
  let ?A = "chain_of (t_store tx) dmn" and ?B = "staged_chain tx dmn" and ?C = "tx_chain tx dmn"
  let ?n = "int (length ?C) - 1"
  have C: "?C = ?A @ ?B" by (simp add: tx_chain_def)
  have keys: "set (dkeys ?B) = int ` {length ?A..<length ?C}"
    by (simp add: staged_keys [OF ok])
  have nat_n: "nat ?n = length ?C - 1" by arith
  have get: "dget ?C ?n = Some (last (dvals ?C))" if "?C \<noteq> []"
    using that chain_ok_get [OF ok, of ?n] by (simp add: nat_n last_conv_nth dvals_def)
  have row: "ce_chain_index (last (dvals ?C)) = ?n" if "?C \<noteq> []"
    using chain_from_nth [of env dmn GENESIS_PREV_HASH 0 "dvals ?C" "length ?C - 1"] ok that
    by (simp add: chain_ok_def row_ok_def last_conv_nth dvals_def of_nat_diff Suc_le_eq)
  consider "?C = []" | "?B \<noteq> []" | "?A \<noteq> []" "?B = []" using C by auto
  then show ?thesis
  proof cases
    case 1
    then have "?A = []" "?B = []" using C by auto
    then show ?thesis
      by (simp add: lock_chain_tip_def staged_indexes chain_of_def [symmetric] dkeys_def [of "[]"] 1)
  next
    case 2
    have lt: "length ?A < length ?C" using 2 C by simp
    have "dkeys ?B \<noteq> []" using 2 by (simp add: dkeys_def)
    have maxB: "Max (set (dkeys ?B)) = ?n" using lt by (simp add: keys Max_int_range)
    have maxA: "max ?n (Max (set (dkeys ?A))) = ?n" if "?A \<noteq> []"
      using that lt by (simp add: chain_ok_keys [OF st] Max_int_upt)
    have "dget ?B ?n = dget ?C ?n"
    proof -
      have "\<not> nat ?n < length ?A" using lt nat_n by linarith
      then have "dget ?A ?n = None" using chain_ok_get [OF st, of ?n] by simp
      then show ?thesis by (simp add: C dget_append)
    qed
    then have "dget (t_chain tx) (dmn, ?n) = Some (last (dvals ?C))"
      using get 2 C by (simp add: staged_get)
    then show ?thesis
      using 2 C maxB maxA row \<open>dkeys ?B \<noteq> []\<close>
      by (auto simp: lock_chain_tip_def staged_indexes chain_of_def [symmetric] Let_def)
  next
    case 3
    then have "Max (set (dkeys ?A)) = ?n" using C by (simp add: chain_ok_keys [OF st] Max_int_upt)
    moreover have "dget (t_chain tx) (dmn, ?n) = None" using 3 by (simp add: staged_get)
    moreover have "dget ?A ?n = Some (last (dvals ?C))" using get 3 C by simp
    ultimately show ?thesis
      using 3 C row
      by (simp add: lock_chain_tip_def staged_indexes chain_of_def [symmetric] Let_def dkeys_def [of "[]"])
  qed
qed

subsection \<open>Checkpoints\<close>

definition checkpoint_of :: "ledger_env \<Rightarrow> string \<Rightarrow> checkpoint_row \<Rightarrow> chain_entry_row \<Rightarrow> bool" where
  "checkpoint_of env dmn cp r \<longleftrightarrow> cp_chain_domain cp = dmn \<and>
     cp_checkpoint_sequence_in_domain cp = ce_chain_index r div le_interval env \<and>
     cp_chain_index_to cp = ce_chain_index r \<and>
     cp_chain_hash_at_checkpoint cp = ce_chain_hash r \<and>
     cp_checkpoint_sig cp = fst (le_sign env (ce_chain_hash r)) \<and>
     cp_checkpoint_public_key_b64 cp = snd (le_sign env (ce_chain_hash r))"

definition checkpoints_ok :: "ledger_env \<Rightarrow> string \<Rightarrow> checkpoint_row list \<Rightarrow> chain_entry_row list \<Rightarrow> bool" where
  "checkpoints_ok env dmn cps rows \<longleftrightarrow> list_all2 (checkpoint_of env dmn) cps (filter ce_is_checkpoint rows)"

definition checkpoints_in :: "ledger_store \<Rightarrow> string \<Rightarrow> checkpoint_row list" where
  "checkpoints_in st dmn = dget_or (s_checkpoints st) dmn []"

definition tx_checkpoints :: "mem_tx \<Rightarrow> string \<Rightarrow> checkpoint_row list" where
  "tx_checkpoints tx dmn = checkpoints_in (t_store tx) dmn @ filter (\<lambda>c. cp_chain_domain c = dmn) (t_checkpoints tx)"

definition domain_ok :: "ledger_env \<Rightarrow> string \<Rightarrow> (int, chain_entry_row) dict \<Rightarrow> checkpoint_row list \<Rightarrow> bool" where
  "domain_ok env dmn c cps \<longleftrightarrow> chain_ok env dmn c \<and> checkpoints_ok env dmn cps (dvals c)"

definition chain_inv :: "ledger_env \<Rightarrow> ledger_store \<Rightarrow> bool" where
  "chain_inv env st \<longleftrightarrow> (\<forall>dmn. domain_ok env dmn (chain_of st dmn) (checkpoints_in st dmn))"

definition chain_staged :: "ledger_env \<Rightarrow> ledger_store \<Rightarrow> mem_tx \<Rightarrow> bool" where
  "chain_staged env st tx \<longleftrightarrow> t_store tx = st \<and> chain_inv env st \<and>
     (\<forall>dmn. domain_ok env dmn (tx_chain tx dmn) (tx_checkpoints tx dmn))"

lemma tx_chain_frame [simp]:
  "tx_chain (tx\<lparr>t_accounts := a\<rparr>) = tx_chain tx"
  "tx_chain (tx\<lparr>t_journal := b\<rparr>) = tx_chain tx"
  "tx_chain (tx\<lparr>t_journal_by_idem := c\<rparr>) = tx_chain tx"
  "tx_chain (tx\<lparr>t_postings := d\<rparr>) = tx_chain tx"
  "tx_chain (tx\<lparr>t_checkpoints := e\<rparr>) = tx_chain tx"
  "tx_chain (tx\<lparr>t_outbox := f\<rparr>) = tx_chain tx"
  "tx_chain (tx\<lparr>t_audit := g\<rparr>) = tx_chain tx"
  "tx_chain (tx\<lparr>t_holds := hs\<rparr>) = tx_chain tx"
  "tx_chain (tx\<lparr>t_next_entry_index := n\<rparr>) = tx_chain tx"
  "tx_chain (tx\<lparr>t_next_audit_index := m\<rparr>) = tx_chain tx"
  by (rule ext, simp add: tx_chain_def staged_chain_def)+

lemma tx_checkpoints_frame [simp]:
  "tx_checkpoints (tx\<lparr>t_accounts := a\<rparr>) = tx_checkpoints tx"
  "tx_checkpoints (tx\<lparr>t_journal := b\<rparr>) = tx_checkpoints tx"
  "tx_checkpoints (tx\<lparr>t_journal_by_idem := c\<rparr>) = tx_checkpoints tx"
  "tx_checkpoints (tx\<lparr>t_postings := d\<rparr>) = tx_checkpoints tx"
  "tx_checkpoints (tx\<lparr>t_chain := e\<rparr>) = tx_checkpoints tx"
  "tx_checkpoints (tx\<lparr>t_outbox := f\<rparr>) = tx_checkpoints tx"
  "tx_checkpoints (tx\<lparr>t_audit := g\<rparr>) = tx_checkpoints tx"
  "tx_checkpoints (tx\<lparr>t_holds := hs\<rparr>) = tx_checkpoints tx"
  "tx_checkpoints (tx\<lparr>t_next_entry_index := n\<rparr>) = tx_checkpoints tx"
  "tx_checkpoints (tx\<lparr>t_next_audit_index := m\<rparr>) = tx_checkpoints tx"
  by (rule ext, simp add: tx_checkpoints_def)+

lemma chain_staged_frame [simp]:
  "chain_staged env st (tx\<lparr>t_accounts := a\<rparr>) = chain_staged env st tx"
  "chain_staged env st (tx\<lparr>t_journal := b\<rparr>) = chain_staged env st tx"
  "chain_staged env st (tx\<lparr>t_journal_by_idem := c\<rparr>) = chain_staged env st tx"
  "chain_staged env st (tx\<lparr>t_postings := d\<rparr>) = chain_staged env st tx"
  "chain_staged env st (tx\<lparr>t_outbox := f\<rparr>) = chain_staged env st tx"
  "chain_staged env st (tx\<lparr>t_audit := g\<rparr>) = chain_staged env st tx"
  "chain_staged env st (tx\<lparr>t_holds := hs\<rparr>) = chain_staged env st tx"
  "chain_staged env st (tx\<lparr>t_next_entry_index := n\<rparr>) = chain_staged env st tx"
  "chain_staged env st (tx\<lparr>t_next_audit_index := m\<rparr>) = chain_staged env st tx"
  by (simp_all add: chain_staged_def)

lemma keeps_chain_frame [keeps_intros]:
  "keeps (chain_staged env st) (insert_account row)"
  "keeps (chain_staged env st) (insert_journal_entry je)"
  "keeps (chain_staged env st) (insert_posting p)"
  "keeps (chain_staged env st) (insert_outbox ob)"
  "keeps (chain_staged env st) (insert_audit_event ae)"
  "keeps (chain_staged env st) (insert_account_hold ho)"
  "keeps (chain_staged env st) (update_account_hold ho)"
  unfolding insert_account_def insert_journal_entry_def insert_posting_def insert_outbox_def
    insert_audit_event_def insert_account_hold_def update_account_hold_def
  by (intro keeps_intros keeps_modify; simp)+

subsection \<open>Appending to the chain\<close>

lemma staged_chain_put:
  assumes "dget (t_chain tx) (dmn, i) = None"
  shows "staged_chain (tx\<lparr>t_chain := dput (dmn, i) r (t_chain tx)\<rparr>) d =
    (if d = dmn then staged_chain tx d @ [(i, r)] else staged_chain tx d)"
  using assms by (simp add: staged_chain_def dput_fresh)

lemma insert_chain_entry_effect:
  assumes "insert_chain_entry r tx = (Inr u, tx')"
  shows "tx' = tx\<lparr>t_chain := dput (ce_chain_domain r, ce_chain_index r) r (t_chain tx)\<rparr> \<and>
    dget (t_chain tx) (ce_chain_domain r, ce_chain_index r) = None"
  using assms by (auto simp: insert_chain_entry_def pm_Inr_iffs)

lemma tx_chain_insert:
  assumes "insert_chain_entry r tx = (Inr u, tx')"
  shows "tx_chain tx' d = (if d = ce_chain_domain r then tx_chain tx d @ [(ce_chain_index r, r)] else tx_chain tx d)"
  using insert_chain_entry_effect [OF assms] staged_chain_put [of tx "ce_chain_domain r" "ce_chain_index r" r d]
  by (simp add: tx_chain_def)

definition snoc_chain :: "string \<Rightarrow> chain_entry_row \<Rightarrow> mem_tx \<Rightarrow> mem_tx \<Rightarrow> bool" where
  "snoc_chain dmn r tx tx' \<longleftrightarrow> (\<forall>d. tx_chain tx' d =
     (if d = dmn then tx_chain tx d @ [(int (length (tx_chain tx d)), r)] else tx_chain tx d))"

lemma insert_genesis_effect:
  assumes "insert_genesis env dmn at tx = (Inr g, tx')" and "tx_chain tx dmn = []"
  shows "row_ok env dmn GENESIS_PREV_HASH 0 g \<and> \<not> ce_is_checkpoint g \<and>
    snoc_chain dmn g tx tx' \<and> (\<exists>c. tx' = tx\<lparr>t_chain := c\<rparr>)"
proof -
  obtain u where ins: "insert_chain_entry g tx = (Inr u, tx')"
    and g: "ce_chain_domain g = dmn" "ce_chain_index g = 0" "row_ok env dmn GENESIS_PREV_HASH 0 g"
      "\<not> ce_is_checkpoint g"
    using assms(1)
    by (auto simp: insert_genesis_def pm_Inr_iffs Let_def row_ok_def row_hash_def checkpoint_fields_ok_def)
  then show ?thesis
    using assms(2) tx_chain_insert [OF ins] insert_chain_entry_effect [OF ins]
    by (auto simp: snoc_chain_def)
qed

text \<open>A call of \<open>append_chain_entry\<close> that returns: after the genesis row, if the domain was empty, it
  appends one row with the given content, and a checkpoint when one is due.\<close>

definition appended :: "ledger_env \<Rightarrow> string \<Rightarrow> string \<Rightarrow> string \<Rightarrow> string \<Rightarrow> int \<Rightarrow> instant
    \<Rightarrow> chain_entry_row \<Rightarrow> bool" where
  "appended env dmn ty ph pp amt at r \<longleftrightarrow> ce_entry_type r = ty \<and> ce_payload_hash r = ph \<and>
     ce_payload_pointer r = pp \<and> ce_amount_minor_sum r = amt \<and> ce_produced_at r = at \<and>
     ce_producer r = le_producer env \<and> ce_chain_domain r = dmn"

lemma chain_staged_genesis:
  assumes "chain_staged env st tx" and "insert_genesis env dmn at tx = (Inr g, tx')"
    and "tx_chain tx dmn = []"
  shows "chain_staged env st tx' \<and> tx_chain tx' dmn = [(0, g)] \<and> (\<exists>c. tx' = tx\<lparr>t_chain := c\<rparr>)"
proof -
  note eff = insert_genesis_effect [OF assms(2,3)]
  obtain c where c: "tx' = tx\<lparr>t_chain := c\<rparr>" using eff by blast
  have "domain_ok env d (tx_chain tx' d) (tx_checkpoints tx' d)" for d
  proof (cases "d = dmn")
    case True
    have "domain_ok env dmn (tx_chain tx dmn) (tx_checkpoints tx dmn)"
      using assms(1) by (simp add: chain_staged_def)
    moreover have "chain_ok env dmn [(0, g)]"
      using eff chain_ok_snoc [of env dmn "[]" g] by (simp add: tip_hash_def)
    ultimately show ?thesis
      using eff c True assms(3) by (simp add: domain_ok_def checkpoints_ok_def snoc_chain_def dvals_def)
  next
    case False
    then show ?thesis using eff c assms(1) by (simp add: snoc_chain_def chain_staged_def)
  qed
  then show ?thesis using eff c assms by (auto simp: chain_staged_def snoc_chain_def)
qed

lemma insert_checkpoint_effect:
  "insert_checkpoint cp tx = (Inr u, tx') \<Longrightarrow> tx' = tx\<lparr>t_checkpoints := t_checkpoints tx @ [cp]\<rparr>"
  by (auto simp: insert_checkpoint_def pm_Inr_iffs)

definition tip_or_genesis :: "ledger_env \<Rightarrow> string \<Rightarrow> instant \<Rightarrow> mem_tx \<Rightarrow> mem_tx \<Rightarrow> bool" where
  "tip_or_genesis env dmn at tx tx0 \<longleftrightarrow>
     (if tx_chain tx dmn = [] then \<exists>g. insert_genesis env dmn at tx = (Inr g, tx0) else tx0 = tx)"

lemma chain_staged_tip_or_genesis:
  assumes "chain_staged env st tx" and "tip_or_genesis env dmn at tx tx0"
  shows "chain_staged env st tx0 \<and> tx_chain tx0 dmn \<noteq> [] \<and> (\<exists>c. tx0 = tx\<lparr>t_chain := c\<rparr>) \<and>
    (\<exists>g. dvals (tx_chain tx0 dmn) = (if tx_chain tx dmn = [] then [g] else dvals (tx_chain tx dmn))) \<and>
    (\<forall>d. d \<noteq> dmn \<longrightarrow> tx_chain tx0 d = tx_chain tx d)"
proof (cases "tx_chain tx dmn = []")
  case True
  then obtain g where g: "insert_genesis env dmn at tx = (Inr g, tx0)"
    using assms(2) by (auto simp: tip_or_genesis_def)
  then show ?thesis
    using chain_staged_genesis [OF assms(1) g True] insert_genesis_effect [OF g True] True
    by (auto simp: dvals_def snoc_chain_def)
next
  case False
  have "\<exists>c. tx = tx\<lparr>t_chain := c\<rparr>" by (rule exI [of _ "t_chain tx"]) simp
  then show ?thesis using False assms by (simp add: tip_or_genesis_def)
qed

lemma linked_row_ok:
  assumes "compute_entry_hash (le_h env) prev n dmn ty ph pp amt (le_producer env) (to_canonical_ts at) = Inr ch"
    and "0 < n"
  shows "row_ok env dmn prev n (linked_row env dmn ty ph pp amt at n prev ch) \<and>
    appended env dmn ty ph pp amt at (linked_row env dmn ty ph pp amt at n prev ch)"
  using assms
  by (simp add: row_ok_def row_hash_def checkpoint_fields_ok_def linked_row_def Let_def appended_def)

lemma linked_row_fields [simp]:
  "ce_chain_domain (linked_row env dmn ty ph pp amt at n prev ch) = dmn"
  "ce_chain_index (linked_row env dmn ty ph pp amt at n prev ch) = n"
  "ce_chain_hash (linked_row env dmn ty ph pp amt at n prev ch) = ch"
  "ce_is_checkpoint (linked_row env dmn ty ph pp amt at n prev ch) = (n mod le_interval env = 0)"
  by (simp_all add: linked_row_def Let_def)

lemma linked_checkpoint_of:
  "checkpoint_of env dmn (linked_checkpoint env i dmn n ch at) (linked_row env dmn ty ph pp amt at n prev ch)"
  by (simp add: checkpoint_of_def linked_checkpoint_def)

lemma append_linked_entry_effect:
  assumes run: "append_linked_entry env dmn ty ph pp amt at (n - 1) prev tx = (Inr res, tx')" and n: "0 < n"
  shows "\<exists>r cps. row_ok env dmn prev n r \<and> appended env dmn ty ph pp amt at r \<and>
    tx' = tx\<lparr>t_chain := dput (dmn, n) r (t_chain tx), t_checkpoints := t_checkpoints tx @ cps\<rparr> \<and>
    dget (t_chain tx) (dmn, n) = None \<and>
    list_all2 (checkpoint_of env dmn) cps (filter ce_is_checkpoint [r]) \<and>
    res = (n, ce_chain_hash r, prev)"
proof -
  obtain ch u tx1 where hash: "compute_entry_hash (le_h env) prev n dmn ty ph pp amt (le_producer env)
        (to_canonical_ts at) = Inr ch"
    and ins: "insert_chain_entry (linked_row env dmn ty ph pp amt at n prev ch) tx = (Inr u, tx1)"
    and res: "res = (n, ch, prev)"
    and fin: "if n mod le_interval env = 0
      then \<exists>i. insert_checkpoint (linked_checkpoint env i dmn n ch at) tx1 = (Inr (), tx') else tx' = tx1"
    using run
    by (cases "n mod le_interval env = 0")
      (force simp: append_linked_entry_def Let_def pm_Inr_iffs)+
  let ?r = "linked_row env dmn ty ph pp amt at n prev ch"
  have tx1: "tx1 = tx\<lparr>t_chain := dput (dmn, n) ?r (t_chain tx)\<rparr>" "dget (t_chain tx) (dmn, n) = None"
    using insert_chain_entry_effect [OF ins] by simp_all
  define cps where "cps = drop (length (t_checkpoints tx1)) (t_checkpoints tx')"
  have "list_all2 (checkpoint_of env dmn) cps (filter ce_is_checkpoint [?r]) \<and>
      tx' = tx1\<lparr>t_checkpoints := t_checkpoints tx1 @ cps\<rparr>"
    using fin linked_checkpoint_of
    by (auto simp: cps_def dest!: insert_checkpoint_effect split: if_splits)
  then show ?thesis
    using tx1 res linked_row_ok [OF hash n]
    by (intro exI [of _ ?r] exI [of _ cps]) simp
qed

lemma chain_staged_linked:
  assumes staged: "chain_staged env st tx" and ne: "tx_chain tx dmn \<noteq> []"
    and n: "n = int (length (tx_chain tx dmn))" and prev: "prev = ce_chain_hash (last (dvals (tx_chain tx dmn)))"
    and run: "append_linked_entry env dmn ty ph pp amt at (n - 1) prev tx = (Inr res, tx')"
  shows "\<exists>r. appended env dmn ty ph pp amt at r \<and> chain_staged env st tx' \<and> snoc_chain dmn r tx tx' \<and>
    (\<exists>c cps. tx' = tx\<lparr>t_chain := c, t_checkpoints := cps\<rparr>) \<and> res = (n, ce_chain_hash r, prev)"
proof -
  have "0 < n" using ne n by simp
  from append_linked_entry_effect [OF run this] obtain r cps where
    r: "row_ok env dmn prev n r" "appended env dmn ty ph pp amt at r"
    and tx': "tx' = tx\<lparr>t_chain := dput (dmn, n) r (t_chain tx), t_checkpoints := t_checkpoints tx @ cps\<rparr>"
    and fresh: "dget (t_chain tx) (dmn, n) = None"
    and cps: "list_all2 (checkpoint_of env dmn) cps (filter ce_is_checkpoint [r])"
    and res: "res = (n, ce_chain_hash r, prev)"
    by blast
  have chain: "tx_chain tx' d = (if d = dmn then tx_chain tx d @ [(n, r)] else tx_chain tx d)" for d
    using staged_chain_put [OF fresh, of r d] tx' by (simp add: tx_chain_def staged_chain_def)
  have dom: "cp_chain_domain c = dmn" if "c \<in> set cps" for c
    using cps that by (auto simp: list_all2_iff in_set_zip checkpoint_of_def set_conv_nth split: if_splits)
  have cpts: "tx_checkpoints tx' d = (if d = dmn then tx_checkpoints tx d @ cps else tx_checkpoints tx d)" for d
  proof -
    have "filter (\<lambda>c. cp_chain_domain c = d) cps = (if d = dmn then cps else [])"
      using dom by (auto simp: filter_empty_conv)
    then show ?thesis using tx' by (simp add: tx_checkpoints_def)
  qed
  have "domain_ok env d (tx_chain tx' d) (tx_checkpoints tx' d)" for d
  proof (cases "d = dmn")
    case True
    have ok: "domain_ok env dmn (tx_chain tx dmn) (tx_checkpoints tx dmn)"
      using staged by (simp add: chain_staged_def)
    have "row_ok env dmn (tip_hash GENESIS_PREV_HASH (dvals (tx_chain tx dmn))) n r"
      using r(1) ne prev by (simp add: tip_hash_def dvals_def)
    then have "chain_ok env dmn (tx_chain tx' dmn)"
      using ok n chain chain_ok_snoc [of env dmn "tx_chain tx dmn" r] by (simp add: domain_ok_def)
    moreover have "checkpoints_ok env dmn (tx_checkpoints tx' dmn) (dvals (tx_chain tx' dmn))"
      using ok cps chain cpts
      by (simp add: domain_ok_def checkpoints_ok_def list_all2_appendI dvals_def)
    ultimately show ?thesis using True by (simp add: domain_ok_def)
  next
    case False
    then show ?thesis using staged chain cpts by (simp add: chain_staged_def)
  qed
  then have "chain_staged env st tx'" using staged tx' by (simp add: chain_staged_def)
  then show ?thesis using r res chain n tx' by (auto simp: snoc_chain_def)
qed

lemma append_chain_entry_effect:
  assumes staged: "chain_staged env st tx"
    and run: "append_chain_entry env dmn ty ph pp amt at tx = (Inr res, tx')"
  shows "chain_staged env st tx' \<and> (\<exists>c cps. tx' = tx\<lparr>t_chain := c, t_checkpoints := cps\<rparr>) \<and>
    (\<exists>g r. appended env dmn ty ph pp amt at r \<and> dvals (tx_chain tx' dmn) =
       (if tx_chain tx dmn = [] then [g] else dvals (tx_chain tx dmn)) @ [r]) \<and>
    (\<forall>d. d \<noteq> dmn \<longrightarrow> tx_chain tx' d = tx_chain tx d)"
proof -
  have ok: "chain_ok env dmn (tx_chain tx dmn)" "chain_ok env dmn (chain_of (t_store tx) dmn)"
    using staged by (simp_all add: chain_staged_def chain_inv_def domain_ok_def)
  note tip = lock_chain_tip_ok [OF ok]
  obtain tx0 where tog: "tip_or_genesis env dmn at tx tx0"
    and app: "append_linked_entry env dmn ty ph pp amt at (int (length (tx_chain tx0 dmn)) - 1)
      (ce_chain_hash (last (dvals (tx_chain tx0 dmn)))) tx0 = (Inr res, tx')"
  proof (cases "tx_chain tx dmn = []")
    case True
    then obtain g tx0 where g: "insert_genesis env dmn at tx = (Inr g, tx0)"
      and app: "append_linked_entry env dmn ty ph pp amt at (ce_chain_index g) (ce_chain_hash g) tx0 = (Inr res, tx')"
      using run tip by (auto simp: append_chain_entry_def pm_Inr_iffs)
    have "tx_chain tx0 dmn = [(0, g)]" "ce_chain_index g = 0"
      using chain_staged_genesis [OF staged g True] insert_genesis_effect [OF g True]
      by (simp_all add: row_ok_def)
    then show thesis using that [of tx0] g app True by (auto simp: tip_or_genesis_def dvals_def)
  next
    case False
    then show thesis
      using that [of tx] run tip by (auto simp: append_chain_entry_def pm_Inr_iffs tip_or_genesis_def)
  qed
  note t0 = chain_staged_tip_or_genesis [OF staged tog]
  obtain r where r: "appended env dmn ty ph pp amt at r" "chain_staged env st tx'" "snoc_chain dmn r tx0 tx'"
    and ext: "\<exists>c cps. tx' = tx0\<lparr>t_chain := c, t_checkpoints := cps\<rparr>"
    using chain_staged_linked [OF _ _ refl refl app] t0 by blast
  obtain c cps c0 where "tx' = tx0\<lparr>t_chain := c, t_checkpoints := cps\<rparr>" "tx0 = tx\<lparr>t_chain := c0\<rparr>"
    using ext t0 by blast
  then have "tx' = tx\<lparr>t_chain := c, t_checkpoints := cps\<rparr>" by simp
  then have "\<exists>c cps. tx' = tx\<lparr>t_chain := c, t_checkpoints := cps\<rparr>" by blast
  moreover have "\<exists>g. dvals (tx_chain tx' dmn) =
      (if tx_chain tx dmn = [] then [g] else dvals (tx_chain tx dmn)) @ [r]"
    using t0 r(3) by (auto simp: snoc_chain_def dvals_def)
  moreover have "\<forall>d. d \<noteq> dmn \<longrightarrow> tx_chain tx' d = tx_chain tx d"
    using t0 r(3) by (simp add: snoc_chain_def)
  ultimately show ?thesis using r by blast
qed

subsection \<open>The commit of the chain\<close>

lemma fold_put_chain_row:
  "dget_or (fold put_chain_row krs d) dmn [] =
     dict_update (dget_or d dmn []) (map (\<lambda>(k, r). (snd k, r)) (filter (\<lambda>(k, r). fst k = dmn) krs))"
  by (induction krs arbitrary: d) (auto simp: put_chain_row_def dget_or_put dict_update_Cons)

lemma fold_put_checkpoint:
  "dget_or (fold put_checkpoint cs d) dmn [] = dget_or d dmn [] @ filter (\<lambda>c. cp_chain_domain c = dmn) cs"
  by (induction cs arbitrary: d) (auto simp: put_checkpoint_def dget_or_put)

lemma commit_chain:
  assumes "chain_staged env st tx"
  shows "chain_of (commit_tx tx st) dmn = tx_chain tx dmn"
proof -
  have "t_store tx = st" "dict_ok (tx_chain tx dmn)"
    using assms by (auto simp: chain_staged_def domain_ok_def dest: spec [of _ dmn] intro: chain_ok_dict)
  then have "dict_update (chain_of st dmn) (staged_chain tx dmn) = tx_chain tx dmn"
    by (subst dict_update_fresh) (auto simp: tx_chain_def dict_ok_append dget_None_iff)
  then show ?thesis by (simp add: chain_of_def fold_put_chain_row staged_chain_def)
qed

lemma commit_checkpoints:
  "t_store tx = st \<Longrightarrow> checkpoints_in (commit_tx tx st) dmn = tx_checkpoints tx dmn"
  by (simp add: checkpoints_in_def tx_checkpoints_def fold_put_checkpoint)

lemma commit_chain_inv: "chain_staged env st tx \<Longrightarrow> chain_inv env (commit_tx tx st)"
  using commit_chain [of env st tx] commit_checkpoints [of tx st]
  by (simp add: chain_inv_def chain_staged_def)

lemma chain_staged_start: "chain_inv env st \<Longrightarrow> chain_staged env st (new_tx st)"
  by (simp add: chain_staged_def chain_inv_def tx_chain_def tx_checkpoints_def staged_chain_def new_tx_def)

end
