(* ===== verification/Ledger_History.thy ===== *)
theory Ledger_History
  imports Ledger_Chain
begin

text \<open>
  The journal of a ledger history and its agreement with the MONEY chain. The effect of the atomic
  bundle \<open>append_journal_entry\<close> is described exactly: one journal row, its postings, one chain row
  that seals them and one outbox row.
\<close>

subsection \<open>The atomic bundle\<close>

lemma insert_journal_entry_effect:
  assumes "insert_journal_entry row tx = (Inr n, tx')"
  shows "n = t_next_entry_index tx \<and> \<not> journal_entry_exists tx (je_entry_id row) \<and>
    find_entry_id_by_idempotency_key tx (je_idempotency_key row) = None \<and>
    tx' = tx\<lparr>t_next_entry_index := t_next_entry_index tx + 1,
      t_journal := dput (je_entry_id row) (row\<lparr>je_entry_index := t_next_entry_index tx\<rparr>) (t_journal tx),
      t_journal_by_idem := dput (je_idempotency_key row) (je_entry_id row) (t_journal_by_idem tx)\<rparr>"
  using assms by (auto simp: insert_journal_entry_def pm_Inr_iffs)

lemma insert_posting_effect:
  assumes "insert_posting p tx = (Inr u, tx')"
  shows "tx' = tx\<lparr>t_postings := t_postings tx @ [(po_posting_id p, p)]\<rparr>"
  using assms by (auto simp: insert_posting_def pm_Inr_iffs dput_fresh)

definition posting_for :: "string \<Rightarrow> instant \<Rightarrow> posting_row \<Rightarrow> posting_spec \<Rightarrow> bool" where
  "posting_for entry_id at p s \<longleftrightarrow> po_entry_id p = entry_id \<and> po_account_id p = ps_account_id s \<and>
     po_side p = ps_side s \<and> po_amount_minor p = ps_amount_minor s \<and> po_currency p = ps_currency s \<and>
     po_produced_at p = at"

lemma append_postings_effect:
  "append_postings h i at n specs tx = (Inr ps, tx') \<Longrightarrow>
     list_all2 (posting_for i at) ps specs \<and>
     tx' = tx\<lparr>t_postings := t_postings tx @ map (\<lambda>p. (po_posting_id p, p)) ps\<rparr>"
proof (induction specs arbitrary: n tx ps)
  case Nil
  then show ?case by (simp add: ret_def)
next
  case (Cons s specs)
  then obtain pid p u tx1 ps1 where
    p: "p = \<lparr>po_posting_id = pid, po_entry_id = i, po_account_id = ps_account_id s,
       po_side = ps_side s, po_amount_minor = ps_amount_minor s, po_currency = ps_currency s,
       po_produced_at = at, po_schema_version = 1\<rparr>"
    and ins: "insert_posting p tx = (Inr u, tx1)"
    and rest: "append_postings h i at (n + 1) specs tx1 = (Inr ps1, tx')" and ps: "ps = p # ps1"
    by (auto simp: pm_Inr_iffs Let_def)
  have "posting_for i at p s" using p by (simp add: posting_for_def)
  then show ?case using Cons.IH [OF rest] insert_posting_effect [OF ins] ps by simp
qed

definition entry_row :: "journal_entry_spec \<Rightarrow> string \<Rightarrow> int \<Rightarrow> instant \<Rightarrow> journal_entry_row" where
  "entry_row spec entry_id n at = \<lparr>je_entry_id = entry_id, je_entry_index = n,
     je_reference_id = js_reference_id spec, je_reference_type = js_reference_type spec,
     je_entry_type = js_entry_type spec, je_description = js_description spec,
     je_produced_by = js_produced_by spec, je_produced_at = at,
     je_idempotency_key = js_idempotency_key spec, je_schema_version = 1\<rparr>"

text \<open>What the bundle does to the staged rows when it returns the id \<open>i\<close>.\<close>

definition bundle_effect ::
    "ledger_env \<Rightarrow> journal_entry_spec \<Rightarrow> instant \<Rightarrow> string \<Rightarrow> mem_tx \<Rightarrow> mem_tx \<Rightarrow> posting_row list \<Rightarrow> chain_entry_row \<Rightarrow> bool" where
  "bundle_effect env spec at i tx tx' ps r \<longleftrightarrow>
     list_all2 (posting_for i at) ps (js_postings spec) \<and>
     t_store tx' = t_store tx \<and> t_accounts tx' = t_accounts tx \<and> t_holds tx' = t_holds tx \<and>
     t_audit tx' = t_audit tx \<and> t_gate_rows tx' = t_gate_rows tx \<and>
     t_next_audit_index tx' = t_next_audit_index tx \<and>
     t_next_entry_index tx' = t_next_entry_index tx + 1 \<and>
     t_journal tx' = t_journal tx @ [(i, entry_row spec i (t_next_entry_index tx) at)] \<and>
     t_journal_by_idem tx' = dput (js_idempotency_key spec) i (t_journal_by_idem tx) \<and>
     t_postings tx' = t_postings tx @ map (\<lambda>p. (po_posting_id p, p)) ps \<and>
     (\<exists>ph. journal_entry_payload_hash (le_h env) (entry_row spec i (t_next_entry_index tx) at) ps = Inr ph \<and>
        appended env MONEY_DOMAIN (js_entry_type spec) ph (payload_pointer_for i at)
          (\<Sum>p\<leftarrow>ps. po_amount_minor p) at r) \<and>
     (\<exists>g. dvals (tx_chain tx' MONEY_DOMAIN) =
        (if tx_chain tx MONEY_DOMAIN = [] then [g] else dvals (tx_chain tx MONEY_DOMAIN)) @ [r]) \<and>
     (\<forall>d. d \<noteq> MONEY_DOMAIN \<longrightarrow> tx_chain tx' d = tx_chain tx d)"

lemma append_journal_entry_effect:
  assumes staged: "chain_staged env st tx" and run: "append_journal_entry env spec at tx = (Inr i, tx')"
  shows "validate_entry_spec spec = Inr () \<and> make_id (le_h env) ''je'' (entry_id_payload spec) = Inr i \<and>
    \<not> wg_engaged (tx_write_gate_state tx) \<and>
    find_entry_id_by_idempotency_key tx (js_idempotency_key spec) = None \<and>
    (\<forall>a \<in> set (map ps_account_id (js_postings spec)). account_usable tx a) \<and>
    \<not> journal_entry_exists tx i \<and> chain_staged env st tx' \<and>
    (\<exists>ps r. bundle_effect env spec at i tx tx' ps r)"
proof -
  let ?e = "entry_row spec i (t_next_entry_index tx) at"
  obtain n tx1 ps tx2 ph res tx3 ob u where
    pre: "validate_entry_spec spec = Inr ()" "make_id (le_h env) ''je'' (entry_id_payload spec) = Inr i"
      "\<not> wg_engaged (tx_write_gate_state tx)"
      "find_entry_id_by_idempotency_key tx (js_idempotency_key spec) = None"
      "\<forall>a \<in> set (map ps_account_id (js_postings spec)). account_usable tx a"
    and je: "insert_journal_entry (entry_row spec i 0 at) tx = (Inr n, tx1)"
    and po: "append_postings (le_h env) i at 0 (js_postings spec) tx1 = (Inr ps, tx2)"
    and ph: "journal_entry_payload_hash (le_h env) (entry_row spec i n at) ps = Inr ph"
    and ch: "append_chain_entry env MONEY_DOMAIN (js_entry_type spec) ph (payload_pointer_for i at)
      (\<Sum>p\<leftarrow>ps. po_amount_minor p) at tx2 = (Inr res, tx3)"
    and ob: "insert_outbox ob tx3 = (Inr u, tx')"
    using run
    by (auto simp: append_journal_entry_def pm_Inr_iffs Let_def entry_row_def ledger_id_def map_err_def
      split: option.splits sum.splits)
  have n: "n = t_next_entry_index tx" and fresh: "\<not> journal_entry_exists tx i"
    and tx1: "tx1 = tx\<lparr>t_next_entry_index := t_next_entry_index tx + 1,
      t_journal := t_journal tx @ [(i, ?e)],
      t_journal_by_idem := dput (js_idempotency_key spec) i (t_journal_by_idem tx)\<rparr>"
    using insert_journal_entry_effect [OF je]
    by (auto simp: entry_row_def journal_entry_exists_def dput_fresh)
  have tx2: "tx2 = tx1\<lparr>t_postings := t_postings tx1 @ map (\<lambda>p. (po_posting_id p, p)) ps\<rparr>"
    and pfor: "list_all2 (posting_for i at) ps (js_postings spec)"
    using append_postings_effect [OF po] by simp_all
  have "chain_staged env st tx2" using staged tx1 tx2 by simp
  note app = append_chain_entry_effect [OF this ch]
  obtain c cps where tx3: "tx3 = tx2\<lparr>t_chain := c, t_checkpoints := cps\<rparr>" using app by blast
  obtain d where tx': "tx' = tx3\<lparr>t_outbox := d\<rparr>"
    using ob by (auto simp: insert_outbox_def pm_Inr_iffs)
  have same: "tx_chain tx2 = tx_chain tx" using tx1 tx2 by simp
  obtain g r where r: "appended env MONEY_DOMAIN (js_entry_type spec) ph (payload_pointer_for i at)
      (\<Sum>p\<leftarrow>ps. po_amount_minor p) at r"
    "dvals (tx_chain tx3 MONEY_DOMAIN) =
       (if tx_chain tx MONEY_DOMAIN = [] then [g] else dvals (tx_chain tx MONEY_DOMAIN)) @ [r]"
    using app unfolding same by blast
  have "bundle_effect env spec at i tx tx' ps r"
    unfolding bundle_effect_def
    using pfor r ph n app same by (auto simp: tx' tx3 tx2 tx1)
  then show ?thesis using pre fresh app tx' by auto
qed


subsection \<open>The journal and its chain\<close>

text \<open>The chain row \<open>r\<close> seals the journal row \<open>e\<close> with its postings \<open>ps\<close>.\<close>

definition seals :: "ledger_env \<Rightarrow> posting_row list \<Rightarrow> journal_entry_row \<Rightarrow> chain_entry_row \<Rightarrow> bool" where
  "seals env ps e r \<longleftrightarrow> ce_payload_pointer r = payload_pointer_for (je_entry_id e) (je_produced_at e) \<and>
     ce_produced_at r = je_produced_at e \<and> ce_entry_type r = je_entry_type e \<and>
     je_entry_type e \<in> set ENTRY_TYPES \<and>
     ce_amount_minor_sum r = (\<Sum>p\<leftarrow>ps. po_amount_minor p) \<and> 2 \<le> length ps \<and>
     journal_entry_payload_hash (le_h env) e ps = Inr (ce_payload_hash r)"

definition journal_ok :: "ledger_env \<Rightarrow> journal_entry_row list \<Rightarrow> (string \<Rightarrow> posting_row list)
    \<Rightarrow> chain_entry_row list \<Rightarrow> (string, string) dict \<Rightarrow> bool" where
  "journal_ok env es post rows idem \<longleftrightarrow>
     list_all2 (\<lambda>e r. seals env (post (je_entry_id e)) e r) es (tl rows) \<and>
     idem = map (\<lambda>e. (je_idempotency_key e, je_entry_id e)) es \<and> dict_ok idem \<and>
     (\<forall>e \<in> set es. \<exists>d. je_entry_id e = ''je_'' @ take HASH_LENGTH (le_h env d)) \<and>
     map je_entry_index es = map int [1..<length es + 1]"

definition journal_inv :: "ledger_env \<Rightarrow> ledger_store \<Rightarrow> bool" where
  "journal_inv env st \<longleftrightarrow> s_entry_index_seq st = int (length (s_journal st)) \<and>
     journal_ok env (dvals (s_journal st)) (entry_postings st) (dvals (chain_of st MONEY_DOMAIN))
       (s_journal_by_idem st)"

definition tx_entries :: "mem_tx \<Rightarrow> journal_entry_row list" where
  "tx_entries tx = dvals (s_journal (t_store tx)) @ dvals (t_journal tx)"

definition tx_idem :: "mem_tx \<Rightarrow> (string, string) dict" where
  "tx_idem tx = s_journal_by_idem (t_store tx) @ t_journal_by_idem tx"

definition journal_staged :: "ledger_env \<Rightarrow> ledger_store \<Rightarrow> mem_tx \<Rightarrow> bool" where
  "journal_staged env st tx \<longleftrightarrow> t_store tx = st \<and>
     t_next_entry_index tx = int (length (tx_entries tx)) + 1 \<and>
     journal_ok env (tx_entries tx) (all_postings_for_entry tx) (dvals (tx_chain tx MONEY_DOMAIN)) (tx_idem tx)"

lemma seals_bundle:
  assumes "bundle_effect env spec at i tx tx' ps r" and "2 \<le> length (js_postings spec)"
    and "js_entry_type spec \<in> set ENTRY_TYPES"
  shows "seals env ps (entry_row spec i (t_next_entry_index tx) at) r"
  using assms list_all2_lengthD [of "posting_for i at" ps "js_postings spec"]
  by (auto simp: bundle_effect_def seals_def appended_def) (simp_all add: entry_row_def)

lemma validate_shape:
  "validate_entry_spec spec = Inr () \<Longrightarrow>
     2 \<le> length (js_postings spec) \<and> js_entry_type spec \<in> set ENTRY_TYPES"
  by (auto simp: validate_entry_spec_def bind_sum_Inr_iff split: prod.splits)

lemma find_idem_None:
  assumes "journal_staged env st tx" and "find_entry_id_by_idempotency_key tx k = None"
  shows "dget (tx_idem tx) k = None"
proof -
  have ne: "v \<noteq> []" if "(k', v) \<in> set (tx_idem tx)" for k' v
    using that assms(1) by (auto simp: journal_staged_def journal_ok_def)
  have "dget (t_journal_by_idem tx) k \<noteq> Some []"
    using ne [of k "[]"] by (auto simp: tx_idem_def dest: map_of_SomeD)
  then have "dget (t_journal_by_idem tx) k = None \<and> dget (s_journal_by_idem (t_store tx)) k = None"
    using assms(2) by (auto simp: find_entry_id_by_idempotency_key_def str_or_def split: if_splits)
  then show ?thesis by (simp add: tx_idem_def dget_append)
qed

text \<open>The postings of other entries are not touched, those of the new entry are the new ones.\<close>

lemma bundle_postings:
  assumes eff: "bundle_effect env spec at i tx tx' ps r" and "staged_ok st tx" and inv: "money_inv st"
    and new: "\<not> journal_entry_exists tx i"
  shows "all_postings_for_entry tx' j = (if j = i then ps else all_postings_for_entry tx j)"
proof -
  have all: "po_entry_id p = i" if "p \<in> set ps" for p
    using eff that by (auto simp: bundle_effect_def list_all2_conv_all_nth posting_for_def in_set_conv_nth)
  have none: "all_postings_for_entry tx i = []"
  proof -
    have st: "t_store tx = st" using assms(2) by (simp add: staged_ok_def)
    have "po_entry_id p \<noteq> i" if "p \<in> set (dvals (s_postings st))" for p
      using that inv new st by (auto simp: money_inv_def journal_entry_exists_def)
    moreover have "po_entry_id p \<noteq> i" if "p \<in> set (dvals (t_postings tx))" for p
      using that assms(2) new by (auto simp: staged_ok_def)
    ultimately show ?thesis using st by (auto simp: all_postings_for_entry_def filter_empty_conv)
  qed
  have store: "t_store tx' = t_store tx" using eff by (simp add: bundle_effect_def)
  have dv: "dvals (t_postings tx') = dvals (t_postings tx) @ ps"
    using eff by (simp add: bundle_effect_def dvals_def comp_def)
  have "filter (\<lambda>p. po_entry_id p = j) ps = (if j = i then ps else [])"
    using all by (auto simp: filter_empty_conv)
  then have "all_postings_for_entry tx' j = all_postings_for_entry tx j @ (if j = i then ps else [])"
    by (simp add: all_postings_for_entry_def dv store)
  then show ?thesis using none by simp
qed


lemma list_all2_seals_cong:
  assumes "list_all2 (\<lambda>e r. seals env (post (je_entry_id e)) e r) es rs"
    and "\<And>e. e \<in> set es \<Longrightarrow> post' (je_entry_id e) = post (je_entry_id e)"
  shows "list_all2 (\<lambda>e r. seals env (post' (je_entry_id e)) e r) es rs"
  using assms by (auto simp: list_all2_conv_all_nth)

definition ledger_staged :: "ledger_env \<Rightarrow> ledger_store \<Rightarrow> mem_tx \<Rightarrow> bool" where
  "ledger_staged env st tx \<longleftrightarrow>
     money_inv st \<and> staged_ok st tx \<and> chain_staged env st tx \<and> journal_staged env st tx"

definition ledger_inv :: "ledger_env \<Rightarrow> ledger_store \<Rightarrow> bool" where
  "ledger_inv env st \<longleftrightarrow> money_inv st \<and> chain_inv env st \<and> journal_inv env st"

lemma tx_entries_exist:
  assumes "staged_ok st tx" and "money_inv st" and "e \<in> set (tx_entries tx)"
  shows "journal_entry_exists tx (je_entry_id e)"
proof -
  have tab: "table_ok je_entry_id (s_journal (t_store tx))" "table_ok je_entry_id (t_journal tx)"
    using assms(1,2) by (auto simp: money_inv_def staged_ok_def)
  have "dget d (je_entry_id e) \<noteq> None" if "e \<in> set (dvals d)" "table_ok je_entry_id d" for d
  proof -
    have "e \<in> snd ` set d" using that(1) by (simp add: dvals_def)
    then obtain k where "(k, e) \<in> set d" by auto
    moreover from this have "k = je_entry_id e" using that(2) by (auto simp: table_ok_def keyed_def)
    ultimately show ?thesis by (metis dget_None_iff fst_conv image_eqI)
  qed
  then show ?thesis using assms(3) tab by (auto simp: tx_entries_def journal_entry_exists_def)
qed

lemma journal_staged_bundle:
  assumes staged: "ledger_staged env st tx" and run: "append_journal_entry env spec at tx = (Inr i, tx')"
  shows "journal_staged env st tx'"
proof -
  have ok: "money_inv st" "staged_ok st tx" "chain_staged env st tx" "journal_staged env st tx"
    using staged by (simp_all add: ledger_staged_def)
  let ?e = "entry_row spec i (t_next_entry_index tx) at"
  let ?n = "length (tx_entries tx)"
  note eff = append_journal_entry_effect [OF ok(3) run]
  obtain ps r where be: "bundle_effect env spec at i tx tx' ps r" using eff by blast
  have post: "all_postings_for_entry tx' j = (if j = i then ps else all_postings_for_entry tx j)" for j
    using bundle_postings [OF be ok(2,1)] eff by blast
  have j: "journal_ok env (tx_entries tx) (all_postings_for_entry tx) (dvals (tx_chain tx MONEY_DOMAIN)) (tx_idem tx)"
    and nx: "t_next_entry_index tx = int ?n + 1" and store: "t_store tx = st"
    using ok(4) by (simp_all add: journal_staged_def)
  have entries: "tx_entries tx' = tx_entries tx @ [?e]"
    using be by (simp add: bundle_effect_def tx_entries_def dvals_def)
  have fresh: "je_entry_id e \<noteq> i" if "e \<in> set (tx_entries tx)" for e
    using tx_entries_exist [OF ok(2,1) that] eff by auto
  have "tl (dvals (tx_chain tx' MONEY_DOMAIN)) = tl (dvals (tx_chain tx MONEY_DOMAIN)) @ [r]"
    using be by (auto simp: bundle_effect_def dvals_def)
  moreover have "list_all2 (\<lambda>e r. seals env (all_postings_for_entry tx' (je_entry_id e)) e r)
      (tx_entries tx) (tl (dvals (tx_chain tx MONEY_DOMAIN)))"
    by (rule list_all2_seals_cong [of env "all_postings_for_entry tx"])
      (use j in \<open>simp only: journal_ok_def\<close>, simp add: post fresh)
  moreover have "seals env (all_postings_for_entry tx' (je_entry_id ?e)) ?e r"
    using seals_bundle [OF be] eff validate_shape post by (simp add: entry_row_def)
  ultimately have seal: "list_all2 (\<lambda>e r. seals env (all_postings_for_entry tx' (je_entry_id e)) e r)
      (tx_entries tx') (tl (dvals (tx_chain tx' MONEY_DOMAIN)))"
    by (simp add: entries list_all2_appendI)
  have idn: "dget (tx_idem tx) (js_idempotency_key spec) = None"
    using find_idem_None [OF ok(4)] eff by blast
  have idem: "tx_idem tx' = tx_idem tx @ [(js_idempotency_key spec, i)]"
    using be idn by (auto simp: bundle_effect_def tx_idem_def dget_append dput_fresh split: option.splits)
  have d0: "dict_ok (tx_idem tx)" using j unfolding journal_ok_def by blast
  have "dict_ok (tx_idem tx')"
    using d0 idn unfolding idem dict_ok_append dget_None_iff by (simp add: dict_ok_def)
  moreover have "tx_idem tx' = map (\<lambda>e. (je_idempotency_key e, je_entry_id e)) (tx_entries tx')"
    using j by (simp add: idem entries journal_ok_def entry_row_def)
  moreover have "\<forall>e \<in> set (tx_entries tx'). \<exists>d. je_entry_id e = ''je_'' @ take HASH_LENGTH (le_h env d)"
    using j make_id_shape [of "le_h env" "''je''" "entry_id_payload spec" i] eff
    by (auto simp: entries journal_ok_def entry_row_def)
  moreover have "map je_entry_index (tx_entries tx') = map int [1..<length (tx_entries tx') + 1]"
    using j nx by (simp add: entries journal_ok_def entry_row_def)
  ultimately have "journal_ok env (tx_entries tx') (all_postings_for_entry tx')
      (dvals (tx_chain tx' MONEY_DOMAIN)) (tx_idem tx')"
    unfolding journal_ok_def using seal by blast
  moreover have "t_next_entry_index tx' = int (length (tx_entries tx')) + 1"
    using be nx by (simp add: bundle_effect_def entries)
  ultimately show ?thesis using be store by (simp add: journal_staged_def bundle_effect_def)
qed

lemma return_append_journal_entry [return_intros]:
  "keeps_return (ledger_staged env st) (append_journal_entry env spec at)"
proof (rule keeps_returnI)
  fix tx i tx' assume staged: "ledger_staged env st tx" and run: "append_journal_entry env spec at tx = (Inr i, tx')"
  have "staged_ok st tx'"
    using keeps_returnD [OF keeps_return_keeps [OF keeps_append_journal_entry] _ run] staged
    by (simp add: ledger_staged_def)
  moreover have "chain_staged env st tx'"
    using append_journal_entry_effect [OF _ run] staged by (simp add: ledger_staged_def)
  ultimately show "ledger_staged env st tx'"
    using journal_staged_bundle [OF staged run] staged by (simp add: ledger_staged_def)
qed


subsection \<open>The other writes\<close>

lemma journal_staged_frame [simp]:
  "journal_staged env st (tx\<lparr>t_accounts := a\<rparr>) = journal_staged env st tx"
  "journal_staged env st (tx\<lparr>t_outbox := f\<rparr>) = journal_staged env st tx"
  "journal_staged env st (tx\<lparr>t_audit := g\<rparr>) = journal_staged env st tx"
  "journal_staged env st (tx\<lparr>t_holds := hs\<rparr>) = journal_staged env st tx"
  "journal_staged env st (tx\<lparr>t_next_audit_index := m\<rparr>) = journal_staged env st tx"
  by (simp_all add: journal_staged_def journal_ok_def tx_entries_def tx_idem_def
    all_postings_for_entry_def)

lemma keeps_journal_frame [keeps_intros]:
  "keeps (journal_staged env st) (insert_account row)"
  "keeps (journal_staged env st) (insert_outbox ob)"
  "keeps (journal_staged env st) (insert_audit_event ae)"
  "keeps (journal_staged env st) (insert_account_hold ho)"
  "keeps (journal_staged env st) (update_account_hold ho)"
  unfolding insert_account_def insert_outbox_def insert_audit_event_def insert_account_hold_def
    update_account_hold_def
  by (intro keeps_intros keeps_modify; simp)+

lemma return_staged:
  assumes "keeps (staged_ok st) m" and "keeps (chain_staged env st) m" and "keeps (journal_staged env st) m"
  shows "keeps_return (ledger_staged env st) m"
  using assms [THEN keeps_return_keeps] by (auto simp: keeps_return_def ledger_staged_def)

lemma return_writes [return_intros]:
  "keeps_return (ledger_staged env st) (insert_account row)"
  "keeps_return (ledger_staged env st) (insert_outbox ob)"
  "keeps_return (ledger_staged env st) (insert_audit_event ae)"
  "keeps_return (ledger_staged env st) (insert_account_hold ho)"
  "keeps_return (ledger_staged env st) (update_account_hold ho)"
  by (intro return_staged keeps_intros)+

lemma journal_ok_tl:
  "tl rows' = tl rows \<Longrightarrow> journal_ok env es post rows' idem = journal_ok env es post rows idem"
  by (simp add: journal_ok_def)

lemma money_neq_audit [simp]: "MONEY_DOMAIN \<noteq> AUDIT_DOMAIN" "AUDIT_DOMAIN \<noteq> MONEY_DOMAIN"
  by (simp_all add: MONEY_DOMAIN_def AUDIT_DOMAIN_def)

lemma ledger_staged_chain:
  assumes staged: "ledger_staged env st tx" and chain: "chain_staged env st tx'"
    and tx': "tx' = tx\<lparr>t_chain := c, t_checkpoints := cps\<rparr>"
    and same: "tl (dvals (tx_chain tx' MONEY_DOMAIN)) = tl (dvals (tx_chain tx MONEY_DOMAIN))"
  shows "ledger_staged env st tx'"
proof -
  have frame: "tx_entries tx' = tx_entries tx" "tx_idem tx' = tx_idem tx"
      "all_postings_for_entry tx' = all_postings_for_entry tx"
    by (simp_all add: tx' tx_entries_def tx_idem_def all_postings_for_entry_def fun_eq_iff)
  have "t_store tx' = t_store tx" "t_next_entry_index tx' = t_next_entry_index tx" by (simp_all add: tx')
  then have "journal_staged env st tx'"
    using staged journal_ok_tl [OF same] by (simp add: ledger_staged_def journal_staged_def frame)
  moreover have "staged_ok st tx'" using staged tx' by (simp add: ledger_staged_def)
  ultimately show ?thesis using staged chain by (simp add: ledger_staged_def)
qed

lemma return_append_audit [return_intros]:
  "keeps_return (ledger_staged env st) (append_chain_entry env AUDIT_DOMAIN ty ph pp amt at)"
proof (rule keeps_returnI)
  fix tx res tx'
  assume staged: "ledger_staged env st tx"
    and run: "append_chain_entry env AUDIT_DOMAIN ty ph pp amt at tx = (Inr res, tx')"
  have "chain_staged env st tx" using staged by (simp add: ledger_staged_def)
  from append_chain_entry_effect [OF this run]
  have eff: "chain_staged env st tx' \<and> (\<exists>c cps. tx' = tx\<lparr>t_chain := c, t_checkpoints := cps\<rparr>) \<and>
      tx_chain tx' MONEY_DOMAIN = tx_chain tx MONEY_DOMAIN"
    using money_neq_audit by blast
  then obtain c cps where "tx' = tx\<lparr>t_chain := c, t_checkpoints := cps\<rparr>" by blast
  then show "ledger_staged env st tx'" using eff ledger_staged_chain [OF staged] by simp
qed

definition ensure_genesis :: "ledger_env \<Rightarrow> string \<Rightarrow> instant \<Rightarrow> unit tx_op" where
  "ensure_genesis env dmn at =
     bind_pm (bind_pm (get_pm (\<lambda>tx. lock_chain_tip tx dmn)) lift_sum) (\<lambda>tip.
     if tip = None then bind_pm (insert_genesis env dmn at) (\<lambda>_. ret ()) else ret ())"

lemma return_ensure_genesis [return_intros]: "keeps_return (ledger_staged env st) (ensure_genesis env dmn at)"
proof (rule keeps_returnI)
  fix tx u tx'
  assume staged: "ledger_staged env st tx" and run: "ensure_genesis env dmn at tx = (Inr u, tx')"
  have chain: "chain_staged env st tx" using staged by (simp add: ledger_staged_def)
  then have ok: "chain_ok env dmn (tx_chain tx dmn)" "chain_ok env dmn (chain_of (t_store tx) dmn)"
    by (simp_all add: chain_staged_def chain_inv_def domain_ok_def)
  show "ledger_staged env st tx'"
  proof (cases "tx_chain tx dmn = []")
    case True
    then obtain g where g: "insert_genesis env dmn at tx = (Inr g, tx')"
      using run lock_chain_tip_ok [OF ok] by (auto simp: ensure_genesis_def pm_Inr_iffs)
    obtain c where c: "tx' = tx\<lparr>t_chain := c\<rparr>" and dmn: "tx_chain tx' dmn = [(0, g)]"
      using chain_staged_genesis [OF chain g True] by blast
    have "tl (dvals (tx_chain tx' MONEY_DOMAIN)) = tl (dvals (tx_chain tx MONEY_DOMAIN))"
      using insert_genesis_effect [OF g True] dmn True
      by (cases "dmn = MONEY_DOMAIN") (auto simp: snoc_chain_def dvals_def)
    moreover have "tx' = tx\<lparr>t_chain := c, t_checkpoints := t_checkpoints tx\<rparr>" using c by simp
    ultimately show ?thesis
      using chain_staged_genesis [OF chain g True] ledger_staged_chain [OF staged] by blast
  next
    case False
    then show ?thesis
      using run staged lock_chain_tip_ok [OF ok] by (auto simp: ensure_genesis_def pm_Inr_iffs)
  qed
qed

lemma return_audit_bundle [return_intros]:
  "keeps_return (ledger_staged env st) (audit_bundle env spec at actor red ph ev)"
  unfolding audit_bundle_def by (intro return_intros)

subsection \<open>The commit\<close>

lemma ledger_staged_start: "ledger_inv env st \<Longrightarrow> ledger_staged env st (new_tx st)"
proof -
  assume inv: "ledger_inv env st"
  have "all_postings_for_entry (new_tx st) = entry_postings st"
    by (rule ext) (simp add: all_postings_for_entry_def entry_postings_def new_tx_def)
  moreover have "tx_entries (new_tx st) = dvals (s_journal st)" "tx_idem (new_tx st) = s_journal_by_idem st"
    "tx_chain (new_tx st) MONEY_DOMAIN = chain_of st MONEY_DOMAIN"
    by (simp_all add: tx_entries_def tx_idem_def tx_chain_def staged_chain_def new_tx_def)
  ultimately have "journal_staged env st (new_tx st)"
    using inv by (simp add: journal_staged_def ledger_inv_def journal_inv_def) (simp add: new_tx_def)
  then show ?thesis
    using inv by (simp add: ledger_staged_def ledger_inv_def staged_ok_start chain_staged_start)
qed

lemma commit_journal_inv:
  assumes "ledger_staged env st tx"
  shows "journal_inv env (commit_tx tx st)"
proof -
  have ok: "staged_ok st tx" "chain_staged env st tx" "journal_staged env st tx"
    using assms by (simp_all add: ledger_staged_def)
  have store: "t_store tx = st" using ok(1) by (simp add: staged_ok_def)
  have post: "entry_postings (commit_tx tx st) = all_postings_for_entry tx"
    by (rule ext) (rule entry_postings_commit [OF ok(1)])
  have "dict_ok (tx_idem tx)"
    using ok(3) unfolding journal_staged_def journal_ok_def by blast
  then have idem: "dict_update (s_journal_by_idem st) (t_journal_by_idem tx) = tx_idem tx"
    unfolding tx_idem_def store dict_ok_append
    by (intro dict_update_fresh) (auto simp: dget_None_iff)
  have "dvals (s_journal (commit_tx tx st)) = tx_entries tx" by (simp add: tx_entries_def store)
  moreover have "int (length (s_journal (commit_tx tx st))) = t_next_entry_index tx - 1"
    using ok(3) by (simp add: journal_staged_def tx_entries_def store)
  ultimately show ?thesis
    using ok(3) by (simp add: journal_inv_def commit_chain [OF ok(2)] post idem journal_staged_def)
qed

interpretation history: unit_of_work transaction new_tx "ledger_inv env" "ledger_staged env" for env
proof unfold_locales
  fix st :: ledger_store and body :: "'a tx_op" and a tx
  assume body: "body (new_tx st) = (Inr a, tx)" and ok: "ledger_staged env st tx"
  have staged: "staged_ok st tx" "chain_staged env st tx" "money_inv st"
    using ok by (simp_all add: ledger_staged_def)
  have "ledger_inv env (commit_tx tx st)" if "deferred_balance_check tx = Inr u" for u
    using commit_money_inv [OF staged(3,1) that] commit_chain_inv [OF staged(2)] commit_journal_inv [OF ok]
    by (simp add: ledger_inv_def)
  then show "(\<exists>e. transaction body st = (Inl e, st)) \<or>
      (\<exists>s'. transaction body st = (Inr a, s') \<and> ledger_inv env s')"
    by (cases "deferred_balance_check tx") (simp_all add: transaction_return [where body = body, OF body staged(1)])
qed (simp_all add: ledger_staged_start transaction_raise)

lemmas keeps_history [keeps_intros] = history.run_keeps

lemma gate_ledger_inv [simp]: "ledger_inv env (engage_write_gate r at st) = ledger_inv env st"
proof -
  let ?st = "engage_write_gate r at st"
  have "chain_of ?st = chain_of st" "checkpoints_in ?st = checkpoints_in st" "entry_postings ?st = entry_postings st"
    by (rule ext, simp add: chain_of_def checkpoints_in_def entry_postings_def engage_write_gate_def)+
  then show ?thesis
    by (simp add: ledger_inv_def chain_inv_def journal_inv_def) (simp add: engage_write_gate_def)
qed

lemma initialize_chain_ensure:
  "initialize_chain env dmn now =
     bind_pm (lift_sum (now_of now)) (\<lambda>at. transaction (ensure_genesis env dmn at))"
  by (simp add: initialize_chain_def ensure_genesis_def)

lemma keeps_history_calls:
  "keeps (ledger_inv env) (create_account env spec now)"
  "keeps (ledger_inv env) (post_journal_entry env js now)"
  "keeps (ledger_inv env) (open_hold env i amt reason ref src res expires now)"
  "keeps (ledger_inv env) (release_hold env i outcome cap now)"
  "keeps (ledger_inv env) (get_open_hold_id conn ref)"
  "keeps (ledger_inv env) (service_get_balance conn i as_of)"
  "keeps (ledger_inv env) (initialize_chain env dmn now)"
  "keeps (ledger_inv env) (trial_balance_assertion now)"
  "keeps (ledger_inv env) (verify_chain env dmn lo hi deep now)"
  "keeps (ledger_inv env) (write_audit_event env ae occurred now)"
  "keeps (ledger_inv env) (emit_event env ty sty sid payload topic producer occurred now)"
  unfolding create_account_def post_journal_entry_def open_hold_def release_hold_def get_open_hold_id_def
    service_get_balance_def initialize_chain_ensure trial_balance_assertion_def verify_chain_def
    write_audit_event_def emit_event_def
  by (intro keeps_intros keeps_duplicate_handler return_intros keeps_modify; simp)+

lemma ledger_inv_new_store: "ledger_inv env new_store"
  by (simp add: ledger_inv_def money_inv_new_store chain_inv_def domain_ok_def checkpoints_ok_def
    journal_inv_def journal_ok_def)
    (simp add: new_store_def chain_of_def checkpoints_in_def)

lemma reach_ledger_inv: "ledger_reach env st \<Longrightarrow> ledger_inv env st"
proof (induction rule: ledger_reach.induct)
  case start
  show ?case by (rule ledger_inv_new_store)
next
  case (call st c)
  have "keeps (ledger_inv env) (exec_call env c)"
    by (cases c) (auto simp: returns_def intro!: keeps_intros keeps_history_calls)
  then show ?case using call.IH by (rule keepsD)
qed

end
