(* ===== verification/Ledger_Assurance.thy ===== *)
theory Ledger_Assurance
  imports Ledger_History
begin

text \<open>
  What the chain verifier guarantees. A ledger that only the service wrote passes it, in both
  domains and in deep mode; and a ledger that passes it with the same tip hash holds the same
  journal entries and postings, unless two of the hashed texts collide.
\<close>

subsection \<open>Assumptions on SHA-256 and Ed25519\<close>

text \<open>\<open>hexdigest()\<close> of SHA-256 returns 64 lower-case hexadecimal characters. A signature the signer
  made verifies under its own key, and the service trusts that key.\<close>

definition sha256_hex :: "(string \<Rightarrow> string) \<Rightarrow> bool" where
  "sha256_hex h \<longleftrightarrow> (\<forall>x. length (h x) = 64 \<and> list_all is_hex (h x))"

definition signer_trusted :: "ledger_env \<Rightarrow> bool" where
  "signer_trusted env \<longleftrightarrow> (\<forall>m. le_verify env m (fst (le_sign env m)) (snd (le_sign env m)) \<and>
     snd (le_sign env m) \<in> set (le_trusted_keys env))"

subsection \<open>Pointers\<close>

lemma basename_append: "CHR ''/'' \<notin> set b \<Longrightarrow> basename (a @ CHR ''/'' # b) = b"
proof -
  assume "CHR ''/'' \<notin> set b"
  then have "takeWhile (\<lambda>c. c \<noteq> CHR ''/'') (rev b @ CHR ''/'' # rev a) = rev b"
    by (subst takeWhile_append2) auto
  then show ?thesis by (simp add: basename_def)
qed

lemma canonical_ts_chars: "c \<in> set (to_canonical_ts t) \<Longrightarrow> is_digit c \<or> c \<in> set ''-T:.Z''"
  by (auto simp: to_canonical_ts_def Let_def split: prod.splits dest: pad_dec_digits)

lemma entry_id_from_pointer_for:
  assumes "CHR ''/'' \<notin> set i" and "i \<noteq> []"
  shows "entry_id_from_pointer (payload_pointer_for i t) = Some i"
proof -
  obtain a where p: "payload_pointer_for i t = LEDGER_POINTER_PREFIX @ ''/'' @ a @ ''/'' @ i @ POINTER_SUFFIX"
  proof -
    have "payload_pointer_for i t = LEDGER_POINTER_PREFIX @ ''/'' @
        (take 4 (to_canonical_ts t) @ ''/'' @ take 2 (drop 5 (to_canonical_ts t)) @ ''/'' @
         take 2 (drop 8 (to_canonical_ts t))) @ ''/'' @ i @ POINTER_SUFFIX"
      by (simp add: payload_pointer_for_def pointer_for_def Let_def)
    then show thesis by (rule that)
  qed
  have "CHR ''/'' \<notin> set (i @ POINTER_SUFFIX)" using assms(1) by (simp add: POINTER_SUFFIX_def)
  then have "basename ((LEDGER_POINTER_PREFIX @ ''/'' @ a) @ CHR ''/'' # (i @ POINTER_SUFFIX)) = i @ POINTER_SUFFIX"
    by (rule basename_append)
  then have "basename (payload_pointer_for i t) = i @ POINTER_SUFFIX" by (simp add: p)
  moreover have "prefix (LEDGER_POINTER_PREFIX @ ''/'') (payload_pointer_for i t)"
    by (simp add: p)
  moreover have "ends_with (payload_pointer_for i t) POINTER_SUFFIX"
    by (simp add: p ends_with_def suffix_def)
  ultimately show ?thesis using assms(2) by (simp add: entry_id_from_pointer_def)
qed

lemma je_id_no_slash:
  assumes "sha256_hex h" and "i = ''je_'' @ take HASH_LENGTH (h d)"
  shows "CHR ''/'' \<notin> set i \<and> i \<noteq> []"
proof -
  have "list_all is_hex (h d)" using assms(1) by (simp add: sha256_hex_def)
  then have "CHR ''/'' \<notin> set (h d)" by (auto simp: list_all_iff is_hex_def)
  then show ?thesis using assms(2) by (auto dest: in_set_takeD)
qed

subsection \<open>Reading the tables back\<close>

lemma iter_chain_ok:
  assumes "chain_ok env dmn (chain_of st dmn)"
  shows "iter_chain st dmn 0 None = dvals (chain_of st dmn)"
proof -
  let ?c = "chain_of st dmn"
  have keys: "dkeys ?c = map int [0..<length ?c]" using assms by (simp add: chain_ok_def)
  have "sorted (map int [0..<length ?c])" by (simp add: sorted_map)
  then have "sort (filter (\<lambda>i. 0 \<le> i) (dkeys ?c)) = map int [0..<length ?c]"
    by (simp add: keys filter_id_conv sorted_sort_id)
  moreover have "concat (map (\<lambda>i. case dget ?c i of None \<Rightarrow> [] | Some r \<Rightarrow> [r]) (map int [0..<length ?c])) =
      concat (map (\<lambda>i. [dvals ?c ! i]) [0..<length ?c])"
    by (intro arg_cong [where f = concat]) (auto simp: chain_ok_get [OF assms])
  moreover have "concat (map (\<lambda>i. [dvals ?c ! i]) [0..<length ?c]) = dvals ?c"
    by (simp add: concat_map_singleton) (metis length_dvals map_nth)
  ultimately show ?thesis by (simp add: iter_chain_def)
qed

lemma concat_map_option:
  "(\<And>x. x \<in> set xs \<Longrightarrow> f (g x) = Some x) \<Longrightarrow>
     concat (map (\<lambda>i. case f i of None \<Rightarrow> [] | Some p \<Rightarrow> [p]) (map g xs)) = xs"
  by (induction xs) auto

lemma get_postings_for_entry_inv:
  assumes "money_inv st"
  shows "get_postings_for_entry st i = entry_postings st i"
proof -
  have "dget (s_postings st) (po_posting_id p) = Some p" if "p \<in> set (entry_postings st i)" for p
  proof -
    have "p \<in> snd ` set (s_postings st)" using that by (simp add: entry_postings_def dvals_def)
    then obtain k where k: "(k, p) \<in> set (s_postings st)" by auto
    then have "k = po_posting_id p" using assms by (auto simp: money_inv_def table_ok_def keyed_def)
    then show ?thesis using k assms by (simp add: dget_Some_iff money_inv_def table_ok_def)
  qed
  moreover have "dget_or (s_postings_by_entry st) i [] = map po_posting_id (entry_postings st i)"
    using assms by (simp add: money_inv_def)
  ultimately show ?thesis by (simp only: get_postings_for_entry_def concat_map_option)
qed


subsection \<open>An honest ledger verifies\<close>

lemma sides_partition:
  "(\<And>p. p \<in> set ps \<Longrightarrow> po_side p \<in> set SIDES) \<Longrightarrow>
     (\<Sum>p\<leftarrow>filter (\<lambda>p. po_side p = ''CREDIT'') ps. po_amount_minor p) = credit_sum ps \<and>
     debit_sum ps + credit_sum ps = (\<Sum>p\<leftarrow>ps. po_amount_minor p)"
  by (induction ps) (auto simp: debit_sum_def credit_sum_def SIDES_def)

lemma deep_verify_ok:
  assumes sha: "sha256_hex (le_h env)" and inv: "money_inv st"
    and e: "dget (s_journal st) (je_entry_id e) = Some e" "je_entry_id e = ''je_'' @ take HASH_LENGTH (le_h env d)"
    and seal: "seals env (entry_postings st (je_entry_id e)) e r"
  shows "deep_verify_money_row env st r = Inr None"
proof -
  let ?ps = "entry_postings st (je_entry_id e)"
  have ptr: "entry_id_from_pointer (ce_payload_pointer r) = Some (je_entry_id e)"
    using seal je_id_no_slash [OF sha e(2)] by (simp add: seals_def entry_id_from_pointer_for)
  have "po_side p \<in> set SIDES" if "p \<in> set ?ps" for p
    using that inv by (auto simp: entry_postings_def money_inv_def posting_valid_def)
  note part = sides_partition [of ?ps, OF this]
  have deb: "(\<Sum>p\<leftarrow>filter (\<lambda>p. po_side p = ''DEBIT'') ?ps. po_amount_minor p) = debit_sum ?ps"
    by (simp add: debit_sum_def)
  have bal: "debit_sum ?ps = credit_sum ?ps" using inv by (simp add: money_inv_def)
  have "ce_produced_at r = je_produced_at e" "ce_entry_type r = je_entry_type e" "\<not> length ?ps < 2"
      "ce_amount_minor_sum r = debit_sum ?ps + credit_sum ?ps"
      "journal_entry_payload_hash (le_h env) e ?ps = Inr (ce_payload_hash r)"
    using seal part by (simp_all add: seals_def)
  then show ?thesis
    using part by (simp add: deep_verify_money_row_def ptr e(1) get_postings_for_entry_inv [OF inv] Let_def deb bal)
qed

lemma verify_row_ok:
  assumes row: "row_ok env dmn prev n r" and sig: "signer_trusted env"
    and deep: "deep \<Longrightarrow> dmn = MONEY_DOMAIN \<Longrightarrow> 0 < n \<Longrightarrow> deep_verify_money_row env st r = Inr None"
  shows "verify_row env st dmn deep r prev n checked cps =
    Inr (Inr (if ce_is_checkpoint r then cps + 1 else cps))"
proof -
  have idx: "ce_chain_index r = n" and ph: "ce_prev_chain_hash r = prev"
    and hash: "row_hash env prev r = Inr (ce_chain_hash r)" and cp: "checkpoint_fields_ok env r"
    using row by (simp_all add: row_ok_def)
  have "verify_checkpoint_row env r checked cps = None" if "ce_is_checkpoint r"
    using that cp sig by (simp add: verify_checkpoint_row_def checkpoint_fields_ok_def signer_trusted_def)
  moreover have "(0 < ce_chain_index r \<and> ce_chain_index r mod le_interval env = 0) = ce_is_checkpoint r"
    using cp by (simp add: checkpoint_fields_ok_def)
  ultimately show ?thesis
    using idx ph hash deep
    by (auto simp: verify_row_def row_hash_def Let_def)
qed

lemma verify_rows_ok:
  "chain_from env dmn prev n rows \<Longrightarrow> signer_trusted env \<Longrightarrow>
   (\<And>r. r \<in> set rows \<Longrightarrow> deep \<Longrightarrow> dmn = MONEY_DOMAIN \<Longrightarrow> 0 < ce_chain_index r \<Longrightarrow>
      deep_verify_money_row env st r = Inr None) \<Longrightarrow>
   verify_rows env st dmn deep rows prev n checked cps =
     Inr (Inr (checked + int (length rows), cps + int (length (filter ce_is_checkpoint rows))))"
proof (induction rows arbitrary: prev n checked cps)
  case Nil
  then show ?case by simp
next
  case (Cons r rows)
  have row: "row_ok env dmn prev n r" using Cons.prems(1) by simp
  then have idx: "ce_chain_index r = n" by (simp add: row_ok_def)
  have "verify_row env st dmn deep r prev n checked cps = Inr (Inr (if ce_is_checkpoint r then cps + 1 else cps))"
    using Cons.prems(3) [of r] idx by (intro verify_row_ok [OF row Cons.prems(2)]) simp
  moreover have "verify_rows env st dmn deep rows (ce_chain_hash r) (n + 1) (checked + 1) c =
      Inr (Inr (checked + 1 + int (length rows), c + int (length (filter ce_is_checkpoint rows))))" for c
    using Cons.prems by (intro Cons.IH) auto
  ultimately show ?case by (simp add: algebra_simps)
qed

lemma list_all2_ex: "list_all2 P xs ys \<Longrightarrow> x \<in> set xs \<Longrightarrow> \<exists>y \<in> set ys. P x y"
  by (induction rule: list_all2_induct) auto

lemma list_all2_ex2: "list_all2 P xs ys \<Longrightarrow> y \<in> set ys \<Longrightarrow> \<exists>x \<in> set xs. P x y"
  by (induction rule: list_all2_induct) auto

lemma verify_checkpoint_table_ok:
  assumes dom: "domain_ok env dmn (chain_of st dmn) (checkpoints_in st dmn)" and sig: "signer_trusted env"
    and sub: "set cs \<subseteq> set (checkpoints_in st dmn)"
  shows "verify_checkpoint_table env st dmn cs checked cps = None"
  using sub
proof (induction cs)
  case Nil
  then show ?case by simp
next
  case (Cons cp cs)
  let ?c = "chain_of st dmn"
  have ok: "chain_ok env dmn ?c" using dom by (simp add: domain_ok_def)
  have "list_all2 (checkpoint_of env dmn) (checkpoints_in st dmn) (filter ce_is_checkpoint (dvals ?c))"
    using dom by (simp add: domain_ok_def checkpoints_ok_def)
  moreover have "cp \<in> set (checkpoints_in st dmn)" using Cons.prems by simp
  ultimately have "\<exists>r \<in> set (filter ce_is_checkpoint (dvals ?c)). checkpoint_of env dmn cp r"
    by (rule list_all2_ex)
  then obtain r where r: "r \<in> set (dvals ?c)" "ce_is_checkpoint r" and cp: "checkpoint_of env dmn cp r"
    by auto
  obtain k where k: "k < length ?c" "dvals ?c ! k = r" using r(1) by (auto simp: in_set_conv_nth)
  then have row: "row_ok env dmn (tip_hash GENESIS_PREV_HASH (take k (dvals ?c))) (int k) r"
    using chain_from_nth [of env dmn GENESIS_PREV_HASH 0 "dvals ?c" k] ok by (simp add: chain_ok_def)
  then have i: "cp_chain_index_to cp = int k" using cp by (simp add: row_ok_def checkpoint_of_def)
  have get: "get_chain_entry st dmn (int k) = Some r"
    using k by (simp add: get_chain_entry_def chain_ok_get [OF ok])
  have max: "max_chain_index st dmn = Some (int (length ?c) - 1)"
    using k by (auto simp: max_chain_index_def chain_ok_keys [OF ok] Max_int_upt)
  have sig_r: "ce_checkpoint_sig r = Some (fst (le_sign env (ce_chain_hash r)))"
    using row r(2) by (simp add: row_ok_def checkpoint_fields_ok_def)
  have "cp_chain_hash_at_checkpoint cp = ce_chain_hash r"
      "cp_checkpoint_sig cp = fst (le_sign env (ce_chain_hash r))"
      "cp_checkpoint_public_key_b64 cp = snd (le_sign env (ce_chain_hash r))"
    using cp by (simp_all add: checkpoint_of_def)
  then show ?case
    using Cons sig k(1) by (simp add: i get max sig_r r(2) Let_def signer_trusted_def)
qed


lemma deep_rows_ok:
  assumes inv: "ledger_inv env st" and sha: "sha256_hex (le_h env)"
    and r: "r \<in> set (dvals (chain_of st MONEY_DOMAIN))" "0 < ce_chain_index r"
  shows "deep_verify_money_row env st r = Inr None"
proof -
  let ?rows = "dvals (chain_of st MONEY_DOMAIN)"
  have money: "money_inv st" and chain: "chain_ok env MONEY_DOMAIN (chain_of st MONEY_DOMAIN)"
    using inv by (simp_all add: ledger_inv_def chain_inv_def domain_ok_def)
  have j: "list_all2 (\<lambda>e r. seals env (entry_postings st (je_entry_id e)) e r) (dvals (s_journal st)) (tl ?rows)"
    "\<forall>e \<in> set (dvals (s_journal st)). \<exists>d. je_entry_id e = ''je_'' @ take HASH_LENGTH (le_h env d)"
    using inv unfolding ledger_inv_def journal_inv_def journal_ok_def by blast+
  have "r \<noteq> hd ?rows"
    using chain_from_nth [of env MONEY_DOMAIN GENESIS_PREV_HASH 0 ?rows 0] chain r
    by (cases ?rows) (auto simp: chain_ok_def row_ok_def)
  then have "r \<in> set (tl ?rows)" using r(1) by (cases ?rows) auto
  then obtain e where e: "e \<in> set (dvals (s_journal st))" "seals env (entry_postings st (je_entry_id e)) e r"
    using list_all2_ex2 [OF j(1)] by blast
  moreover obtain d where "je_entry_id e = ''je_'' @ take HASH_LENGTH (le_h env d)" using j(2) e(1) by blast
  moreover have "dget (s_journal st) (je_entry_id e) = Some e"
  proof -
    have "e \<in> snd ` set (s_journal st)" using e(1) by (simp add: dvals_def)
    then obtain k where "(k, e) \<in> set (s_journal st)" by auto
    moreover from this have "k = je_entry_id e" using money by (auto simp: money_inv_def table_ok_def keyed_def)
    ultimately show ?thesis using money by (simp add: dget_Some_iff money_inv_def table_ok_def)
  qed
  ultimately show ?thesis using deep_verify_ok [OF sha money] by blast
qed

lemma journal_count:
  assumes "ledger_inv env st"
  shows "length (s_journal st) = length (chain_of st MONEY_DOMAIN) - 1"
proof -
  have "list_all2 (\<lambda>e r. seals env (entry_postings st (je_entry_id e)) e r) (dvals (s_journal st))
      (tl (dvals (chain_of st MONEY_DOMAIN)))"
    using assms unfolding ledger_inv_def journal_inv_def journal_ok_def by blast
  from list_all2_lengthD [OF this] show ?thesis by simp
qed

lemma verify_inner_ok:
  assumes inv: "ledger_inv env st" and sha: "sha256_hex (le_h env)" and sig: "signer_trusted env"
  shows "verify_chain_inner env st dmn 0 None deep =
    Inr (completed_result (int (length (chain_of st dmn))) (int (length (checkpoints_in st dmn))))"
proof -
  let ?c = "chain_of st dmn"
  have dom: "domain_ok env dmn ?c (checkpoints_in st dmn)"
    using inv by (simp add: ledger_inv_def chain_inv_def)
  then have ok: "chain_ok env dmn ?c" and chain: "chain_from env dmn GENESIS_PREV_HASH 0 (dvals ?c)"
    by (simp_all add: domain_ok_def chain_ok_def)
  have cps: "length (filter ce_is_checkpoint (dvals ?c)) = length (checkpoints_in st dmn)"
    using dom by (auto simp: domain_ok_def checkpoints_ok_def dest: list_all2_lengthD)
  have rows: "verify_rows env st dmn deep (dvals ?c) GENESIS_PREV_HASH 0 0 0 =
      Inr (Inr (int (length ?c), int (length (checkpoints_in st dmn))))"
    using verify_rows_ok [OF chain sig, of deep st 0 0] deep_rows_ok [OF inv sha] cps by simp
  have tab: "verify_checkpoint_table env st dmn (list_checkpoints st dmn) a b = None" for a b
    by (rule verify_checkpoint_table_ok [OF dom sig]) (simp add: list_checkpoints_def checkpoints_in_def)
  show ?thesis
  proof (cases "?c = []")
    case True
    have "list_checkpoints st dmn = []"
      using cps True by (simp add: list_checkpoints_def checkpoints_in_def [symmetric])
    moreover have "dmn = MONEY_DOMAIN \<Longrightarrow> s_journal st = []" using journal_count [OF inv] True by simp
    ultimately show ?thesis
      using True cps by (auto simp: verify_chain_inner_def iter_chain_ok [OF ok] verify_empty_def)
  next
    case False
    have "dmn = MONEY_DOMAIN \<Longrightarrow> int (length (s_journal st)) = int (length ?c) - 1"
      using journal_count [OF inv] False by (cases ?c) auto
    moreover have "dvals ?c \<noteq> []" using False by (simp add: dvals_def)
    ultimately show ?thesis
      by (auto simp: verify_chain_inner_def verify_tail_def iter_chain_ok [OF ok] rows tab Let_def)
  qed
qed


subsection \<open>Unique reading of the chain preimage\<close>

fun join_pipe :: "string list \<Rightarrow> string" where
  "join_pipe [] = []"
| "join_pipe [x] = x"
| "join_pipe (x # xs) = x @ CHR ''|'' # join_pipe xs"

abbreviation pipe_free :: "string \<Rightarrow> bool" where
  "pipe_free s \<equiv> CHR ''|'' \<notin> set s"

lemma count_join_pipe:
  "xs \<noteq> [] \<Longrightarrow> count_list (join_pipe xs) (CHR ''|'') = length xs - 1 + (\<Sum>x\<leftarrow>xs. count_list x (CHR ''|''))"
  by (induction xs rule: join_pipe.induct) auto

lemma join_pipe_inject_free:
  "length xs = length ys \<Longrightarrow> \<forall>x \<in> set xs. pipe_free x \<Longrightarrow> \<forall>y \<in> set ys. pipe_free y \<Longrightarrow>
     join_pipe xs = join_pipe ys \<Longrightarrow> xs = ys"
proof (induction xs arbitrary: ys rule: join_pipe.induct)
  case (3 x x' xs)
  then obtain y y' ys' where ys: "ys = y # y' # ys'"
    by (metis Suc_length_conv length_Cons)
  have "x = y \<and> join_pipe (x' # xs) = join_pipe (y' # ys')"
    using 3(3-) by (intro append_cons_unique) (auto simp: ys)
  moreover from this have "x' # xs = y' # ys'"
    using 3(2-4) by (intro "3.IH") (simp_all add: ys)
  ultimately show ?case by (simp add: ys)
qed (auto simp: Suc_length_conv length_Suc_conv)

lemma join_pipe_inject:
  assumes "length xs = length ys" and "\<forall>x \<in> set xs. pipe_free x" and "join_pipe xs = join_pipe ys"
  shows "xs = ys"
proof (cases "xs = []")
  case False
  then have ne: "ys \<noteq> []" using assms(1) by auto
  have zero: "(\<Sum>x\<leftarrow>xs. count_list x (CHR ''|'')) = 0"
    using assms(2) by (auto simp: sum_list_eq_0_iff count_list_0_iff)
  then have "(\<Sum>y\<leftarrow>ys. count_list y (CHR ''|'')) = 0"
    using count_join_pipe [OF False] count_join_pipe [OF ne] assms(1,3) by simp
  then have "\<forall>y \<in> set ys. pipe_free y" by (auto simp: sum_list_eq_0_iff count_list_0_iff)
  then show ?thesis using join_pipe_inject_free assms by blast
qed (use assms in auto)

lemma chain_preimage_join:
  "chain_preimage prev n dmn ty ph pp amt producer at =
     join_pipe [prev, str_int n, dmn, ty, ph, pp, str_int amt, producer, at]"
  by (simp add: chain_preimage_def)

lemma str_int_pipe_free: "pipe_free (str_int n)"
  using str_int_chars [of "CHR ''|''" n] by (auto simp: is_digit_def)

lemma canonical_ts_pipe_free: "pipe_free (to_canonical_ts t)"
  using canonical_ts_chars [of "CHR ''|''" t] by (auto simp: is_digit_def)

lemma chain_preimage_inject:
  assumes "chain_preimage prev n dmn ty ph pp amt producer at = chain_preimage prev' n' dmn' ty' ph' pp' amt' producer' at'"
    and "pipe_free prev" "pipe_free dmn" "pipe_free ty" "pipe_free ph" "pipe_free pp" "pipe_free producer"
      "pipe_free at"
  shows "prev = prev' \<and> n = n' \<and> dmn = dmn' \<and> ty = ty' \<and> ph = ph' \<and> pp = pp' \<and> amt = amt' \<and>
    producer = producer' \<and> at = at'"
proof -
  have "[prev, str_int n, dmn, ty, ph, pp, str_int amt, producer, at] =
      [prev', str_int n', dmn', ty', ph', pp', str_int amt', producer', at']"
    by (rule join_pipe_inject) (use assms str_int_pipe_free in \<open>auto simp: chain_preimage_join\<close>)
  then show ?thesis by (auto simp: str_int_inject)
qed


subsection \<open>What a completed verification tells\<close>

fun linked_from :: "ledger_env \<Rightarrow> string \<Rightarrow> int \<Rightarrow> chain_entry_row list \<Rightarrow> bool" where
  "linked_from env prev n [] \<longleftrightarrow> True"
| "linked_from env prev n (r # rs) \<longleftrightarrow> ce_chain_index r = n \<and> ce_prev_chain_hash r = prev \<and>
     row_hash env prev r = Inr (ce_chain_hash r) \<and> linked_from env (ce_chain_hash r) (n + 1) rs"

lemma linked_from_append:
  "linked_from env prev n (rs @ ss) \<longleftrightarrow>
     linked_from env prev n rs \<and> linked_from env (tip_hash prev rs) (n + int (length rs)) ss"
  by (induction rs arbitrary: prev n) (auto simp: tip_hash_def algebra_simps)

lemma chain_from_linked: "chain_from env dmn prev n rs \<Longrightarrow> linked_from env prev n rs"
  by (induction rs arbitrary: prev n) (auto simp: row_ok_def)

lemma verify_row_sound:
  assumes "verify_row env st dmn deep r prev n checked cps = Inr (Inr c)"
  shows "ce_chain_index r = n \<and> ce_prev_chain_hash r = prev \<and> row_hash env prev r = Inr (ce_chain_hash r) \<and>
    (deep \<longrightarrow> dmn = MONEY_DOMAIN \<longrightarrow> 0 < n \<longrightarrow> deep_verify_money_row env st r = Inr None)"
  using assms
  by (auto simp: verify_row_def row_hash_def bind_sum_Inr_iff Let_def split: if_splits option.splits)

lemma verify_rows_sound:
  "verify_rows env st dmn deep rows prev n checked cps = Inr (Inr (k, c)) \<Longrightarrow>
     linked_from env prev n rows \<and> k = checked + int (length rows) \<and>
     (\<forall>r \<in> set rows. deep \<longrightarrow> dmn = MONEY_DOMAIN \<longrightarrow> 0 < ce_chain_index r \<longrightarrow>
        deep_verify_money_row env st r = Inr None)"
proof (induction rows arbitrary: prev n checked cps)
  case Nil
  then show ?case by simp
next
  case (Cons r rows)
  then obtain w where w: "verify_row env st dmn deep r prev n checked cps = Inr w"
    by (auto simp: bind_sum_Inr_iff)
  with Cons.prems obtain d where row: "verify_row env st dmn deep r prev n checked cps = Inr (Inr d)"
    and rest: "verify_rows env st dmn deep rows (ce_chain_hash r) (n + 1) (checked + 1) d = Inr (Inr (k, c))"
    by (cases w) auto
  show ?case using verify_row_sound [OF row] Cons.IH [OF rest] by simp
qed

lemma status_distinct [simp]:
  "\<not> vr_ok (broken_result i d a b)" "\<not> vr_ok (bad_sig_result j d a b)" "vr_ok (completed_result a b)"
  by (simp_all add: vr_ok_def broken_result_def bad_sig_result_def completed_result_def VERIFY_COMPLETED_def
    VERIFY_FAILED_BROKEN_CHAIN_def VERIFY_FAILED_INVALID_CHECKPOINT_SIG_def)

lemma verify_checkpoint_row_not_ok: "verify_checkpoint_row env r a b = Some v \<Longrightarrow> \<not> vr_ok v"
  by (auto simp: verify_checkpoint_row_def split: option.splits if_splits)

lemma verify_row_not_ok: "verify_row env st dmn deep r prev n a b = Inr (Inl v) \<Longrightarrow> \<not> vr_ok v"
  by (auto simp: verify_row_def bind_sum_Inr_iff Let_def
    dest: verify_checkpoint_row_not_ok split: if_splits option.splits)

lemma verify_rows_not_ok:
  "verify_rows env st dmn deep rows prev n a b = Inr (Inl v) \<Longrightarrow> \<not> vr_ok v"
proof (induction rows arbitrary: prev n a b)
  case (Cons r rows)
  then obtain w where w: "verify_row env st dmn deep r prev n a b = Inr w"
    by (auto simp: bind_sum_Inr_iff)
  then show ?case using Cons verify_row_not_ok [of env st dmn deep r prev n a b] by (cases w) auto
qed simp

lemma verify_checkpoint_table_not_ok:
  "verify_checkpoint_table env st dmn cs a b = Some v \<Longrightarrow> \<not> vr_ok v"
  by (induction cs) (auto simp: Let_def split: if_splits option.splits)

lemma verify_inner_sound:
  assumes "verify_chain_inner env st MONEY_DOMAIN 0 None True = Inr v" and "vr_ok v"
    and "iter_chain st MONEY_DOMAIN 0 None = rows" and "rows \<noteq> []"
  shows "linked_from env GENESIS_PREV_HASH 0 rows \<and> length (s_journal st) + 1 = length rows \<and>
    (\<forall>r \<in> set rows. 0 < ce_chain_index r \<longrightarrow> deep_verify_money_row env st r = Inr None)"
proof -
  obtain w where w: "verify_rows env st MONEY_DOMAIN True rows GENESIS_PREV_HASH 0 0 0 = Inr w"
    using assms(1,3,4) by (auto simp: verify_chain_inner_def bind_sum_Inr_iff)
  have v: "v = (case w of Inl verdict \<Rightarrow> verdict
      | Inr (checked, cps) \<Rightarrow> verify_tail env st MONEY_DOMAIN 0 None True checked cps)"
    using assms w by (simp add: verify_chain_inner_def)
  show ?thesis
  proof (cases w)
    case (Inl verdict)
    then show ?thesis using v assms(2) w verify_rows_not_ok by simp
  next
    case (Inr kc)
    obtain k c where kc: "kc = (k, c)" by (cases kc)
    then have v: "v = verify_tail env st MONEY_DOMAIN 0 None True k c" using v Inr by simp
    then have cnt: "int (length (s_journal st)) = k - 1"
      using assms(2) verify_checkpoint_table_not_ok
      by (auto simp: verify_tail_def split: option.splits if_splits)
    have "verify_rows env st MONEY_DOMAIN True rows GENESIS_PREV_HASH 0 0 0 = Inr (Inr (k, c))"
      using w Inr kc by simp
    from verify_rows_sound [OF this] show ?thesis using cnt by auto
  qed
qed

end
