(* ===== verification/Ledger_Tamper.thy ===== *)
theory Ledger_Tamper
  imports Ledger_Assurance "HOL-Library.Multiset"
begin

text \<open>
  Tamper evidence of the money chain. Two linked chains with the same tip hash have the same rows,
  unless hashed texts collide; deep verification ties the rows to the journal entries and postings they
  seal, through the payload hash and the members of the hashed document.
\<close>

subsection \<open>Two chains with the same tip\<close>

definition row_text :: "chain_entry_row \<Rightarrow> string" where
  "row_text r = chain_preimage (ce_prev_chain_hash r) (ce_chain_index r) (ce_chain_domain r) (ce_entry_type r)
     (ce_payload_hash r) (ce_payload_pointer r) (ce_amount_minor_sum r) (ce_producer r)
     (to_canonical_ts (ce_produced_at r))"

definition same_row :: "chain_entry_row \<Rightarrow> chain_entry_row \<Rightarrow> bool" where
  "same_row r r' \<longleftrightarrow> ce_prev_chain_hash r = ce_prev_chain_hash r' \<and> ce_chain_index r = ce_chain_index r' \<and>
     ce_chain_domain r = ce_chain_domain r' \<and> ce_entry_type r = ce_entry_type r' \<and>
     ce_payload_hash r = ce_payload_hash r' \<and> ce_payload_pointer r = ce_payload_pointer r' \<and>
     ce_amount_minor_sum r = ce_amount_minor_sum r' \<and> ce_producer r = ce_producer r' \<and>
     to_canonical_ts (ce_produced_at r) = to_canonical_ts (ce_produced_at r')"

definition row_pipe_free :: "chain_entry_row \<Rightarrow> bool" where
  "row_pipe_free r \<longleftrightarrow> pipe_free (ce_prev_chain_hash r) \<and> pipe_free (ce_chain_domain r) \<and>
     pipe_free (ce_entry_type r) \<and> pipe_free (ce_payload_hash r) \<and> pipe_free (ce_payload_pointer r) \<and>
     pipe_free (ce_producer r)"

lemma row_hash_text:
  "row_hash env p r = Inr x \<Longrightarrow> ce_prev_chain_hash r = p \<Longrightarrow> x = le_h env (row_text r)"
  by (simp add: row_hash_def compute_entry_hash_def row_text_def bind_sum_Inr_iff)

lemma row_text_same: "row_text r = row_text r' \<Longrightarrow> row_pipe_free r \<Longrightarrow> same_row r r'"
  unfolding row_text_def row_pipe_free_def same_row_def
  by (drule chain_preimage_inject) (auto simp: canonical_ts_pipe_free)

lemma linked_same:
  assumes "linked_from env prev n rows" and "linked_from env prev n rows'" and "length rows = length rows'"
    and "tip_hash prev rows = tip_hash prev rows'" and "\<And>r. r \<in> set rows \<Longrightarrow> row_pipe_free r"
    and "\<And>r r'. r \<in> set rows \<Longrightarrow> r' \<in> set rows' \<Longrightarrow> le_h env (row_text r) = le_h env (row_text r') \<Longrightarrow>
      row_text r = row_text r'"
  shows "list_all2 same_row rows rows'"
  using assms
proof (induction rows arbitrary: rows' rule: rev_induct)
  case Nil
  then show ?case by simp
next
  case (snoc r rs)
  then obtain r' rs' where rows': "rows' = rs' @ [r']" by (cases rows' rule: rev_cases) auto
  have len: "length rs = length rs'" using snoc.prems(3) rows' by simp
  have row: "ce_prev_chain_hash r = tip_hash prev rs" "row_hash env (tip_hash prev rs) r = Inr (ce_chain_hash r)"
    and row': "ce_prev_chain_hash r' = tip_hash prev rs'" "row_hash env (tip_hash prev rs') r' = Inr (ce_chain_hash r')"
    using snoc.prems(1,2) rows' by (simp_all add: linked_from_append)
  have "ce_chain_hash r = ce_chain_hash r'" using snoc.prems(4) rows' by (simp add: tip_hash_def)
  then have "le_h env (row_text r) = le_h env (row_text r')"
    using row_hash_text [OF row(2,1)] row_hash_text [OF row'(2,1)] by simp
  then have "row_text r = row_text r'" using snoc.prems(6) [of r r'] rows' by simp
  then have same: "same_row r r'" using row_text_same snoc.prems(5) by simp
  then have "tip_hash prev rs = tip_hash prev rs'" using row(1) row'(1) by (simp add: same_row_def)
  then have "list_all2 same_row rs rs'"
    using snoc.prems rows' len by (intro snoc.IH) (auto simp: linked_from_append)
  then show ?case using same rows' len by (simp add: list_all2_appendI)
qed

subsection \<open>The rows the service writes contain no delimiter\<close>

lemma hex_pipe_free: "sha256_hex h \<Longrightarrow> pipe_free (h x)"
proof -
  assume "sha256_hex h"
  then have "list_all is_hex (h x)" by (simp add: sha256_hex_def)
  moreover have "\<not> is_hex (CHR ''|'')" by (simp add: is_hex_def)
  ultimately show "pipe_free (h x)" by (meson list_all_iff)
qed

lemma entry_types_pipe_free: "ty \<in> set ENTRY_TYPES \<Longrightarrow> pipe_free ty"
  unfolding ENTRY_TYPES_def by auto

lemma payload_pointer_pipe_free:
  assumes "sha256_hex h" and "i = ''je_'' @ take HASH_LENGTH (h d)"
  shows "pipe_free (payload_pointer_for i t)"
proof -
  have "pipe_free i" using hex_pipe_free [OF assms(1)] assms(2) by (auto dest: in_set_takeD)
  moreover have "pipe_free (take n (drop m (to_canonical_ts t)))" for n m
    using canonical_ts_pipe_free by (auto dest!: in_set_takeD in_set_dropD)
  ultimately show ?thesis
    using canonical_ts_pipe_free [of t]
    by (auto simp: payload_pointer_for_def pointer_for_def Let_def LEDGER_POINTER_PREFIX_def POINTER_SUFFIX_def
      dest: in_set_takeD)
qed

lemma payload_hash_is_hash: "journal_entry_payload_hash h e ps = Inr x \<Longrightarrow> \<exists>y. x = h y"
  by (cases "canonical_json (journal_entry_payload e ps)")
    (auto simp: journal_entry_payload_hash_def ledger_canonical_def map_err_def sha256_canonical_def)

lemma sealed_row:
  assumes inv: "ledger_inv env st" and k: "k < length (chain_of st MONEY_DOMAIN)" "0 < k"
  shows "\<exists>e. e \<in> set (dvals (s_journal st)) \<and>
    seals env (entry_postings st (je_entry_id e)) e (dvals (chain_of st MONEY_DOMAIN) ! k) \<and>
    (\<exists>d. je_entry_id e = ''je_'' @ take HASH_LENGTH (le_h env d))"
proof -
  let ?rows = "dvals (chain_of st MONEY_DOMAIN)"
  have j: "list_all2 (\<lambda>e r. seals env (entry_postings st (je_entry_id e)) e r) (dvals (s_journal st)) (tl ?rows)"
    "\<forall>e \<in> set (dvals (s_journal st)). \<exists>d. je_entry_id e = ''je_'' @ take HASH_LENGTH (le_h env d)"
    using inv unfolding ledger_inv_def journal_inv_def journal_ok_def by blast+
  have k': "k < length ?rows" using k by (simp add: dvals_def)
  have "?rows ! k = tl ?rows ! (k - 1)" "k - 1 < length (tl ?rows)" using k' k(2) by (auto simp: nth_tl)
  then have mem: "?rows ! k \<in> set (tl ?rows)" by simp
  obtain e where "e \<in> set (dvals (s_journal st))" "seals env (entry_postings st (je_entry_id e)) e (?rows ! k)"
    using list_all2_ex2 [OF j(1) mem] by blast
  then show ?thesis using j(2) by blast
qed

lemma service_row_pipe_free:
  assumes inv: "ledger_inv env st" and sha: "sha256_hex (le_h env)" and prod: "pipe_free (le_producer env)"
    and r: "r \<in> set (dvals (chain_of st MONEY_DOMAIN))"
  shows "row_pipe_free r"
proof -
  let ?rows = "dvals (chain_of st MONEY_DOMAIN)"
  have chain: "chain_from env MONEY_DOMAIN GENESIS_PREV_HASH 0 ?rows"
    using inv by (simp add: ledger_inv_def chain_inv_def domain_ok_def chain_ok_def)
  obtain k where k: "k < length ?rows" "r = ?rows ! k" using r by (auto simp: in_set_conv_nth)
  have row: "row_ok env MONEY_DOMAIN (tip_hash GENESIS_PREV_HASH (take k ?rows)) (int k) r"
    using chain_from_nth [OF chain k(1)] k(2) by simp
  have prev: "pipe_free (ce_prev_chain_hash r)"
  proof (cases k)
    case 0
    then show ?thesis using row by (simp add: row_ok_def tip_hash_def GENESIS_PREV_HASH_def)
  next
    case (Suc m)
    let ?q = "?rows ! m"
    have "row_ok env MONEY_DOMAIN (tip_hash GENESIS_PREV_HASH (take m ?rows)) (int m) ?q"
      using chain_from_nth [OF chain, of m] k(1) Suc by simp
    then have "ce_chain_hash ?q = le_h env (row_text ?q)"
      by (auto simp: row_ok_def dest: row_hash_text)
    moreover have "ce_prev_chain_hash r = ce_chain_hash ?q"
      using row k(1) Suc take_Suc_conv_app_nth [of m ?rows] by (auto simp: row_ok_def tip_hash_def)
    ultimately show ?thesis using hex_pipe_free [OF sha] by simp
  qed
  have "pipe_free (ce_entry_type r) \<and> pipe_free (ce_payload_hash r) \<and> pipe_free (ce_payload_pointer r)"
  proof (cases "k = 0")
    case True
    then show ?thesis
      using row hex_pipe_free [OF sha, of "''genesis''"]
      by (simp add: row_ok_def GENESIS_ENTRY_TYPE_def GENESIS_PAYLOAD_HASH_def MONEY_DOMAIN_def)
  next
    case False
    then obtain e d where e: "seals env (entry_postings st (je_entry_id e)) e r"
        "je_entry_id e = ''je_'' @ take HASH_LENGTH (le_h env d)"
      using sealed_row [OF inv, of k] k by auto
    obtain y where y: "ce_payload_hash r = le_h env y"
      using e(1) payload_hash_is_hash unfolding seals_def by blast
    have "je_entry_type e \<in> set ENTRY_TYPES" "ce_entry_type r = je_entry_type e"
      "ce_payload_pointer r = payload_pointer_for (je_entry_id e) (je_produced_at e)"
      using e(1) unfolding seals_def by blast+
    then show ?thesis
      using entry_types_pipe_free payload_pointer_pipe_free [OF sha e(2)] hex_pipe_free [OF sha, of y] y by metis
  qed
  then show ?thesis
    using prev prod row by (simp add: row_pipe_free_def row_ok_def MONEY_DOMAIN_def)
qed


subsection \<open>Equal documents have equal members\<close>

lemma json_of_str_dict:
  assumes "json_of (str_dict kvs) = Inr d"
  obtains ms where "d = JObj ms" and "mset (map fst ms) = mset (map fst kvs)"
    and "\<And>k v. (k, v) \<in> set kvs \<Longrightarrow> \<exists>j. json_of v = Inr j \<and> (k, j) \<in> set ms"
proof -
  let ?ws = "map (\<lambda>(k, v). (k, json_of v)) kvs"
  let ?f = "\<lambda>(t :: string, w :: canon_error + json). bind_sum w (\<lambda>x. Inr (t, x))"
  have items: "map_sum_list (\<lambda>(k, w). bind_sum (key_string k) (\<lambda>t. Inr (t, w)))
      (map (\<lambda>(k, v). (k, json_of v)) (map (\<lambda>(k, v). (KStr k, v)) kvs)) = Inr ?ws"
    by (induction kvs) (auto simp: key_string_def)
  obtain ms where d: "d = JObj ms" and ms: "map_sum_list ?f (sort_key fst ?ws) = Inr ms"
    using assms unfolding json_of.simps sorted_items_def items
    by (auto simp: Let_def bind_sum_Inr_iff split: option.splits)
  have "map_sum_list ?f ws = Inr zs \<Longrightarrow> list_all2 (\<lambda>p m. fst m = fst p \<and> snd p = Inr (snd m)) ws zs" for ws zs
    by (induction ws arbitrary: zs) (auto simp: bind_sum_Inr_iff)
  then have all: "list_all2 (\<lambda>p m. fst m = fst p \<and> snd p = Inr (snd m)) (sort_key fst ?ws) ms"
    using ms by blast
  then have "map fst ms = map fst (sort_key fst ?ws)"
    by (induction rule: list_all2_induct) auto
  moreover have "mset (map fst (sort_key fst ?ws)) = mset (map fst kvs)"
    by (simp add: mset_map case_prod_unfold comp_def multiset.map_comp)
  ultimately have "mset (map fst ms) = mset (map fst kvs)" by simp
  moreover have "\<exists>j. json_of v = Inr j \<and> (k, j) \<in> set ms" if "(k, v) \<in> set kvs" for k v
  proof -
    have "(k, json_of v) \<in> set (sort_key fst ?ws)" using that by force
    then show ?thesis using list_all2_ex [OF all] by fastforce
  qed
  ultimately show ?thesis using that d by blast
qed

lemma json_member_same:
  assumes same: "json_of (str_dict a) = json_of (str_dict b)" and d: "json_of (str_dict a) = Inr d"
    and dist: "distinct (map fst a)" and v: "(k, v) \<in> set a" "(k, v') \<in> set b"
  shows "json_of v = json_of v'"
proof -
  obtain ms where ms: "d = JObj ms" "mset (map fst ms) = mset (map fst a)"
      and a: "\<And>k v. (k, v) \<in> set a \<Longrightarrow> \<exists>j. json_of v = Inr j \<and> (k, j) \<in> set ms"
    using json_of_str_dict [OF d] by blast
  obtain ms' where ms': "d = JObj ms'" and b: "\<And>k v. (k, v) \<in> set b \<Longrightarrow> \<exists>j. json_of v = Inr j \<and> (k, j) \<in> set ms'"
    using json_of_str_dict [OF d [unfolded same]] by blast
  have "distinct (map fst ms)" using ms(2) dist by (metis mset_eq_imp_distinct_iff)
  moreover obtain j where "json_of v = Inr j" "(k, j) \<in> set ms" using a [OF v(1)] by blast
  moreover obtain j' where "json_of v' = Inr j'" "(k, j') \<in> set ms" using b [OF v(2)] ms' ms(1) by auto
  ultimately show ?thesis by (metis eq_key_imp_eq_value)
qed

lemma json_list_same:
  assumes "json_of (PList xs) = json_of (PList ys)" and "json_of (PList xs) = Inr d"
  shows "map json_of xs = map json_of ys"
proof -
  have inr: "map_sum_list (\<lambda>w. w) zs = Inr js \<Longrightarrow> zs = map Inr js" for zs :: "(canon_error + json) list" and js
    by (induction zs arbitrary: js) (auto simp: bind_sum_Inr_iff)
  obtain js where js: "map_sum_list (\<lambda>w. w) (map json_of xs) = Inr js"
    using assms(2) by (auto simp: bind_sum_Inr_iff)
  then have "map_sum_list (\<lambda>w. w) (map json_of ys) = Inr js"
    using assms(1) by (cases "map_sum_list (\<lambda>w. w) (map json_of ys)") (simp_all add: bind_sum_def)
  then show ?thesis using inr js by metis
qed


subsection \<open>Equal payload hashes seal equal entries\<close>

definition posting_content :: "posting_row \<Rightarrow> string \<times> string \<times> string \<times> int \<times> string" where
  "posting_content p = (po_posting_id p, po_account_id p, po_side p, po_amount_minor p, po_currency p)"

definition same_entry :: "journal_entry_row \<Rightarrow> journal_entry_row \<Rightarrow> bool" where
  "same_entry e e' \<longleftrightarrow> je_entry_id e = je_entry_id e' \<and> je_reference_id e = je_reference_id e' \<and>
     je_reference_type e = je_reference_type e' \<and> je_entry_type e = je_entry_type e' \<and>
     je_description e = je_description e' \<and> je_produced_by e = je_produced_by e' \<and>
     to_canonical_ts (je_produced_at e) = to_canonical_ts (je_produced_at e') \<and>
     je_idempotency_key e = je_idempotency_key e' \<and> je_schema_version e = je_schema_version e'"

lemma posting_payload_same:
  assumes "json_of (posting_payload p) = json_of (posting_payload q)" and "json_of (posting_payload p) = Inr d"
  shows "posting_content p = posting_content q"
proof -
  note member = json_member_same [OF assms [unfolded posting_payload_def]]
  show ?thesis
    using member [of "''posting_id''" "PStr (po_posting_id p)" "PStr (po_posting_id q)"]
      member [of "''account_id''" "PStr (po_account_id p)" "PStr (po_account_id q)"]
      member [of "''side''" "PStr (po_side p)" "PStr (po_side q)"]
      member [of "''amount_minor''" "PInt (po_amount_minor p)" "PInt (po_amount_minor q)"]
      member [of "''currency''" "PStr (po_currency p)" "PStr (po_currency q)"]
    by (simp add: posting_content_def)
qed

lemma posting_list_same:
  assumes eq: "json_of (PList (map posting_payload ps)) = json_of (PList (map posting_payload qs))"
    and j: "json_of (PList (map posting_payload ps)) = Inr j"
  shows "map posting_content ps = map posting_content qs"
proof -
  have "map json_of (map posting_payload ps) = map json_of (map posting_payload qs)"
    by (rule json_list_same [OF eq j])
  moreover have "list_all (\<lambda>w. \<exists>d. w = Inr d) (map json_of (map posting_payload ps))"
  proof -
    have "map_sum_list (\<lambda>w. w) zs = Inr js \<Longrightarrow> list_all (\<lambda>w. \<exists>d. w = Inr d) zs"
      for zs :: "(canon_error + json) list" and js
      by (induction zs arbitrary: js) (auto simp: bind_sum_Inr_iff)
    then show ?thesis using j by (simp add: bind_sum_Inr_iff) blast
  qed
  ultimately show ?thesis
  proof (induction ps arbitrary: qs)
    case (Cons p ps)
    then obtain q qs' where qs: "qs = q # qs'" by (cases qs) auto
    obtain d where "json_of (posting_payload p) = Inr d" using Cons.prems(2) by auto
    moreover have "json_of (posting_payload p) = json_of (posting_payload q)" using Cons.prems(1) qs by simp
    ultimately have "posting_content p = posting_content q" using posting_payload_same by blast
    then show ?case using Cons qs by simp
  qed simp
qed

definition entry_members :: "journal_entry_row \<Rightarrow> posting_row list \<Rightarrow> (string \<times> pyobj) list" where
  "entry_members entry postings = [
     (''entry_id'', PStr (je_entry_id entry)),
     (''reference_id'', PStr (je_reference_id entry)),
     (''reference_type'', PStr (je_reference_type entry)),
     (''entry_type'', PStr (je_entry_type entry)),
     (''description'', PStr (je_description entry)),
     (''produced_by'', PStr (je_produced_by entry)),
     (''produced_at'', PStr (to_canonical_ts (je_produced_at entry))),
     (''idempotency_key'', PStr (je_idempotency_key entry)),
     (''schema_version'', PInt (je_schema_version entry)),
     (''postings'', PList (map posting_payload (sort_key po_posting_id postings)))]"

lemma journal_entry_payload_members: "journal_entry_payload e ps = str_dict (entry_members e ps)"
  unfolding journal_entry_payload_def entry_members_def by (rule refl)

lemma entry_members_keys: "map fst (entry_members e ps) = map fst (entry_members e' qs)"
  by (simp add: entry_members_def)

lemma entry_members_distinct: "distinct (map fst (entry_members e ps))"
  by (simp add: entry_members_def)

lemma entry_payload_same:
  assumes "json_of (journal_entry_payload e ps) = json_of (journal_entry_payload e' qs)"
    and "json_of (journal_entry_payload e ps) = Inr d"
  shows "same_entry e e' \<and> mset (map posting_content ps) = mset (map posting_content qs)"
proof -
  let ?a = "entry_members e ps" and ?b = "entry_members e' qs"
  have len: "length ?a = 10" "length ?b = 10" by (simp_all add: entry_members_def)
  have same: "json_of (snd (?a ! k)) = json_of (snd (?b ! k))" if "k < 10" for k
  proof (rule json_member_same)
    show "json_of (str_dict ?a) = json_of (str_dict ?b)" "json_of (str_dict ?a) = Inr d"
      using assms by (simp_all only: journal_entry_payload_members)
    show "distinct (map fst ?a)" by (rule entry_members_distinct)
    show "(fst (?a ! k), snd (?a ! k)) \<in> set ?a" using that len by simp
    have "fst (?a ! k) = fst (?b ! k)" using that len entry_members_keys nth_map by metis
    then show "(fst (?a ! k), snd (?b ! k)) \<in> set ?b" using that len by simp
  qed
  have entry: "same_entry e e'"
    using same [of 0] same [of 1] same [of 2] same [of 3] same [of 4] same [of 5] same [of 6] same [of 7] same [of 8]
    by (simp add: same_entry_def entry_members_def)
  let ?ps = "map posting_payload (sort_key po_posting_id ps)" and ?qs = "map posting_payload (sort_key po_posting_id qs)"
  have lists: "json_of (PList ?ps) = json_of (PList ?qs)"
    using same [of 9] by (simp del: json_of.simps add: entry_members_def)
  have "(''postings'', PList ?ps) \<in> set ?a" by (simp add: entry_members_def)
  then obtain j where j: "json_of (PList ?ps) = Inr j"
    using json_of_str_dict [OF assms(2) [unfolded journal_entry_payload_members]] by metis
  have "mset (map posting_content (sort_key po_posting_id ps)) = mset (map posting_content (sort_key po_posting_id qs))"
    using posting_list_same [OF lists j] by simp
  then show ?thesis using entry by (simp add: mset_map)
qed


subsection \<open>The hashed texts of a store\<close>

definition hashed_texts :: "ledger_store \<Rightarrow> string set" where
  "hashed_texts st = row_text ` set (iter_chain st MONEY_DOMAIN 0 None) \<union>
     {s. \<exists>i e. dget (s_journal st) i = Some e \<and>
        canonical_json (journal_entry_payload e (get_postings_for_entry st i)) = Inr s}"

definition collide :: "ledger_env \<Rightarrow> ledger_store \<Rightarrow> ledger_store \<Rightarrow> bool" where
  "collide env st st' \<longleftrightarrow>
     (\<exists>x \<in> hashed_texts st. \<exists>y \<in> hashed_texts st'. x \<noteq> y \<and> le_h env x = le_h env y)"

lemma payload_hash_text:
  assumes "journal_entry_payload_hash h e ps = Inr x"
  obtains s where "canonical_json (journal_entry_payload e ps) = Inr s" and "x = h s"
  using assms by (cases "canonical_json (journal_entry_payload e ps)")
    (auto simp: journal_entry_payload_hash_def ledger_canonical_def map_err_def sha256_canonical_def)

lemma canonical_json_json_of: "canonical_json a = Inr s \<Longrightarrow> \<exists>d. json_of a = Inr d"
  by (cases "json_of a") (auto simp: canonical_json_spec print_result_def)

lemma same_sealed_entry:
  assumes clean: "\<not> collide env st st'"
    and e: "dget (s_journal st) i = Some e"
      "journal_entry_payload_hash (le_h env) e (get_postings_for_entry st i) = Inr x"
    and e': "dget (s_journal st') i = Some e'"
      "journal_entry_payload_hash (le_h env) e' (get_postings_for_entry st' i) = Inr x"
  shows "same_entry e e' \<and> mset (map posting_content (get_postings_for_entry st i)) =
    mset (map posting_content (get_postings_for_entry st' i))"
proof -
  obtain s where s: "canonical_json (journal_entry_payload e (get_postings_for_entry st i)) = Inr s" "x = le_h env s"
    using payload_hash_text [OF e(2)] by blast
  obtain t where t: "canonical_json (journal_entry_payload e' (get_postings_for_entry st' i)) = Inr t" "x = le_h env t"
    using payload_hash_text [OF e'(2)] by blast
  have "s \<in> hashed_texts st" "t \<in> hashed_texts st'" using s t e e' by (auto simp: hashed_texts_def)
  moreover have "le_h env s = le_h env t" using s(2) t(2) by simp
  ultimately have "s = t" using clean unfolding collide_def by blast
  then show ?thesis
    using canonical_json_same [OF s(1), of "journal_entry_payload e' (get_postings_for_entry st' i)"] t(1)
      canonical_json_json_of [OF s(1)] entry_payload_same by blast
qed

lemma deep_verify_sound:
  assumes "deep_verify_money_row env st r = Inr None" and "entry_id_from_pointer (ce_payload_pointer r) = Some i"
  shows "\<exists>e. dget (s_journal st) i = Some e \<and>
    journal_entry_payload_hash (le_h env) e (get_postings_for_entry st i) = Inr (ce_payload_hash r)"
  using assms by (auto simp: deep_verify_money_row_def Let_def bind_sum_Inr_iff split: option.splits if_splits)

lemma journal_entry_sealed:
  assumes inv: "ledger_inv env st" and e: "dget (s_journal st) i = Some e"
  shows "i = je_entry_id e \<and> (\<exists>k < length (chain_of st MONEY_DOMAIN). 0 < k \<and>
    seals env (entry_postings st i) e (dvals (chain_of st MONEY_DOMAIN) ! k)) \<and>
    (\<exists>d. i = ''je_'' @ take HASH_LENGTH (le_h env d))"
proof -
  let ?rows = "dvals (chain_of st MONEY_DOMAIN)"
  have j: "list_all2 (\<lambda>e r. seals env (entry_postings st (je_entry_id e)) e r) (dvals (s_journal st)) (tl ?rows)"
    "\<forall>e \<in> set (dvals (s_journal st)). \<exists>d. je_entry_id e = ''je_'' @ take HASH_LENGTH (le_h env d)"
    using inv unfolding ledger_inv_def journal_inv_def journal_ok_def by blast+
  have tab: "table_ok je_entry_id (s_journal st)" using inv by (simp add: ledger_inv_def money_inv_def)
  then have ie: "(i, e) \<in> set (s_journal st)" using e by (simp add: table_ok_def dget_Some_iff)
  then have mem: "e \<in> set (dvals (s_journal st))" by (force simp: dvals_def)
  have id: "i = je_entry_id e" using tab ie by (auto simp: table_ok_def keyed_def)
  obtain k where k: "k < length (tl ?rows)" "seals env (entry_postings st (je_entry_id e)) e (tl ?rows ! k)"
    using j(1) mem by (auto simp: list_all2_conv_all_nth in_set_conv_nth)
  then have "Suc k < length (chain_of st MONEY_DOMAIN)" "tl ?rows ! k = ?rows ! Suc k"
    by (auto simp: nth_tl dvals_def)
  then show ?thesis using id k(2) j(2) mem by auto
qed

lemma honest_linked:
  assumes "ledger_inv env st"
  shows "linked_from env GENESIS_PREV_HASH 0 (dvals (chain_of st MONEY_DOMAIN))"
    and "iter_chain st MONEY_DOMAIN 0 None = dvals (chain_of st MONEY_DOMAIN)"
    and "chain_of st MONEY_DOMAIN \<noteq> [] \<Longrightarrow> length (s_journal st) + 1 = length (chain_of st MONEY_DOMAIN)"
proof -
  have ok: "chain_ok env MONEY_DOMAIN (chain_of st MONEY_DOMAIN)"
    using assms by (simp add: ledger_inv_def chain_inv_def domain_ok_def)
  then show "linked_from env GENESIS_PREV_HASH 0 (dvals (chain_of st MONEY_DOMAIN))"
    by (auto simp: chain_ok_def intro: chain_from_linked)
  show "iter_chain st MONEY_DOMAIN 0 None = dvals (chain_of st MONEY_DOMAIN)" by (rule iter_chain_ok [OF ok])
  show "length (s_journal st) + 1 = length (chain_of st MONEY_DOMAIN)" if "chain_of st MONEY_DOMAIN \<noteq> []"
  proof -
    have "list_all2 (\<lambda>e r. seals env (entry_postings st (je_entry_id e)) e r) (dvals (s_journal st))
        (tl (dvals (chain_of st MONEY_DOMAIN)))"
      using assms unfolding ledger_inv_def journal_inv_def journal_ok_def by blast
    then show ?thesis using that by (auto simp: dvals_def dest!: list_all2_lengthD) 
  qed
qed


lemma verify_ok_inner:
  assumes "verify_chain env dmn lo hi deep now st = (Inr v, st')" and "vr_ok v"
  shows "verify_chain_inner env st dmn lo hi deep = Inr v"
proof -
  have "v = verify_chain_status env st dmn lo hi deep"
    using assms(1) by (auto simp: verify_chain_def bind_pm_def ret_def get_pm_def lift_sum_def modify_pm_def
      split: if_splits sum.splits prod.splits)
  then show ?thesis
    using assms(2) by (auto simp: verify_chain_status_def error_result_def vr_ok_def
      VERIFY_COMPLETED_def VERIFY_FAILED_ERROR_def split: sum.splits)
qed

lemma linked_from_index: "linked_from env prev n rows \<Longrightarrow> k < length rows \<Longrightarrow> ce_chain_index (rows ! k) = n + int k"
  by (induction rows arbitrary: prev n k) (auto simp: nth_Cons split: nat.splits)

lemma same_rows:
  assumes inv: "ledger_inv env st" and sha: "sha256_hex (le_h env)" and prod: "pipe_free (le_producer env)"
    and link: "linked_from env GENESIS_PREV_HASH 0 rows'" and clean: "\<not> collide env st st'"
    and rows: "iter_chain st MONEY_DOMAIN 0 None = rows" "iter_chain st' MONEY_DOMAIN 0 None = rows'"
    and tip: "rows \<noteq> []" "length rows = length rows'" "ce_chain_hash (last rows) = ce_chain_hash (last rows')"
  shows "list_all2 same_row rows rows'"
proof (rule linked_same)
  show "linked_from env GENESIS_PREV_HASH 0 rows" using honest_linked(1,2) [OF inv] rows(1) by simp
  show "tip_hash GENESIS_PREV_HASH rows = tip_hash GENESIS_PREV_HASH rows'" using tip by (auto simp: tip_hash_def)
  show "row_pipe_free r" if "r \<in> set rows" for r
    using service_row_pipe_free [OF inv sha prod] that honest_linked(2) [OF inv] rows(1) by simp
  show "row_text r = row_text r'"
    if "r \<in> set rows" "r' \<in> set rows'" "le_h env (row_text r) = le_h env (row_text r')" for r r'
  proof -
    have "row_text r \<in> hashed_texts st" "row_text r' \<in> hashed_texts st'"
      using that rows by (auto simp: hashed_texts_def)
    then show ?thesis using clean that(3) unfolding collide_def by blast
  qed
qed (use link tip in auto)



text \<open>The sample ledger: a fresh store whose money chain has been initialised.\<close>

definition genesis_ledger :: ledger_store where
  "genesis_ledger = snd (exec_call demo_env (InitializeChain MONEY_DOMAIN (Aware 0)) new_store)"

lemma reach_genesis_ledger: "ledger_reach demo_env genesis_ledger"
  unfolding genesis_ledger_def by (intro ledger_reach.intros)

lemma genesis_ledger_length: "length (iter_chain genesis_ledger MONEY_DOMAIN 0 None) = 1"
  by code_simp

lemma genesis_ledger_journal: "s_journal genesis_ledger = []"
  by code_simp

lemma genesis_ledger_clean: "\<not> collide demo_env genesis_ledger genesis_ledger"
proof -
  obtain r where "iter_chain genesis_ledger MONEY_DOMAIN 0 None = [r]"
    using genesis_ledger_length by (auto simp: length_Suc_conv)
  then show ?thesis by (simp add: collide_def hashed_texts_def genesis_ledger_journal)
qed

lemma demo_sha256_hex: "sha256_hex (le_h demo_env)"
  by (auto simp: sha256_hex_def demo_env_def demo_hash_def list_all_iff is_hex_def dest!: in_set_takeD)

lemma demo_signer_trusted: "signer_trusted demo_env"
  by (simp add: signer_trusted_def demo_env_def)

lemma verify_chain_honest:
  assumes "ledger_inv env st" and "sha256_hex (le_h env)" and "signer_trusted env"
  shows "verify_chain env dmn 0 None deep now st =
    (Inr (completed_result (int (length (chain_of st dmn))) (int (length (checkpoints_in st dmn)))), st)"
  using verify_inner_ok [OF assms]
  by (simp add: verify_chain_def verify_chain_status_def bind_pm_def ret_def get_pm_def completed_result_def
    VERIFY_COMPLETED_def VERIFY_FAILED_BROKEN_CHAIN_def VERIFY_FAILED_INVALID_CHECKPOINT_SIG_def)

text \<open>C8. A ledger that only the service wrote always verifies: whatever calls were made, in whatever
  order, verifying either chain from its first row completes, in deep mode too, counts every row and
  every checkpoint, and leaves the store and its write gate as they were.\<close>

theorem honest_ledger_verifies:
  assumes "ledger_reach env st" and "sha256_hex (le_h env)" and "signer_trusted env"
  shows "verify_chain env dmn 0 None deep now st =
    (Inr (completed_result (int (length (chain_of st dmn))) (int (length (checkpoints_in st dmn)))), st)"
  by (rule verify_chain_honest [OF reach_ledger_inv [OF assms(1)] assms(2,3)])

theorem honest_ledger_verifies_witness:
  "verify_chain demo_env MONEY_DOMAIN 0 None True (Aware 0) demo_ledger =
    (Inr (completed_result (int (length (chain_of demo_ledger MONEY_DOMAIN)))
       (int (length (checkpoints_in demo_ledger MONEY_DOMAIN)))), demo_ledger)"
  by (rule honest_ledger_verifies [OF reach_demo_ledger demo_sha256_hex demo_signer_trusted])


definition blank_pointer_ledger :: ledger_store where
  "blank_pointer_ledger = genesis_ledger\<lparr>s_chains := map (\<lambda>(d, rows). (d, map (\<lambda>(i, r).
     (i, r\<lparr>ce_payload_pointer := []\<rparr>)) rows)) (s_chains genesis_ledger)\<rparr>"



text \<open>C10. Pointers round-trip: the entry id is recovered from the payload pointer that names it, for
  every id without a slash.\<close>

theorem payload_pointer_roundtrip:
  assumes "CHR ''/'' \<notin> set i" and "i \<noteq> []"
  shows "entry_id_from_pointer (payload_pointer_for i t) = Some i"
  by (rule entry_id_from_pointer_for [OF assms])

theorem payload_pointer_roundtrip_witness:
  "entry_id_from_pointer (payload_pointer_for ''je_1'' 0) = Some ''je_1''"
  by (rule payload_pointer_roundtrip) simp_all

end
