(* ===== verification/Ledger_Safety.thy ===== *)
theory Ledger_Safety
  imports Ledger_History
begin

text \<open>
  Safety of the ledger across calls: its tables only grow, an engaged write gate stops every posting
  and stays engaged, and an idempotency key is used once. Each is an invariant of the unit of work,
  kept by every call of the service.
\<close>

subsection \<open>The tables only grow\<close>

definition grown :: "ledger_store \<Rightarrow> ledger_store \<Rightarrow> bool" where
  "grown st st' \<longleftrightarrow> prefix (s_journal st) (s_journal st') \<and> prefix (s_postings st) (s_postings st') \<and>
     prefix (s_accounts st) (s_accounts st') \<and> (\<forall>dmn. prefix (chain_of st dmn) (chain_of st' dmn))"

lemma grown_refl: "grown st st"
  by (simp add: grown_def)

lemma grown_trans: "grown a b \<Longrightarrow> grown b c \<Longrightarrow> grown a c"
  unfolding grown_def by (meson prefix_order.trans)

definition growing :: "ledger_env \<Rightarrow> ledger_store \<Rightarrow> ledger_store \<Rightarrow> bool" where
  "growing env st0 st \<longleftrightarrow> ledger_inv env st \<and> grown st0 st"

definition growing_staged :: "ledger_env \<Rightarrow> ledger_store \<Rightarrow> ledger_store \<Rightarrow> mem_tx \<Rightarrow> bool" where
  "growing_staged env st0 st tx \<longleftrightarrow> ledger_staged env st tx \<and> grown st0 st"

lemma commit_grown:
  assumes "ledger_staged env st tx"
  shows "grown st (commit_tx tx st)"
proof -
  have ok: "staged_ok st tx" "chain_staged env st tx" using assms by (simp_all add: ledger_staged_def)
  then have "t_store tx = st" by (simp add: staged_ok_def)
  then show ?thesis
    by (simp add: grown_def commit_tx_postings [OF ok(1)] commit_chain [OF ok(2)] tx_chain_def)
qed

text \<open>A transaction whose body staged admissible rows either raises or commits them.\<close>

lemma transaction_commits:
  assumes "body (new_tx st) = (Inr a, tx)" and "ledger_staged env st tx"
  shows "(\<exists>e. transaction body st = (Inl e, st)) \<or>
    transaction body st = (Inr a, commit_tx tx st) \<and> ledger_inv env (commit_tx tx st)"
proof -
  have staged: "staged_ok st tx" "chain_staged env st tx" "money_inv st"
    using assms(2) by (simp_all add: ledger_staged_def)
  have "ledger_inv env (commit_tx tx st)" if "deferred_balance_check tx = Inr u" for u
    using commit_money_inv [OF staged(3,1) that] commit_chain_inv [OF staged(2)] commit_journal_inv [OF assms(2)]
    by (simp add: ledger_inv_def)
  then show ?thesis
    by (cases "deferred_balance_check tx") (simp_all add: transaction_return [where body = body, OF assms(1) staged(1)])
qed

interpretation growth: unit_of_work transaction new_tx "growing env st0" "growing_staged env st0" for env st0
proof unfold_locales
  fix st :: ledger_store and body :: "'a tx_op" and a tx
  assume body: "body (new_tx st) = (Inr a, tx)" and ok: "growing_staged env st0 st tx"
  then have "ledger_staged env st tx" "grown st0 st" by (simp_all add: growing_staged_def)
  then show "(\<exists>e. transaction body st = (Inl e, st)) \<or>
      (\<exists>s'. transaction body st = (Inr a, s') \<and> growing env st0 s')"
    using transaction_commits [where body = body, OF body] commit_grown grown_trans by (metis growing_def)
qed (simp_all add: growing_def growing_staged_def ledger_staged_start transaction_raise)

lemma growth_body:
  "keeps_return (ledger_staged env st) body \<Longrightarrow> keeps_return (growing_staged env st0 st) body"
  by (auto simp: keeps_return_def growing_staged_def)

lemma keeps_growth [keeps_intros]:
  "(\<And>st. keeps_return (ledger_staged env st) body) \<Longrightarrow> keeps (growing env st0) (transaction body)"
  by (intro growth.run_keeps growth_body)

lemma growing_gate [simp]: "growing env st0 (engage_write_gate r at st) = growing env st0 st"
  by (simp add: growing_def) (simp add: grown_def engage_write_gate_def chain_of_def)

lemma keeps_growth_calls:
  "keeps (growing env st0) (create_account env spec now)"
  "keeps (growing env st0) (post_journal_entry env js now)"
  "keeps (growing env st0) (open_hold env i amt reason ref src res expires now)"
  "keeps (growing env st0) (release_hold env i outcome cap now)"
  "keeps (growing env st0) (get_open_hold_id conn ref)"
  "keeps (growing env st0) (service_get_balance conn i as_of)"
  "keeps (growing env st0) (initialize_chain env dmn now)"
  "keeps (growing env st0) (trial_balance_assertion now)"
  "keeps (growing env st0) (verify_chain env dmn lo hi deep now)"
  "keeps (growing env st0) (write_audit_event env ae occurred now)"
  "keeps (growing env st0) (emit_event env ty sty sid payload topic producer occurred now)"
  unfolding create_account_def post_journal_entry_def open_hold_def release_hold_def get_open_hold_id_def
    service_get_balance_def initialize_chain_ensure trial_balance_assertion_def verify_chain_def
    write_audit_event_def emit_event_def
  by (intro keeps_intros keeps_duplicate_handler return_intros keeps_modify; simp)+

lemma run_calls_keeps:
  assumes "\<And>c. keeps I (exec_call env c)" and "I st"
  shows "I (run_calls env cs st)"
  using assms(2) by (induction cs arbitrary: st) (auto intro: keepsD [OF assms(1)])

text \<open>C11. The ledger is append-only: after any further calls, the accounts, the journal, the postings
  and both hash chains are extensions of what they were; no row is changed, moved or removed.\<close>

theorem ledger_is_append_only:
  assumes "ledger_reach env st"
  shows "grown st (run_calls env cs st)"
proof -
  have "keeps (growing env st) (exec_call env c)" for c
    by (cases c) (auto simp: returns_def intro!: keeps_intros keeps_growth_calls)
  moreover have "growing env st st" using reach_ledger_inv [OF assms] by (simp add: growing_def grown_refl)
  ultimately show ?thesis using run_calls_keeps [of "growing env st"] by (simp add: growing_def)
qed

theorem ledger_is_append_only_witness: "grown demo_ledger (run_calls demo_env demo_calls demo_ledger)"
  by (rule ledger_is_append_only [OF reach_demo_ledger])


subsection \<open>An engaged write gate stops every posting\<close>

definition gate_engaged :: "ledger_store \<Rightarrow> bool" where
  "gate_engaged st \<longleftrightarrow> wg_engaged (write_gate_state st)"

definition same_money :: "ledger_store \<Rightarrow> ledger_store \<Rightarrow> bool" where
  "same_money st st' \<longleftrightarrow> s_journal st' = s_journal st \<and> s_postings st' = s_postings st \<and>
     (\<forall>i. get_balance st' i = get_balance st i)"

definition frozen :: "ledger_env \<Rightarrow> ledger_store \<Rightarrow> ledger_store \<Rightarrow> bool" where
  "frozen env st0 st \<longleftrightarrow> ledger_inv env st \<and> gate_engaged st \<and> same_money st0 st"

definition idle_tx :: "ledger_store \<Rightarrow> mem_tx \<Rightarrow> bool" where
  "idle_tx st tx \<longleftrightarrow> gate_engaged st \<and> t_store tx = st \<and> t_journal tx = [] \<and> t_postings tx = [] \<and> t_gate_rows tx = []"

definition frozen_staged :: "ledger_env \<Rightarrow> ledger_store \<Rightarrow> ledger_store \<Rightarrow> mem_tx \<Rightarrow> bool" where
  "frozen_staged env st0 st tx \<longleftrightarrow> ledger_staged env st tx \<and> idle_tx st tx \<and> same_money st0 st"

lemma gate_engaged_rows: "gate_engaged st \<longleftrightarrow> (\<exists>r \<in> set (s_gate_rows st). gr_cleared_at r = None)"
proof -
  have "gate_engaged st \<longleftrightarrow> filter (\<lambda>r. gr_cleared_at r = None) (s_gate_rows st) \<noteq> []"
    by (simp add: gate_engaged_def write_gate_state_def gate_state_def split: list.splits option.splits)
  then show ?thesis by (simp add: filter_empty_conv)
qed

lemma commit_frozen:
  assumes "frozen_staged env st0 st tx"
  shows "gate_engaged (commit_tx tx st)" and "same_money st0 (commit_tx tx st)"
proof -
  have ok: "staged_ok st tx" using assms by (simp add: frozen_staged_def ledger_staged_def)
  show "gate_engaged (commit_tx tx st)" using assms by (auto simp: frozen_staged_def idle_tx_def gate_engaged_rows)
  show "same_money st0 (commit_tx tx st)"
    using assms by (simp add: frozen_staged_def idle_tx_def same_money_def commit_tx_postings [OF ok]
      commit_tx_balance delta_sum_def split: option.splits)
qed

interpretation freeze: unit_of_work transaction new_tx "frozen env st0" "frozen_staged env st0" for env st0
proof unfold_locales
  fix st :: ledger_store and body :: "'a tx_op" and a tx
  assume body: "body (new_tx st) = (Inr a, tx)" and ok: "frozen_staged env st0 st tx"
  then have "ledger_staged env st tx" by (simp add: frozen_staged_def)
  then show "(\<exists>e. transaction body st = (Inl e, st)) \<or>
      (\<exists>s'. transaction body st = (Inr a, s') \<and> frozen env st0 s')"
    using transaction_commits [where body = body, OF body] commit_frozen [OF ok] by (metis frozen_def)
next
  show "frozen_staged env st0 st (new_tx st)" if "frozen env st0 st" for st
    using that by (simp add: frozen_def frozen_staged_def ledger_staged_start) (simp add: idle_tx_def new_tx_def)
qed (simp add: transaction_raise)

text \<open>The staged writes other than \<open>insert_journal_entry\<close> and \<open>insert_posting\<close> stage neither.\<close>

lemma idle_inserts [keeps_intros]:
  "keeps (idle_tx st) (insert_account a)"
  "keeps (idle_tx st) (insert_chain_entry r)"
  "keeps (idle_tx st) (insert_checkpoint c)"
  "keeps (idle_tx st) (insert_outbox ob)"
  "keeps (idle_tx st) (insert_audit_event ae)"
  "keeps (idle_tx st) (insert_account_hold ho)"
  "keeps (idle_tx st) (update_account_hold ho)"
  unfolding insert_account_def insert_chain_entry_def insert_checkpoint_def insert_outbox_def
    insert_audit_event_def insert_account_hold_def update_account_hold_def
  by (intro keeps_intros keeps_modify; simp add: idle_tx_def)+

lemma idle_insert_genesis [keeps_intros]: "keeps (idle_tx st) (insert_genesis env dmn at)"
  unfolding insert_genesis_def by (intro keeps_intros)

lemma idle_append_chain_entry [keeps_intros]:
  "keeps (idle_tx st) (append_chain_entry env dmn ty ph pp amt at)"
  unfolding append_chain_entry_def append_linked_entry_def by (intro keeps_intros)

lemma idle_audit_bundle [keeps_intros]: "keeps (idle_tx st) (audit_bundle env spec at actor red ph ev)"
  unfolding audit_bundle_def by (intro keeps_intros)

lemma idle_ensure_genesis [keeps_intros]: "keeps (idle_tx st) (ensure_genesis env dmn at)"
  unfolding ensure_genesis_def by (intro keeps_intros)

text \<open>With the gate engaged, the bundle raises before it stages anything.\<close>

lemma idle_append_journal_entry [keeps_intros]: "keeps (idle_tx st) (append_journal_entry env spec at)"
proof (rule keepsI)
  fix tx assume idle: "idle_tx st tx"
  then have "wg_engaged (tx_write_gate_state tx)"
    by (simp add: idle_tx_def gate_engaged_def tx_write_gate_state_def gate_state_def)
  then have "snd (append_journal_entry env spec at tx) = tx"
    by (cases "validate_entry_spec spec"; cases "ledger_id (make_id (le_h env) ''je'' (entry_id_payload spec))")
      (simp_all add: append_journal_entry_def bind_pm_def lift_sum_def get_pm_def require_that_def raise_err_def)
  then show "idle_tx st (snd (append_journal_entry env spec at tx))" using idle by simp
qed

lemma frozen_body:
  "keeps_return (ledger_staged env st) body \<Longrightarrow> keeps (idle_tx st) body \<Longrightarrow>
     keeps_return (frozen_staged env st0 st) body"
  using keeps_return_keeps [of "idle_tx st" body]
  by (auto simp: keeps_return_def frozen_staged_def)

lemma keeps_freeze [keeps_intros]:
  "(\<And>st. keeps (idle_tx st) body) \<Longrightarrow> (\<And>st. keeps_return (ledger_staged env st) body) \<Longrightarrow>
     keeps (frozen env st0) (transaction body)"
  by (intro freeze.run_keeps frozen_body)

lemma frozen_gate: "frozen env st0 st \<Longrightarrow> frozen env st0 (engage_write_gate r at st)"
  by (simp add: frozen_def gate_engaged_rows)
    (auto simp: engage_write_gate_def same_money_def get_balance_def)

lemma keeps_freeze_calls:
  "keeps (frozen env st0) (create_account env spec now)"
  "keeps (frozen env st0) (post_journal_entry env js now)"
  "keeps (frozen env st0) (open_hold env i amt reason ref src res expires now)"
  "keeps (frozen env st0) (release_hold env i outcome cap now)"
  "keeps (frozen env st0) (get_open_hold_id conn ref)"
  "keeps (frozen env st0) (service_get_balance conn i as_of)"
  "keeps (frozen env st0) (initialize_chain env dmn now)"
  "keeps (frozen env st0) (trial_balance_assertion now)"
  "keeps (frozen env st0) (verify_chain env dmn lo hi deep now)"
  "keeps (frozen env st0) (write_audit_event env ae occurred now)"
  "keeps (frozen env st0) (emit_event env ty sty sid payload topic producer occurred now)"
  unfolding create_account_def post_journal_entry_def open_hold_def release_hold_def get_open_hold_id_def
    service_get_balance_def initialize_chain_ensure trial_balance_assertion_def verify_chain_def
    write_audit_event_def emit_event_def
  by (intro keeps_intros keeps_duplicate_handler return_intros keeps_modify frozen_gate; assumption?)+

text \<open>C12. Fail closed: once the write gate is engaged on a ledger, no sequence of service calls posts
  anything. The journal, the postings and every balance stay as they were, and the gate stays
  engaged.\<close>

theorem engaged_gate_stops_money:
  assumes "ledger_reach env st" and "gated = engage_write_gate reason at st"
  shows "same_money st (run_calls env cs gated) \<and> gate_engaged (run_calls env cs gated)"
proof -
  have "keeps (frozen env st) (exec_call env c)" for c
    by (cases c) (auto simp: returns_def intro!: keeps_intros keeps_freeze_calls)
  moreover have "frozen env st gated"
    unfolding assms(2) frozen_def gate_engaged_rows gate_ledger_inv
    using reach_ledger_inv [OF assms(1)] by (simp add: engage_write_gate_def same_money_def get_balance_def)
  ultimately show ?thesis using run_calls_keeps [of "frozen env st"] by (simp add: frozen_def)
qed

theorem engaged_gate_stops_money_witness:
  "same_money demo_ledger (run_calls demo_env demo_calls (engage_write_gate ''r'' 0 demo_ledger)) \<and>
    gate_engaged (run_calls demo_env demo_calls (engage_write_gate ''r'' 0 demo_ledger))"
  by (rule engaged_gate_stops_money [OF reach_demo_ledger refl])

subsection \<open>One entry per idempotency key\<close>

text \<open>C13. Idempotency: in every reachable ledger no two journal entries share an idempotency key, and
  posting under a key that is in the journal raises and leaves the ledger as it was.\<close>

theorem idempotency_key_used_once:
  assumes "ledger_reach env st"
  shows "distinct (map je_idempotency_key (dvals (s_journal st))) \<and>
    (\<forall>e \<in> set (dvals (s_journal st)). \<forall>spec now. js_idempotency_key spec = je_idempotency_key e \<longrightarrow>
       (\<exists>x. post_journal_entry env spec now st = (Inl x, st)))"
proof -
  have inv: "ledger_inv env st" by (rule reach_ledger_inv [OF assms])
  have idem: "s_journal_by_idem st = map (\<lambda>e. (je_idempotency_key e, je_entry_id e)) (dvals (s_journal st))"
      and ok: "dict_ok (s_journal_by_idem st)"
    using inv unfolding ledger_inv_def journal_inv_def journal_ok_def by blast+
  have dist: "distinct (map je_idempotency_key (dvals (s_journal st)))"
    using ok unfolding dict_ok_def idem by (simp add: comp_def)
  have "\<exists>x. post_journal_entry env spec now st = (Inl x, st)"
    if e: "e \<in> set (dvals (s_journal st))" "js_idempotency_key spec = je_idempotency_key e" for e spec now
  proof -
    have no: "post_journal_entry env spec now st \<noteq> (Inr i, st')" for i st'
    proof
      assume "post_journal_entry env spec now st = (Inr i, st')"
      then obtain at where "transaction (append_journal_entry env spec at) st = (Inr i, st')"
        by (auto simp: post_journal_entry_def pm_Inr_iffs)
      then obtain tx where "append_journal_entry env spec at (new_tx st) = (Inr i, tx)"
        by (auto simp: transaction_def pm_Inr_iffs split: prod.splits sum.splits)
      then have "find_entry_id_by_idempotency_key (new_tx st) (js_idempotency_key spec) = None"
        by (auto simp: append_journal_entry_def pm_Inr_iffs split: option.splits)
      moreover have "journal_staged env st (new_tx st)"
        using ledger_staged_start [OF inv] by (simp add: ledger_staged_def)
      ultimately have "dget (tx_idem (new_tx st)) (js_idempotency_key spec) = None" by (rule find_idem_None [rotated])
      then have "dget (s_journal_by_idem st) (js_idempotency_key spec) = None" by (simp add: tx_idem_def new_tx_def)
      then show False using e unfolding idem dget_None_iff by force
    qed
    obtain r st' where post: "post_journal_entry env spec now st = (r, st')" by fastforce
    then obtain x where x: "post_journal_entry env spec now st = (Inl x, st')" using no by (cases r) auto
    then have "exec_call env (PostJournalEntry spec now) st = (Inl x, st')" by (simp add: returns_def bind_pm_def)
    then have "st' = st" using atomic_exec_call reach_money_inv [OF assms] unfolding atomic_on_def by blast
    then show ?thesis using x by blast
  qed
  then show ?thesis using dist by blast
qed

theorem idempotency_key_used_once_witness:
  "distinct (map je_idempotency_key (dvals (s_journal demo_ledger)))"
  using idempotency_key_used_once [OF reach_demo_ledger] by blast

end
