(* ===== verification/Fsm.thy ===== *)
theory Fsm
  imports BD_Prelude
begin

text \<open>
  The transition arbiter of the kernel, \<open>bdpay/kernel/fsm.py\<close>: the constructor of a transition table
  with its validation, the queries on a table, and \<open>resolve\<close>, which every service asks before it changes
  a state. \<open>resolve\<close> is shown to return exactly the rules that were declared. A locale collects what
  holds of any sequence of resolved transitions; each table of the kernel is an interpretation of it.
\<close>

subsection \<open>Rules and tables\<close>

datatype fsm_error = FsmValueError string | TransitionDeniedError string

record transition_rule =
  tr_from_state :: string
  tr_trigger :: string
  tr_to_state :: string
  tr_guard :: "string option"
  tr_side_effects :: "string list"

definition TransitionRule :: "string \<Rightarrow> string \<Rightarrow> string \<Rightarrow> string option \<Rightarrow> string list \<Rightarrow> transition_rule" where
  "TransitionRule from_state trigger to_state guard side_effects =
     \<lparr>tr_from_state = from_state, tr_trigger = trigger, tr_to_state = to_state, tr_guard = guard,
      tr_side_effects = side_effects\<rparr>"

lemma TransitionRule_simps [simp]:
  "tr_from_state (TransitionRule f t s g e) = f" "tr_trigger (TransitionRule f t s g e) = t"
  "tr_to_state (TransitionRule f t s g e) = s" "tr_guard (TransitionRule f t s g e) = g"
  "tr_side_effects (TransitionRule f t s g e) = e"
  by (simp_all add: TransitionRule_def)

type_synonym rule_index = "(string \<times> string, transition_rule list) dict"

record transition_table =
  tt_name :: string
  tt_states :: "string list"
  tt_terminal :: "string list"
  tt_index :: rule_index

definition rule_key :: "transition_rule \<Rightarrow> string \<times> string" where
  "rule_key r = (tr_from_state r, tr_trigger r)"

text \<open>The loop over the rules.\<close>

fun index_rules ::
    "string list \<Rightarrow> string list \<Rightarrow> transition_rule list \<Rightarrow> rule_index \<Rightarrow> fsm_error + rule_index" where
  "index_rules states terminal [] index = Inr index"
| "index_rules states terminal (rule # rules) index =
     bind_sum (check_sum (tr_from_state rule \<in> set states) (FsmValueError ''rule from unknown state'')) (\<lambda>_.
     bind_sum (check_sum (tr_to_state rule \<in> set states) (FsmValueError ''rule to unknown state'')) (\<lambda>_.
     bind_sum (check_sum (tr_from_state rule \<notin> set terminal)
       (FsmValueError ''terminal state cannot have an outgoing transition'')) (\<lambda>_.
     let existing = dget_or index (rule_key rule) [] in
     bind_sum (check_sum (\<not> list_ex (\<lambda>r. tr_guard r = tr_guard rule) existing)
       (FsmValueError ''duplicate rule'')) (\<lambda>_.
     index_rules states terminal rules (dput (rule_key rule) (existing @ [rule]) index)))))"

definition TransitionTable ::
    "string \<Rightarrow> string list \<Rightarrow> string list \<Rightarrow> transition_rule list \<Rightarrow> fsm_error + transition_table" where
  "TransitionTable name states terminal_states rules =
     bind_sum (check_sum (list_all (\<lambda>s. s \<in> set states) terminal_states)
       (FsmValueError ''terminal states not in state set'')) (\<lambda>_.
     bind_sum (index_rules states terminal_states rules []) (\<lambda>index.
     bind_sum (check_sum (list_all (\<lambda>(_, candidates).
         \<not> (1 < length candidates \<and> list_ex (\<lambda>r. tr_guard r = None) candidates)) index)
       (FsmValueError ''ambiguous rules must all carry guard keys'')) (\<lambda>_.
     Inr \<lparr>tt_name = name, tt_states = states, tt_terminal = terminal_states, tt_index = index\<rparr>)))"

subsection \<open>Queries and the arbiter\<close>

definition table_rules :: "transition_table \<Rightarrow> transition_rule list" where
  "table_rules t = concat (dvals (tt_index t))"

definition is_terminal :: "transition_table \<Rightarrow> string \<Rightarrow> bool" where
  "is_terminal t state \<longleftrightarrow> state \<in> set (tt_terminal t)"

definition rules_for :: "transition_table \<Rightarrow> string \<Rightarrow> string \<Rightarrow> transition_rule list" where
  "rules_for t from_state trigger = dget_or (tt_index t) (from_state, trigger) []"

definition resolve ::
    "transition_table \<Rightarrow> string \<Rightarrow> string \<Rightarrow> string option \<Rightarrow> fsm_error + transition_rule" where
  "resolve t from_state trigger guard =
     bind_sum (check_sum (from_state \<in> set (tt_states t)) (TransitionDeniedError ''unknown state'')) (\<lambda>_.
     bind_sum (check_sum (from_state \<notin> set (tt_terminal t))
       (TransitionDeniedError ''terminal states are immutable'')) (\<lambda>_.
     case rules_for t from_state trigger of
       [] \<Rightarrow> Inl (TransitionDeniedError ''no such transition is declared in the table'')
     | rule # others \<Rightarrow>
         if others = [] \<and> tr_guard rule = None then
           bind_sum (check_sum (guard = None)
             (TransitionDeniedError ''guard supplied but the rule is unguarded'')) (\<lambda>_. Inr rule)
         else if guard = None then
           Inl (TransitionDeniedError ''this transition has guarded branches; the caller must name one'')
         else
           (case find (\<lambda>r. tr_guard r = guard) (rule # others) of
              Some r \<Rightarrow> Inr r
            | None \<Rightarrow> Inl (TransitionDeniedError ''guard does not match a declared branch''))))"

subsection \<open>What a table holds\<close>

lemma index_rules_candidates:
  assumes "index_rules states terminal rules index = Inr index'"
  shows "dget_or index' k [] = dget_or index k [] @ filter (\<lambda>r. rule_key r = k) rules"
  using assms
proof (induction rules arbitrary: index)
  case (Cons rule rules)
  let ?index = "dput (rule_key rule) (dget_or index (rule_key rule) [] @ [rule]) index"
  have "dget_or index' k [] = dget_or ?index k [] @ filter (\<lambda>r. rule_key r = k) rules"
    using Cons by (simp add: bind_sum_Inr_iff Let_def)
  then show ?case by (simp add: dget_or_def dict_simps)
qed simp

lemma index_rules_valid:
  assumes "index_rules states terminal rules index = Inr index'" and "r \<in> set rules"
  shows "tr_from_state r \<in> set states \<and> tr_to_state r \<in> set states \<and> tr_from_state r \<notin> set terminal"
  using assms by (induction rules arbitrary: index) (auto simp: bind_sum_Inr_iff Let_def)

lemma index_rules_guards:
  assumes "index_rules states terminal rules index = Inr index'"
    and "\<And>k. distinct (map tr_guard (dget_or index k []))" and "dict_ok index"
  shows "distinct (map tr_guard (dget_or index' k [])) \<and> dict_ok index'"
  using assms
proof (induction rules arbitrary: index)
  case (Cons rule rules)
  let ?old = "dget_or index (rule_key rule) []"
  let ?index = "dput (rule_key rule) (?old @ [rule]) index"
  have rest: "index_rules states terminal rules ?index = Inr index'" and new: "\<forall>r \<in> set ?old. tr_guard r \<noteq> tr_guard rule"
    using Cons.prems(1) by (simp_all add: bind_sum_Inr_iff list_ex_iff Let_def)
  have "distinct (map tr_guard (dget_or ?index k []))" for k
    using Cons.prems(2) [of k] Cons.prems(2) [of "rule_key rule"] new by (auto simp: dget_or_def dict_simps)
  then show ?case using Cons.IH [OF rest] Cons.prems(3) by (simp add: dict_simps)
qed simp

lemma table_index:
  assumes "TransitionTable name states terminal rules = Inr t"
  shows "rules_for t s tr = filter (\<lambda>r. rule_key r = (s, tr)) rules"
    and "distinct (map tr_guard (rules_for t s tr))"
    and "1 < length (rules_for t s tr) \<Longrightarrow> r \<in> set (rules_for t s tr) \<Longrightarrow> tr_guard r \<noteq> None"
    and "tt_states t = states" and "tt_terminal t = terminal"
    and "r \<in> set rules \<Longrightarrow>
      tr_from_state r \<in> set states \<and> tr_to_state r \<in> set states \<and> tr_from_state r \<notin> set terminal"
proof -
  obtain index where index: "index_rules states terminal rules [] = Inr index"
      and t: "t = \<lparr>tt_name = name, tt_states = states, tt_terminal = terminal, tt_index = index\<rparr>"
      and amb: "list_all (\<lambda>(_, cs). \<not> (1 < length cs \<and> list_ex (\<lambda>r. tr_guard r = None) cs)) index"
    using assms by (auto simp: TransitionTable_def bind_sum_Inr_iff)
  have guards: "distinct (map tr_guard (dget_or index k []))" "dict_ok index" for k
    using index_rules_guards [OF index] by (simp_all add: dget_or_def)
  show "rules_for t s tr = filter (\<lambda>r. rule_key r = (s, tr)) rules"
    using index_rules_candidates [OF index] by (simp add: rules_for_def t dget_or_def)
  show "distinct (map tr_guard (rules_for t s tr))" using guards by (simp add: rules_for_def t)
  show "tt_states t = states" "tt_terminal t = terminal" by (simp_all add: t)
  show "tr_from_state r \<in> set states \<and> tr_to_state r \<in> set states \<and> tr_from_state r \<notin> set terminal"
    if "r \<in> set rules" using index_rules_valid [OF index that] .
  show "tr_guard r \<noteq> None" if len: "1 < length (rules_for t s tr)" and r: "r \<in> set (rules_for t s tr)"
  proof -
    obtain cs where "dget index (s, tr) = Some cs" "rules_for t s tr = cs"
      using len by (cases "dget index (s, tr)") (auto simp: rules_for_def t dget_or_def)
    then have "((s, tr), rules_for t s tr) \<in> set index" using map_of_SomeD by metis
    then show ?thesis using amb len r by (fastforce simp: list_all_iff list_ex_iff)
  qed
qed

lemma find_guard:
  assumes "distinct (map tr_guard cs)"
  shows "find (\<lambda>r. tr_guard r = g) cs = Some r \<longleftrightarrow> r \<in> set cs \<and> tr_guard r = g"
  using assms by (induction cs) auto

lemma resolve_iff:
  assumes "TransitionTable name states terminal rules = Inr t"
  shows "resolve t s tr g = Inr r \<longleftrightarrow>
    r \<in> set rules \<and> tr_from_state r = s \<and> tr_trigger r = tr \<and> tr_guard r = g"
proof -
  note ix = table_index [OF assms]
  have mem: "x \<in> set (rules_for t s tr) \<longleftrightarrow> x \<in> set rules \<and> tr_from_state x = s \<and> tr_trigger x = tr" for x
    by (auto simp: ix(1) rule_key_def)
  consider (outside) "s \<notin> set states \<or> s \<in> set terminal" | (none) "rules_for t s tr = []"
    | (one) c where "s \<in> set states" "s \<notin> set terminal" "rules_for t s tr = [c]"
    | (many) c c' cs where "s \<in> set states" "s \<notin> set terminal" "rules_for t s tr = c # c' # cs"
    by (metis neq_Nil_conv)
  then show ?thesis
  proof cases
    case outside
    then have "\<nexists>x. resolve t s tr g = Inr x" by (auto simp: resolve_def bind_sum_Inr_iff ix(4,5))
    then show ?thesis using outside ix(6) [of r] by auto
  next
    case none
    then have "\<nexists>x. resolve t s tr g = Inr x" by (auto simp: resolve_def bind_sum_Inr_iff)
    moreover have "\<not> (r \<in> set rules \<and> tr_from_state r = s \<and> tr_trigger r = tr)" using mem [of r] none by simp
    ultimately show ?thesis by blast
  next
    case one
    have "resolve t s tr g = Inr r \<longleftrightarrow> r = c \<and> tr_guard r = g"
      using one by (cases g; cases "tr_guard c") (auto simp: resolve_def ix(4,5) check_sum_def split: option.splits)
    then show ?thesis using mem [of r] one(3) by auto
  next
    case many
    have none: "tr_guard x \<noteq> None" if "x \<in> set (rules_for t s tr)" for x
      using ix(3) [OF _ that] many(3) by simp
    have "resolve t s tr g = Inr r \<longleftrightarrow> g \<noteq> None \<and> find (\<lambda>r. tr_guard r = g) (rules_for t s tr) = Some r"
      using many by (auto simp: resolve_def ix(4,5) check_sum_def split: option.splits)
    then show ?thesis using find_guard [OF ix(2)] none mem by metis
  qed
qed

text \<open>Acceptance without the index: two rules for one state and trigger carry distinct guard keys.\<close>

definition compatible :: "transition_rule \<Rightarrow> transition_rule \<Rightarrow> bool" where
  "compatible r q \<longleftrightarrow> tr_from_state q \<noteq> tr_from_state r \<or> tr_trigger q \<noteq> tr_trigger r \<or>
     tr_guard q \<noteq> None \<and> tr_guard r \<noteq> None \<and> tr_guard q \<noteq> tr_guard r"

fun all_compatible :: "transition_rule list \<Rightarrow> bool" where
  "all_compatible [] \<longleftrightarrow> True"
| "all_compatible (r # rules) \<longleftrightarrow> list_all (compatible r) rules \<and> all_compatible rules"

definition well_formed_rules :: "string list \<Rightarrow> string list \<Rightarrow> transition_rule list \<Rightarrow> bool" where
  "well_formed_rules states terminal rules \<longleftrightarrow> list_all (\<lambda>s. s \<in> set states) terminal \<and>
     list_all (\<lambda>r. tr_from_state r \<in> set states \<and> tr_to_state r \<in> set states \<and> tr_from_state r \<notin> set terminal) rules \<and>
     all_compatible rules"

lemma index_rules_accepts:
  assumes "list_all (\<lambda>r. tr_from_state r \<in> set states \<and> tr_to_state r \<in> set states \<and> tr_from_state r \<notin> set terminal) rules"
    and "all_compatible rules" and "\<forall>r \<in> set rules. \<forall>q \<in> set (dget_or index (rule_key r) []). compatible q r"
    and "\<forall>k. \<forall>q \<in> set (dget_or index k []). rule_key q = k"
  shows "\<exists>index'. index_rules states terminal rules index = Inr index'"
  using assms
proof (induction rules arbitrary: index)
  case (Cons rule rules)
  let ?old = "dget_or index (rule_key rule) []"
  let ?index = "dput (rule_key rule) (?old @ [rule]) index"
  have "\<not> list_ex (\<lambda>r. tr_guard r = tr_guard rule) ?old"
    using Cons.prems(3,4) by (auto simp: list_ex_iff compatible_def rule_key_def)
  moreover have "\<exists>index'. index_rules states terminal rules ?index = Inr index'"
  proof (intro Cons.IH)
    have new: "dget_or ?index k [] = (if k = rule_key rule then ?old @ [rule] else dget_or index k [])" for k
      by (simp add: dget_or_def dict_simps)
    show "\<forall>r \<in> set rules. \<forall>q \<in> set (dget_or ?index (rule_key r) []). compatible q r"
      unfolding new using Cons.prems(2,3) by (auto simp: list_all_iff split: if_splits)
    show "\<forall>k. \<forall>q \<in> set (dget_or ?index k []). rule_key q = k"
      unfolding new using Cons.prems(4) by (simp del: split_paired_All)
  qed (use Cons.prems in simp_all)
  ultimately show ?case using Cons.prems(1) by (simp add: Let_def check_sum_def)
qed simp

lemma all_compatible_key:
  assumes "all_compatible rules" and "filter (\<lambda>r. rule_key r = k) rules = cs" and "1 < length cs" and "r \<in> set cs"
  shows "tr_guard r \<noteq> None"
  using assms
proof (induction rules arbitrary: cs)
  case (Cons q rules)
  show ?case
  proof (cases "rule_key q = k")
    case True
    then obtain ds where cs: "cs = q # ds" "filter (\<lambda>r. rule_key r = k) rules = ds" using Cons.prems(2) by auto
    have other: "compatible q d \<and> rule_key d = k" if "d \<in> set ds" for d
      using that cs(2) Cons.prems(1) by (auto simp: list_all_iff)
    obtain d where "d \<in> set ds" using Cons.prems(3) cs(1) by (cases ds) auto
    then have "tr_guard q \<noteq> None" using other [of d] True by (auto simp: compatible_def rule_key_def)
    moreover have "tr_guard d \<noteq> None" if "d \<in> set ds" for d
      using other [OF that] True by (auto simp: compatible_def rule_key_def)
    ultimately show ?thesis using Cons.prems(4) cs(1) by auto
  qed (use Cons in auto)
qed simp

lemma accepted_rules:
  assumes "well_formed_rules states terminal rules"
  shows "TransitionTable name states terminal rules = Inr (projr (TransitionTable name states terminal rules))"
proof -
  obtain index where index: "index_rules states terminal rules [] = Inr index"
    using assms index_rules_accepts [of states terminal rules "[]"] by (auto simp: well_formed_rules_def dget_or_def)
  have ok: "dict_ok index" using index_rules_guards [OF index] by (simp add: dget_or_def)
  have "\<not> (1 < length cs \<and> list_ex (\<lambda>r. tr_guard r = None) cs)" if "(k, cs) \<in> set index" for k cs
  proof -
    have "dget_or index k [] = cs" using that ok by (simp add: dget_or_def dict_ok_def)
    then have "filter (\<lambda>r. rule_key r = k) rules = cs" using index_rules_candidates [OF index, of k] by (simp add: dget_or_def)
    then show ?thesis using all_compatible_key [of rules k cs] assms unfolding list_ex_iff well_formed_rules_def by blast
  qed
  then have "list_all (\<lambda>(_, cs). \<not> (1 < length cs \<and> list_ex (\<lambda>r. tr_guard r = None) cs)) index"
    by (force simp: list_all_iff)
  then show ?thesis using index assms by (simp add: TransitionTable_def well_formed_rules_def check_sum_def)
qed

lemma all_compatible_of_keys:
  assumes "\<And>k. distinct (map tr_guard (filter (\<lambda>r. rule_key r = k) rules))"
    and "\<And>k r. 1 < length (filter (\<lambda>r. rule_key r = k) rules) \<Longrightarrow> r \<in> set rules \<Longrightarrow> rule_key r = k \<Longrightarrow> tr_guard r \<noteq> None"
  shows "all_compatible rules"
  using assms
proof (induction rules)
  case (Cons r rules)
  have "compatible r q" if q: "q \<in> set rules" for q
  proof (cases "rule_key q = rule_key r")
    case True
    let ?same = "filter (\<lambda>x. rule_key x = rule_key r) rules"
    have "q \<in> set ?same" using q True by simp
    then have "1 < length (filter (\<lambda>x. rule_key x = rule_key r) (r # rules))" by (cases ?same) auto
    then have "tr_guard q \<noteq> None" "tr_guard r \<noteq> None" using Cons.prems(2) [of "rule_key r"] q True by auto
    moreover have "tr_guard q \<noteq> tr_guard r" using Cons.prems(1) [of "rule_key r"] \<open>q \<in> set ?same\<close> by (auto simp: image_iff)
    ultimately show ?thesis by (simp add: compatible_def)
  qed (auto simp: compatible_def rule_key_def)
  moreover have "all_compatible rules"
  proof (rule Cons.IH)
    show "distinct (map tr_guard (filter (\<lambda>r. rule_key r = k) rules))" for k
      using Cons.prems(1) [of k] by (simp split: if_splits)
    show "tr_guard q \<noteq> None" if "1 < length (filter (\<lambda>r. rule_key r = k) rules)" "q \<in> set rules" "rule_key q = k" for k q
    proof -
      have "1 < length (filter (\<lambda>r. rule_key r = k) (r # rules))" using that(1) by (cases "rule_key r = k") (auto simp del: length_greater_0_conv)
      then show ?thesis using Cons.prems(2) that(2,3) by simp
    qed
  qed
  ultimately show ?case by (simp add: list_all_iff)
qed simp

lemma accepted_well_formed:
  assumes "TransitionTable name states terminal rules = Inr t"
  shows "well_formed_rules states terminal rules"
proof -
  note ix = table_index [OF assms]
  have same: "rules_for t (fst k) (snd k) = filter (\<lambda>r. rule_key r = k) rules" for k using ix(1) by simp
  have "all_compatible rules"
  proof (rule all_compatible_of_keys)
    show "distinct (map tr_guard (filter (\<lambda>r. rule_key r = k) rules))" for k
      using ix(2) [of "fst k" "snd k"] by (simp add: same)
    show "tr_guard r \<noteq> None" if "1 < length (filter (\<lambda>r. rule_key r = k) rules)" "r \<in> set rules" "rule_key r = k" for k r
      using ix(3) [of "fst k" "snd k" r] that by (simp add: same)
  qed
  moreover have "list_all (\<lambda>s. s \<in> set states) terminal"
    using assms by (simp add: TransitionTable_def bind_sum_Inr_iff)
  ultimately show ?thesis using ix(6) by (simp add: well_formed_rules_def list_all_iff)
qed

subsection \<open>Histories\<close>

text \<open>The life of one object: a service resolves each event in the state the last one left. The rules
  that were taken are recorded; an event that is denied leaves the object where it was.\<close>

fun fire :: "transition_table \<Rightarrow> string \<Rightarrow> (string \<times> string option) list \<Rightarrow> transition_rule list" where
  "fire t s [] = []"
| "fire t s ((trigger, guard) # events) =
     (case resolve t s trigger guard of
        Inl _ \<Rightarrow> fire t s events
      | Inr rule \<Rightarrow> rule # fire t (tr_to_state rule) events)"

definition end_state :: "string \<Rightarrow> transition_rule list \<Rightarrow> string" where
  "end_state s taken = (if taken = [] then s else tr_to_state (last taken))"

lemma end_state_Cons: "end_state s (r # taken) = end_state (tr_to_state r) taken"
  by (simp add: end_state_def)

text \<open>Computable conditions on a list of rules, for the laws below: a set of states that is never
  left, an effect that is only had on entering such a set, a set that is left only by certain rules,
  and the states from which a target can be reached in a number of steps.\<close>

definition has_effect :: "string \<Rightarrow> transition_rule \<Rightarrow> bool" where
  "has_effect e r \<longleftrightarrow> e \<in> set (tr_side_effects r)"

definition never_left :: "transition_rule list \<Rightarrow> string list \<Rightarrow> bool" where
  "never_left rules S \<longleftrightarrow> list_all (\<lambda>r. tr_from_state r \<in> set S \<longrightarrow> tr_to_state r \<in> set S) rules"

definition only_entering :: "transition_rule list \<Rightarrow> (transition_rule \<Rightarrow> bool) \<Rightarrow> string list \<Rightarrow> bool" where
  "only_entering rules P S \<longleftrightarrow>
     list_all (\<lambda>r. P r \<longrightarrow> tr_from_state r \<notin> set S \<and> tr_to_state r \<in> set S) rules"

definition left_only_by :: "transition_rule list \<Rightarrow> (transition_rule \<Rightarrow> bool) \<Rightarrow> string list \<Rightarrow> bool" where
  "left_only_by rules P S \<longleftrightarrow>
     list_all (\<lambda>r. tr_from_state r \<in> set S \<longrightarrow> P r \<or> tr_to_state r \<in> set S) rules"

lemma rule_conditions_code [code]:
  "never_left rules S \<longleftrightarrow> list_all (\<lambda>r. tr_from_state r \<notin> set S \<or> tr_to_state r \<in> set S) rules"
  "only_entering rules P S \<longleftrightarrow> list_all (\<lambda>r. \<not> P r \<or> tr_from_state r \<notin> set S \<and> tr_to_state r \<in> set S) rules"
  "left_only_by rules P S \<longleftrightarrow>
     list_all (\<lambda>r. tr_from_state r \<notin> set S \<or> tr_to_state r \<in> set S \<or> P r) rules"
  by (auto simp: never_left_def only_entering_def left_only_by_def list_all_iff)

fun leads_to :: "transition_rule list \<Rightarrow> string list \<Rightarrow> nat \<Rightarrow> string list" where
  "leads_to rules target 0 = target"
| "leads_to rules target (Suc n) =
     (let S = leads_to rules target n
      in remdups (map tr_from_state (filter (\<lambda>r. tr_to_state r \<in> set S) rules) @ S))"

text \<open>The history computed from the rules alone.\<close>

fun fire_rules :: "transition_rule list \<Rightarrow> string \<Rightarrow> (string \<times> string option) list \<Rightarrow> transition_rule list" where
  "fire_rules rules s [] = []"
| "fire_rules rules s ((trigger, guard) # events) =
     (case find (\<lambda>r. tr_from_state r = s \<and> tr_trigger r = trigger \<and> tr_guard r = guard) rules of
        None \<Rightarrow> fire_rules rules s events
      | Some rule \<Rightarrow> rule # fire_rules rules (tr_to_state rule) events)"

text \<open>What the services rely on: the arbiter hands out declared rules only.\<close>

locale transition_machine =
  fixes table :: transition_table and rules :: "transition_rule list"
  assumes resolved: "resolve table s trigger guard = Inr r \<longleftrightarrow>
    r \<in> set rules \<and> tr_from_state r = s \<and> tr_trigger r = trigger \<and> tr_guard r = guard"
begin

lemma fire_eq: "fire table s events = fire_rules rules s events"
proof (induction events arbitrary: s)
  case (Cons ev events)
  obtain trigger guard where ev: "ev = (trigger, guard)" by (cases ev)
  show ?case
  proof (cases "resolve table s trigger guard")
    case (Inl e)
    then have "find (\<lambda>r. tr_from_state r = s \<and> tr_trigger r = trigger \<and> tr_guard r = guard) rules = None"
      using resolved [of s trigger guard] by (auto simp: find_None_iff)
    then show ?thesis using Cons Inl ev by simp
  next
    case (Inr r)
    have "find (\<lambda>r. tr_from_state r = s \<and> tr_trigger r = trigger \<and> tr_guard r = guard) rules = Some r"
    proof (cases "find (\<lambda>r. tr_from_state r = s \<and> tr_trigger r = trigger \<and> tr_guard r = guard) rules")
      case None
      then show ?thesis using Inr resolved [of s trigger guard r] by (auto simp: find_None_iff)
    next
      case (Some q)
      then have "resolve table s trigger guard = Inr q"
        using resolved [of s trigger guard q] by (auto simp: find_Some_iff in_set_conv_nth)
      then show ?thesis using Some Inr by simp
    qed
    then show ?thesis using Cons Inr ev by simp
  qed
qed simp

lemma taken_declared: "r \<in> set (fire table s events) \<Longrightarrow> r \<in> set rules"
proof (induction events arbitrary: s)
  case (Cons ev events)
  obtain trigger guard where ev: "ev = (trigger, guard)" by (cases ev)
  show ?case
  proof (cases "resolve table s trigger guard")
    case (Inr q)
    then have "q \<in> set rules" by (simp add: resolved)
    then show ?thesis using Cons Inr ev by auto
  qed (use Cons ev in auto)
qed simp

lemma stays_in:
  assumes "never_left rules S" and "s \<in> set S"
  shows "end_state s (fire table s events) \<in> set S \<and>
    (\<forall>r \<in> set (fire table s events). tr_from_state r \<in> set S)"
  using assms(2)
proof (induction events arbitrary: s)
  case Nil
  then show ?case by (simp add: end_state_def)
next
  case (Cons ev events)
  obtain trigger guard where ev: "ev = (trigger, guard)" by (cases ev)
  show ?case
  proof (cases "resolve table s trigger guard")
    case (Inl e)
    then show ?thesis using Cons ev by simp
  next
    case (Inr r)
    then have r: "r \<in> set rules" "tr_from_state r = s" by (simp_all add: resolved)
    then have "tr_to_state r \<in> set S" using assms(1) Cons.prems by (auto simp: never_left_def list_all_iff)
    then show ?thesis using Cons.IH Cons.prems Inr ev r(2) by (simp add: end_state_Cons)
  qed
qed

text \<open>An effect whose rules all enter a set that is never left, from outside of it, is taken at most
  once; afterwards the object stays in that set.\<close>

lemma taken_once:
  assumes closed: "never_left rules S" and enters: "only_entering rules P S"
  shows "length (filter P (fire table s events)) \<le> 1 \<and>
    (filter P (fire table s events) \<noteq> [] \<longrightarrow> end_state s (fire table s events) \<in> set S)"
proof (induction events arbitrary: s)
  case (Cons ev events)
  obtain trigger guard where ev: "ev = (trigger, guard)" by (cases ev)
  show ?case
  proof (cases "resolve table s trigger guard")
    case (Inr r)
    then have r: "r \<in> set rules" "tr_from_state r = s" by (simp_all add: resolved)
    show ?thesis
    proof (cases "P r")
      case True
      then have to: "tr_to_state r \<in> set S" using enters r by (auto simp: only_entering_def list_all_iff)
      let ?rest = "fire table (tr_to_state r) events"
      have "\<not> P q" if "q \<in> set ?rest" for q
        using stays_in [OF closed to] enters taken_declared that by (auto simp: only_entering_def list_all_iff)
      then have "filter P ?rest = []" by (auto simp: filter_empty_conv)
      then show ?thesis using Inr ev True stays_in [OF closed to] by (simp add: end_state_Cons)
    next
      case False
      then show ?thesis using Inr ev Cons.IH by (simp add: end_state_Cons)
    qed
  qed (use Cons ev in simp)
qed simp

text \<open>A set that only certain rules leave: outside of it, one of them has been taken.\<close>

lemma must_pass:
  assumes "left_only_by rules P S" and "s \<in> set S" and "end_state s (fire table s events) \<notin> set S"
  shows "\<exists>r \<in> set (fire table s events). P r"
  using assms(2,3)
proof (induction events arbitrary: s)
  case Nil
  then show ?case by (simp add: end_state_def)
next
  case (Cons ev events)
  obtain trigger guard where ev: "ev = (trigger, guard)" by (cases ev)
  show ?case
  proof (cases "resolve table s trigger guard")
    case (Inl e)
    then show ?thesis using Cons ev by simp
  next
    case (Inr r)
    then have r: "r \<in> set rules" "tr_from_state r = s" by (simp_all add: resolved)
    then show ?thesis
      using Cons.IH [of "tr_to_state r"] Cons.prems Inr ev assms(1)
      by (auto simp: end_state_Cons left_only_by_def list_all_iff)
  qed
qed

text \<open>From a state that leads to the target, some events take the object there.\<close>

lemma can_reach:
  assumes "s \<in> set (leads_to rules target n)"
  shows "\<exists>events. end_state s (fire table s events) \<in> set target"
  using assms
proof (induction n arbitrary: s)
  case 0
  then have "end_state s (fire table s []) \<in> set target" by (simp add: end_state_def)
  then show ?case by blast
next
  case (Suc n)
  show ?case
  proof (cases "s \<in> set (leads_to rules target n)")
    case False
    then obtain r where r: "r \<in> set rules" "tr_from_state r = s" "tr_to_state r \<in> set (leads_to rules target n)"
      using Suc.prems by (auto simp: Let_def)
    then have res: "resolve table s (tr_trigger r) (tr_guard r) = Inr r" by (simp add: resolved)
    obtain events where "end_state (tr_to_state r) (fire table (tr_to_state r) events) \<in> set target"
      using Suc.IH [OF r(3)] by blast
    then have "end_state s (fire table s ((tr_trigger r, tr_guard r) # events)) \<in> set target"
      using res by (simp add: end_state_Cons)
    then show ?thesis by blast
  qed (use Suc.IH in blast)
qed

end

lemma machine_of_table:
  assumes "TransitionTable name states terminal rules = Inr t"
  shows "transition_machine t rules"
  by unfold_locales (rule resolve_iff [OF assms])

text \<open>No state is a dead end: from each, some events end the object's life.\<close>

definition can_finish :: "transition_table \<Rightarrow> string list \<Rightarrow> bool" where
  "can_finish t states \<longleftrightarrow>
     list_all (\<lambda>s. \<exists>events. is_terminal t (end_state s (fire t s events))) states"

lemma table_can_finish:
  assumes built: "TransitionTable name states terminal rules = Inr t"
    and "list_all (\<lambda>s. s \<in> set (leads_to rules terminal n)) states"
  shows "can_finish t states"
proof -
  have "\<exists>events. is_terminal t (end_state s (fire t s events))" if "s \<in> set states" for s
    using transition_machine.can_reach [OF machine_of_table [OF built], of s terminal n] assms(2) that
      table_index(5) [OF built] by (simp add: list_all_iff is_terminal_def)
  then show ?thesis by (simp add: can_finish_def list_all_iff)
qed

subsection \<open>Properties\<close>

text \<open>C22. The constructor accepts exactly the tables the arbiter can serve: the terminal states are
  declared, every rule joins declared states and leaves no terminal one, and two rules for one state and
  trigger carry guard keys, different ones. Every other list of rules raises.\<close>

theorem constructor_accepts_well_formed:
  "isl (TransitionTable name states terminal rules) \<longleftrightarrow> \<not> well_formed_rules states terminal rules"
  using accepted_rules [of states terminal rules name] accepted_well_formed [of name states terminal rules]
  by (cases "TransitionTable name states terminal rules") auto

text \<open>C21. The arbiter is exact: on a table that the constructor accepted, \<open>resolve\<close> returns a rule
  exactly when that rule is declared for the state, the trigger and the guard, so it returns at most
  one, and every other request is denied. Unknown states and terminal states deny every trigger, and a
  resolved transition leads to a declared state.\<close>

theorem resolve_exact:
  assumes "TransitionTable name states terminal rules = Inr t"
  shows "(resolve t s trigger guard = Inr r \<longleftrightarrow>
      r \<in> set rules \<and> tr_from_state r = s \<and> tr_trigger r = trigger \<and> tr_guard r = guard) \<and>
    (s \<notin> set states \<or> s \<in> set terminal \<longrightarrow> (\<exists>m. resolve t s trigger guard = Inl (TransitionDeniedError m))) \<and>
    (resolve t s trigger guard = Inr r \<longrightarrow> tr_to_state r \<in> set states)"
proof (intro conjI impI)
  show "resolve t s trigger guard = Inr r \<longleftrightarrow>
      r \<in> set rules \<and> tr_from_state r = s \<and> tr_trigger r = trigger \<and> tr_guard r = guard"
    by (rule resolve_iff [OF assms])
  show "\<exists>m. resolve t s trigger guard = Inl (TransitionDeniedError m)" if "s \<notin> set states \<or> s \<in> set terminal"
    using that table_index(4,5) [OF assms] by (auto simp: resolve_def check_sum_def)
  show "tr_to_state r \<in> set states" if "resolve t s trigger guard = Inr r"
    using that table_index(6) [OF assms] resolve_iff [OF assms] by simp
qed

definition sample_rules :: "transition_rule list" where
  "sample_rules = [TransitionRule ''A'' ''go'' ''B'' (Some ''x'') [], TransitionRule ''A'' ''go'' ''C'' (Some ''y'') []]"

theorem resolve_exact_witness:
  "resolve \<lparr>tt_name = ''m'', tt_states = [''A'', ''B'', ''C''], tt_terminal = [''B'', ''C''],
     tt_index = [((''A'', ''go''), sample_rules)]\<rparr> ''A'' ''go'' (Some ''y'') =
     Inr (TransitionRule ''A'' ''go'' ''C'' (Some ''y'') [])"
proof -
  have "TransitionTable ''m'' [''A'', ''B'', ''C''] [''B'', ''C''] sample_rules =
      Inr \<lparr>tt_name = ''m'', tt_states = [''A'', ''B'', ''C''], tt_terminal = [''B'', ''C''],
        tt_index = [((''A'', ''go''), sample_rules)]\<rparr>"
    by code_simp
  then show ?thesis
    using resolve_exact [of "''m''" "[''A'', ''B'', ''C'']" "[''B'', ''C'']" sample_rules _ "''A''" "''go''" "Some ''y''"]
    by (simp add: sample_rules_def)
qed

end
