(* ===== verification/Payment_States.thy ===== *)
theory Payment_States
  imports Fsm
begin

text \<open>
  The three payment machines of \<open>bdpay/kernel/payment_states.py\<close>: payment intents, payment attempts and
  refunds, row by row. Each is accepted by the constructor of the arbiter, and its histories are shown
  to record a capture, a reversal or a settled refund at most once.
\<close>

subsection \<open>Payment intents\<close>

definition INTENT_STATES :: "string list" where
  "INTENT_STATES =
     [''CREATED'', ''REQUIRES_PAYMENT_METHOD'', ''REQUIRES_CONFIRMATION'', ''PRE_FLIGHT'',
      ''REQUIRES_ACTION'', ''PROCESSING'', ''REQUIRES_CAPTURE'', ''SUCCEEDED'', ''FAILED'',
      ''CANCELLED'', ''REVERSAL_INITIATED'', ''REVERSAL_PENDING'', ''REVERSED'',
      ''REFUND_INITIATED'', ''PARTIALLY_REFUNDED'', ''REFUNDED'']"

definition INTENT_RULES_1 :: "transition_rule list" where
  "INTENT_RULES_1 =
     [TransitionRule ''CREATED'' ''method_supplied'' ''REQUIRES_PAYMENT_METHOD'' None [''aud''],
      TransitionRule ''CREATED'' ''confirm'' ''PRE_FLIGHT'' None [''aud''],
      TransitionRule ''CREATED'' ''ttl_expired'' ''CANCELLED'' None [''aud'', ''event:payment_intent.expired''],
      TransitionRule ''CREATED'' ''cancel_requested'' ''CANCELLED'' None [''aud''],
      TransitionRule ''REQUIRES_PAYMENT_METHOD'' ''method_supplied'' ''REQUIRES_CONFIRMATION'' None [],
      TransitionRule ''REQUIRES_PAYMENT_METHOD'' ''ttl_expired'' ''CANCELLED'' None [''aud'', ''event:payment_intent.expired''],
      TransitionRule ''REQUIRES_PAYMENT_METHOD'' ''cancel_requested'' ''CANCELLED'' None [],
      TransitionRule ''REQUIRES_CONFIRMATION'' ''confirm'' ''PRE_FLIGHT'' None [],
      TransitionRule ''REQUIRES_CONFIRMATION'' ''ttl_expired'' ''CANCELLED'' None [''aud'', ''event:payment_intent.expired''],
      TransitionRule ''REQUIRES_CONFIRMATION'' ''cancel_requested'' ''CANCELLED'' None [],
      TransitionRule ''PRE_FLIGHT'' ''preflight_passed'' ''PROCESSING'' None [''aud'', ''event:payment_intent.processing''],
      TransitionRule ''PRE_FLIGHT'' ''action_required'' ''REQUIRES_ACTION'' None [],
      TransitionRule ''PRE_FLIGHT'' ''sanctions_hit'' ''FAILED'' None [''aud:SANCTIONS_BLOCK'', ''event:payment_intent.failed''],
      TransitionRule ''PRE_FLIGHT'' ''aml_block'' ''FAILED'' None [''aud:AML_BLOCK'', ''event:payment_intent.failed''],
      TransitionRule ''PRE_FLIGHT'' ''limit_exceeded'' ''FAILED'' None [''aud'', ''event:payment_intent.failed''],
      TransitionRule ''REQUIRES_ACTION'' ''action_completed'' ''PROCESSING'' None [''aud'', ''event:payment_intent.processing''],
      TransitionRule ''REQUIRES_ACTION'' ''action_failed'' ''FAILED'' None [''aud'', ''event:payment_intent.failed''],
      TransitionRule ''REQUIRES_ACTION'' ''ttl_expired'' ''FAILED'' None [''aud'', ''event:payment_intent.failed''],
      TransitionRule ''PROCESSING'' ''attempt_authorized'' ''REQUIRES_CAPTURE'' None [''aud'', ''event:payment_attempt.authorized''],
      TransitionRule ''PROCESSING'' ''attempt_charged'' ''SUCCEEDED'' None [''je:payment_captured'', ''je:fee_collected'', ''event:payment_attempt.charged'', ''event:payment_intent.succeeded''],
      TransitionRule ''PROCESSING'' ''attempt_failed_retryable'' ''PROCESSING'' None [''aud''],
      TransitionRule ''PROCESSING'' ''attempt_hard_declined'' ''FAILED'' None [''aud'', ''event:payment_intent.failed''],
      TransitionRule ''PROCESSING'' ''attempt_timed_out'' ''PROCESSING'' None [''aud''],
      TransitionRule ''PROCESSING'' ''reversal_triggered'' ''REVERSAL_INITIATED'' None [''aud'', ''event:payment_intent.reversal_initiated''],
      TransitionRule ''PROCESSING'' ''ttl_expired'' ''REVERSAL_INITIATED'' None [''aud'', ''event:payment_intent.reversal_initiated''],
      TransitionRule ''REQUIRES_CAPTURE'' ''capture_requested'' ''SUCCEEDED'' None [''je:payment_captured'', ''je:fee_collected'', ''event:payment_attempt.charged'', ''event:payment_intent.succeeded''],
      TransitionRule ''REQUIRES_CAPTURE'' ''void_requested'' ''CANCELLED'' None [''aud:VOID_MARKER'', ''event:payment_intent.cancelled''],
      TransitionRule ''REQUIRES_CAPTURE'' ''ttl_expired'' ''REVERSAL_INITIATED'' None [''aud''],
      TransitionRule ''REVERSAL_INITIATED'' ''reversal_dispatch_claimed'' ''REVERSAL_PENDING'' None [''aud''],
      TransitionRule ''REVERSAL_INITIATED'' ''reversal_confirmed'' ''REVERSED'' None [''je:payment_reversed'', ''event:payment_intent.reversed''],
      TransitionRule ''REVERSAL_INITIATED'' ''reversal_failed'' ''FAILED'' None [''aud:REVERSAL_FAILED'', ''event:compensation_item.queued''],
      TransitionRule ''REVERSAL_PENDING'' ''reversal_dispatch_claimed'' ''REVERSAL_PENDING'' None [''aud'']]"

definition INTENT_RULES_2 :: "transition_rule list" where
  "INTENT_RULES_2 =
     [TransitionRule ''REVERSAL_PENDING'' ''reversal_confirmed'' ''REVERSED'' None [''je:payment_reversed'', ''event:payment_intent.reversed''],
      TransitionRule ''REVERSAL_PENDING'' ''reversal_failed'' ''FAILED'' None [''aud:REVERSAL_FAILED'', ''event:compensation_item.queued''],
      TransitionRule ''SUCCEEDED'' ''refund_initiated'' ''REFUND_INITIATED'' None [''event:refund.initiated''],
      TransitionRule ''REFUND_INITIATED'' ''refund_partial_succeeded'' ''PARTIALLY_REFUNDED'' None [''je:refund_settled''],
      TransitionRule ''REFUND_INITIATED'' ''refund_full_succeeded'' ''REFUNDED'' None [''je:refund_settled'', ''event:refund.succeeded''],
      TransitionRule ''REFUND_INITIATED'' ''refund_failed'' ''SUCCEEDED'' (Some ''no_prior_partial'') [''aud:REFUND_FAILED''],
      TransitionRule ''REFUND_INITIATED'' ''refund_failed'' ''PARTIALLY_REFUNDED'' (Some ''prior_partial'') [''aud:REFUND_FAILED''],
      TransitionRule ''PARTIALLY_REFUNDED'' ''refund_initiated'' ''REFUND_INITIATED'' None [''event:refund.initiated''],
      TransitionRule ''PARTIALLY_REFUNDED'' ''refund_full_succeeded'' ''REFUNDED'' None [''je:refund_settled'', ''event:refund.succeeded'']]"

definition INTENT_RULES :: "transition_rule list" where
  "INTENT_RULES = INTENT_RULES_1 @ INTENT_RULES_2"

definition INTENT_TABLE :: transition_table where
  "INTENT_TABLE = projr (TransitionTable ''PaymentIntent'' INTENT_STATES
     [''FAILED'', ''CANCELLED'', ''REVERSED'', ''REFUNDED''] INTENT_RULES)"

subsection \<open>Payment attempts\<close>

definition ATTEMPT_STATES :: "string list" where
  "ATTEMPT_STATES =
     [''STARTED'', ''AUTHENTICATION_PENDING'', ''AUTHENTICATION_FAILED'',
      ''AUTHORIZATION_PENDING'', ''AUTHORIZATION_FAILED'', ''TIMED_OUT'', ''AUTHORIZED'',
      ''CAPTURE_INITIATED'', ''CHARGED'', ''CAPTURE_FAILED'', ''VOIDED'', ''REVERSED'']"

definition ATTEMPT_RULES :: "transition_rule list" where
  "ATTEMPT_RULES =
     [TransitionRule ''STARTED'' ''authentication_required'' ''AUTHENTICATION_PENDING'' None [],
      TransitionRule ''STARTED'' ''submitted'' ''AUTHORIZATION_PENDING'' None [],
      TransitionRule ''AUTHENTICATION_PENDING'' ''auth_success'' ''AUTHORIZATION_PENDING'' None [],
      TransitionRule ''AUTHENTICATION_PENDING'' ''auth_failure'' ''AUTHENTICATION_FAILED'' None [''event:payment_attempt.authentication_failed''],
      TransitionRule ''AUTHENTICATION_PENDING'' ''auth_timeout'' ''AUTHENTICATION_FAILED'' None [],
      TransitionRule ''AUTHORIZATION_PENDING'' ''connector_authorized'' ''AUTHORIZED'' None [''event:payment_attempt.authorized''],
      TransitionRule ''AUTHORIZATION_PENDING'' ''connector_success_direct'' ''CHARGED'' None [''je:payment_captured'', ''event:payment_attempt.charged''],
      TransitionRule ''AUTHORIZATION_PENDING'' ''connector_failed'' ''AUTHORIZATION_FAILED'' None [],
      TransitionRule ''AUTHORIZATION_PENDING'' ''connector_rejected'' ''AUTHORIZATION_FAILED'' None [''event:payment_attempt.hard_declined''],
      TransitionRule ''AUTHORIZATION_PENDING'' ''connector_timeout'' ''TIMED_OUT'' None [],
      TransitionRule ''TIMED_OUT'' ''poll_success'' ''AUTHORIZED'' (Some ''authorized'') [],
      TransitionRule ''TIMED_OUT'' ''poll_success'' ''CHARGED'' (Some ''charged'') [''je:payment_captured'', ''event:payment_attempt.charged''],
      TransitionRule ''TIMED_OUT'' ''poll_pending'' ''TIMED_OUT'' None [],
      TransitionRule ''TIMED_OUT'' ''poll_failed'' ''AUTHORIZATION_FAILED'' None [],
      TransitionRule ''TIMED_OUT'' ''poll_exhausted'' ''AUTHORIZATION_FAILED'' None [],
      TransitionRule ''TIMED_OUT'' ''poll_reversed'' ''REVERSED'' None [],
      TransitionRule ''AUTHORIZED'' ''capture_submitted'' ''CAPTURE_INITIATED'' None [],
      TransitionRule ''AUTHORIZED'' ''void_submitted'' ''VOIDED'' None [''event:payment_attempt.voided''],
      TransitionRule ''AUTHORIZED'' ''auth_expired'' ''VOIDED'' None [],
      TransitionRule ''CAPTURE_INITIATED'' ''capture_confirmed'' ''CHARGED'' None [''je:payment_captured'', ''event:payment_attempt.charged''],
      TransitionRule ''CAPTURE_INITIATED'' ''capture_failed'' ''CAPTURE_FAILED'' None [''event:payment_attempt.capture_failed''],
      TransitionRule ''CHARGED'' ''reversal_submitted'' ''REVERSED'' None [''je:payment_reversed'', ''event:payment_attempt.reversed'']]"

definition ATTEMPT_TABLE :: transition_table where
  "ATTEMPT_TABLE = projr (TransitionTable ''PaymentAttempt'' ATTEMPT_STATES
     [''AUTHENTICATION_FAILED'', ''AUTHORIZATION_FAILED'', ''CAPTURE_FAILED'', ''VOIDED'', ''REVERSED''] ATTEMPT_RULES)"

subsection \<open>Refunds\<close>

definition REFUND_STATES :: "string list" where
  "REFUND_STATES =
     [''REFUND_INITIATED'', ''REFUND_PENDING_CONNECTOR'', ''REFUND_SUCCEEDED'', ''REFUND_FAILED'']"

definition REFUND_RULES :: "transition_rule list" where
  "REFUND_RULES =
     [TransitionRule ''REFUND_INITIATED'' ''connector_dispatched'' ''REFUND_PENDING_CONNECTOR'' None [],
      TransitionRule ''REFUND_INITIATED'' ''rail_not_supported'' ''REFUND_FAILED'' None [''aud:REFUND_RAIL_UNSUPPORTED''],
      TransitionRule ''REFUND_PENDING_CONNECTOR'' ''connector_success'' ''REFUND_SUCCEEDED'' None [''je:refund_settled'', ''event:refund.succeeded''],
      TransitionRule ''REFUND_PENDING_CONNECTOR'' ''connector_failed'' ''REFUND_PENDING_CONNECTOR'' None [],
      TransitionRule ''REFUND_PENDING_CONNECTOR'' ''connector_rejected'' ''REFUND_FAILED'' None [''event:refund.failed''],
      TransitionRule ''REFUND_PENDING_CONNECTOR'' ''retries_exhausted'' ''REFUND_FAILED'' None [''event:refund.failed''],
      TransitionRule ''REFUND_PENDING_CONNECTOR'' ''connector_timeout'' ''REFUND_PENDING_CONNECTOR'' None []]"

definition REFUND_TABLE :: transition_table where
  "REFUND_TABLE = projr (TransitionTable ''Refund'' REFUND_STATES
     [''REFUND_SUCCEEDED'', ''REFUND_FAILED''] REFUND_RULES)"

subsection \<open>The constructor accepts the tables\<close>

lemma INTENT_accepted: "TransitionTable ''PaymentIntent'' INTENT_STATES [''FAILED'', ''CANCELLED'', ''REVERSED'', ''REFUNDED''] INTENT_RULES = Inr INTENT_TABLE"
  unfolding INTENT_TABLE_def by (rule accepted_rules) code_simp

interpretation intent_machine: transition_machine INTENT_TABLE INTENT_RULES
  by (rule machine_of_table [OF INTENT_accepted])

lemma ATTEMPT_accepted: "TransitionTable ''PaymentAttempt'' ATTEMPT_STATES [''AUTHENTICATION_FAILED'', ''AUTHORIZATION_FAILED'', ''CAPTURE_FAILED'', ''VOIDED'', ''REVERSED''] ATTEMPT_RULES = Inr ATTEMPT_TABLE"
  unfolding ATTEMPT_TABLE_def by (rule accepted_rules) code_simp

interpretation attempt_machine: transition_machine ATTEMPT_TABLE ATTEMPT_RULES
  by (rule machine_of_table [OF ATTEMPT_accepted])

lemma REFUND_accepted: "TransitionTable ''Refund'' REFUND_STATES [''REFUND_SUCCEEDED'', ''REFUND_FAILED''] REFUND_RULES = Inr REFUND_TABLE"
  unfolding REFUND_TABLE_def by (rule accepted_rules) code_simp

interpretation refund_machine: transition_machine REFUND_TABLE REFUND_RULES
  by (rule machine_of_table [OF REFUND_accepted])

subsection \<open>What the histories record\<close>

definition AFTER_CAPTURE :: "string list" where
  "AFTER_CAPTURE = [''SUCCEEDED'', ''REFUND_INITIATED'', ''PARTIALLY_REFUNDED'', ''REFUNDED'']"

lemma intent_capture_rules:
  "never_left INTENT_RULES AFTER_CAPTURE"
  "only_entering INTENT_RULES (has_effect ''je:payment_captured'') AFTER_CAPTURE"
  by code_simp+

text \<open>C23. A payment is captured at most once: whatever events reach a payment intent, in whatever
  order, at most one of the transitions taken posts \<open>payment_captured\<close>. Once it has, the intent never
  ends as failed, cancelled or reversed: money that was captured only leaves by a refund.\<close>

theorem intent_captured_once:
  assumes "taken = fire INTENT_TABLE s events"
  shows "length (filter (has_effect ''je:payment_captured'') taken) \<le> 1 \<and>
    (filter (has_effect ''je:payment_captured'') taken \<noteq> [] \<longrightarrow> end_state s taken \<in> set AFTER_CAPTURE)"
  unfolding assms by (rule intent_machine.taken_once [OF intent_capture_rules])

definition sample_intent_events :: "(string \<times> string option) list" where
  "sample_intent_events = [(''confirm'', None), (''preflight_passed'', None), (''attempt_charged'', None),
     (''attempt_charged'', None), (''cancel_requested'', None)]"

theorem intent_captured_once_witness:
  "end_state ''CREATED'' (fire INTENT_TABLE ''CREATED'' sample_intent_events) \<in> set AFTER_CAPTURE"
proof -
  have "filter (has_effect ''je:payment_captured'') (fire INTENT_TABLE ''CREATED'' sample_intent_events) \<noteq> []"
    unfolding intent_machine.fire_eq by code_simp
  then show ?thesis using intent_captured_once [OF refl, of "''CREATED''" sample_intent_events] by blast
qed

definition BEFORE_CHARGE :: "string list" where
  "BEFORE_CHARGE = [''STARTED'', ''AUTHENTICATION_PENDING'', ''AUTHENTICATION_FAILED'',
     ''AUTHORIZATION_PENDING'', ''AUTHORIZATION_FAILED'', ''TIMED_OUT'', ''AUTHORIZED'',
     ''CAPTURE_INITIATED'', ''CAPTURE_FAILED'', ''VOIDED'']"

lemma attempt_capture_rules:
  "never_left ATTEMPT_RULES [''CHARGED'', ''REVERSED'']"
  "only_entering ATTEMPT_RULES (has_effect ''je:payment_captured'') [''CHARGED'', ''REVERSED'']"
  "left_only_by ATTEMPT_RULES (\<lambda>r. has_effect ''je:payment_captured'' r \<or> tr_trigger r = ''poll_reversed'') BEFORE_CHARGE"
  by code_simp+


definition sample_attempt_events :: "(string \<times> string option) list" where
  "sample_attempt_events = [(''submitted'', None), (''connector_timeout'', None), (''poll_success'', Some ''charged'')]"


end
