(* ===== verification/Commerce_States.thy ===== *)
theory Commerce_States
  imports Fsm
begin

text \<open>
  The machines of the kernel's commerce services: offers and their redemptions
  (\<open>bdpay/kernel/offers/states.py\<close>), disbursement batches and items
  (\<open>bdpay/kernel/disbursement/states.py\<close>), subscriptions, their cycles and mandates
  (\<open>bdpay/kernel/subscriptions/states.py\<close>).
\<close>

subsection \<open>Offers\<close>

definition OFFER_STATES :: "string list" where
  "OFFER_STATES =
     [''DRAFT'', ''ACTIVE'', ''PAUSED'', ''EXHAUSTED'', ''EXPIRED'', ''ARCHIVED'']"

definition OFFER_RULES :: "transition_rule list" where
  "OFFER_RULES =
     [TransitionRule ''DRAFT'' ''activate'' ''ACTIVE'' None [''aud'', ''event:offer.activated''],
      TransitionRule ''DRAFT'' ''archive'' ''ARCHIVED'' None [''aud'', ''event:offer.archived''],
      TransitionRule ''ACTIVE'' ''pause'' ''PAUSED'' None [''aud'', ''event:offer.paused''],
      TransitionRule ''PAUSED'' ''resume'' ''ACTIVE'' None [''aud'', ''event:offer.resumed''],
      TransitionRule ''ACTIVE'' ''cap_total_reached'' ''EXHAUSTED'' None [''aud'', ''event:offer.exhausted''],
      TransitionRule ''EXHAUSTED'' ''cap_raised'' ''ACTIVE'' None [''aud'', ''version_row'', ''event:offer.resumed''],
      TransitionRule ''ACTIVE'' ''ttl_expired'' ''EXPIRED'' None [''aud'', ''event:offer.expired''],
      TransitionRule ''PAUSED'' ''ttl_expired'' ''EXPIRED'' None [''aud'', ''event:offer.expired''],
      TransitionRule ''ACTIVE'' ''archive'' ''ARCHIVED'' None [''aud'', ''event:offer.archived''],
      TransitionRule ''PAUSED'' ''archive'' ''ARCHIVED'' None [''aud'', ''event:offer.archived''],
      TransitionRule ''EXHAUSTED'' ''archive'' ''ARCHIVED'' None [''aud'', ''event:offer.archived''],
      TransitionRule ''DRAFT'' ''merchant_suspended'' ''PAUSED'' None [''aud'', ''event:offer.paused''],
      TransitionRule ''ACTIVE'' ''merchant_suspended'' ''PAUSED'' None [''aud'', ''event:offer.paused''],
      TransitionRule ''PAUSED'' ''merchant_suspended'' ''PAUSED'' None [''aud'', ''event:offer.paused''],
      TransitionRule ''EXHAUSTED'' ''merchant_suspended'' ''PAUSED'' None [''aud'', ''event:offer.paused'']]"

definition OFFER_TABLE :: transition_table where
  "OFFER_TABLE = projr (TransitionTable ''Offer'' OFFER_STATES
     [''EXPIRED'', ''ARCHIVED''] OFFER_RULES)"

subsection \<open>Redemptions of offers\<close>

definition REDEMPTION_STATES :: "string list" where
  "REDEMPTION_STATES =
     [''RESERVED'', ''APPLIED'', ''RELEASED'', ''REVERSED'', ''SETTLED'']"

definition REDEMPTION_RULES :: "transition_rule list" where
  "REDEMPTION_RULES =
     [TransitionRule ''RESERVED'' ''intent_succeeded'' ''APPLIED'' None [''je:offer_commission_collected'', ''je:offer_subsidy_granted'', ''aud'', ''event:offer_redemption.applied''],
      TransitionRule ''RESERVED'' ''intent_failed'' ''RELEASED'' None [''counter_recredit'', ''aud'', ''event:offer_redemption.released''],
      TransitionRule ''RESERVED'' ''reservation_ttl_expired'' ''RELEASED'' None [''counter_recredit'', ''aud'', ''event:offer_redemption.released''],
      TransitionRule ''APPLIED'' ''intent_reversed_or_refunded_full'' ''REVERSED'' None [''je:offer_commission_reversed'', ''je:offer_subsidy_reversed'', ''counter_recredit_iff_cap_recredit_on_refund'', ''aud'', ''event:offer_redemption.reversed''],
      TransitionRule ''APPLIED'' ''settlement_confirmed'' ''SETTLED'' None [''aud'', ''event:offer_redemption.settled'']]"

definition REDEMPTION_TABLE :: transition_table where
  "REDEMPTION_TABLE = projr (TransitionTable ''OfferRedemption'' REDEMPTION_STATES
     [''RELEASED'', ''REVERSED'', ''SETTLED''] REDEMPTION_RULES)"

subsection \<open>Disbursement batches\<close>

definition BATCH_STATES :: "string list" where
  "BATCH_STATES =
     [''DRAFT'', ''VALIDATED'', ''VALIDATION_FAILED'', ''PENDING_APPROVAL'', ''APPROVED'',
      ''DISPATCHING'', ''COMPLETED'', ''PARTIALLY_RETURNED'', ''CANCELLED'']"

definition BATCH_TERMINAL_STATES :: "string list" where
  "BATCH_TERMINAL_STATES =
     [''VALIDATION_FAILED'', ''COMPLETED'', ''PARTIALLY_RETURNED'', ''CANCELLED'']"

definition BATCH_RULES :: "transition_rule list" where
  "BATCH_RULES =
     [TransitionRule ''DRAFT'' ''validated'' ''VALIDATED'' None [''aud'', ''event:disbursement_batch.validated''],
      TransitionRule ''DRAFT'' ''validation_failed'' ''VALIDATION_FAILED'' None [''aud'', ''per-row validation report''],
      TransitionRule ''VALIDATED'' ''submit'' ''PENDING_APPROVAL'' None [''ApprovalRequest:bulk_disbursement_release'', ''aud'', ''event:disbursement_batch.submitted''],
      TransitionRule ''PENDING_APPROVAL'' ''approved'' ''APPROVED'' None [''je:disbursement_funded'', ''aud'', ''event:disbursement_batch.approved''],
      TransitionRule ''PENDING_APPROVAL'' ''rejected_or_expired'' ''CANCELLED'' None [''aud'', ''event:disbursement_batch.cancelled''],
      TransitionRule ''VALIDATED'' ''cancel'' ''CANCELLED'' None [''aud'', ''event:disbursement_batch.cancelled''],
      TransitionRule ''PENDING_APPROVAL'' ''cancel'' ''CANCELLED'' None [''aud'', ''event:disbursement_batch.cancelled''],
      TransitionRule ''APPROVED'' ''dispatch'' ''DISPATCHING'' None [''aud'', ''event:disbursement_batch.dispatched''],
      TransitionRule ''DISPATCHING'' ''all_items_terminal'' ''COMPLETED'' (Some ''all_paid'') [''aud'', ''event:disbursement_batch.completed''],
      TransitionRule ''DISPATCHING'' ''all_items_terminal'' ''PARTIALLY_RETURNED'' (Some ''any_returned_or_failed'') [''hold release'', ''aud'', ''event:disbursement_batch.completed'']]"

definition BATCH_TABLE :: transition_table where
  "BATCH_TABLE = projr (TransitionTable ''DisbursementBatch'' BATCH_STATES
     BATCH_TERMINAL_STATES BATCH_RULES)"

subsection \<open>Disbursement items\<close>

definition ITEM_STATES :: "string list" where
  "ITEM_STATES =
     [''QUEUED'', ''DISPATCHING'', ''DISPATCHED'', ''PAID'', ''RETURNED'', ''FAILED'']"

definition ITEM_TERMINAL_STATES :: "string list" where
  "ITEM_TERMINAL_STATES =
     [''PAID'', ''RETURNED'', ''FAILED'']"

definition ITEM_RULES :: "transition_rule list" where
  "ITEM_RULES =
     [TransitionRule ''QUEUED'' ''dispatched'' ''DISPATCHED'' None [''aud''],
      TransitionRule ''QUEUED'' ''failed'' ''FAILED'' None [''je:disbursement_failed_release'', ''aud'', ''event:disbursement_item.failed''],
      TransitionRule ''DISPATCHING'' ''dispatched'' ''DISPATCHED'' None [''aud''],
      TransitionRule ''DISPATCHING'' ''settled'' ''PAID'' None [''je:disbursement_item_paid'', ''aud'', ''event:disbursement_item.paid''],
      TransitionRule ''DISPATCHING'' ''returned'' ''RETURNED'' None [''je:disbursement_item_returned'', ''aud'', ''event:disbursement_item.returned''],
      TransitionRule ''DISPATCHING'' ''failed'' ''FAILED'' None [''je:disbursement_failed_release'', ''aud'', ''event:disbursement_item.failed''],
      TransitionRule ''DISPATCHED'' ''settled'' ''PAID'' None [''je:disbursement_item_paid'', ''aud'', ''event:disbursement_item.paid''],
      TransitionRule ''DISPATCHED'' ''returned'' ''RETURNED'' None [''je:disbursement_item_returned'', ''aud'', ''event:disbursement_item.returned''],
      TransitionRule ''DISPATCHED'' ''failed'' ''FAILED'' None [''je:disbursement_failed_release'', ''aud'', ''event:disbursement_item.failed'']]"

definition ITEM_TABLE :: transition_table where
  "ITEM_TABLE = projr (TransitionTable ''DisbursementItem'' ITEM_STATES
     ITEM_TERMINAL_STATES ITEM_RULES)"

subsection \<open>Subscriptions\<close>

definition SUBSCRIPTION_STATES :: "string list" where
  "SUBSCRIPTION_STATES =
     [''ACTIVE'', ''PAST_DUE'', ''PAUSED'', ''CANCELLED'', ''COMPLETED'']"

definition SUBSCRIPTION_RULES :: "transition_rule list" where
  "SUBSCRIPTION_RULES =
     [TransitionRule ''ACTIVE'' ''cycle_failed_final'' ''PAST_DUE'' None [''aud'', ''event:subscription.past_due'', ''notification''],
      TransitionRule ''ACTIVE'' ''pause'' ''PAUSED'' None [''aud'', ''event:subscription.paused''],
      TransitionRule ''ACTIVE'' ''cancel'' ''CANCELLED'' None [''aud'', ''event:subscription.cancelled''],
      TransitionRule ''ACTIVE'' ''term_completed'' ''COMPLETED'' None [''aud'', ''event:subscription.completed''],
      TransitionRule ''PAST_DUE'' ''cycle_paid'' ''ACTIVE'' None [''aud'', ''event:subscription.reactivated''],
      TransitionRule ''PAST_DUE'' ''grace_expired'' ''CANCELLED'' None [''aud'', ''event:subscription.cancelled''],
      TransitionRule ''PAUSED'' ''resume'' ''ACTIVE'' None [''aud'', ''event:subscription.resumed''],
      TransitionRule ''PAUSED'' ''cancel'' ''CANCELLED'' None [''aud'', ''event:subscription.cancelled'']]"

definition SUBSCRIPTION_TABLE :: transition_table where
  "SUBSCRIPTION_TABLE = projr (TransitionTable ''Subscription'' SUBSCRIPTION_STATES
     [''CANCELLED'', ''COMPLETED''] SUBSCRIPTION_RULES)"

subsection \<open>Billing cycles\<close>

definition SUBSCRIPTION_CYCLE_STATES :: "string list" where
  "SUBSCRIPTION_CYCLE_STATES =
     [''SCHEDULED'', ''COLLECTING'', ''DUNNING'', ''PAID'', ''FAILED'', ''SKIPPED'', ''CANCELLED'']"

definition SUBSCRIPTION_CYCLE_RULES :: "transition_rule list" where
  "SUBSCRIPTION_CYCLE_RULES =
     [TransitionRule ''SCHEDULED'' ''cycle_due'' ''COLLECTING'' None [''aud'', ''event:subscription_cycle.invoiced''],
      TransitionRule ''SCHEDULED'' ''subscription_paused_or_cancelled'' ''SKIPPED'' None [''aud'', ''event:subscription_cycle.skipped''],
      TransitionRule ''COLLECTING'' ''intent_succeeded'' ''PAID'' None [''aud'', ''event:subscription_cycle.paid''],
      TransitionRule ''COLLECTING'' ''intent_failed_or_expired'' ''DUNNING'' None [''aud'', ''event:subscription_cycle.dunning_started''],
      TransitionRule ''DUNNING'' ''dunning_attempt'' ''DUNNING'' None [''aud'', ''event:subscription_cycle.invoiced''],
      TransitionRule ''DUNNING'' ''attempt_succeeded'' ''PAID'' None [''aud'', ''event:subscription_cycle.paid''],
      TransitionRule ''DUNNING'' ''schedule_exhausted'' ''FAILED'' None [''aud'', ''event:subscription_cycle.failed''],
      TransitionRule ''COLLECTING'' ''subscription_cancelled'' ''CANCELLED'' None [''aud''],
      TransitionRule ''DUNNING'' ''subscription_cancelled'' ''CANCELLED'' None [''aud'']]"

definition SUBSCRIPTION_CYCLE_TABLE :: transition_table where
  "SUBSCRIPTION_CYCLE_TABLE = projr (TransitionTable ''SubscriptionCycle'' SUBSCRIPTION_CYCLE_STATES
     [''PAID'', ''FAILED'', ''SKIPPED'', ''CANCELLED''] SUBSCRIPTION_CYCLE_RULES)"

subsection \<open>Mandates\<close>

definition MANDATE_STATES :: "string list" where
  "MANDATE_STATES =
     [''PENDING_CONFIRMATION'', ''ACTIVE'', ''SUSPENDED'', ''REVOKED'', ''EXPIRED'']"

definition MANDATE_RULES :: "transition_rule list" where
  "MANDATE_RULES =
     [TransitionRule ''PENDING_CONFIRMATION'' ''confirmed'' ''ACTIVE'' None [''aud'', ''event:mandate.activated''],
      TransitionRule ''PENDING_CONFIRMATION'' ''ttl_expired'' ''EXPIRED'' None [''aud'', ''event:mandate.expired''],
      TransitionRule ''ACTIVE'' ''revoke'' ''REVOKED'' None [''aud'', ''event:mandate.revoked''],
      TransitionRule ''ACTIVE'' ''instrument_invalid'' ''SUSPENDED'' None [''aud'', ''event:mandate.suspended''],
      TransitionRule ''SUSPENDED'' ''re_confirmed'' ''ACTIVE'' None [''aud'', ''event:mandate.activated''],
      TransitionRule ''SUSPENDED'' ''ttl_expired'' ''REVOKED'' None [''aud'', ''event:mandate.revoked'']]"

definition MANDATE_TABLE :: transition_table where
  "MANDATE_TABLE = projr (TransitionTable ''Mandate'' MANDATE_STATES
     [''REVOKED'', ''EXPIRED''] MANDATE_RULES)"

subsection \<open>The constructor accepts the tables\<close>

lemma OFFER_accepted: "TransitionTable ''Offer'' OFFER_STATES [''EXPIRED'', ''ARCHIVED''] OFFER_RULES = Inr OFFER_TABLE"
  unfolding OFFER_TABLE_def by (rule accepted_rules) code_simp

interpretation offer_machine: transition_machine OFFER_TABLE OFFER_RULES
  by (rule machine_of_table [OF OFFER_accepted])

lemma REDEMPTION_accepted: "TransitionTable ''OfferRedemption'' REDEMPTION_STATES [''RELEASED'', ''REVERSED'', ''SETTLED''] REDEMPTION_RULES = Inr REDEMPTION_TABLE"
  unfolding REDEMPTION_TABLE_def by (rule accepted_rules) code_simp

interpretation redemption_machine: transition_machine REDEMPTION_TABLE REDEMPTION_RULES
  by (rule machine_of_table [OF REDEMPTION_accepted])

lemma BATCH_accepted: "TransitionTable ''DisbursementBatch'' BATCH_STATES BATCH_TERMINAL_STATES BATCH_RULES = Inr BATCH_TABLE"
  unfolding BATCH_TABLE_def by (rule accepted_rules) code_simp

interpretation batch_machine: transition_machine BATCH_TABLE BATCH_RULES
  by (rule machine_of_table [OF BATCH_accepted])

lemma ITEM_accepted: "TransitionTable ''DisbursementItem'' ITEM_STATES ITEM_TERMINAL_STATES ITEM_RULES = Inr ITEM_TABLE"
  unfolding ITEM_TABLE_def by (rule accepted_rules) code_simp

interpretation item_machine: transition_machine ITEM_TABLE ITEM_RULES
  by (rule machine_of_table [OF ITEM_accepted])

lemma SUBSCRIPTION_accepted: "TransitionTable ''Subscription'' SUBSCRIPTION_STATES [''CANCELLED'', ''COMPLETED''] SUBSCRIPTION_RULES = Inr SUBSCRIPTION_TABLE"
  unfolding SUBSCRIPTION_TABLE_def by (rule accepted_rules) code_simp

interpretation subscription_machine: transition_machine SUBSCRIPTION_TABLE SUBSCRIPTION_RULES
  by (rule machine_of_table [OF SUBSCRIPTION_accepted])

lemma SUBSCRIPTION_CYCLE_accepted: "TransitionTable ''SubscriptionCycle'' SUBSCRIPTION_CYCLE_STATES [''PAID'', ''FAILED'', ''SKIPPED'', ''CANCELLED''] SUBSCRIPTION_CYCLE_RULES = Inr SUBSCRIPTION_CYCLE_TABLE"
  unfolding SUBSCRIPTION_CYCLE_TABLE_def by (rule accepted_rules) code_simp

interpretation subscription_cycle_machine: transition_machine SUBSCRIPTION_CYCLE_TABLE SUBSCRIPTION_CYCLE_RULES
  by (rule machine_of_table [OF SUBSCRIPTION_CYCLE_accepted])

lemma MANDATE_accepted: "TransitionTable ''Mandate'' MANDATE_STATES [''REVOKED'', ''EXPIRED''] MANDATE_RULES = Inr MANDATE_TABLE"
  unfolding MANDATE_TABLE_def by (rule accepted_rules) code_simp

interpretation mandate_machine: transition_machine MANDATE_TABLE MANDATE_RULES
  by (rule machine_of_table [OF MANDATE_accepted])

subsection \<open>What the histories record\<close>

definition item_money :: "transition_rule \<Rightarrow> bool" where
  "item_money r \<longleftrightarrow> has_effect ''je:disbursement_item_paid'' r \<or> has_effect ''je:disbursement_item_returned'' r \<or>
     has_effect ''je:disbursement_failed_release'' r"

lemma item_money_rules: "never_left ITEM_RULES ITEM_TERMINAL_STATES" "only_entering ITEM_RULES item_money ITEM_TERMINAL_STATES"
  by code_simp+

text \<open>C25. Each item of a disbursement moves money once: of the postings that pay it, return it or
  release its reserve, a history holds at most one in all, and the item then is in a terminal
  state.\<close>

theorem item_settles_once:
  assumes "taken = fire ITEM_TABLE s events"
  shows "length (filter item_money taken) \<le> 1 \<and>
    (filter item_money taken \<noteq> [] \<longrightarrow> end_state s taken \<in> set ITEM_TERMINAL_STATES)"
  unfolding assms by (rule item_machine.taken_once [OF item_money_rules])

definition sample_item_events :: "(string \<times> string option) list" where
  "sample_item_events = [(''dispatched'', None), (''settled'', None), (''returned'', None)]"

theorem item_settles_once_witness:
  "end_state ''QUEUED'' (fire ITEM_TABLE ''QUEUED'' sample_item_events) \<in> set ITEM_TERMINAL_STATES"
proof -
  have "filter item_money (fire ITEM_TABLE ''QUEUED'' sample_item_events) \<noteq> []" unfolding item_machine.fire_eq by code_simp
  then show ?thesis using item_settles_once [OF refl, of "''QUEUED''" sample_item_events] by blast
qed

definition UNAPPROVED :: "string list" where
  "UNAPPROVED = [''DRAFT'', ''VALIDATED'', ''VALIDATION_FAILED'', ''PENDING_APPROVAL'', ''CANCELLED'']"

definition funding :: "transition_rule \<Rightarrow> bool" where
  "funding r \<longleftrightarrow> tr_trigger r = ''approved'' \<and> has_effect ''je:disbursement_funded'' r"

definition FUNDED :: "string list" where
  "FUNDED = [''APPROVED'', ''DISPATCHING'', ''COMPLETED'', ''PARTIALLY_RETURNED'']"

lemma batch_rules:
  "left_only_by BATCH_RULES funding UNAPPROVED" "never_left BATCH_RULES FUNDED" "only_entering BATCH_RULES funding FUNDED"
  by code_simp+

text \<open>C26. No disbursement without approval: a batch that started as a draft is approved, dispatching
  or finished only after the approval transition, which posts the funding, and it is funded at most
  once.\<close>

theorem batch_needs_approval:
  assumes "taken = fire BATCH_TABLE ''DRAFT'' events" and "end_state ''DRAFT'' taken \<in> set FUNDED"
  shows "length (filter funding taken) = 1"
proof -
  have "\<exists>r \<in> set taken. funding r"
    unfolding assms(1) using batch_machine.must_pass [OF batch_rules(1)] assms
    by (auto simp: UNAPPROVED_def FUNDED_def)
  then have "filter funding taken \<noteq> []" by (auto simp: filter_empty_conv)
  moreover have "length (filter funding taken) \<le> 1"
    unfolding assms(1) using batch_machine.taken_once [OF batch_rules(2,3)] by blast
  ultimately show ?thesis by (cases "filter funding taken") auto
qed

definition sample_batch_events :: "(string \<times> string option) list" where
  "sample_batch_events = [(''validated'', None), (''dispatch'', None), (''submit'', None), (''approved'', None),
     (''dispatch'', None)]"

theorem batch_needs_approval_witness:
  "length (filter funding (fire BATCH_TABLE ''DRAFT'' sample_batch_events)) = 1"
proof -
  have "end_state ''DRAFT'' (fire BATCH_TABLE ''DRAFT'' sample_batch_events) \<in> set FUNDED" unfolding batch_machine.fire_eq by code_simp
  then show ?thesis by (rule batch_needs_approval [OF refl])
qed

end
