(* ===== verification/Onboarding_States.thy ===== *)
theory Onboarding_States
  imports Fsm
begin

text \<open>
  The machines that admit merchants, participants and customers: merchant KYB, participant onboarding
  and document review (\<open>bdpay/kernel/onboarding/kyb_states.py\<close>), participant onboarding v2 and
  conformance runs (\<open>bdpay/kernel/participants/states.py\<close>), KYC records and their manual review
  (\<open>bdpay/kernel/kyc/kyc_states.py\<close>).
\<close>

subsection \<open>Documents a merchant must supply\<close>

definition REGISTRATION_TYPES :: "string list" where
  "REGISTRATION_TYPES = [''RJSC_PRIVATE_LIMITED'', ''RJSC_PUBLIC_LIMITED'', ''SOLE_PROPRIETORSHIP'',
     ''PARTNERSHIP'', ''NGO'', ''FOREIGN_COMPANY'']"

definition DOCUMENT_TYPES :: "string list" where
  "DOCUMENT_TYPES = [''RJSC_CERTIFICATE'', ''TRADE_LICENSE'', ''TIN_CERTIFICATE'', ''VAT_BIN_CERTIFICATE'',
     ''MEMORANDUM_ARTICLES'', ''PARTNERSHIP_DEED'', ''BANK_STATEMENT'', ''UBO_NID_FRONT'', ''UBO_NID_BACK'',
     ''UBO_SELFIE'', ''WEBSITE_POLICY_SCREENSHOT'', ''FOREIGN_INCORPORATION'', ''BOARD_RESOLUTION'',
     ''AUTHORIZATION_LETTER'', ''SUPPLEMENT_OTHER'']"

definition RJSC_TYPES :: "string list" where
  "RJSC_TYPES = [''RJSC_PRIVATE_LIMITED'', ''RJSC_PUBLIC_LIMITED'']"

definition required_document_types :: "string \<Rightarrow> string list \<Rightarrow> fsm_error + string set" where
  "required_document_types registration_type requested_services =
     bind_sum (check_sum (registration_type \<in> set REGISTRATION_TYPES)
       (FsmValueError ''unknown registration_type'')) (\<lambda>_.
     let required = {''TRADE_LICENSE'', ''TIN_CERTIFICATE'', ''BANK_STATEMENT''};
         required = (if registration_type \<noteq> ''SOLE_PROPRIETORSHIP'' then insert ''RJSC_CERTIFICATE'' required else required);
         required = (if registration_type \<in> set RJSC_TYPES
           then required \<union> {''MEMORANDUM_ARTICLES'', ''BOARD_RESOLUTION''} else required);
         required = (if registration_type = ''PARTNERSHIP'' then insert ''PARTNERSHIP_DEED'' required else required);
         required = (if registration_type = ''FOREIGN_COMPANY'' then insert ''FOREIGN_INCORPORATION'' required else required);
         required = (if ''CARD_ACQUIRING'' \<in> set requested_services
           then insert ''WEBSITE_POLICY_SCREENSHOT'' required else required)
     in Inr required)"

subsection \<open>Merchants\<close>

definition MERCHANT_KYB_STATES :: "string list" where
  "MERCHANT_KYB_STATES =
     [''APPLICATION_SUBMITTED'', ''DOCUMENTS_PENDING'', ''KYB_IN_PROGRESS'',
      ''ENHANCED_DUE_DILIGENCE'', ''PENDING_HUMAN_REVIEW'', ''SANCTIONS_REVIEW'',
      ''RISK_ASSESSED'', ''AGREEMENT_PENDING'', ''ACTIVE'', ''SUSPENDED'', ''KYB_REFRESH_PENDING'',
      ''REJECTED'', ''TERMINATED'']"

definition MERCHANT_KYB_RULES :: "transition_rule list" where
  "MERCHANT_KYB_RULES =
     [TransitionRule ''APPLICATION_SUBMITTED'' ''mcc_prohibited'' ''REJECTED'' None [''aud:kyb_rejected'', ''event:merchant.kyb_rejected''],
      TransitionRule ''APPLICATION_SUBMITTED'' ''application_accepted'' ''DOCUMENTS_PENDING'' None [''aud'', ''event:merchant.kyb_documents_pending''],
      TransitionRule ''APPLICATION_SUBMITTED'' ''auto_expire'' ''REJECTED'' None [],
      TransitionRule ''DOCUMENTS_PENDING'' ''documents_complete'' ''KYB_IN_PROGRESS'' None [''aud'', ''event:merchant.kyb_in_progress''],
      TransitionRule ''DOCUMENTS_PENDING'' ''documents_incomplete'' ''DOCUMENTS_PENDING'' None [],
      TransitionRule ''DOCUMENTS_PENDING'' ''auto_expire'' ''REJECTED'' None [],
      TransitionRule ''KYB_IN_PROGRESS'' ''ubo_nid_mismatch'' ''DOCUMENTS_PENDING'' None [''aud'', ''event:merchant.ubo_nid_mismatch''],
      TransitionRule ''KYB_IN_PROGRESS'' ''porichoy_unavailable'' ''PENDING_HUMAN_REVIEW'' None [],
      TransitionRule ''KYB_IN_PROGRESS'' ''high_risk_mcc'' ''ENHANCED_DUE_DILIGENCE'' None [''aud'', ''event:merchant.edd_required'', ''approval:CAMLCO''],
      TransitionRule ''KYB_IN_PROGRESS'' ''checks_pass'' ''SANCTIONS_REVIEW'' None [''aud'', ''event:merchant.sanctions_review_started''],
      TransitionRule ''ENHANCED_DUE_DILIGENCE'' ''edd_complete'' ''SANCTIONS_REVIEW'' None [''aud'', ''event:merchant.sanctions_review_started''],
      TransitionRule ''ENHANCED_DUE_DILIGENCE'' ''edd_rejected'' ''REJECTED'' None [''aud'', ''event:merchant.kyb_rejected''],
      TransitionRule ''SANCTIONS_REVIEW'' ''sanctions_hit'' ''REJECTED'' None [''aud'', ''event:merchant.kyb_rejected''],
      TransitionRule ''SANCTIONS_REVIEW'' ''sanctions_clear'' ''RISK_ASSESSED'' None [''aud'', ''event:kyb_record.completed''],
      TransitionRule ''RISK_ASSESSED'' ''two_eyes_approved'' ''AGREEMENT_PENDING'' None [''aud'', ''event:merchant.agreement_pending''],
      TransitionRule ''RISK_ASSESSED'' ''two_eyes_rejected'' ''REJECTED'' None [''aud'', ''event:merchant.kyb_rejected''],
      TransitionRule ''AGREEMENT_PENDING'' ''agreement_signed'' ''ACTIVE'' None [''aud'', ''event:merchant.activated'', ''ledger:create merchant_settlement account''],
      TransitionRule ''AGREEMENT_PENDING'' ''auto_expire'' ''REJECTED'' None [],
      TransitionRule ''PENDING_HUMAN_REVIEW'' ''operator_manual_verify'' ''KYB_IN_PROGRESS'' None [],
      TransitionRule ''PENDING_HUMAN_REVIEW'' ''operator_reject'' ''REJECTED'' None [],
      TransitionRule ''ACTIVE'' ''aml_triggered'' ''SUSPENDED'' None [''aud'', ''event:merchant.suspended'', ''set:payout_blocked''],
      TransitionRule ''ACTIVE'' ''license_revoked'' ''TERMINATED'' None [''aud'', ''event:merchant.terminated'', ''set:payout_blocked''],
      TransitionRule ''ACTIVE'' ''kyb_refresh_due'' ''KYB_REFRESH_PENDING'' None [''aud'', ''event:merchant.kyb_refresh_due''],
      TransitionRule ''KYB_REFRESH_PENDING'' ''refresh_complete'' ''ACTIVE'' None [''aud'', ''event:merchant.kyb_refreshed''],
      TransitionRule ''KYB_REFRESH_PENDING'' ''refresh_failed'' ''SUSPENDED'' None [''aud'', ''event:merchant.suspended''],
      TransitionRule ''SUSPENDED'' ''camlco_cleared'' ''ACTIVE'' None [''aud'', ''event:merchant.unsuspended'', ''clear:payout_blocked''],
      TransitionRule ''SUSPENDED'' ''camlco_terminated'' ''TERMINATED'' None [''aud'', ''event:merchant.terminated'']]"

definition MERCHANT_KYB_TABLE :: transition_table where
  "MERCHANT_KYB_TABLE = projr (TransitionTable ''MerchantKYB'' MERCHANT_KYB_STATES
     [''REJECTED'', ''TERMINATED''] MERCHANT_KYB_RULES)"

subsection \<open>Participants\<close>

definition PARTICIPANT_STATES :: "string list" where
  "PARTICIPANT_STATES =
     [''APPLICATION_SUBMITTED'', ''LICENSE_VERIFICATION_PENDING'',
      ''SETTLEMENT_AGREEMENT_PENDING'', ''NDC_ASSIGNMENT_PENDING'', ''ACTIVE'', ''SUSPENDED'',
      ''REJECTED'', ''TERMINATED'']"

definition PARTICIPANT_RULES :: "transition_rule list" where
  "PARTICIPANT_RULES =
     [TransitionRule ''APPLICATION_SUBMITTED'' ''application_accepted'' ''LICENSE_VERIFICATION_PENDING'' None [''aud'', ''event:participant.application_submitted''],
      TransitionRule ''LICENSE_VERIFICATION_PENDING'' ''license_verified'' ''SETTLEMENT_AGREEMENT_PENDING'' None [''aud'', ''event:participant.license_verified''],
      TransitionRule ''LICENSE_VERIFICATION_PENDING'' ''license_invalid'' ''REJECTED'' None [''aud'', ''event:participant.kyb_rejected''],
      TransitionRule ''SETTLEMENT_AGREEMENT_PENDING'' ''agreement_signed'' ''NDC_ASSIGNMENT_PENDING'' None [''aud''],
      TransitionRule ''NDC_ASSIGNMENT_PENDING'' ''ndc_assigned'' ''ACTIVE'' None [''aud'', ''event:participant.activated'', ''ledger:create position + net_debit_cap accounts''],
      TransitionRule ''NDC_ASSIGNMENT_PENDING'' ''ndc_rejected'' ''REJECTED'' None [''aud''],
      TransitionRule ''ACTIVE'' ''ndc_revised'' ''ACTIVE'' None [''aud'', ''event:participant.net_debit_cap_revised''],
      TransitionRule ''ACTIVE'' ''suspended'' ''SUSPENDED'' None [''aud'', ''event:participant.suspended''],
      TransitionRule ''SUSPENDED'' ''reinstated'' ''ACTIVE'' None [''aud''],
      TransitionRule ''ACTIVE'' ''terminated'' ''TERMINATED'' None [''aud'', ''event:participant.terminated'']]"

definition PARTICIPANT_TABLE :: transition_table where
  "PARTICIPANT_TABLE = projr (TransitionTable ''ParticipantOnboarding'' PARTICIPANT_STATES
     [''REJECTED'', ''TERMINATED''] PARTICIPANT_RULES)"

subsection \<open>Documents\<close>

definition DOCUMENT_REVIEW_STATES :: "string list" where
  "DOCUMENT_REVIEW_STATES =
     [''PENDING'', ''OCR_COMPLETE'', ''ACCEPTED'', ''REJECTED'', ''SUPERSEDED'']"

definition DOCUMENT_REVIEW_RULES :: "transition_rule list" where
  "DOCUMENT_REVIEW_RULES =
     [TransitionRule ''PENDING'' ''ocr_complete'' ''OCR_COMPLETE'' None [],
      TransitionRule ''OCR_COMPLETE'' ''operator_accepted'' ''ACCEPTED'' None [],
      TransitionRule ''OCR_COMPLETE'' ''operator_rejected'' ''REJECTED'' None [],
      TransitionRule ''PENDING'' ''operator_accepted'' ''ACCEPTED'' None [],
      TransitionRule ''ACCEPTED'' ''superseded'' ''SUPERSEDED'' None [],
      TransitionRule ''REJECTED'' ''re_uploaded'' ''PENDING'' None []]"

definition DOCUMENT_REVIEW_TABLE :: transition_table where
  "DOCUMENT_REVIEW_TABLE = projr (TransitionTable ''KybDocumentReview'' DOCUMENT_REVIEW_STATES
     [''SUPERSEDED''] DOCUMENT_REVIEW_RULES)"

subsection \<open>Participants, second version\<close>

definition PARTICIPANT_V2_STATES :: "string list" where
  "PARTICIPANT_V2_STATES =
     [''APPLICATION_SUBMITTED'', ''DOCUMENT_VERIFICATION_PENDING'',
      ''LICENSE_VERIFICATION_PENDING'', ''SETTLEMENT_AGREEMENT_PENDING'', ''MOU_SIGNED'',
      ''CONFORMANCE_TESTING'', ''CONFORMANCE_PASSED'', ''NDC_ASSIGNMENT_PENDING'', ''ACTIVE'',
      ''SUSPENDED'', ''REJECTED'', ''TERMINATED'']"

definition PARTICIPANT_V2_RULES_1 :: "transition_rule list" where
  "PARTICIPANT_V2_RULES_1 =
     [TransitionRule ''APPLICATION_SUBMITTED'' ''application_accepted'' ''DOCUMENT_VERIFICATION_PENDING'' None [''aud:PARTICIPANT_DOCS_REQUESTED'', ''event:participant.application_submitted''],
      TransitionRule ''DOCUMENT_VERIFICATION_PENDING'' ''document_verified'' ''DOCUMENT_VERIFICATION_PENDING'' None [''aud:PARTICIPANT_DOCUMENT_VERIFIED'', ''event:participant.document_verified''],
      TransitionRule ''DOCUMENT_VERIFICATION_PENDING'' ''document_rejected'' ''DOCUMENT_VERIFICATION_PENDING'' None [''aud''],
      TransitionRule ''DOCUMENT_VERIFICATION_PENDING'' ''mou_recorded'' ''MOU_SIGNED'' None [''aud:PARTICIPANT_MOU_SIGNED'', ''event:participant.mou_signed''],
      TransitionRule ''DOCUMENT_VERIFICATION_PENDING'' ''license_invalid'' ''REJECTED'' None [''aud'', ''event:participant.kyb_rejected''],
      TransitionRule ''MOU_SIGNED'' ''conformance_started'' ''CONFORMANCE_TESTING'' None [''aud:PARTICIPANT_CONFORMANCE_STARTED'', ''event:participant.conformance_started''],
      TransitionRule ''CONFORMANCE_TESTING'' ''conformance_passed'' ''CONFORMANCE_PASSED'' None [''aud'', ''event:participant.conformance_passed''],
      TransitionRule ''CONFORMANCE_TESTING'' ''conformance_failed'' ''MOU_SIGNED'' None [''aud'', ''event:participant.conformance_failed''],
      TransitionRule ''CONFORMANCE_TESTING'' ''conformance_exhausted'' ''REJECTED'' None [''aud'', ''event:participant.kyb_rejected''],
      TransitionRule ''CONFORMANCE_PASSED'' ''activation_requested'' ''NDC_ASSIGNMENT_PENDING'' None [''aud'', ''approval_request:participant_activation''],
      TransitionRule ''NDC_ASSIGNMENT_PENDING'' ''ndc_assigned'' ''ACTIVE'' None [''aud'', ''event:participant.activated'', ''ledger:create participant_position + net_debit_cap accounts''],
      TransitionRule ''NDC_ASSIGNMENT_PENDING'' ''ndc_rejected'' ''REJECTED'' None [''aud''],
      TransitionRule ''ACTIVE'' ''ndc_revised'' ''ACTIVE'' None [''aud'', ''event:participant.net_debit_cap_revised''],
      TransitionRule ''ACTIVE'' ''suspended'' ''SUSPENDED'' None [''aud'', ''event:participant.suspended''],
      TransitionRule ''SUSPENDED'' ''reinstated'' ''ACTIVE'' None [''aud''],
      TransitionRule ''ACTIVE'' ''terminated'' ''TERMINATED'' None [''aud'', ''event:participant.terminated''],
      TransitionRule ''LICENSE_VERIFICATION_PENDING'' ''license_verified'' ''SETTLEMENT_AGREEMENT_PENDING'' None [''aud'', ''event:participant.license_verified''],
      TransitionRule ''LICENSE_VERIFICATION_PENDING'' ''license_invalid'' ''REJECTED'' None [''aud'', ''event:participant.kyb_rejected''],
      TransitionRule ''SETTLEMENT_AGREEMENT_PENDING'' ''agreement_signed'' ''NDC_ASSIGNMENT_PENDING'' None [''aud'']]"

definition NON_TERMINAL :: "string list" where
  "NON_TERMINAL = filter (\<lambda>s. s \<notin> set [''REJECTED'', ''TERMINATED'']) PARTICIPANT_V2_STATES"

definition REJECTED_ROWS :: "transition_rule list" where
  "REJECTED_ROWS = map (\<lambda>state. TransitionRule state ''rejected'' ''REJECTED'' None
     [''aud'', ''event:participant.kyb_rejected'']) NON_TERMINAL"

definition PARTICIPANT_V2_RULES :: "transition_rule list" where
  "PARTICIPANT_V2_RULES = PARTICIPANT_V2_RULES_1 @ REJECTED_ROWS"

definition PARTICIPANT_V2_TABLE :: transition_table where
  "PARTICIPANT_V2_TABLE = projr (TransitionTable ''ParticipantOnboardingV2'' PARTICIPANT_V2_STATES
     [''REJECTED'', ''TERMINATED''] PARTICIPANT_V2_RULES)"

subsection \<open>Conformance runs\<close>

definition CONFORMANCE_RUN_STATES :: "string list" where
  "CONFORMANCE_RUN_STATES =
     [''QUEUED'', ''RUNNING'', ''PASSED'', ''FAILED'', ''ERRORED'']"

definition CONFORMANCE_RUN_RULES :: "transition_rule list" where
  "CONFORMANCE_RUN_RULES =
     [TransitionRule ''QUEUED'' ''runner_pickup'' ''RUNNING'' None [''aud:CONFORMANCE_RUN_STARTED''],
      TransitionRule ''QUEUED'' ''evidence_hash_mismatch'' ''ERRORED'' None [''aud'', ''event:conformance_run.completed''],
      TransitionRule ''RUNNING'' ''checks_passed'' ''PASSED'' None [''aud'', ''event:conformance_run.completed''],
      TransitionRule ''RUNNING'' ''check_failed'' ''FAILED'' None [''aud'', ''event:conformance_run.completed''],
      TransitionRule ''RUNNING'' ''errored'' ''ERRORED'' None [''aud'', ''event:conformance_run.completed'']]"

definition CONFORMANCE_RUN_TABLE :: transition_table where
  "CONFORMANCE_RUN_TABLE = projr (TransitionTable ''ConformanceRun'' CONFORMANCE_RUN_STATES
     [''PASSED'', ''FAILED'', ''ERRORED''] CONFORMANCE_RUN_RULES)"

subsection \<open>KYC records\<close>

definition KYC_STATES :: "string list" where
  "KYC_STATES =
     [''REFRESH_PENDING'', ''SUBMITTED'', ''NID_OCR_RECEIVED'', ''BIOMETRIC_PENDING'',
      ''BIOMETRIC_RETRY_PENDING'', ''BIOMETRIC_PASSED'', ''PENDING_HUMAN_REVIEW'', ''ACTIVE'',
      ''REJECTED'', ''REFRESH_OVERDUE'', ''EXPIRED_HARD'', ''ARCHIVED'']"

definition KYC_RULES :: "transition_rule list" where
  "KYC_RULES =
     [TransitionRule ''SUBMITTED'' ''nid_ocr_received'' ''NID_OCR_RECEIVED'' (Some ''adult'') [''aud'', ''event:kyc_record.nid_ocr_received''],
      TransitionRule ''SUBMITTED'' ''nid_ocr_received'' ''PENDING_HUMAN_REVIEW'' (Some ''minor'') [''aud'', ''approval:MINOR_ACCOUNT_POLICY'', ''event:kyc_record.pending_human_review''],
      TransitionRule ''SUBMITTED'' ''ocr_unavailable'' ''PENDING_HUMAN_REVIEW'' None [''approval:OCR_UNAVAILABLE'', ''event:kyc_record.pending_human_review''],
      TransitionRule ''SUBMITTED'' ''session_timeout'' ''REJECTED'' None [''event:kyc_record.rejected''],
      TransitionRule ''NID_OCR_RECEIVED'' ''session_timeout'' ''REJECTED'' None [''event:kyc_record.rejected''],
      TransitionRule ''NID_OCR_RECEIVED'' ''biometric_submitted'' ''BIOMETRIC_PENDING'' None [],
      TransitionRule ''BIOMETRIC_RETRY_PENDING'' ''biometric_submitted'' ''BIOMETRIC_PENDING'' None [],
      TransitionRule ''BIOMETRIC_PENDING'' ''porichoy_matched'' ''BIOMETRIC_PASSED'' None [''aud'', ''event:kyc_record.biometric_passed''],
      TransitionRule ''BIOMETRIC_PENDING'' ''porichoy_not_matched'' ''BIOMETRIC_RETRY_PENDING'' (Some ''retry'') [],
      TransitionRule ''BIOMETRIC_PENDING'' ''porichoy_not_matched'' ''REJECTED'' (Some ''exhausted'') [''event:kyc_record.rejected''],
      TransitionRule ''BIOMETRIC_PENDING'' ''porichoy_unavailable'' ''PENDING_HUMAN_REVIEW'' None [''approval:PORICHOY_UNAVAILABLE'', ''event:kyc_record.pending_human_review''],
      TransitionRule ''BIOMETRIC_RETRY_PENDING'' ''biometric_timeout'' ''REJECTED'' None [''event:kyc_record.rejected''],
      TransitionRule ''BIOMETRIC_PASSED'' ''tier_assigned'' ''ACTIVE'' (Some ''simplified'') [''event:kyc_record.tier_assigned'', ''event:kyc_record.activated''],
      TransitionRule ''BIOMETRIC_PASSED'' ''tier_assigned'' ''ACTIVE'' (Some ''regular'') [''event:kyc_record.tier_assigned'', ''event:kyc_record.activated''],
      TransitionRule ''BIOMETRIC_PASSED'' ''sanctions_hit'' ''PENDING_HUMAN_REVIEW'' None [''approval:SANCTIONS_ADJACENT'', ''event:kyc_record.pending_human_review''],
      TransitionRule ''PENDING_HUMAN_REVIEW'' ''manual_review_approve_simplified'' ''ACTIVE'' None [''event:kyc_record.tier_assigned'', ''event:kyc_record.activated''],
      TransitionRule ''PENDING_HUMAN_REVIEW'' ''manual_review_approve_regular'' ''ACTIVE'' None [''event:kyc_record.tier_assigned'', ''event:kyc_record.activated''],
      TransitionRule ''PENDING_HUMAN_REVIEW'' ''manual_review_reject'' ''REJECTED'' None [''event:kyc_record.rejected''],
      TransitionRule ''ACTIVE'' ''tier_upgrade_requested'' ''ACTIVE'' None [],
      TransitionRule ''ACTIVE'' ''refresh_triggered'' ''ACTIVE'' None [''create:successor REFRESH_PENDING'', ''event:kyc_record.refresh_due''],
      TransitionRule ''ACTIVE'' ''refresh_overdue'' ''REFRESH_OVERDUE'' None [''limits:drop to SIMPLIFIED'', ''event:kyc_record.refresh_overdue''],
      TransitionRule ''REFRESH_OVERDUE'' ''refresh_hard_expired'' ''EXPIRED_HARD'' None [''wallet:suspended'', ''event:kyc_record.expired_hard''],
      TransitionRule ''ACTIVE'' ''new_kyc_cycle_completed'' ''ARCHIVED'' None [''event:kyc_record.archived''],
      TransitionRule ''REFRESH_OVERDUE'' ''new_kyc_cycle_completed'' ''ARCHIVED'' None [''event:kyc_record.archived''],
      TransitionRule ''EXPIRED_HARD'' ''new_kyc_cycle_completed'' ''ARCHIVED'' None [''event:kyc_record.archived''],
      TransitionRule ''ACTIVE'' ''sanctions_retrospective_hit'' ''PENDING_HUMAN_REVIEW'' None [''wallet:suspended'', ''approval:SANCTIONS_ADJACENT'', ''event:kyc_record.pending_human_review''],
      TransitionRule ''REFRESH_PENDING'' ''refresh_session_started'' ''SUBMITTED'' None []]"

definition KYC_TABLE :: transition_table where
  "KYC_TABLE = projr (TransitionTable ''KycRecord'' KYC_STATES
     [''REJECTED'', ''ARCHIVED''] KYC_RULES)"

subsection \<open>Manual review\<close>

definition KYC_MANUAL_REVIEW_STATES :: "string list" where
  "KYC_MANUAL_REVIEW_STATES =
     [''REVIEW_OPEN'', ''REVIEW_IN_PROGRESS'', ''REVIEW_ESCALATED'', ''REVIEW_CLOSED'']"

definition KYC_MANUAL_REVIEW_RULES :: "transition_rule list" where
  "KYC_MANUAL_REVIEW_RULES =
     [TransitionRule ''REVIEW_OPEN'' ''assigned'' ''REVIEW_IN_PROGRESS'' None [],
      TransitionRule ''REVIEW_IN_PROGRESS'' ''escalated'' ''REVIEW_ESCALATED'' None [],
      TransitionRule ''REVIEW_IN_PROGRESS'' ''decision_made'' ''REVIEW_CLOSED'' None [],
      TransitionRule ''REVIEW_ESCALATED'' ''decision_made'' ''REVIEW_CLOSED'' None [],
      TransitionRule ''REVIEW_OPEN'' ''48h_alert'' ''REVIEW_OPEN'' None []]"

definition KYC_MANUAL_REVIEW_TABLE :: transition_table where
  "KYC_MANUAL_REVIEW_TABLE = projr (TransitionTable ''KycManualReview'' KYC_MANUAL_REVIEW_STATES
     [''REVIEW_CLOSED''] KYC_MANUAL_REVIEW_RULES)"

subsection \<open>The constructor accepts the tables\<close>

lemma MERCHANT_KYB_accepted: "TransitionTable ''MerchantKYB'' MERCHANT_KYB_STATES [''REJECTED'', ''TERMINATED''] MERCHANT_KYB_RULES = Inr MERCHANT_KYB_TABLE"
  unfolding MERCHANT_KYB_TABLE_def by (rule accepted_rules) code_simp

interpretation merchant_kyb_machine: transition_machine MERCHANT_KYB_TABLE MERCHANT_KYB_RULES
  by (rule machine_of_table [OF MERCHANT_KYB_accepted])

lemma PARTICIPANT_accepted: "TransitionTable ''ParticipantOnboarding'' PARTICIPANT_STATES [''REJECTED'', ''TERMINATED''] PARTICIPANT_RULES = Inr PARTICIPANT_TABLE"
  unfolding PARTICIPANT_TABLE_def by (rule accepted_rules) code_simp

interpretation participant_machine: transition_machine PARTICIPANT_TABLE PARTICIPANT_RULES
  by (rule machine_of_table [OF PARTICIPANT_accepted])

lemma DOCUMENT_REVIEW_accepted: "TransitionTable ''KybDocumentReview'' DOCUMENT_REVIEW_STATES [''SUPERSEDED''] DOCUMENT_REVIEW_RULES = Inr DOCUMENT_REVIEW_TABLE"
  unfolding DOCUMENT_REVIEW_TABLE_def by (rule accepted_rules) code_simp

interpretation document_review_machine: transition_machine DOCUMENT_REVIEW_TABLE DOCUMENT_REVIEW_RULES
  by (rule machine_of_table [OF DOCUMENT_REVIEW_accepted])

lemma PARTICIPANT_V2_accepted: "TransitionTable ''ParticipantOnboardingV2'' PARTICIPANT_V2_STATES [''REJECTED'', ''TERMINATED''] PARTICIPANT_V2_RULES = Inr PARTICIPANT_V2_TABLE"
  unfolding PARTICIPANT_V2_TABLE_def by (rule accepted_rules) code_simp

interpretation participant_v2_machine: transition_machine PARTICIPANT_V2_TABLE PARTICIPANT_V2_RULES
  by (rule machine_of_table [OF PARTICIPANT_V2_accepted])

lemma CONFORMANCE_RUN_accepted: "TransitionTable ''ConformanceRun'' CONFORMANCE_RUN_STATES [''PASSED'', ''FAILED'', ''ERRORED''] CONFORMANCE_RUN_RULES = Inr CONFORMANCE_RUN_TABLE"
  unfolding CONFORMANCE_RUN_TABLE_def by (rule accepted_rules) code_simp

interpretation conformance_run_machine: transition_machine CONFORMANCE_RUN_TABLE CONFORMANCE_RUN_RULES
  by (rule machine_of_table [OF CONFORMANCE_RUN_accepted])

lemma KYC_accepted: "TransitionTable ''KycRecord'' KYC_STATES [''REJECTED'', ''ARCHIVED''] KYC_RULES = Inr KYC_TABLE"
  unfolding KYC_TABLE_def by (rule accepted_rules) code_simp

interpretation kyc_machine: transition_machine KYC_TABLE KYC_RULES
  by (rule machine_of_table [OF KYC_accepted])

lemma KYC_MANUAL_REVIEW_accepted: "TransitionTable ''KycManualReview'' KYC_MANUAL_REVIEW_STATES [''REVIEW_CLOSED''] KYC_MANUAL_REVIEW_RULES = Inr KYC_MANUAL_REVIEW_TABLE"
  unfolding KYC_MANUAL_REVIEW_TABLE_def by (rule accepted_rules) code_simp

interpretation kyc_manual_review_machine: transition_machine KYC_MANUAL_REVIEW_TABLE KYC_MANUAL_REVIEW_RULES
  by (rule machine_of_table [OF KYC_MANUAL_REVIEW_accepted])

subsection \<open>The document checklist\<close>



subsection \<open>Nobody becomes active unchecked\<close>

definition by_trigger :: "string \<Rightarrow> transition_rule \<Rightarrow> bool" where
  "by_trigger trigger r \<longleftrightarrow> tr_trigger r = trigger"

definition UNSCREENED :: "string list" where
  "UNSCREENED = [''APPLICATION_SUBMITTED'', ''DOCUMENTS_PENDING'', ''KYB_IN_PROGRESS'', ''ENHANCED_DUE_DILIGENCE'',
     ''PENDING_HUMAN_REVIEW'', ''SANCTIONS_REVIEW'', ''REJECTED'']"

lemma merchant_rules:
  "left_only_by MERCHANT_KYB_RULES (by_trigger ''sanctions_clear'') UNSCREENED"
  "left_only_by MERCHANT_KYB_RULES (by_trigger ''two_eyes_approved'') (''RISK_ASSESSED'' # UNSCREENED)"
  "left_only_by MERCHANT_KYB_RULES (by_trigger ''agreement_signed'') (''AGREEMENT_PENDING'' # ''RISK_ASSESSED'' # UNSCREENED)"
  by code_simp+

text \<open>C27. A merchant that applied is active only after its sanctions screening came out clear, two
  people approved it and the agreement was signed.\<close>

theorem active_merchant_was_screened:
  assumes "taken = fire MERCHANT_KYB_TABLE ''APPLICATION_SUBMITTED'' events"
    and "end_state ''APPLICATION_SUBMITTED'' taken = ''ACTIVE''"
  shows "(\<exists>r \<in> set taken. by_trigger ''sanctions_clear'' r) \<and> (\<exists>r \<in> set taken. by_trigger ''two_eyes_approved'' r) \<and>
    (\<exists>r \<in> set taken. by_trigger ''agreement_signed'' r)"
proof (intro conjI)
  show "\<exists>r \<in> set taken. by_trigger ''sanctions_clear'' r"
    unfolding assms(1) using merchant_kyb_machine.must_pass [OF merchant_rules(1)] assms by (simp add: UNSCREENED_def)
  show "\<exists>r \<in> set taken. by_trigger ''two_eyes_approved'' r"
    unfolding assms(1) using merchant_kyb_machine.must_pass [OF merchant_rules(2)] assms by (simp add: UNSCREENED_def)
  show "\<exists>r \<in> set taken. by_trigger ''agreement_signed'' r"
    unfolding assms(1) using merchant_kyb_machine.must_pass [OF merchant_rules(3)] assms by (simp add: UNSCREENED_def)
qed

definition sample_merchant_events :: "(string \<times> string option) list" where
  "sample_merchant_events = map (\<lambda>t. (t, None)) [''application_accepted'', ''documents_complete'', ''checks_pass'',
     ''sanctions_clear'', ''two_eyes_approved'', ''agreement_signed'']"

theorem active_merchant_was_screened_witness:
  "\<exists>r \<in> set (fire MERCHANT_KYB_TABLE ''APPLICATION_SUBMITTED'' sample_merchant_events). by_trigger ''sanctions_clear'' r"
proof -
  have "end_state ''APPLICATION_SUBMITTED''
      (fire MERCHANT_KYB_TABLE ''APPLICATION_SUBMITTED'' sample_merchant_events) = ''ACTIVE''"
    unfolding merchant_kyb_machine.fire_eq by code_simp
  then show ?thesis using active_merchant_was_screened [OF refl] by blast
qed

definition identity_check :: "transition_rule \<Rightarrow> bool" where
  "identity_check r \<longleftrightarrow> tr_trigger r \<in> {''porichoy_matched'', ''manual_review_approve_simplified'',
     ''manual_review_approve_regular''}"

definition UNVERIFIED :: "string list" where
  "UNVERIFIED = [''REFRESH_PENDING'', ''SUBMITTED'', ''NID_OCR_RECEIVED'', ''BIOMETRIC_PENDING'',
     ''BIOMETRIC_RETRY_PENDING'', ''PENDING_HUMAN_REVIEW'', ''REJECTED'']"

lemma kyc_rules: "left_only_by KYC_RULES identity_check UNVERIFIED"
  by code_simp

text \<open>C28. A KYC record is active only after a biometric match or the approval of a human reviewer,
  whether it started as a first submission or as a refresh.\<close>

theorem active_kyc_was_verified:
  assumes "taken = fire KYC_TABLE s events" and "s \<in> {''SUBMITTED'', ''REFRESH_PENDING''}"
    and "end_state s taken = ''ACTIVE''"
  shows "\<exists>r \<in> set taken. identity_check r"
  unfolding assms(1) using kyc_machine.must_pass [OF kyc_rules] assms by (auto simp: UNVERIFIED_def)

definition sample_kyc_events :: "(string \<times> string option) list" where
  "sample_kyc_events = [(''nid_ocr_received'', Some ''minor''), (''manual_review_approve_simplified'', None)]"

theorem active_kyc_was_verified_witness:
  "\<exists>r \<in> set (fire KYC_TABLE ''SUBMITTED'' sample_kyc_events). identity_check r"
proof -
  have "end_state ''SUBMITTED'' (fire KYC_TABLE ''SUBMITTED'' sample_kyc_events) = ''ACTIVE''" unfolding kyc_machine.fire_eq by code_simp
  then show ?thesis using active_kyc_was_verified [OF refl, of "''SUBMITTED''"] by blast
qed

end
