(* ===== verification/Kernel_Machines.thy ===== *)
theory Kernel_Machines
  imports Payment_States Commerce_States Onboarding_States
begin

text \<open>
  All transition tables of the kernel together.
\<close>

lemma INTENT_can_finish: "can_finish INTENT_TABLE INTENT_STATES"
  by (rule table_can_finish [OF INTENT_accepted, where n = 2]) code_simp

lemma ATTEMPT_can_finish: "can_finish ATTEMPT_TABLE ATTEMPT_STATES"
  by (rule table_can_finish [OF ATTEMPT_accepted, where n = 2]) code_simp

lemma REFUND_can_finish: "can_finish REFUND_TABLE REFUND_STATES"
  by (rule table_can_finish [OF REFUND_accepted, where n = 1]) code_simp

lemma OFFER_can_finish: "can_finish OFFER_TABLE OFFER_STATES"
  by (rule table_can_finish [OF OFFER_accepted, where n = 1]) code_simp

lemma REDEMPTION_can_finish: "can_finish REDEMPTION_TABLE REDEMPTION_STATES"
  by (rule table_can_finish [OF REDEMPTION_accepted, where n = 1]) code_simp

lemma BATCH_can_finish: "can_finish BATCH_TABLE BATCH_STATES"
  by (rule table_can_finish [OF BATCH_accepted, where n = 2]) code_simp

lemma ITEM_can_finish: "can_finish ITEM_TABLE ITEM_STATES"
  by (rule table_can_finish [OF ITEM_accepted, where n = 1]) code_simp

lemma SUBSCRIPTION_can_finish: "can_finish SUBSCRIPTION_TABLE SUBSCRIPTION_STATES"
  by (rule table_can_finish [OF SUBSCRIPTION_accepted, where n = 1]) code_simp

lemma SUBSCRIPTION_CYCLE_can_finish: "can_finish SUBSCRIPTION_CYCLE_TABLE SUBSCRIPTION_CYCLE_STATES"
  by (rule table_can_finish [OF SUBSCRIPTION_CYCLE_accepted, where n = 1]) code_simp

lemma MANDATE_can_finish: "can_finish MANDATE_TABLE MANDATE_STATES"
  by (rule table_can_finish [OF MANDATE_accepted, where n = 1]) code_simp

lemma MERCHANT_KYB_can_finish: "can_finish MERCHANT_KYB_TABLE MERCHANT_KYB_STATES"
  by (rule table_can_finish [OF MERCHANT_KYB_accepted, where n = 2]) code_simp

lemma PARTICIPANT_can_finish: "can_finish PARTICIPANT_TABLE PARTICIPANT_STATES"
  by (rule table_can_finish [OF PARTICIPANT_accepted, where n = 2]) code_simp

lemma DOCUMENT_REVIEW_can_finish: "can_finish DOCUMENT_REVIEW_TABLE DOCUMENT_REVIEW_STATES"
  by (rule table_can_finish [OF DOCUMENT_REVIEW_accepted, where n = 3]) code_simp

lemma PARTICIPANT_V2_can_finish: "can_finish PARTICIPANT_V2_TABLE PARTICIPANT_V2_STATES"
  by (rule table_can_finish [OF PARTICIPANT_V2_accepted, where n = 2]) code_simp

lemma CONFORMANCE_RUN_can_finish: "can_finish CONFORMANCE_RUN_TABLE CONFORMANCE_RUN_STATES"
  by (rule table_can_finish [OF CONFORMANCE_RUN_accepted, where n = 1]) code_simp

lemma KYC_can_finish: "can_finish KYC_TABLE KYC_STATES"
  by (rule table_can_finish [OF KYC_accepted, where n = 2]) code_simp

lemma KYC_MANUAL_REVIEW_can_finish: "can_finish KYC_MANUAL_REVIEW_TABLE KYC_MANUAL_REVIEW_STATES"
  by (rule table_can_finish [OF KYC_MANUAL_REVIEW_accepted, where n = 2]) code_simp

definition kernel_tables :: "(transition_table \<times> string list) list" where
  "kernel_tables =
     [(INTENT_TABLE, INTENT_STATES),
      (ATTEMPT_TABLE, ATTEMPT_STATES),
      (REFUND_TABLE, REFUND_STATES),
      (OFFER_TABLE, OFFER_STATES),
      (REDEMPTION_TABLE, REDEMPTION_STATES),
      (BATCH_TABLE, BATCH_STATES),
      (ITEM_TABLE, ITEM_STATES),
      (SUBSCRIPTION_TABLE, SUBSCRIPTION_STATES),
      (SUBSCRIPTION_CYCLE_TABLE, SUBSCRIPTION_CYCLE_STATES),
      (MANDATE_TABLE, MANDATE_STATES),
      (MERCHANT_KYB_TABLE, MERCHANT_KYB_STATES),
      (PARTICIPANT_TABLE, PARTICIPANT_STATES),
      (DOCUMENT_REVIEW_TABLE, DOCUMENT_REVIEW_STATES),
      (PARTICIPANT_V2_TABLE, PARTICIPANT_V2_STATES),
      (CONFORMANCE_RUN_TABLE, CONFORMANCE_RUN_STATES),
      (KYC_TABLE, KYC_STATES),
      (KYC_MANUAL_REVIEW_TABLE, KYC_MANUAL_REVIEW_STATES)]"

text \<open>C30. No object of the kernel can get stuck: in each of the seventeen transition tables, from
  every state, reachable or not, some sequence of events leads to a terminal state.\<close>

theorem every_machine_can_finish: "list_all (\<lambda>(t, states). can_finish t states) kernel_tables"
  by (simp add: kernel_tables_def INTENT_can_finish ATTEMPT_can_finish REFUND_can_finish OFFER_can_finish REDEMPTION_can_finish BATCH_can_finish ITEM_can_finish SUBSCRIPTION_can_finish SUBSCRIPTION_CYCLE_can_finish MANDATE_can_finish MERCHANT_KYB_can_finish PARTICIPANT_can_finish DOCUMENT_REVIEW_can_finish PARTICIPANT_V2_can_finish CONFORMANCE_RUN_can_finish KYC_can_finish KYC_MANUAL_REVIEW_can_finish)

end
