(* ===== verification/Money.thy ===== *)
theory Money
  imports Canonical
begin

text \<open>
  Amounts of money, \<open>bdpay/platform/money.py\<close>: integer paisa, and the decimal arithmetic by which a
  ratio is applied to them. Of Python's \<open>decimal\<close> module the operations the file uses are modelled on
  finite values, a coefficient and an exponent of ten: multiplication and division by a power of ten at
  a precision, \<open>quantize\<close>, \<open>to_integral_value\<close> and \<open>int\<close>, with rounding half to even. A result that
  leaves the exponent range is an arithmetic signal, as is a \<open>quantize\<close> with too many digits.
\<close>

subsection \<open>Decimal arithmetic\<close>

record decimal =
  dc_coeff :: int
  dc_exp :: int

definition num_digits :: "nat \<Rightarrow> nat" where
  "num_digits n = length (dec_nat n)"

text \<open>Division by \<open>10 ^ k\<close>, rounded half to even.\<close>

definition half_even :: "nat \<Rightarrow> nat \<Rightarrow> nat" where
  "half_even n k =
     (let q = n div 10 ^ k; r = n mod 10 ^ k in
      if 2 * r < 10 ^ k then q else if 10 ^ k < 2 * r then q + 1 else if even q then q else q + 1)"

definition dec_fix :: "nat \<Rightarrow> decimal \<Rightarrow> decimal" where
  "dec_fix prec d =
     (let n = nat \<bar>dc_coeff d\<bar>; w = num_digits n in
      if w \<le> prec then d
      else let k = w - prec; q = half_even n k in
        if prec < num_digits q
        then \<lparr>dc_coeff = sgn (dc_coeff d) * int (q div 10), dc_exp = dc_exp d + int k + 1\<rparr>
        else \<lparr>dc_coeff = sgn (dc_coeff d) * int q, dc_exp = dc_exp d + int k\<rparr>)"

definition dec_of_int :: "int \<Rightarrow> decimal" where
  "dec_of_int n = \<lparr>dc_coeff = n, dc_exp = 0\<rparr>"

definition dec_mul :: "nat \<Rightarrow> decimal \<Rightarrow> decimal \<Rightarrow> decimal" where
  "dec_mul prec a b =
     dec_fix prec \<lparr>dc_coeff = dc_coeff a * dc_coeff b, dc_exp = dc_exp a + dc_exp b\<rparr>"

text \<open>An integer divided by \<open>10 ^ k\<close>: an exact quotient drops trailing zeros down to exponent 0.\<close>

fun dec_strip :: "int \<Rightarrow> nat \<Rightarrow> decimal" where
  "dec_strip c 0 = \<lparr>dc_coeff = c, dc_exp = 0\<rparr>"
| "dec_strip c (Suc k) =
     (if c mod 10 = 0 then dec_strip (c div 10) k else \<lparr>dc_coeff = c, dc_exp = - int (Suc k)\<rparr>)"

definition dec_div_pow10 :: "nat \<Rightarrow> int \<Rightarrow> nat \<Rightarrow> decimal" where
  "dec_div_pow10 prec n k = dec_fix prec (dec_strip n k)"

datatype money_error = MoneyError string | DecimalSignal

definition rescale :: "decimal \<Rightarrow> int \<Rightarrow> int" where
  "rescale d e =
     (if e \<le> dc_exp d then dc_coeff d * 10 ^ nat (dc_exp d - e)
      else sgn (dc_coeff d) * int (half_even (nat \<bar>dc_coeff d\<bar>) (nat (e - dc_exp d))))"

definition dec_quantize :: "nat \<Rightarrow> decimal \<Rightarrow> int \<Rightarrow> money_error + decimal" where
  "dec_quantize prec d e =
     bind_sum (check_sum (num_digits (nat \<bar>rescale d e\<bar>) \<le> prec) DecimalSignal) (\<lambda>_.
     Inr \<lparr>dc_coeff = rescale d e, dc_exp = e\<rparr>)"

definition dec_to_integral_value :: "decimal \<Rightarrow> decimal" where
  "dec_to_integral_value d = (if 0 \<le> dc_exp d then d else \<lparr>dc_coeff = rescale d 0, dc_exp = 0\<rparr>)"

definition dec_eq :: "decimal \<Rightarrow> decimal \<Rightarrow> bool" where
  "dec_eq a b \<longleftrightarrow> (let e = min (dc_exp a) (dc_exp b) in
     dc_coeff a * 10 ^ nat (dc_exp a - e) = dc_coeff b * 10 ^ nat (dc_exp b - e))"

definition dec_int :: "decimal \<Rightarrow> int" where
  "dec_int d =
     (if 0 \<le> dc_exp d then dc_coeff d * 10 ^ nat (dc_exp d)
      else sgn (dc_coeff d) * (\<bar>dc_coeff d\<bar> div 10 ^ nat (- dc_exp d)))"

subsection \<open>Money\<close>

definition BDT :: string where
  "BDT = ''BDT''"

definition ARITHMETIC_PRECISION :: nat where
  "ARITHMETIC_PRECISION = 50"

record money =
  mo_amount_minor :: int
  mo_currency :: string

definition require_int_minor :: "pyobj \<Rightarrow> money_error + int" where
  "require_int_minor v = (case v of PInt n \<Rightarrow> Inr n | _ \<Rightarrow> Inl (MoneyError ''amount_minor must be int paisa''))"

text \<open>What may arrive where a decimal is expected.\<close>

datatype dec_arg = DecFinite decimal | DecNonFinite | DecFloat | DecOtherType

definition require_decimal :: "dec_arg \<Rightarrow> money_error + decimal" where
  "require_decimal v = (case v of
     DecFloat \<Rightarrow> Inl (MoneyError ''must be decimal.Decimal, got float'')
   | DecOtherType \<Rightarrow> Inl (MoneyError ''must be decimal.Decimal'')
   | DecNonFinite \<Rightarrow> Inl (MoneyError ''must be a finite Decimal'')
   | DecFinite d \<Rightarrow> Inr d)"

definition mk_money :: "pyobj \<Rightarrow> string \<Rightarrow> bool \<Rightarrow> money_error + money" where
  "mk_money amount_minor currency allow_negative =
     bind_sum (require_int_minor amount_minor) (\<lambda>amount.
     bind_sum (check_sum (currency = BDT) (MoneyError ''unsupported currency'')) (\<lambda>_.
     bind_sum (check_sum (\<not> (amount < 0 \<and> \<not> allow_negative))
       (MoneyError ''negative amount requires explicit allow_negative=True'')) (\<lambda>_.
     Inr \<lparr>mo_amount_minor = amount, mo_currency = currency\<rparr>)))"

definition as_decimal_bdt :: "money \<Rightarrow> money_error + decimal" where
  "as_decimal_bdt m =
     dec_quantize ARITHMETIC_PRECISION (dec_div_pow10 ARITHMETIC_PRECISION (mo_amount_minor m) 2) (- 2)"

definition from_minor :: "pyobj \<Rightarrow> bool \<Rightarrow> money_error + money" where
  "from_minor amount_minor allow_negative = mk_money amount_minor BDT allow_negative"

definition from_decimal_bdt :: "dec_arg \<Rightarrow> bool \<Rightarrow> money_error + money" where
  "from_decimal_bdt amount_bdt allow_negative =
     bind_sum (require_decimal amount_bdt) (\<lambda>amount.
     let minor = dec_mul ARITHMETIC_PRECISION amount (dec_of_int 100) in
     bind_sum (check_sum (dec_eq minor (dec_to_integral_value minor))
       (MoneyError ''amount has sub-paisa precision'')) (\<lambda>_.
     mk_money (PInt (dec_int minor)) BDT allow_negative))"

definition require_same_currency :: "money \<Rightarrow> money \<Rightarrow> money_error + unit" where
  "require_same_currency m n = check_sum (mo_currency m = mo_currency n) (MoneyError ''currency mismatch'')"

definition money_add :: "money \<Rightarrow> money \<Rightarrow> bool \<Rightarrow> money_error + money" where
  "money_add m other allow_negative =
     bind_sum (require_same_currency m other) (\<lambda>_.
     mk_money (PInt (mo_amount_minor m + mo_amount_minor other)) (mo_currency m) allow_negative)"

definition money_subtract :: "money \<Rightarrow> money \<Rightarrow> bool \<Rightarrow> money_error + money" where
  "money_subtract m other allow_negative =
     bind_sum (require_same_currency m other) (\<lambda>_.
     mk_money (PInt (mo_amount_minor m - mo_amount_minor other)) (mo_currency m) allow_negative)"

definition money_multiply :: "money \<Rightarrow> dec_arg \<Rightarrow> bool \<Rightarrow> money_error + money" where
  "money_multiply m ratio allow_negative =
     bind_sum (require_decimal ratio) (\<lambda>factor.
     let product = dec_mul ARITHMETIC_PRECISION (dec_of_int (mo_amount_minor m)) factor in
     bind_sum (dec_quantize ARITHMETIC_PRECISION product 0) (\<lambda>rounded.
     mk_money (PInt (dec_int rounded)) (mo_currency m) allow_negative))"

definition money_lt :: "money \<Rightarrow> money \<Rightarrow> money_error + bool" where
  "money_lt m other = bind_sum (require_same_currency m other) (\<lambda>_. Inr (mo_amount_minor m < mo_amount_minor other))"

definition money_le :: "money \<Rightarrow> money \<Rightarrow> money_error + bool" where
  "money_le m other = bind_sum (require_same_currency m other) (\<lambda>_. Inr (mo_amount_minor m \<le> mo_amount_minor other))"

definition money_gt :: "money \<Rightarrow> money \<Rightarrow> money_error + bool" where
  "money_gt m other = bind_sum (require_same_currency m other) (\<lambda>_. Inr (mo_amount_minor other < mo_amount_minor m))"

definition money_ge :: "money \<Rightarrow> money \<Rightarrow> money_error + bool" where
  "money_ge m other = bind_sum (require_same_currency m other) (\<lambda>_. Inr (mo_amount_minor other \<le> mo_amount_minor m))"

definition money_bool :: "money \<Rightarrow> bool" where
  "money_bool m \<longleftrightarrow> mo_amount_minor m \<noteq> 0"

subsection \<open>Rounding\<close>

text \<open>\<open>rounds x k r\<close>: \<open>r\<close> is \<open>x / 10 ^ k\<close> rounded to the nearest integer, a tie to the even one.\<close>

definition rounds :: "int \<Rightarrow> nat \<Rightarrow> int \<Rightarrow> bool" where
  "rounds x k r \<longleftrightarrow> 2 * \<bar>r * 10 ^ k - x\<bar> \<le> 10 ^ k \<and> (2 * \<bar>r * 10 ^ k - x\<bar> = 10 ^ k \<longrightarrow> even r)"

lemma half_even_rounds: "rounds (int n) k (int (half_even n k))"
proof -
  let ?b = "10 ^ k :: int"
  define q r where "q = int n div ?b" and "r = int n mod ?b"
  have n: "int n = q * ?b + r" using div_mult_mod_eq [of "int n" ?b] by (simp add: q_def r_def)
  have b: "0 < ?b" by simp
  have r: "0 \<le> r" "r < ?b" by (simp_all add: r_def)
  have he: "int (half_even n k) = (if 2 * r < ?b then q else if ?b < 2 * r then q + 1 else if even q then q else q + 1)"
  proof -
    have "int (n div 10 ^ k) = q" "int (n mod 10 ^ k) = r" by (simp_all add: q_def r_def zdiv_int zmod_int)
    moreover have "2 * (n mod 10 ^ k) < 10 ^ k \<longleftrightarrow> 2 * int (n mod 10 ^ k) < ?b"
      by (metis of_nat_less_iff of_nat_mult of_nat_numeral of_nat_power)
    moreover have "10 ^ k < 2 * (n mod 10 ^ k) \<longleftrightarrow> ?b < 2 * int (n mod 10 ^ k)"
      by (metis of_nat_less_iff of_nat_mult of_nat_numeral of_nat_power)
    ultimately show ?thesis by (auto simp: half_even_def Let_def)
  qed
  show ?thesis
  proof (cases "2 * r < ?b")
    case True
    then show ?thesis using he r n by (simp add: rounds_def abs_if)
  next
    case False
    then have "\<bar>(q + 1) * ?b - int n\<bar> = ?b - r" using n r by (simp add: algebra_simps)
    moreover have "\<bar>q * ?b - int n\<bar> = r" using n r by simp
    ultimately show ?thesis using he False r by (auto simp: rounds_def)
  qed
qed

lemma rounds_unique:
  assumes "rounds x k r" and "rounds x k s"
  shows "r = s"
proof (rule ccontr)
  assume "r \<noteq> s"
  let ?b = "10 ^ k :: int"
  define A B where "A = \<bar>r * ?b - x\<bar>" and "B = \<bar>s * ?b - x\<bar>"
  have le: "2 * A \<le> ?b" "2 * B \<le> ?b" and tie: "2 * A = ?b \<Longrightarrow> even r" "2 * B = ?b \<Longrightarrow> even s"
    using assms by (auto simp: rounds_def A_def B_def)
  have "(r - s) * ?b = (r * ?b - x) - (s * ?b - x)" by (simp add: algebra_simps)
  then have "\<bar>(r - s) * ?b\<bar> \<le> A + B" unfolding A_def B_def by (simp only: abs_triangle_ineq4)
  then have sum: "\<bar>r - s\<bar> * ?b \<le> A + B" by (simp add: abs_mult)
  have one: "\<bar>r - s\<bar> = 1"
  proof (rule ccontr)
    assume "\<bar>r - s\<bar> \<noteq> 1"
    then have "2 \<le> \<bar>r - s\<bar>" using \<open>r \<noteq> s\<close> by linarith
    then have "2 * ?b \<le> \<bar>r - s\<bar> * ?b" by (intro mult_right_mono) simp_all
    moreover have "0 < ?b" by simp
    ultimately show False using sum le by linarith
  qed
  then have "?b \<le> A + B" using sum by simp
  then have "even r" "even s" using le tie by linarith+
  then show False using one by presburger
qed

lemma half_even_le: "half_even n k \<le> n"
proof (cases k)
  case 0
  then show ?thesis by (simp add: half_even_def)
next
  case (Suc j)
  have "(10::nat) \<le> 10 ^ k" using Suc by simp
  then have q: "10 * (n div 10 ^ k) \<le> n" by (metis div_times_less_eq_dividend le_trans mult.commute mult_le_mono2)
  show ?thesis
  proof (cases "n = 0")
    case False
    show ?thesis
    proof (cases "n div 10 ^ k = 0")
      case True
      then show ?thesis using False by (simp add: half_even_def Let_def)
    next
      case False
      then show ?thesis using q by (simp add: half_even_def Let_def)
    qed
  qed (simp add: half_even_def)
qed

lemma num_digits_le: "n < 10 ^ w \<Longrightarrow> 0 < w \<Longrightarrow> num_digits n \<le> w"
  by (simp add: num_digits_def dec_nat_length_le)

lemma dec_fix_id: "nat \<bar>dc_coeff d\<bar> < 10 ^ prec \<Longrightarrow> 0 < prec \<Longrightarrow> dec_fix prec d = d"
  by (simp add: dec_fix_def Let_def num_digits_le)


lemma rescale_zero:
  assumes "dc_coeff d = c" and "dc_exp d = - int k" and "0 \<le> c"
  shows "rounds c k (rescale d 0) \<and> 0 \<le> rescale d 0 \<and> rescale d 0 \<le> c"
proof (cases "k = 0")
  case True
  then show ?thesis using assms by (simp add: rescale_def rounds_def)
next
  case False
  have "rescale d 0 = sgn c * int (half_even (nat \<bar>c\<bar>) k)" using assms False by (simp add: rescale_def)
  also have "\<dots> = int (half_even (nat c) k)"
    using assms(3) by (cases "c = 0") (simp_all add: half_even_def)
  finally show ?thesis using half_even_rounds [of "nat c" k] half_even_le [of "nat c" k] assms(3) by simp
qed

lemma dec_int_exp0: "dec_int \<lparr>dc_coeff = c, dc_exp = 0\<rparr> = c"
  by (simp add: dec_int_def)

text \<open>While the product fits the precision, \<open>multiply\<close> rounds once.\<close>

lemma multiply_rounds:
  assumes m: "mo_currency m = BDT" "0 \<le> mo_amount_minor m" and c: "0 \<le> c" "mo_amount_minor m * c < 10 ^ 50"
  shows "\<exists>r. money_multiply m (DecFinite \<lparr>dc_coeff = c, dc_exp = - int k\<rparr>) neg = Inr \<lparr>mo_amount_minor = r, mo_currency = BDT\<rparr> \<and>
    rounds (mo_amount_minor m * c) k r \<and> 0 \<le> r \<and> r \<le> mo_amount_minor m * c"
proof -
  let ?d = "\<lparr>dc_coeff = mo_amount_minor m * c, dc_exp = - int k\<rparr>"
  let ?r = "rescale ?d 0"
  have nonneg: "0 \<le> mo_amount_minor m * c" using m c by simp
  have small: "nat \<bar>mo_amount_minor m * c\<bar> < 10 ^ 50" using c(2) nonneg by (simp add: nat_less_iff)
  then have mul: "dec_mul ARITHMETIC_PRECISION (dec_of_int (mo_amount_minor m)) \<lparr>dc_coeff = c, dc_exp = - int k\<rparr> = ?d"
    using dec_fix_id [of ?d 50] by (simp add: dec_mul_def dec_of_int_def ARITHMETIC_PRECISION_def)
  have r: "rounds (mo_amount_minor m * c) k ?r" "0 \<le> ?r" "?r \<le> mo_amount_minor m * c"
    using rescale_zero [of ?d "mo_amount_minor m * c" k] nonneg by simp_all
  then have "nat \<bar>?r\<bar> < 10 ^ 50" using c(2) by (simp add: nat_less_iff)
  then have "dec_quantize ARITHMETIC_PRECISION ?d 0 = Inr \<lparr>dc_coeff = ?r, dc_exp = 0\<rparr>"
    using num_digits_le [of "nat \<bar>?r\<bar>" 50] by (simp add: dec_quantize_def ARITHMETIC_PRECISION_def)
  then show ?thesis
    using mul r m by (simp add: money_multiply_def require_decimal_def mk_money_def require_int_minor_def dec_int_exp0)
qed

lemma dec_strip_value:
  "\<exists>c j. dec_strip n k = \<lparr>dc_coeff = c, dc_exp = - int j\<rparr> \<and> j \<le> k \<and> c * 10 ^ (k - j) = n"
proof (induction k arbitrary: n)
  case 0
  then show ?case by simp
next
  case (Suc k)
  show ?case
  proof (cases "n mod 10 = 0")
    case True
    obtain c j where c: "dec_strip (n div 10) k = \<lparr>dc_coeff = c, dc_exp = - int j\<rparr>" "j \<le> k" "c * 10 ^ (k - j) = n div 10"
      using Suc [of "n div 10"] by blast
    then have "c * 10 ^ (Suc k - j) = 10 * (n div 10)" by (simp add: Suc_diff_le)
    then have "c * 10 ^ (Suc k - j) = n" using True by presburger
    then show ?thesis using True c by auto
  next
    case False
    then have "dec_strip n (Suc k) = \<lparr>dc_coeff = n, dc_exp = - int (Suc k)\<rparr>" by simp
    then show ?thesis by (metis diff_self_eq_0 le_refl mult.right_neutral power_0)
  qed
qed

subsection \<open>Properties\<close>

text \<open>C31. Banker's rounding, once: a non-negative amount times a non-negative decimal ratio
  \<open>c / 10 ^ k\<close> is the exact product rounded to the nearest paisa, a tie to the even one, and never an
  error, as long as the exact product has at most fifty digits.\<close>

theorem multiply_is_bankers_rounding:
  assumes "mo_currency m = BDT" and "0 \<le> mo_amount_minor m" and "0 \<le> c" and "mo_amount_minor m * c < 10 ^ 50"
  shows "money_multiply m (DecFinite \<lparr>dc_coeff = c, dc_exp = - int k\<rparr>) neg =
      Inr \<lparr>mo_amount_minor = r, mo_currency = BDT\<rparr> \<longleftrightarrow> rounds (mo_amount_minor m * c) k r"
  using multiply_rounds [OF assms, of k neg] rounds_unique by auto

theorem multiply_is_bankers_rounding_witness:
  "money_multiply \<lparr>mo_amount_minor = 250, mo_currency = BDT\<rparr> (DecFinite \<lparr>dc_coeff = 115, dc_exp = - int 2\<rparr>) False =
    Inr \<lparr>mo_amount_minor = 288, mo_currency = BDT\<rparr>"
  using multiply_is_bankers_rounding [of "\<lparr>mo_amount_minor = 250, mo_currency = BDT\<rparr>" 115 2 False 288]
  by (simp add: rounds_def)

text \<open>C32. Amounts survive the decimal form: parsing what \<open>as_decimal_bdt\<close> shows gives the amount back,
  for every amount of at most forty-eight digits, negative ones where they are allowed.\<close>

theorem decimal_bdt_roundtrip:
  assumes "\<bar>mo_amount_minor m\<bar> < 10 ^ 48" and "mo_currency m = BDT" and "neg \<or> 0 \<le> mo_amount_minor m"
  shows "\<exists>d. as_decimal_bdt m = Inr d \<and> from_decimal_bdt (DecFinite d) neg = Inr m"
proof -
  let ?a = "mo_amount_minor m"
  let ?d = "\<lparr>dc_coeff = ?a, dc_exp = - 2\<rparr>"
  have strip: "\<exists>c j. dec_strip ?a 2 = \<lparr>dc_coeff = c, dc_exp = - int j\<rparr> \<and> j \<le> 2 \<and> c * 10 ^ (2 - j) = ?a"
    by (rule dec_strip_value)
  then obtain c j where c: "dec_strip ?a 2 = \<lparr>dc_coeff = c, dc_exp = - int j\<rparr>" "j \<le> 2" "c * 10 ^ (2 - j) = ?a"
    by blast
  have "\<bar>c\<bar> * 1 \<le> \<bar>c\<bar> * 10 ^ (2 - j)" by (intro mult_left_mono) simp_all
  then have "\<bar>c\<bar> \<le> \<bar>?a\<bar>" using c(3) by (metis abs_mult abs_of_nonneg mult.right_neutral zero_le_numeral zero_le_power)
  then have "nat \<bar>c\<bar> < 10 ^ 50" using assms(1) by (simp add: nat_less_iff)
  then have fix1: "dec_div_pow10 ARITHMETIC_PRECISION ?a 2 = \<lparr>dc_coeff = c, dc_exp = - int j\<rparr>"
    using dec_fix_id [of "\<lparr>dc_coeff = c, dc_exp = - int j\<rparr>" 50]
    by (simp add: dec_div_pow10_def c(1) ARITHMETIC_PRECISION_def)
  have "nat (2 - int j) = 2 - j" by linarith
  then have "rescale \<lparr>dc_coeff = c, dc_exp = - int j\<rparr> (- 2) = ?a" using c by (simp add: rescale_def)
  moreover have "num_digits (nat \<bar>?a\<bar>) \<le> 50" using assms(1) by (intro num_digits_le) (simp_all add: nat_less_iff)
  ultimately have shown: "as_decimal_bdt m = Inr ?d"
    unfolding as_decimal_bdt_def fix1 by (simp add: dec_quantize_def ARITHMETIC_PRECISION_def)
  have "nat \<bar>?a * 100\<bar> < 10 ^ 50" using assms(1) by (simp add: nat_less_iff abs_mult)
  then have mul: "dec_mul ARITHMETIC_PRECISION ?d (dec_of_int 100) = \<lparr>dc_coeff = ?a * 100, dc_exp = - 2\<rparr>"
    using dec_fix_id [of "\<lparr>dc_coeff = ?a * 100, dc_exp = - 2\<rparr>" 50]
    by (simp add: dec_mul_def dec_of_int_def ARITHMETIC_PRECISION_def)
  have "half_even (nat \<bar>?a * 100\<bar>) 2 = nat \<bar>?a\<bar>"
    by (simp add: half_even_def Let_def abs_mult nat_mult_distrib)
  then have whole: "rescale \<lparr>dc_coeff = ?a * 100, dc_exp = - 2\<rparr> 0 = ?a"
    by (simp add: rescale_def sgn_mult mult_sgn_abs)
  have "dec_int \<lparr>dc_coeff = ?a * 100, dc_exp = - 2\<rparr> = ?a"
    by (simp add: dec_int_def abs_mult sgn_mult mult_sgn_abs)
  then have "from_decimal_bdt (DecFinite ?d) neg = Inr m"
    using assms(2,3) by (auto simp: from_decimal_bdt_def require_decimal_def mul dec_to_integral_value_def whole dec_eq_def
      mk_money_def require_int_minor_def BDT_def)
  then show ?thesis using shown by blast
qed

theorem decimal_bdt_roundtrip_witness:
  "\<exists>d. as_decimal_bdt \<lparr>mo_amount_minor = - 1250, mo_currency = BDT\<rparr> = Inr d \<and>
     from_decimal_bdt (DecFinite d) True = Inr \<lparr>mo_amount_minor = - 1250, mo_currency = BDT\<rparr>"
  by (rule decimal_bdt_roundtrip) simp_all

end
