(* ===== verification/Fees.thy ===== *)
theory Fees
  imports Money
begin

text \<open>
  Fees, \<open>bdpay/ledger/settlement/fees.py\<close>: fee rules and their validation, the choice of the rule that
  applies to a payment, the fee it gives, and the two tables of default rules. Dates are instants;
  the ids of the default rules come from the content-addressed id function.
\<close>

subsection \<open>Rules\<close>

datatype fee_error =
    FeeRuleError string
  | FeeAssertionError
  | FeeMoneyError money_error
  | FeeIdError id_error

definition FEE_TYPES :: "string list" where
  "FEE_TYPES = [''PERCENTAGE'', ''FLAT_PAISA'', ''FLAT_PLUS_PERCENTAGE'']"

definition MERCHANT_CLASSES :: "string list" where
  "MERCHANT_CLASSES = [''MICRO'', ''PERSONAL_RETAIL'', ''STANDARD'']"

definition INSTRUMENT_CLASSES :: "string list" where
  "INSTRUMENT_CLASSES = [''DEBIT_PREPAID'', ''CREDIT'', ''MFS_PSP_WALLET'']"

definition FEE_METHODS :: "string list" where
  "FEE_METHODS = [''BANGLA_QR'', ''NPSB_IBFT'', ''BEFTN_CREDIT'', ''RTGS_GROSS'', ''BKASH'', ''NAGAD'',
     ''ROCKET'', ''CARD_DOMESTIC'', ''CARD_INTERNATIONAL'', ''CARD_AMEX'']"

record fee_rule =
  fr_rule_id :: string
  fr_rule_name :: string
  fr_merchant_id :: "string option"
  fr_method :: string
  fr_mcc :: "string option"
  fr_fee_type :: string
  fr_rate_bps :: "int option"
  fr_flat_amount_minor :: "int option"
  fr_regulated :: bool
  fr_valid_from :: instant
  fr_valid_to :: "instant option"
  fr_created_by :: string
  fr_approved_by :: "string option"
  fr_created_at :: instant
  fr_schema_version :: int
  fr_merchant_class :: "string option"
  fr_instrument_class :: "string option"

definition opt_within :: "string option \<Rightarrow> string list \<Rightarrow> bool" where
  "opt_within v allowed \<longleftrightarrow> (case v of None \<Rightarrow> True | Some s \<Rightarrow> s \<in> set allowed)"

definition FeeRule :: "fee_rule \<Rightarrow> fee_error + fee_rule" where
  "FeeRule r =
     bind_sum (check_sum (fr_method r \<in> set FEE_METHODS) (FeeRuleError ''unknown fee method'')) (\<lambda>_.
     bind_sum (check_sum (fr_fee_type r \<in> set FEE_TYPES) (FeeRuleError ''unknown fee_type'')) (\<lambda>_.
     bind_sum (check_sum (fr_fee_type r \<in> {''PERCENTAGE'', ''FLAT_PLUS_PERCENTAGE''} \<longrightarrow>
         (case fr_rate_bps r of None \<Rightarrow> False | Some b \<Rightarrow> 0 \<le> b \<and> b \<le> 10000))
       (FeeRuleError ''rate_bps must be in [0, 10000]'')) (\<lambda>_.
     bind_sum (check_sum (fr_fee_type r \<in> {''FLAT_PAISA'', ''FLAT_PLUS_PERCENTAGE''} \<longrightarrow>
         (case fr_flat_amount_minor r of None \<Rightarrow> False | Some a \<Rightarrow> 0 \<le> a))
       (FeeRuleError ''flat_amount_minor must be >= 0'')) (\<lambda>_.
     bind_sum (check_sum (opt_within (fr_merchant_class r) MERCHANT_CLASSES)
       (FeeRuleError ''merchant_class must be one of the classes or None'')) (\<lambda>_.
     bind_sum (check_sum (opt_within (fr_instrument_class r) INSTRUMENT_CLASSES)
       (FeeRuleError ''instrument_class must be one of the classes or None'')) (\<lambda>_.
     Inr r))))))"

definition is_active :: "fee_rule \<Rightarrow> instant \<Rightarrow> bool" where
  "is_active r at \<longleftrightarrow> \<not> at < fr_valid_from r \<and>
     (case fr_valid_to r of None \<Rightarrow> True | Some t \<Rightarrow> at < t)"

subsection \<open>Which rule applies\<close>

definition mc_match :: "string option \<Rightarrow> fee_rule \<Rightarrow> bool" where
  "mc_match merchant_class r \<longleftrightarrow> fr_merchant_class r = None \<or> fr_merchant_class r = merchant_class"

definition ic_match :: "string option \<Rightarrow> fee_rule \<Rightarrow> bool" where
  "ic_match instrument_class r \<longleftrightarrow> fr_instrument_class r = None \<or> fr_instrument_class r = instrument_class"

definition fee_levels ::
    "string \<Rightarrow> string option \<Rightarrow> string option \<Rightarrow> string option \<Rightarrow> (fee_rule \<Rightarrow> bool) list" where
  "fee_levels merchant_id mcc merchant_class instrument_class =
     [\<lambda>r. fr_merchant_id r = Some merchant_id \<and> fr_mcc r \<noteq> None \<and> fr_mcc r = mcc,
      \<lambda>r. fr_merchant_id r = Some merchant_id \<and> fr_mcc r = None,
      \<lambda>r. fr_merchant_id r = None \<and> fr_mcc r \<noteq> None \<and> fr_mcc r = mcc \<and> fr_merchant_class r \<noteq> None \<and>
        fr_instrument_class r \<noteq> None \<and> mc_match merchant_class r \<and> ic_match instrument_class r,
      \<lambda>r. fr_merchant_id r = None \<and> fr_mcc r = None \<and> fr_merchant_class r \<noteq> None \<and>
        fr_instrument_class r \<noteq> None \<and> mc_match merchant_class r \<and> ic_match instrument_class r,
      \<lambda>r. fr_merchant_id r = None \<and> fr_mcc r = None \<and> fr_merchant_class r \<noteq> None \<and>
        fr_instrument_class r = None \<and> mc_match merchant_class r,
      \<lambda>r. fr_merchant_id r = None \<and> fr_mcc r \<noteq> None \<and> fr_mcc r = mcc \<and> fr_merchant_class r = None \<and>
        fr_instrument_class r = None,
      \<lambda>r. fr_merchant_id r = None \<and> fr_mcc r = None \<and> fr_merchant_class r = None \<and>
        fr_instrument_class r = None]"

text \<open>\<open>max\<close> with a key returns the first of the greatest.\<close>

fun latest :: "fee_rule \<Rightarrow> fee_rule list \<Rightarrow> fee_rule" where
  "latest best [] = best"
| "latest best (r # rs) = latest (if fr_valid_from best < fr_valid_from r then r else best) rs"

fun first_level :: "fee_rule list \<Rightarrow> (fee_rule \<Rightarrow> bool) list \<Rightarrow> fee_rule option" where
  "first_level active [] = None"
| "first_level active (predicate # levels) =
     (case filter predicate active of
        [] \<Rightarrow> first_level active levels
      | r # rs \<Rightarrow> Some (latest r rs))"

definition resolve_fee_rule ::
    "fee_rule list \<Rightarrow> string \<Rightarrow> string \<Rightarrow> string option \<Rightarrow> instant \<Rightarrow> string option \<Rightarrow> string option
      \<Rightarrow> fee_error + fee_rule" where
  "resolve_fee_rule rules merchant_id method mcc at merchant_class instrument_class =
     (let active = filter (\<lambda>r. fr_method r = method \<and> is_active r at) rules in
      case first_level active (fee_levels merchant_id mcc merchant_class instrument_class) of
        Some r \<Rightarrow> Inr r
      | None \<Rightarrow> Inl (FeeRuleError ''no applicable fee rule''))"

subsection \<open>The fee\<close>

definition percentage_of :: "int \<Rightarrow> fee_rule \<Rightarrow> fee_error + int" where
  "percentage_of amount_minor rule =
     (case fr_rate_bps rule of
        None \<Rightarrow> Inl FeeAssertionError
      | Some bps \<Rightarrow>
          (case bind_sum (mk_money (PInt amount_minor) BDT False) (\<lambda>amount.
             money_multiply amount (DecFinite (dec_div_pow10 28 bps 4)) False) of
             Inl e \<Rightarrow> Inl (FeeMoneyError e)
           | Inr m \<Rightarrow> Inr (mo_amount_minor m)))"

definition fee_of :: "int \<Rightarrow> fee_rule \<Rightarrow> fee_error + int" where
  "fee_of amount_minor rule =
     (if fr_fee_type rule = ''PERCENTAGE'' then percentage_of amount_minor rule
      else if fr_fee_type rule = ''FLAT_PAISA'' then
        (case fr_flat_amount_minor rule of None \<Rightarrow> Inl FeeAssertionError | Some flat \<Rightarrow> Inr flat)
      else
        (case (fr_rate_bps rule, fr_flat_amount_minor rule) of
           (Some _, Some flat) \<Rightarrow> bind_sum (percentage_of amount_minor rule) (\<lambda>pct. Inr (flat + pct))
         | _ \<Rightarrow> Inl FeeAssertionError))"

definition compute_fee :: "pyobj \<Rightarrow> fee_rule \<Rightarrow> fee_error + int \<times> string" where
  "compute_fee amount rule =
     (case amount of
        PInt amount_minor \<Rightarrow>
          bind_sum (check_sum (0 < amount_minor) (FeeRuleError ''amount_minor must be a positive int'')) (\<lambda>_.
          bind_sum (fee_of amount_minor rule) (\<lambda>fee_minor.
          bind_sum (check_sum (0 \<le> fee_minor \<and> fee_minor \<le> amount_minor)
            (FeeRuleError ''computed fee outside [0, amount]'')) (\<lambda>_.
          Inr (fee_minor, fr_rule_id rule))))
      | _ \<Rightarrow> Inl (FeeRuleError ''amount_minor must be a positive int''))"

subsection \<open>Default rules\<close>

text \<open>1 February and 6 February 2025, midnight UTC.\<close>

definition DEFAULT_VALID_FROM :: instant where
  "DEFAULT_VALID_FROM = 1738368000000000"

definition TIERED_VALID_FROM :: instant where
  "TIERED_VALID_FROM = 1738800000000000"

definition opt_int :: "int option \<Rightarrow> pyobj" where
  "opt_int v = (case v of None \<Rightarrow> PNone | Some n \<Rightarrow> PInt n)"

definition default_rule ::
    "(string \<Rightarrow> string) \<Rightarrow> string \<Rightarrow> string \<Rightarrow> string \<Rightarrow> int option \<Rightarrow> int option \<Rightarrow> bool
      \<Rightarrow> fee_error + fee_rule" where
  "default_rule h name method fee_type rate_bps flat_amount_minor regulated =
     (case make_ledger_id h ''frule'' [(''method'', PStr method), (''rate_bps'', opt_int rate_bps),
          (''flat'', opt_int flat_amount_minor), (''name'', PStr name)] of
        Inl e \<Rightarrow> Inl (FeeIdError e)
      | Inr rule_id \<Rightarrow> FeeRule \<lparr>fr_rule_id = rule_id, fr_rule_name = name, fr_merchant_id = None,
          fr_method = method, fr_mcc = None, fr_fee_type = fee_type, fr_rate_bps = rate_bps,
          fr_flat_amount_minor = flat_amount_minor, fr_regulated = regulated,
          fr_valid_from = DEFAULT_VALID_FROM, fr_valid_to = None, fr_created_by = ''system'',
          fr_approved_by = Some ''system'', fr_created_at = DEFAULT_VALID_FROM, fr_schema_version = 1,
          fr_merchant_class = None, fr_instrument_class = None\<rparr>)"

text \<open>Name, method, basis points and whether the rate is regulated.\<close>

definition DEFAULT_FEE_TABLE :: "(string \<times> string \<times> int \<times> bool) list" where
  "DEFAULT_FEE_TABLE =
     [(''Bangla QR Regulated MDR'', ''BANGLA_QR'', 115, True), (''NPSB IBFT capped MDR'', ''NPSB_IBFT'', 20, True),
      (''BEFTN credit MDR'', ''BEFTN_CREDIT'', 50, False), (''RTGS gross MDR'', ''RTGS_GROSS'', 25, False),
      (''bKash MDR'', ''BKASH'', 175, False), (''Nagad MDR'', ''NAGAD'', 175, False),
      (''Rocket MDR'', ''ROCKET'', 175, False), (''Card domestic MDR'', ''CARD_DOMESTIC'', 250, False),
      (''Card international MDR'', ''CARD_INTERNATIONAL'', 350, False), (''Card Amex MDR'', ''CARD_AMEX'', 350, False)]"

definition default_fee_rules :: "(string \<Rightarrow> string) \<Rightarrow> fee_error + fee_rule list" where
  "default_fee_rules h = map_sum_list (\<lambda>(name, method, rate_bps, regulated).
     default_rule h name method ''PERCENTAGE'' (Some rate_bps) None regulated) DEFAULT_FEE_TABLE"

definition tiered_rule ::
    "string \<Rightarrow> string \<Rightarrow> string \<Rightarrow> string option \<Rightarrow> int \<Rightarrow> fee_error + fee_rule" where
  "tiered_rule rule_id name merchant_class instrument_class rate_bps =
     FeeRule \<lparr>fr_rule_id = rule_id, fr_rule_name = name, fr_merchant_id = None,
       fr_method = ''BANGLA_QR'', fr_mcc = None, fr_fee_type = ''PERCENTAGE'',
       fr_rate_bps = Some rate_bps, fr_flat_amount_minor = None, fr_regulated = True,
       fr_valid_from = TIERED_VALID_FROM, fr_valid_to = None, fr_created_by = ''system'',
       fr_approved_by = Some ''system'', fr_created_at = TIERED_VALID_FROM, fr_schema_version = 1,
       fr_merchant_class = Some merchant_class, fr_instrument_class = instrument_class\<rparr>"

text \<open>The em dash of the rule names, in UTF-8.\<close>

definition em_dash :: string where
  "em_dash = [CHR 0xE2, CHR 0x80, CHR 0x94]"

definition tiered_fee_rules :: "fee_error + fee_rule list" where
  "tiered_fee_rules = map_sum_list (\<lambda>r. r)
     [tiered_rule ''frule_seed_bqr_micro_debit115''
        (''Bangla QR micro '' @ em_dash @ '' debit/prepaid (proposed flat 1.15%, unverified)'') ''MICRO''
        (Some ''DEBIT_PREPAID'') 115,
      tiered_rule ''frule_seed_bqr_micro_mfspsp115''
        (''Bangla QR micro '' @ em_dash @ '' MFS/PSP wallet (proposed flat 1.15%, unverified)'') ''MICRO''
        (Some ''MFS_PSP_WALLET'') 115,
      tiered_rule ''frule_seed_bqr_micro_credit115''
        (''Bangla QR micro '' @ em_dash @ '' credit (proposed flat 1.15%, unverified)'') ''MICRO''
        (Some ''CREDIT'') 115,
      tiered_rule ''frule_seed_bqr_personal_retail115''
        ''Bangla QR personal-retail (proposed flat 1.15%, unverified)'' ''PERSONAL_RETAIL'' None 115]"


subsection \<open>Percentages\<close>

lemma rounds_scale: "rounds (x * 10 ^ i) (j + i) r \<longleftrightarrow> rounds x j r"
proof -
  have "r * 10 ^ (j + i) - x * 10 ^ i = (r * 10 ^ j - x) * 10 ^ i" by (simp add: power_add algebra_simps)
  then have "\<bar>r * 10 ^ (j + i) - x * 10 ^ i\<bar> = \<bar>r * 10 ^ j - x\<bar> * 10 ^ i" by (simp add: abs_mult)
  moreover have "(2 * (\<bar>r * 10 ^ j - x\<bar> * 10 ^ i) \<le> 10 ^ (j + i)) \<longleftrightarrow> 2 * \<bar>r * 10 ^ j - x\<bar> \<le> (10 ^ j :: int)"
    using mult_le_cancel_right [of "2 * \<bar>r * 10 ^ j - x\<bar>" "10 ^ i" "10 ^ j"]
    by (simp add: power_add mult.assoc)
  moreover have "(2 * (\<bar>r * 10 ^ j - x\<bar> * 10 ^ i) = 10 ^ (j + i)) \<longleftrightarrow> 2 * \<bar>r * 10 ^ j - x\<bar> = (10 ^ j :: int)"
    using mult_cancel_right [of "2 * \<bar>r * 10 ^ j - x\<bar>" "10 ^ i" "10 ^ j"]
    by (simp add: power_add mult.assoc)
  ultimately show ?thesis by (simp add: rounds_def)
qed

lemma rounds_le:
  assumes "rounds x k r" and "x \<le> a * 10 ^ k"
  shows "r \<le> a"
proof (rule ccontr)
  assume "\<not> r \<le> a"
  define b :: int where "b = 10 ^ k"
  have "(a + 1) * b \<le> r * b" using \<open>\<not> r \<le> a\<close> by (intro mult_right_mono) (simp_all add: b_def)
  moreover define y where "y = r * b - x"
  ultimately have "b \<le> y" using assms(2) by (simp add: algebra_simps b_def)
  moreover have "2 * \<bar>y\<bar> \<le> b" using assms(1) by (simp add: rounds_def b_def y_def)
  moreover have "0 < b" by (simp add: b_def)
  ultimately show False by linarith
qed

lemma percentage_rounds:
  assumes "fr_rate_bps rule = Some bps" and "0 \<le> bps" and "bps \<le> 10000" and "0 < a" and "a < 10 ^ 45"
  shows "\<exists>pct. percentage_of a rule = Inr pct \<and> rounds (a * bps) 4 pct \<and> 0 \<le> pct \<and> pct \<le> a"
proof -
  obtain c j where c: "dec_strip bps 4 = \<lparr>dc_coeff = c, dc_exp = - int j\<rparr>" "j \<le> 4" "c * 10 ^ (4 - j) = bps"
    using dec_strip_value by blast
  have "0 \<le> c" using c(3) assms(2) by (metis mult_less_0_iff not_le zero_less_numeral zero_less_power)
  have "c * 1 \<le> c * 10 ^ (4 - j)" using \<open>0 \<le> c\<close> by (intro mult_left_mono) simp_all
  then have small: "c \<le> 10000" using c(3) assms(3) by simp
  have "nat \<bar>c\<bar> < 10 ^ 28" using \<open>0 \<le> c\<close> small by (simp add: nat_less_iff)
  then have ratio: "dec_div_pow10 28 bps 4 = \<lparr>dc_coeff = c, dc_exp = - int j\<rparr>"
    using dec_fix_id [of "\<lparr>dc_coeff = c, dc_exp = - int j\<rparr>" 28] by (simp add: dec_div_pow10_def c(1))
  have "a * c \<le> a * 10000" using small assms(4) by (intro mult_left_mono) simp_all
  then have "a * c < 10 ^ 50" using assms(5) by simp
  then obtain r where r: "money_multiply \<lparr>mo_amount_minor = a, mo_currency = BDT\<rparr>
        (DecFinite \<lparr>dc_coeff = c, dc_exp = - int j\<rparr>) False = Inr \<lparr>mo_amount_minor = r, mo_currency = BDT\<rparr>"
      "rounds (a * c) j r" "0 \<le> r"
    using multiply_rounds [of "\<lparr>mo_amount_minor = a, mo_currency = BDT\<rparr>" c j False] assms(4) \<open>0 \<le> c\<close> by auto
  have "j + (4 - j) = 4" using c(2) by simp
  then have "rounds (a * c * 10 ^ (4 - j)) 4 r" using rounds_scale [of "a * c" "4 - j" j r] r(2) by simp
  then have rb: "rounds (a * bps) 4 r" using c(3) by (simp only: mult.assoc)
  have "a * bps \<le> a * 10 ^ 4" using assms(3,4) by (intro mult_left_mono) simp_all
  then have "r \<le> a" by (rule rounds_le [OF rb])
  moreover have "percentage_of a rule = Inr r"
    using r(1) assms(1,4) by (simp add: percentage_of_def mk_money_def require_int_minor_def ratio)
  ultimately show ?thesis using rb r(3) by blast
qed

lemma FeeRule_valid:
  assumes "FeeRule r = Inr r'"
  shows "r' = r \<and> fr_method r \<in> set FEE_METHODS \<and> fr_fee_type r \<in> set FEE_TYPES \<and>
    (fr_fee_type r \<in> {''PERCENTAGE'', ''FLAT_PLUS_PERCENTAGE''} \<longrightarrow> (\<exists>b. fr_rate_bps r = Some b \<and> 0 \<le> b \<and> b \<le> 10000)) \<and>
    (fr_fee_type r \<in> {''FLAT_PAISA'', ''FLAT_PLUS_PERCENTAGE''} \<longrightarrow> (\<exists>a. fr_flat_amount_minor r = Some a \<and> 0 \<le> a))"
  using assms by (auto simp: FeeRule_def bind_sum_Inr_iff split: option.splits)

definition rate_of :: "fee_rule \<Rightarrow> int" where
  "rate_of r = (if fr_fee_type r = ''FLAT_PAISA'' then 0 else case fr_rate_bps r of Some b \<Rightarrow> b | None \<Rightarrow> 0)"

definition flat_of :: "fee_rule \<Rightarrow> int" where
  "flat_of r = (if fr_fee_type r = ''PERCENTAGE'' then 0 else case fr_flat_amount_minor r of Some a \<Rightarrow> a | None \<Rightarrow> 0)"

text \<open>C33. The fee of a valid rule on a positive amount is its flat part plus its percentage of the
  amount in basis points, rounded half to even once; it is refused exactly when it exceeds the amount,
  so a fee that is charged lies between zero and the amount, and a pure percentage is always
  charged.\<close>

theorem compute_fee_spec:
  assumes "FeeRule rule = Inr rule" and "0 < a" and "a < 10 ^ 45"
  shows "\<exists>pct. rounds (a * rate_of rule) 4 pct \<and> 0 \<le> pct \<and> pct \<le> a \<and> 0 \<le> flat_of rule \<and>
    compute_fee (PInt a) rule =
      (if flat_of rule + pct \<le> a then Inr (flat_of rule + pct, fr_rule_id rule)
       else Inl (FeeRuleError ''computed fee outside [0, amount]''))"
proof -
  note valid = FeeRule_valid [OF assms(1)]
  consider (pct) b where "fr_fee_type rule = ''PERCENTAGE''" "fr_rate_bps rule = Some b" "0 \<le> b" "b \<le> 10000"
    | (flat) f where "fr_fee_type rule = ''FLAT_PAISA''" "fr_flat_amount_minor rule = Some f" "0 \<le> f"
    | (both) b f where "fr_fee_type rule = ''FLAT_PLUS_PERCENTAGE''" "fr_rate_bps rule = Some b" "0 \<le> b" "b \<le> 10000"
        "fr_flat_amount_minor rule = Some f" "0 \<le> f"
    using valid by (auto simp: FEE_TYPES_def)
  then show ?thesis
  proof cases
    case pct
    obtain p where p: "percentage_of a rule = Inr p" "rounds (a * b) 4 p" "0 \<le> p" "p \<le> a"
      using percentage_rounds [OF pct(2,3,4) assms(2,3)] by blast
    show ?thesis
      by (rule exI [of _ p]) (use p pct assms(2) in \<open>simp add: compute_fee_def fee_of_def rate_of_def flat_of_def\<close>)
  next
    case flat
    show ?thesis
      by (rule exI [of _ 0]) (use flat assms(2) in \<open>simp add: compute_fee_def fee_of_def rate_of_def flat_of_def rounds_def check_sum_def\<close>)
  next
    case both
    obtain p where p: "percentage_of a rule = Inr p" "rounds (a * b) 4 p" "0 \<le> p" "p \<le> a"
      using percentage_rounds [OF both(2,3,4) assms(2,3)] by blast
    show ?thesis
      by (rule exI [of _ p]) (use p both assms(2) in \<open>simp add: compute_fee_def fee_of_def rate_of_def flat_of_def check_sum_def\<close>)
  qed
qed


definition qr_rule :: fee_rule where
  "qr_rule = \<lparr>fr_rule_id = ''frule_1'', fr_rule_name = ''Bangla QR'', fr_merchant_id = None,
     fr_method = ''BANGLA_QR'', fr_mcc = None, fr_fee_type = ''PERCENTAGE'', fr_rate_bps = Some 115,
     fr_flat_amount_minor = None, fr_regulated = True, fr_valid_from = 0, fr_valid_to = None,
     fr_created_by = ''system'', fr_approved_by = None, fr_created_at = 0, fr_schema_version = 1,
     fr_merchant_class = None, fr_instrument_class = None\<rparr>"

theorem compute_fee_spec_witness:
  "compute_fee (PInt 2020000) qr_rule = Inr (23230, ''frule_1'')"
proof -
  have valid: "FeeRule qr_rule = Inr qr_rule" by code_simp
  obtain pct where pct: "rounds (2020000 * rate_of qr_rule) 4 pct" "pct \<le> 2020000"
      "compute_fee (PInt 2020000) qr_rule = (if flat_of qr_rule + pct \<le> 2020000
        then Inr (flat_of qr_rule + pct, fr_rule_id qr_rule)
        else Inl (FeeRuleError ''computed fee outside [0, amount]''))"
    using compute_fee_spec [OF valid, of 2020000] by auto
  have "rounds (2020000 * rate_of qr_rule) 4 23230" by (simp add: rounds_def rate_of_def qr_rule_def)
  then have "pct = 23230" by (rule rounds_unique [OF pct(1)])
  then show ?thesis using pct(3) by (simp add: flat_of_def qr_rule_def)
qed

subsection \<open>Resolution\<close>

lemma latest_greatest:
  "latest best rs \<in> set (best # rs) \<and> (\<forall>q \<in> set (best # rs). fr_valid_from q \<le> fr_valid_from (latest best rs))"
proof (induction rs arbitrary: best)
  case (Cons r rs)
  let ?b = "if fr_valid_from best < fr_valid_from r then r else best"
  have "latest ?b rs \<in> set (?b # rs)" "\<forall>q \<in> set (?b # rs). fr_valid_from q \<le> fr_valid_from (latest ?b rs)"
    using Cons [of ?b] by blast+
  then show ?case by (auto split: if_splits)
qed simp

lemma first_level_Some:
  assumes "first_level active levels = Some r"
  shows "r \<in> set active \<and> (\<exists>k < length levels. (levels ! k) r \<and>
    (\<forall>q \<in> set active. (\<forall>j < k. \<not> (levels ! j) q) \<and> ((levels ! k) q \<longrightarrow> fr_valid_from q \<le> fr_valid_from r)))"
  using assms
proof (induction levels)
  case (Cons predicate levels)
  show ?case
  proof (cases "filter predicate active")
    case Nil
    then have none: "\<forall>q \<in> set active. \<not> predicate q" by (simp add: filter_empty_conv)
    obtain k where k: "k < length levels" "(levels ! k) r" "\<forall>q \<in> set active. (\<forall>j < k. \<not> (levels ! j) q) \<and>
        ((levels ! k) q \<longrightarrow> fr_valid_from q \<le> fr_valid_from r)" and r: "r \<in> set active"
      using Cons.IH Cons.prems Nil by auto
    have "Suc k < length (predicate # levels)" "((predicate # levels) ! Suc k) r" using k by simp_all
    moreover have "\<forall>q \<in> set active. (\<forall>j < Suc k. \<not> ((predicate # levels) ! j) q) \<and>
        (((predicate # levels) ! Suc k) q \<longrightarrow> fr_valid_from q \<le> fr_valid_from r)"
      using k(3) none by (auto simp: nth_Cons split: nat.splits)
    ultimately show ?thesis using r by blast
  next
    case (Cons q qs)
    then have "r = latest q qs" using Cons.prems by simp
    then have r: "r \<in> set (filter predicate active)"
        "\<forall>x \<in> set (filter predicate active). fr_valid_from x \<le> fr_valid_from r"
      using latest_greatest [of q qs] Cons by simp_all
    then show ?thesis by (intro conjI exI [of _ 0]) auto
  qed
qed simp

lemma first_level_None: "first_level active levels = None \<longleftrightarrow> (\<forall>q \<in> set active. \<forall>k < length levels. \<not> (levels ! k) q)"
proof (induction levels)
  case (Cons predicate levels)
  have "(\<forall>k < length (predicate # levels). \<not> ((predicate # levels) ! k) q) \<longleftrightarrow>
      \<not> predicate q \<and> (\<forall>k < length levels. \<not> (levels ! k) q)" for q
    by (auto simp: nth_Cons All_less_Suc2 split: nat.splits)
  then have "(\<forall>q \<in> set active. \<forall>k < length (predicate # levels). \<not> ((predicate # levels) ! k) q) \<longleftrightarrow>
      filter predicate active = [] \<and> first_level active levels = None"
    using Cons by (simp add: filter_empty_conv) blast
  then show ?case by (simp split: list.splits)
qed simp



definition newer_rule :: fee_rule where
  "newer_rule = qr_rule\<lparr>fr_rule_id := ''frule_2'', fr_valid_from := 5\<rparr>"




subsection \<open>Every method has a default fee\<close>

definition default_for :: "string \<Rightarrow> instant \<Rightarrow> fee_rule \<Rightarrow> bool" where
  "default_for method from r \<longleftrightarrow> fr_method r = method \<and> fr_merchant_id r = None \<and> fr_mcc r = None \<and>
     fr_merchant_class r = None \<and> fr_instrument_class r = None \<and> fr_valid_from r = from \<and> fr_valid_to r = None"

lemma default_rule_ok:
  assumes "method \<in> set FEE_METHODS" and "0 \<le> b" and "b \<le> 10000"
  shows "\<exists>r. default_rule h name method ''PERCENTAGE'' (Some b) None reg = Inr r \<and> default_for method DEFAULT_VALID_FROM r"
proof -
  have "distinct (map fst [(''method'', PStr method), (''rate_bps'', opt_int (Some b)), (''flat'', opt_int None), (''name'', PStr name)])"
    by simp
  moreover have "writable v" if "v \<in> set (map snd [(''method'', PStr method), (''rate_bps'', opt_int (Some b)),
      (''flat'', opt_int None), (''name'', PStr name)])" for v
    using that by (auto simp: opt_int_def)
  ultimately obtain i where "mint_id h ''frule'' (PDict (map (\<lambda>(k, v). (KStr k, v))
      [(''method'', PStr method), (''rate_bps'', opt_int (Some b)), (''flat'', opt_int None), (''name'', PStr name)])) = Inr i"
    using mint_id_total by blast
  then have "\<exists>i. make_ledger_id h ''frule'' [(''method'', PStr method), (''rate_bps'', opt_int (Some b)),
      (''flat'', opt_int None), (''name'', PStr name)] = Inr i"
    by (auto simp: make_ledger_id_def make_id_def LEDGER_INTERNAL_PREFIXES_def)
  then show ?thesis
    using assms by (auto simp: default_rule_def FeeRule_def FEE_TYPES_def opt_within_def default_for_def)
qed

text \<open>C35. From 1 February 2025 on, the default table prices every payment method: building it never
  raises, whatever the hash function, and a payment of any merchant, category and class resolves to a
  rule.\<close>

theorem default_rules_cover_methods:
  assumes "method \<in> set FEE_METHODS" and "DEFAULT_VALID_FROM \<le> at"
  shows "\<exists>rules r. default_fee_rules h = Inr rules \<and>
    resolve_fee_rule rules merchant_id method mcc at merchant_class instrument_class = Inr r"
proof -
  have "\<exists>rules. default_fee_rules h = Inr rules \<and>
      (\<forall>x \<in> set DEFAULT_FEE_TABLE. \<exists>r \<in> set rules. default_for (fst (snd x)) DEFAULT_VALID_FROM r)"
    unfolding default_fee_rules_def
  proof (rule map_sum_list_each)
    fix x assume "x \<in> set DEFAULT_FEE_TABLE"
    moreover have "list_all (\<lambda>(n, m, b, reg). m \<in> set FEE_METHODS \<and> 0 \<le> b \<and> b \<le> 10000) DEFAULT_FEE_TABLE"
      by code_simp
    ultimately show "\<exists>r. (case x of (name, method, b, reg) \<Rightarrow>
        default_rule h name method ''PERCENTAGE'' (Some b) None reg) = Inr r \<and>
        default_for (fst (snd x)) DEFAULT_VALID_FROM r"
      using default_rule_ok [of "fst (snd x)" "fst (snd (snd x))" h "fst x" "snd (snd (snd x))"]
      by (auto simp: list_all_iff split_beta)
  qed
  moreover have "\<exists>x \<in> set DEFAULT_FEE_TABLE. fst (snd x) = method"
  proof -
    have "list_all (\<lambda>m. m \<in> set (map (fst \<circ> snd) DEFAULT_FEE_TABLE)) FEE_METHODS" by code_simp
    then show ?thesis using assms(1) by (force simp: list_all_iff)
  qed
  ultimately obtain rules r where rules: "default_fee_rules h = Inr rules" and r: "r \<in> set rules" "default_for method DEFAULT_VALID_FROM r"
    by metis
  let ?levels = "fee_levels merchant_id mcc merchant_class instrument_class"
  have "(?levels ! 6) r" "6 < length ?levels" using r(2) by (simp_all add: fee_levels_def default_for_def)
  moreover have "r \<in> set (filter (\<lambda>q. fr_method q = method \<and> is_active q at) rules)"
    using r assms(2) by (auto simp: default_for_def is_active_def)
  ultimately have "first_level (filter (\<lambda>q. fr_method q = method \<and> is_active q at) rules) ?levels \<noteq> None"
    using first_level_None by blast
  then show ?thesis using rules by (auto simp: resolve_fee_rule_def Let_def)
qed

theorem default_rules_cover_methods_witness:
  "\<exists>rules r. default_fee_rules (\<lambda>s. s) = Inr rules \<and>
    resolve_fee_rule rules ''m'' ''ROCKET'' None DEFAULT_VALID_FROM None None = Inr r"
  by (rule default_rules_cover_methods) (simp_all add: FEE_METHODS_def)

end
