(* ===== verification/Py_Unicode.thy ===== *)
theory Py_Unicode
  imports Py_Text
begin

text \<open>
  Python text over its UTF-8 bytes: the strict decoder, the characters of a string, \<open>isascii\<close>,
  \<open>strip\<close> and \<open>rstrip\<close>. A string of the model is the byte sequence
  \<open>s.encode("utf-8")\<close> of a Python string, and a character is the byte sequence of one code point.
\<close>

subsection \<open>The strict UTF-8 decoder\<close>

definition byte :: "char \<Rightarrow> nat" where
  "byte c = of_char c"

definition continues :: "char \<Rightarrow> bool" where
  "continues c \<longleftrightarrow> 128 \<le> byte c \<and> byte c < 192"

text \<open>One well-formed sequence: no overlong form, no surrogate, nothing above U+10FFFF.\<close>

fun utf8_char :: "string \<Rightarrow> bool" where
  "utf8_char [a] \<longleftrightarrow> byte a < 128"
| "utf8_char [a, b] \<longleftrightarrow> 194 \<le> byte a \<and> byte a < 224 \<and> continues b"
| "utf8_char [a, b, c] \<longleftrightarrow> continues b \<and> continues c \<and>
     (byte a = 224 \<and> 160 \<le> byte b \<or> 225 \<le> byte a \<and> byte a < 240 \<and> (byte a \<noteq> 237 \<or> byte b < 160))"
| "utf8_char [a, b, c, d] \<longleftrightarrow> continues b \<and> continues c \<and> continues d \<and>
     (byte a = 240 \<and> 144 \<le> byte b \<or> 241 \<le> byte a \<and> byte a < 244 \<or> byte a = 244 \<and> byte b < 144)"
| "utf8_char _ \<longleftrightarrow> False"

definition utf8_width :: "char \<Rightarrow> nat" where
  "utf8_width a = (if byte a < 128 then 1 else if byte a < 224 then 2 else if byte a < 240 then 3 else 4)"

lemma utf8_width_pos [simp]: "0 < utf8_width a"
  by (simp add: utf8_width_def)

function utf8_decode :: "string \<Rightarrow> string list option" where
  "utf8_decode [] = Some []"
| "utf8_decode (a # s) =
     (let c = take (utf8_width a) (a # s) in
      if utf8_char c then map_option ((#) c) (utf8_decode (drop (utf8_width a) (a # s))) else None)"
  by pat_completeness auto
termination by (relation "measure length") auto

declare utf8_decode.simps(2) [simp del]

text \<open>The byte sequences that are Python strings, and the characters of one.\<close>

definition py_str :: "string \<Rightarrow> bool" where
  "py_str s \<longleftrightarrow> utf8_decode s \<noteq> None"

definition chars :: "string \<Rightarrow> string list" where
  "chars s = (case utf8_decode s of Some cs \<Rightarrow> cs | None \<Rightarrow> map (\<lambda>b. [b]) s)"

definition isascii :: "string \<Rightarrow> bool" where
  "isascii s \<longleftrightarrow> list_all (\<lambda>c. byte c < 128) s"

text \<open>What \<open>str.isspace\<close> accepts, by code point.\<close>

definition PY_WHITESPACE :: "string list" where
  "PY_WHITESPACE = map (\<lambda>c. [c]) [CHR 0x09, CHR 0x0A, CHR 0x0B, CHR 0x0C, CHR 0x0D, CHR 0x1C, CHR 0x1D, CHR 0x1E, CHR 0x1F, CHR 0x20] @
     [[CHR 0xC2, CHR 0x85], [CHR 0xC2, CHR 0xA0], [CHR 0xE1, CHR 0x9A, CHR 0x80]] @
     map (\<lambda>c. [CHR 0xE2, CHR 0x80, c]) [CHR 0x80, CHR 0x81, CHR 0x82, CHR 0x83, CHR 0x84, CHR 0x85, CHR 0x86, CHR 0x87, CHR 0x88, CHR 0x89, CHR 0x8A, CHR 0xA8, CHR 0xA9, CHR 0xAF] @
     [[CHR 0xE2, CHR 0x81, CHR 0x9F], [CHR 0xE3, CHR 0x80, CHR 0x80]]"

definition is_space :: "string \<Rightarrow> bool" where
  "is_space c \<longleftrightarrow> c \<in> set PY_WHITESPACE"

definition rstrip_chars :: "string list \<Rightarrow> string list" where
  "rstrip_chars cs = rev (dropWhile is_space (rev cs))"

definition strip :: "string \<Rightarrow> string" where
  "strip s = concat (rstrip_chars (dropWhile is_space (chars s)))"

subsection \<open>Unique decoding\<close>

lemma utf8_char_shape:
  assumes "utf8_char c"
  shows "c \<noteq> [] \<and> length c = utf8_width (hd c)"
  using assms by (induction c rule: utf8_char.induct) (auto simp: utf8_width_def)

lemma utf8_decode_concat: "list_all utf8_char cs \<Longrightarrow> utf8_decode (concat cs) = Some cs"
proof (induction cs)
  case (Cons c cs)
  obtain a r where c: "c = a # r" using Cons.prems utf8_char_shape [of c] by (cases c) auto
  have "length c = utf8_width a" using Cons.prems utf8_char_shape [of c] c by simp
  then have "take (utf8_width a) (c @ concat cs) = c" "drop (utf8_width a) (c @ concat cs) = concat cs" by simp_all
  then show ?case using Cons c by (simp add: utf8_decode.simps(2))
qed simp

lemma utf8_decode_sound: "utf8_decode s = Some cs \<Longrightarrow> concat cs = s \<and> list_all utf8_char cs"
proof (induction s arbitrary: cs rule: utf8_decode.induct)
  case (2 a s)
  let ?c = "take (utf8_width a) (a # s)"
  obtain ds where ok: "utf8_char ?c" and ds: "utf8_decode (drop (utf8_width a) (a # s)) = Some ds" "cs = ?c # ds"
    using "2.prems" by (auto simp: utf8_decode.simps(2) Let_def split: if_splits)
  then have "concat ds = drop (utf8_width a) (a # s) \<and> list_all utf8_char ds" using "2.IH" by simp
  then have "concat cs = ?c @ drop (utf8_width a) (a # s)" using ds(2) by simp
  also have "\<dots> = a # s" by (rule append_take_drop_id)
  finally show ?case using ds ok \<open>concat ds = _ \<and> _\<close> by simp
qed simp

lemma py_str_iff: "py_str s \<longleftrightarrow> (\<exists>cs. list_all utf8_char cs \<and> concat cs = s)"
  using utf8_decode_concat utf8_decode_sound unfolding py_str_def by blast

lemma chars_of_concat: "list_all utf8_char cs \<Longrightarrow> chars (concat cs) = cs"
  by (simp add: chars_def utf8_decode_concat)

lemma py_str_chars:
  assumes "py_str s"
  shows "list_all utf8_char (chars s)" and "concat (chars s) = s"
  using assms utf8_decode_sound by (auto simp: py_str_def chars_def)

lemma py_str_concat [intro]: "list_all utf8_char cs \<Longrightarrow> py_str (concat cs)"
  using py_str_iff by blast

lemma py_str_Nil [simp]: "py_str []"
  by (simp add: py_str_def)

lemma py_str_append [simp]:
  assumes "py_str s" and "py_str t"
  shows "py_str (s @ t)" and "chars (s @ t) = chars s @ chars t"
proof -
  have "list_all utf8_char (chars s @ chars t)" "concat (chars s @ chars t) = s @ t"
    using py_str_chars assms by simp_all
  then show "py_str (s @ t)" "chars (s @ t) = chars s @ chars t"
    using py_str_concat chars_of_concat by metis+
qed

lemma ascii_chars: "isascii s \<Longrightarrow> list_all utf8_char (map (\<lambda>b. [b]) s)"
  by (induction s) (auto simp: isascii_def)

lemma py_str_ascii: "isascii s \<Longrightarrow> py_str s"
  using py_str_concat [OF ascii_chars] by simp

lemma chars_ascii: "isascii s \<Longrightarrow> chars s = map (\<lambda>b. [b]) s"
  using chars_of_concat [OF ascii_chars] by simp

lemma py_len_chars:
  assumes "py_str s"
  shows "py_len s = length (chars s)"
proof -
  have one: "py_len c = 1" if "utf8_char c" for c
    using that by (induction c rule: utf8_char.induct) (auto simp: py_len_def continues_def byte_def)
  have "py_len (concat cs) = length cs" if "list_all utf8_char cs" for cs
    using that
  proof (induction cs)
    case (Cons c cs)
    then show ?case using one [of c] by (simp add: py_len_def)
  qed (simp add: py_len_def)
  then show ?thesis using py_str_chars [OF assms] by metis
qed

lemma strip_py_str: "py_str s \<Longrightarrow> py_str (strip s)"
proof -
  assume s: "py_str s"
  have "set (rstrip_chars (dropWhile is_space (chars s))) \<subseteq> set (chars s)"
    by (auto simp: rstrip_chars_def dest!: set_dropWhileD)
  then have "list_all utf8_char (rstrip_chars (dropWhile is_space (chars s)))"
    using py_str_chars(1) [OF s] by (auto simp: list_all_iff)
  then show ?thesis by (auto simp: strip_def)
qed

end
