(* ===== verification/Qr_Wire.thy ===== *)
theory Qr_Wire
  imports Py_Unicode Canonical "HOL-Library.Word"
begin

text \<open>
  The wire primitives of the Bangla QR codec: the CRC (\<^verbatim>\<open>qr/crc.py\<close>), the tag-length-value objects
  (\<^verbatim>\<open>qr/tlv.py\<close>), the amount field (\<^verbatim>\<open>qr/amount54.py\<close>) and the errors (\<^verbatim>\<open>qr/errors.py\<close>). A validation
  error is represented by its failure code.
\<close>

unbundle bit_operations_syntax

datatype qr_error = QrEncodeError string | QrValidationError string | QrCanonicalError canon_error

definition QR_FAILURE_CODES :: "string list" where
  "QR_FAILURE_CODES = [''qr_malformed_tlv'', ''qr_duplicate_id'', ''qr_reserved_id'', ''qr_invalid_crc'',
     ''qr_unsupported_version'', ''qr_validation_failed'', ''qr_wrong_currency'', ''qr_wrong_country'',
     ''qr_static_with_amount'', ''qr_bengali_digits_in_amount'', ''qr_no_routable_template'',
     ''qr_merchant_suspended'', ''qr_revoked'', ''qr_expired'', ''qr_already_paid'', ''qr_cancelled'']"

subsection \<open>CRC-16/CCITT-FALSE\<close>

definition CRC_PREFIX :: string where
  "CRC_PREFIX = ''6304''"

definition POLY :: "16 word" where
  "POLY = 0x1021"

definition INIT :: "16 word" where
  "INIT = 0xFFFF"

definition crc_shift :: "16 word \<Rightarrow> 16 word" where
  "crc_shift crc = (if crc AND 0x8000 \<noteq> 0 then push_bit 1 crc XOR POLY else push_bit 1 crc)"

definition crc_byte :: "16 word \<Rightarrow> char \<Rightarrow> 16 word" where
  "crc_byte crc b = (crc_shift ^^ 8) (crc XOR push_bit 8 (of_nat (byte b)))"

definition crc16_ccitt_false :: "string \<Rightarrow> 16 word" where
  "crc16_ccitt_false data = foldl crc_byte INIT data"

definition upper_hex_digit :: "nat \<Rightarrow> char" where
  "upper_hex_digit d = (if d < 16 then ''0123456789ABCDEF'' ! d else CHR ''0'')"

text \<open>\<^verbatim>\<open>f"{crc:04X}"\<close> of a 16-bit value.\<close>

definition hex4 :: "16 word \<Rightarrow> string" where
  "hex4 w = (let n = unat w in map upper_hex_digit [n div 4096 mod 16, n div 256 mod 16, n div 16 mod 16, n mod 16])"

definition append_crc :: "string \<Rightarrow> string" where
  "append_crc payload_without_crc =
     (let base = payload_without_crc @ CRC_PREFIX in base @ hex4 (crc16_ccitt_false base))"

definition verify_crc :: "string \<Rightarrow> bool" where
  "verify_crc payload =
     (let cs = chars payload; n = length cs in
      if n < 8 \<or> concat (take 4 (drop (n - 8) cs)) \<noteq> CRC_PREFIX then False
      else concat (drop (n - 4) cs) = hex4 (crc16_ccitt_false (concat (take (n - 4) cs))))"

subsection \<open>Data objects\<close>

definition MAX_VALUE_BYTES :: nat where
  "MAX_VALUE_BYTES = 99"

record tlv_object =
  tlv_object_id :: int
  tlv_value :: string
  tlv_raw :: string

definition encode_object :: "int \<Rightarrow> string \<Rightarrow> qr_error + string" where
  "encode_object object_id value =
     bind_sum (check_sum (0 \<le> object_id \<and> object_id \<le> 99) (QrEncodeError ''data object ID must be 00-99'')) (\<lambda>_.
     bind_sum (check_sum (length value \<noteq> 0) (QrEncodeError ''empty value'')) (\<lambda>_.
     bind_sum (check_sum (length value \<le> MAX_VALUE_BYTES) (QrEncodeError ''value too long'')) (\<lambda>_.
     Inr (pad_dec 2 (nat object_id) @ pad_dec 2 (length value) @ value))))"

definition assemble :: "(int \<times> string) list \<Rightarrow> qr_error + string" where
  "assemble objects = bind_sum (map_sum_list (\<lambda>(i, v). encode_object i v) objects) (\<lambda>parts. Inr (concat parts))"

definition is_ascii_digits :: "string \<Rightarrow> bool" where
  "is_ascii_digits chunk \<longleftrightarrow> length chunk = 2 \<and> list_all is_digit chunk"

text \<open>The loop of \<open>walk\<close>, with the bytes that are left and the ids that were seen.\<close>

function walk_from :: "bool \<Rightarrow> int list \<Rightarrow> string \<Rightarrow> qr_error + tlv_object list" where
  "walk_from reject_duplicates seen data =
     (if data = [] then Inr [] else
      let id_chunk = take 2 data; len_chunk = take 2 (drop 2 data) in
      if \<not> is_ascii_digits id_chunk \<or> \<not> is_ascii_digits len_chunk
      then Inl (QrValidationError ''qr_malformed_tlv'')
      else
      let object_id = int (nat_of_dec id_chunk); len = nat_of_dec len_chunk;
          value_bytes = take len (drop 4 data) in
      if length value_bytes \<noteq> len \<or> len = 0 then Inl (QrValidationError ''qr_malformed_tlv'')
      else if \<not> py_str value_bytes then Inl (QrValidationError ''qr_malformed_tlv'')
      else if reject_duplicates \<and> object_id \<in> set seen then Inl (QrValidationError ''qr_duplicate_id'')
      else bind_sum (walk_from reject_duplicates (object_id # seen) (drop (4 + len) data)) (\<lambda>objects.
        Inr (\<lparr>tlv_object_id = object_id, tlv_value = value_bytes, tlv_raw = take (4 + len) data\<rparr> # objects)))"
  by pat_completeness auto
termination by (relation "measure (\<lambda>(_, _, data). length data)") auto

declare walk_from.simps [simp del]

definition walk :: "string \<Rightarrow> bool \<Rightarrow> qr_error + tlv_object list" where
  "walk data reject_duplicates = walk_from reject_duplicates [] data"

definition fields_of :: "tlv_object list \<Rightarrow> (int, string) dict" where
  "fields_of objects = foldl (\<lambda>d obj. dput (tlv_object_id obj) (tlv_value obj) d) [] objects"

definition walk_template :: "string \<Rightarrow> qr_error + (int, string) dict" where
  "walk_template value = bind_sum (walk value True) (\<lambda>objects. Inr (fields_of objects))"

subsection \<open>The amount field\<close>

definition MAX_AMOUNT_CHARS :: nat where
  "MAX_AMOUNT_CHARS = 13"

definition render_amount_54 :: "pyobj \<Rightarrow> qr_error + string" where
  "render_amount_54 amount_minor =
     (case amount_minor of
        PInt n \<Rightarrow>
          bind_sum (check_sum (0 < n) (QrEncodeError ''dynamic amount must be positive paisa'')) (\<lambda>_.
          let whole = n div 100; frac = n mod 100;
              rendered = if frac = 0 then str_int whole else str_int whole @ ''.'' @ pad_dec 2 (nat frac) in
          bind_sum (check_sum (length rendered \<le> MAX_AMOUNT_CHARS) (QrEncodeError ''amount too long'')) (\<lambda>_.
          Inr rendered))
      | _ \<Rightarrow> Inl (QrEncodeError ''amount_minor must be int paisa''))"

definition bengali_digit :: "string \<Rightarrow> bool" where
  "bengali_digit c \<longleftrightarrow> (case c of [a, b, d] \<Rightarrow> byte a = 224 \<and> byte b = 167 \<and> 166 \<le> byte d \<and> byte d \<le> 175 | _ \<Rightarrow> False)"

text \<open>\<^verbatim>\<open>^(\d+)(?:\.(\d{1,2}))?$\<close>: the dollar also matches before a final newline.\<close>

definition strip_newline :: "string \<Rightarrow> string" where
  "strip_newline text = (if text \<noteq> [] \<and> last text = CHR 0x0A then butlast text else text)"

definition match_amount :: "string \<Rightarrow> (string \<times> string option) option" where
  "match_amount text =
     (let body = strip_newline text; whole = takeWhile is_digit body; rest = dropWhile is_digit body in
      if whole = [] then None
      else case rest of
        [] \<Rightarrow> Some (whole, None)
      | c # frac \<Rightarrow> if c = CHR ''.'' \<and> (length frac = 1 \<or> length frac = 2) \<and> list_all is_digit frac
          then Some (whole, Some frac) else None)"

definition ljust2 :: "string \<Rightarrow> string" where
  "ljust2 s = s @ replicate (2 - length s) (CHR ''0'')"

definition parse_amount_54 :: "string \<Rightarrow> qr_error + int" where
  "parse_amount_54 text =
     bind_sum (check_sum (\<not> list_ex bengali_digit (chars text)) (QrValidationError ''qr_bengali_digits_in_amount'')) (\<lambda>_.
     bind_sum (check_sum (py_len text \<le> MAX_AMOUNT_CHARS) (QrValidationError ''qr_validation_failed'')) (\<lambda>_.
     case match_amount text of
       None \<Rightarrow> Inl (QrValidationError ''qr_validation_failed'')
     | Some (whole, frac) \<Rightarrow>
         let amount_minor = int (nat_of_dec whole) * 100 +
           (case frac of None \<Rightarrow> 0 | Some f \<Rightarrow> int (nat_of_dec (ljust2 f))) in
         bind_sum (check_sum (0 < amount_minor) (QrValidationError ''qr_validation_failed'')) (\<lambda>_. Inr amount_minor)))"

subsection \<open>The checksum is injective where it matters\<close>

lemma top_bit: "(crc AND 0x8000 \<noteq> 0) \<longleftrightarrow> bit crc 15" for crc :: "16 word"
proof -
  have mask: "(0x8000 :: 16 word) = push_bit 15 1" by simp
  have "bit (0x8000 :: 16 word) n \<longleftrightarrow> n = 15" for n
    unfolding mask bit_push_bit_iff by (auto simp: bit_1_iff)
  then have bits: "bit (crc AND 0x8000) n \<longleftrightarrow> n = 15 \<and> bit crc n" for n by (auto simp: bit_and_iff)
  show ?thesis
  proof (cases "bit crc 15")
    case True
    then have "bit (crc AND 0x8000) 15" by (simp only: bits)
    then show ?thesis using True by (metis bit_0_eq bot_apply bot_bool_def)
  next
    case False
    have "crc AND 0x8000 = 0" by (rule bit_eqI) (use False bits in auto)
    then show ?thesis using False by simp
  qed
qed

lemma crc_shift_inj: "inj crc_shift"
proof (rule injI)
  fix x y :: "16 word"
  assume eq: "crc_shift x = crc_shift y"
  have low: "bit (crc_shift z) 0 \<longleftrightarrow> bit z 15" for z
    unfolding crc_shift_def top_bit by (simp add: POLY_def bit_xor_iff bit_0 even_xor_iff)
  have top: "bit x 15 \<longleftrightarrow> bit y 15" using eq low by metis
  have "push_bit 1 x = push_bit 1 y"
  proof (cases "bit x 15")
    case True
    then have "push_bit 1 x XOR POLY = push_bit 1 y XOR POLY" using eq top unfolding crc_shift_def top_bit by simp
    then have "(push_bit 1 x XOR POLY) XOR POLY = (push_bit 1 y XOR POLY) XOR POLY" by simp
    then show ?thesis by (simp only: xor.assoc xor_self_eq xor.right_neutral)
  next
    case False
    then show ?thesis using eq top unfolding crc_shift_def top_bit by simp
  qed
  then have shifted: "bit (push_bit 1 x) n = bit (push_bit 1 y) n" for n by simp
  show "x = y"
  proof (rule bit_word_eqI)
    fix n assume n: "n < LENGTH(16)"
    show "bit x n \<longleftrightarrow> bit y n"
    proof (cases "n = 15")
      case True
      then show ?thesis using top by simp
    next
      case False
      then show ?thesis using shifted [of "Suc n"] n unfolding bit_push_bit_iff by simp
    qed
  qed
qed

lemma crc_shifts_inj: "inj (crc_shift ^^ n)"
  by (rule inj_fn [OF crc_shift_inj])

lemma xor_right_cancel: "a XOR c = b XOR c \<longleftrightarrow> a = b" for a b c :: "16 word"
  by (metis xor.assoc xor_self_eq xor.right_neutral)

lemma crc_byte_inj_crc: "crc_byte c b = crc_byte d b \<longleftrightarrow> c = d"
  using crc_shifts_inj [of 8] by (auto simp: crc_byte_def inj_eq xor_right_cancel)

lemma byte_lt: "byte b < 256"
  by (simp add: byte_def)

lemma byte_inject: "byte a = byte b \<longleftrightarrow> a = b"
  by (simp add: byte_def)

lemma crc_byte_inj_byte: "crc_byte c a = crc_byte c b \<longleftrightarrow> a = b"
proof -
  have "push_bit 8 (of_nat (byte a)) = (push_bit 8 (of_nat (byte b)) :: 16 word) \<longleftrightarrow> byte a = byte b"
  proof
    assume "push_bit 8 (of_nat (byte a)) = (push_bit 8 (of_nat (byte b)) :: 16 word)"
    then have "unat (push_bit 8 (of_nat (byte a)) :: 16 word) = unat (push_bit 8 (of_nat (byte b)) :: 16 word)" by simp
    then show "byte a = byte b"
      using byte_lt [of a] byte_lt [of b] by (simp add: push_bit_eq_mult unat_word_ariths unat_of_nat)
  qed simp
  moreover have "c XOR p = c XOR q \<longleftrightarrow> p = q" for p q :: "16 word" by (metis xor_right_cancel xor.commute)
  ultimately show ?thesis using crc_shifts_inj [of 8] by (simp add: crc_byte_def inj_eq byte_inject)
qed

lemma foldl_crc_inj: "foldl crc_byte c s = foldl crc_byte d s \<longleftrightarrow> c = d"
  by (induction s arbitrary: c d) (simp_all add: crc_byte_inj_crc)

text \<open>Two texts that differ in one byte have different checksums.\<close>

lemma crc_one_byte: "crc16_ccitt_false (s @ a # t) = crc16_ccitt_false (s @ b # t) \<longleftrightarrow> a = b"
  by (simp add: crc16_ccitt_false_def foldl_crc_inj crc_byte_inj_byte)

lemma upper_hex_inj: "d < 16 \<Longrightarrow> e < 16 \<Longrightarrow> upper_hex_digit d = upper_hex_digit e \<Longrightarrow> d = e"
proof -
  have "distinct ''0123456789ABCDEF''" by simp
  then show "d < 16 \<Longrightarrow> e < 16 \<Longrightarrow> upper_hex_digit d = upper_hex_digit e \<Longrightarrow> d = e"
    by (simp add: upper_hex_digit_def nth_eq_iff_index_eq)
qed

lemma nibbles:
  assumes "(n :: nat) < 65536"
  shows "n = n div 4096 mod 16 * 4096 + n div 256 mod 16 * 256 + n div 16 mod 16 * 16 + n mod 16"
proof -
  have sum: "n = c * 4096 + s * 256 + r * 16 + q" if "n = a * 16 + q" "a = b * 16 + r" "b = c * 16 + s" for a b c q r s
    using that by simp
  have "n div 16 = n div 256 * 16 + n div 16 mod 16" "n div 256 = n div 4096 * 16 + n div 256 mod 16"
    using div_mult_mod_eq [of "n div 16" 16] div_mult_mod_eq [of "n div 256" 16] by (simp_all flip: div_mult2_eq)
  then have "n = n div 4096 * 4096 + n div 256 mod 16 * 256 + n div 16 mod 16 * 16 + n mod 16"
    using sum [OF div_mult_mod_eq [symmetric]] by blast
  moreover have "n div 4096 mod 16 = n div 4096" using assms by simp
  ultimately show ?thesis by simp
qed

lemma hex4_inject: "hex4 v = hex4 w \<longleftrightarrow> v = w"
proof
  assume "hex4 v = hex4 w"
  then have "unat v div 4096 mod 16 = unat w div 4096 mod 16" "unat v div 256 mod 16 = unat w div 256 mod 16"
    "unat v div 16 mod 16 = unat w div 16 mod 16" "unat v mod 16 = unat w mod 16"
    by (auto simp: hex4_def Let_def intro!: upper_hex_inj)
  moreover have "unat x < 65536" for x :: "16 word" by (rule order_less_le_trans [OF unsigned_less]) simp
  ultimately have "unat v = unat w" using nibbles [of "unat v"] nibbles [of "unat w"] by metis
  then show "v = w" by (rule unsigned_word_eqI)
qed simp

lemma hex4_length [simp]: "length (hex4 w) = 4"
  by (simp add: hex4_def Let_def)

lemma hex4_ascii: "isascii (hex4 w)"
proof -
  have "list_all (\<lambda>d. byte (upper_hex_digit d) < 128) [0..<16]" by code_simp
  then have "byte (upper_hex_digit d) < 128" if "d < 16" for d using that by (simp add: list_all_iff)
  then show ?thesis by (simp add: hex4_def Let_def isascii_def)
qed

text \<open>A text verifies exactly when it is what \<open>append_crc\<close> returns.\<close>

lemma crc_prefix_ascii: "isascii CRC_PREFIX"
  by (simp add: CRC_PREFIX_def isascii_def byte_def)

lemma chars_append_crc:
  assumes "py_str base"
  shows "chars (append_crc base) =
    chars base @ map (\<lambda>b. [b]) CRC_PREFIX @ map (\<lambda>b. [b]) (hex4 (crc16_ccitt_false (base @ CRC_PREFIX)))"
  using assms crc_prefix_ascii hex4_ascii
  by (simp add: append_crc_def Let_def py_str_ascii chars_ascii)

lemma verify_append_crc: "py_str base \<Longrightarrow> verify_crc (append_crc base)"
  by (simp add: verify_crc_def Let_def chars_append_crc CRC_PREFIX_def py_str_chars(2))

lemma verify_crcD:
  assumes "py_str p" and "verify_crc p"
  shows "\<exists>base. py_str base \<and> p = append_crc base"
proof -
  define cs n where "cs = chars p" and "n = length cs"
  have pre: "concat (take 4 (drop (n - 8) cs)) = CRC_PREFIX" and n: "8 \<le> n"
    and post: "concat (drop (n - 4) cs) = hex4 (crc16_ccitt_false (concat (take (n - 4) cs)))"
    using assms(2) by (auto simp: verify_crc_def Let_def cs_def n_def split: if_splits)
  define base where "base = concat (take (n - 8) cs)"
  have "take (n - 4) cs = take (n - 8) cs @ take 4 (drop (n - 8) cs)"
    using take_add [of "n - 8" 4 cs] n by simp
  then have "concat (take (n - 4) cs) = base @ CRC_PREFIX" using pre by (simp add: base_def)
  moreover have "p = concat (take (n - 4) cs) @ concat (drop (n - 4) cs)"
    using py_str_chars(2) [OF assms(1)] unfolding cs_def [symmetric] by (metis append_take_drop_id concat_append)
  ultimately have "p = append_crc base" using post by (simp add: append_crc_def Let_def)
  moreover have "py_str base"
    using py_str_chars(1) [OF assms(1)] unfolding base_def cs_def
    by (intro py_str_concat) (auto simp: list_all_iff dest: in_set_takeD)
  ultimately show ?thesis by blast
qed

text \<open>Changing one byte of a text with a valid checksum invalidates it.\<close>

lemma append_crc_one_byte:
  assumes "append_crc a = s @ x # t" and "append_crc b = s @ y # t"
  shows "x = y"
proof -
  define n f g where "n = length (a @ CRC_PREFIX)" and "f = a @ CRC_PREFIX" and "g = b @ CRC_PREFIX"
  have a: "f @ hex4 (crc16_ccitt_false f) = s @ x # t" and b: "g @ hex4 (crc16_ccitt_false g) = s @ y # t"
    using assms by (simp_all add: append_crc_def Let_def f_def g_def)
  have len: "length f = n" "length g = n"
    using arg_cong [OF a, of length] arg_cong [OF b, of length] by (simp_all add: f_def g_def n_def)
  have body: "f = take n (s @ x # t)" "g = take n (s @ y # t)"
    and crcs: "hex4 (crc16_ccitt_false f) = drop n (s @ x # t)" "hex4 (crc16_ccitt_false g) = drop n (s @ y # t)"
    using a b len by (metis append_eq_conv_conj)+
  show ?thesis
  proof (cases "n \<le> length s")
    case True
    then have "f = g" using body by simp
    then show ?thesis using a b by simp
  next
    case False
    then obtain k where k: "n - length s = Suc k" using Suc_diff_Suc not_le by metis
    have "f = s @ x # take k t" "g = s @ y # take k t" using body False k by simp_all
    moreover have "hex4 (crc16_ccitt_false f) = hex4 (crc16_ccitt_false g)" using crcs False k by simp
    ultimately show ?thesis using hex4_inject crc_one_byte by metis
  qed
qed

subsection \<open>Objects survive the walk\<close>

definition tlv_of :: "int \<times> string \<Rightarrow> tlv_object" where
  "tlv_of = (\<lambda>(i, v). \<lparr>tlv_object_id = i, tlv_value = v, tlv_raw = pad_dec 2 (nat i) @ pad_dec 2 (length v) @ v\<rparr>)"

lemma two_digits:
  assumes "n \<le> 99"
  shows "length (pad_dec 2 n) = 2" and "is_ascii_digits (pad_dec 2 n)"
  using pad_dec_length [of n 2] pad_dec_digits [of _ 2 n] assms by (auto simp: is_ascii_digits_def list_all_iff)

lemma encode_object_Inr:
  "encode_object i v = Inr s \<longleftrightarrow> 0 \<le> i \<and> i \<le> 99 \<and> v \<noteq> [] \<and> length v \<le> 99 \<and>
     s = pad_dec 2 (nat i) @ pad_dec 2 (length v) @ v"
  by (auto simp: encode_object_def bind_sum_Inr_iff MAX_VALUE_BYTES_def)

lemma assemble_Nil [simp]: "assemble [] = Inr []"
  by (simp add: assemble_def)

lemma assemble_Cons:
  "assemble ((i, v) # objs) = Inr s \<longleftrightarrow> (\<exists>o1 rest. encode_object i v = Inr o1 \<and> assemble objs = Inr rest \<and> s = o1 @ rest)"
  by (auto simp: assemble_def bind_sum_Inr_iff)

lemma walk_object:
  assumes "encode_object i v = Inr s" and "py_str v" and "i \<notin> set seen"
  shows "walk_from True seen (s @ rest) =
    bind_sum (walk_from True (i # seen) rest) (\<lambda>objects. Inr (tlv_of (i, v) # objects))"
proof -
  have i: "0 \<le> i" "nat i \<le> 99" and v: "v \<noteq> []" "length v \<le> 99"
    and s: "s = pad_dec 2 (nat i) @ pad_dec 2 (length v) @ v"
    using assms(1) by (auto simp: encode_object_Inr)
  note id2 = two_digits [OF i(2)] and len2 = two_digits [OF v(2)]
  have parts: "take 2 (s @ rest) = pad_dec 2 (nat i)" "take 2 (drop 2 (s @ rest)) = pad_dec 2 (length v)"
    "drop 4 (s @ rest) = v @ rest" "take (4 + length v) (s @ rest) = s" "drop (4 + length v) (s @ rest) = rest"
    "s @ rest \<noteq> []"
    using id2(1) len2(1) v(1) by (simp_all add: s)
  show ?thesis
    unfolding walk_from.simps [of True seen "s @ rest"]
    using id2 len2 i(1) v(1) assms(2,3) by (simp only: parts) (simp add: tlv_of_def s Let_def)
qed

lemma walk_assembled:
  assumes "assemble objs = Inr s" and "list_all (\<lambda>(i, v). py_str v) objs"
    and "distinct (map fst objs)" and "set (map fst objs) \<inter> set seen = {}"
  shows "walk_from True seen s = Inr (map tlv_of objs)"
  using assms
proof (induction objs arbitrary: s seen)
  case Nil
  then show ?case by (simp add: walk_from.simps)
next
  case (Cons ob objs)
  obtain i v where ob: "ob = (i, v)" by (cases ob)
  obtain o1 rest where parts: "encode_object i v = Inr o1" "assemble objs = Inr rest" "s = o1 @ rest"
    using Cons.prems(1) by (auto simp: ob assemble_Cons)
  have "walk_from True (i # seen) rest = Inr (map tlv_of objs)"
    using Cons.prems by (intro Cons.IH [OF parts(2)]) (auto simp: ob)
  then show ?case using walk_object [OF parts(1), of seen rest] Cons.prems by (simp add: ob parts(3))
qed

lemma foldl_dput_fresh:
  "distinct (map fst d @ map fst objs) \<Longrightarrow> foldl (\<lambda>d (i, v). dput i v d) d objs = d @ objs"
proof (induction objs arbitrary: d)
  case (Cons ob objs)
  have "dput k v d = d @ [(k, v)]" if "k \<notin> set (map fst d)" for k v
    using that by (induction d) auto
  then show ?case using Cons by (cases ob) auto
qed simp

lemma fields_of_objects: "distinct (map fst objs) \<Longrightarrow> fields_of (map tlv_of objs) = objs"
  using foldl_dput_fresh [of "[]" objs]
  by (simp add: fields_of_def foldl_map tlv_of_def split_beta case_prod_unfold)

lemma walk_template_assembled:
  assumes "assemble objs = Inr s" and "list_all (\<lambda>(i, v). py_str v) objs" and "distinct (map fst objs)"
  shows "walk_template s = Inr objs"
  using walk_assembled [OF assms, of "[]"] fields_of_objects [OF assms(3)] by (simp add: walk_template_def walk_def)

lemma assemble_py_str:
  assumes "assemble objs = Inr s" and "list_all (\<lambda>(i, v). py_str v) objs"
  shows "py_str s"
  using assms
proof (induction objs arbitrary: s)
  case (Cons ob objs)
  obtain i v where ob: "ob = (i, v)" by (cases ob)
  have digits: "py_str (pad_dec w n)" for w n
    by (intro py_str_ascii) (fastforce simp: isascii_def list_all_iff is_digit_def byte_def dest: pad_dec_digits)
  show ?case using Cons digits by (auto simp: ob assemble_Cons encode_object_Inr)
qed simp

subsection \<open>Amounts survive the field\<close>

lemma digits_ascii: "(\<And>c. c \<in> set s \<Longrightarrow> is_digit c) \<Longrightarrow> isascii s"
  by (fastforce simp: isascii_def list_all_iff is_digit_def byte_def)

lemma isascii_append [simp]: "isascii (s @ t) \<longleftrightarrow> isascii s \<and> isascii t"
  by (simp add: isascii_def)

lemma ascii_py_len: "isascii s \<Longrightarrow> py_len s = length s"
  by (simp add: py_len_chars py_str_ascii chars_ascii)

lemma ascii_not_bengali: "isascii s \<Longrightarrow> \<not> list_ex bengali_digit (chars s)"
  by (simp add: chars_ascii list_ex_iff bengali_digit_def)

lemma split_digits:
  assumes "list_all is_digit s" and "t = [] \<or> \<not> is_digit (hd t)"
  shows "takeWhile is_digit (s @ t) = s" and "dropWhile is_digit (s @ t) = t"
  using assms by (cases t; simp add: takeWhile_append dropWhile_append list_all_iff)+

lemma newline_not_digit: "\<not> is_digit (CHR 0x0A)" "\<not> is_digit (CHR ''.'')"
  by (simp_all add: is_digit_def)

lemma strip_newline_digit: "s \<noteq> [] \<Longrightarrow> is_digit (last s) \<Longrightarrow> strip_newline s = s"
  using newline_not_digit by (auto simp: strip_newline_def)

lemma render_amount_Inr:
  assumes "render_amount_54 (PInt n) = Inr s"
  shows "0 < n" and "length s \<le> 13" and "isascii s" and "s \<noteq> []"
    and "match_amount s = Some (dec_nat (nat (n div 100)), if n mod 100 = 0 then None else Some (pad_dec 2 (nat (n mod 100))))"
proof -
  let ?w = "dec_nat (nat (n div 100))" and ?f = "pad_dec 2 (nat (n mod 100))"
  show pos: "0 < n" and "length s \<le> 13"
    using assms by (auto simp: render_amount_54_def bind_sum_Inr_iff Let_def MAX_AMOUNT_CHARS_def)
  have s: "s = (if n mod 100 = 0 then ?w else ?w @ ''.'' @ ?f)"
    using assms pos by (auto simp: render_amount_54_def bind_sum_Inr_iff Let_def str_int_def)
  have f2: "length ?f = 2" "\<And>c. c \<in> set ?f \<Longrightarrow> is_digit c"
    using pad_dec_length [of "nat (n mod 100)" 2] pad_dec_digits by auto
  have w: "\<And>c. c \<in> set ?w \<Longrightarrow> is_digit c" by (rule dec_nat_digits)
  have lw: "list_all is_digit ?w" and lf: "list_all is_digit ?f" using w f2(2) by (simp_all add: list_all_iff)
  show "s \<noteq> []" by (simp add: s)
  show "isascii s" using digits_ascii [OF w] digits_ascii [OF f2(2)] by (simp add: s isascii_def byte_def)
  have "is_digit (last s)" using w [OF last_in_set] f2(2) [OF last_in_set] by (simp add: s)
  then have "strip_newline s = s" using \<open>s \<noteq> []\<close> by (rule strip_newline_digit [rotated])
  then show "match_amount s = Some (?w, if n mod 100 = 0 then None else Some ?f)"
    using split_digits [OF lw, of "CHR ''.'' # ?f"] split_digits [OF lw, of "[]"] f2(1) lf newline_not_digit(2)
    by (cases "n mod 100 = 0") (simp_all add: match_amount_def Let_def s del: takeWhile_eq_all_conv dropWhile_eq_Nil_conv)
qed

lemma parse_render_amount:
  assumes "render_amount_54 (PInt n) = Inr s"
  shows "parse_amount_54 s = Inr n"
proof -
  note r = render_amount_Inr [OF assms]
  have f: "ljust2 (pad_dec 2 (nat (n mod 100))) = pad_dec 2 (nat (n mod 100))"
    using pad_dec_length [of "nat (n mod 100)" 2] by (simp add: ljust2_def)
  have "int (nat (n div 100)) * 100 + (if n mod 100 = 0 then 0 else int (nat (n mod 100))) = n"
    using r(1) minus_mod_eq_div_mult [of n 100] by (auto simp: pos_imp_zdiv_nonneg_iff)
  then show ?thesis
    using r f ascii_py_len [OF r(3)] ascii_not_bengali [OF r(3)]
    by (auto simp: parse_amount_54_def MAX_AMOUNT_CHARS_def Let_def)
qed

end
