(* ===== verification/Qr_Codec.thy ===== *)
theory Qr_Codec
  imports Qr_Wire
begin

text \<open>
  The Bangla QR codec: grapheme truncation (\<^verbatim>\<open>qr/text.py\<close>), the limits and the configuration
  (\<^verbatim>\<open>qr/config.py\<close>), the encoder with its trimming and the validating decoder (\<^verbatim>\<open>qr/codec.py\<close>). The
  Unicode database (\<open>unicodedata.category\<close>, \<open>str.upper\<close>) and SHA-256 are parameters.
\<close>

record qr_env =
  qe_combining :: "string \<Rightarrow> bool"
  qe_upper :: "string \<Rightarrow> string"
  qe_sha256 :: "string \<Rightarrow> string"

subsection \<open>Truncation on grapheme boundaries\<close>

definition VIRAMA :: string where
  "VIRAMA = [CHR 0xE0, CHR 0xA7, CHR 0x8D]"

definition JOINERS :: "string list" where
  "JOINERS = [[CHR 0xE2, CHR 0x80, CHR 0x8C], [CHR 0xE2, CHR 0x80, CHR 0x8D]]"

definition starts_new_cluster :: "qr_env \<Rightarrow> string list \<Rightarrow> nat \<Rightarrow> bool" where
  "starts_new_cluster env text index \<longleftrightarrow>
     \<not> qe_combining env (text ! index) \<and> text ! index \<notin> set JOINERS \<and>
     \<not> (text ! (index - 1) = VIRAMA \<or> text ! (index - 1) \<in> set JOINERS)"

definition text_size :: "bool \<Rightarrow> string list \<Rightarrow> nat" where
  "text_size byte_budget cs = (if byte_budget then length (concat cs) else length cs)"

text \<open>The loop that moves the cut to the left.\<close>

primrec cut_from :: "qr_env \<Rightarrow> string list \<Rightarrow> int \<Rightarrow> bool \<Rightarrow> nat \<Rightarrow> string list" where
  "cut_from env cs max_units byte_budget 0 = []"
| "cut_from env cs max_units byte_budget (Suc c) =
     (let cut = Suc c in
      if (cut = length cs \<or> starts_new_cluster env cs cut) \<and> int (text_size byte_budget (take cut cs)) \<le> max_units
      then rstrip_chars (take cut cs)
      else cut_from env cs max_units byte_budget c)"

definition truncate_graphemes :: "qr_env \<Rightarrow> string \<Rightarrow> int \<Rightarrow> bool \<Rightarrow> string" where
  "truncate_graphemes env text max_units byte_budget =
     (let cs = chars text in
      if max_units \<le> 0 then []
      else if int (text_size byte_budget cs) \<le> max_units then text
      else concat (cut_from env cs max_units byte_budget (length cs)))"

subsection \<open>Limits and data\<close>

definition MAX_PAYLOAD_BYTES :: nat where
  "MAX_PAYLOAD_BYTES = 512"

definition MAX_MERCHANT_NAME_CHARS :: int where
  "MAX_MERCHANT_NAME_CHARS = 25"

definition MAX_MERCHANT_CITY_CHARS :: int where
  "MAX_MERCHANT_CITY_CHARS = 15"

definition MAX_POSTAL_CODE_CHARS :: nat where
  "MAX_POSTAL_CODE_CHARS = 10"

record qr_config =
  cfg_acquirer_id :: string
  cfg_psp_sub_id :: string
  cfg_template_root_id :: int
  cfg_scheme_guid :: string

definition BanglaQrConfig :: "qr_config \<Rightarrow> qr_error + qr_config" where
  "BanglaQrConfig c =
     bind_sum (check_sum (26 \<le> cfg_template_root_id c \<and> cfg_template_root_id c \<le> 51)
       (QrEncodeError ''template_root_id must be in 26-51'')) (\<lambda>_.
     bind_sum (check_sum (cfg_scheme_guid c \<noteq> [] \<and> cfg_acquirer_id c \<noteq> [] \<and> cfg_psp_sub_id c \<noteq> [])
       (QrEncodeError ''scheme_guid, acquirer_id and psp_sub_id are required'')) (\<lambda>_. Inr c))"

definition BDT_NUMERIC :: string where "BDT_NUMERIC = ''050''"
definition COUNTRY_BD :: string where "COUNTRY_BD = ''BD''"
definition PAYLOAD_FORMAT :: string where "PAYLOAD_FORMAT = ''01''"
definition POI_STATIC :: string where "POI_STATIC = ''11''"
definition POI_DYNAMIC :: string where "POI_DYNAMIC = ''12''"

definition RESERVED_RANGE :: "int list" where "RESERVED_RANGE = [65..79]"
definition CARD_TEMPLATE_RANGE :: "int list" where "CARD_TEMPLATE_RANGE = [2..25]"
definition MERCHANT_TEMPLATE_RANGE :: "int list" where "MERCHANT_TEMPLATE_RANGE = [26..51]"

datatype qr_type = STATIC | DYNAMIC

datatype route_class = ROUTE_BANGLA_QR | ROUTE_CARD_SCHEME

record merchant_account_info =
  ma_root_id :: int
  ma_guid :: string
  ma_acquirer_id :: string
  ma_merchant_id :: string
  ma_psp_sub_id :: "string option"

record additional_data =
  ad_bill_number :: "string option"
  ad_mobile :: "string option"
  ad_store_label :: "string option"
  ad_reference_label :: "string option"
  ad_terminal_label :: "string option"
  ad_consumer_data_request :: "string option"

record language_template =
  lt_language_preference :: string
  lt_merchant_name :: "string option"
  lt_merchant_city :: "string option"

record qr_encode_request =
  rq_qr_type :: qr_type
  rq_merchant_account :: merchant_account_info
  rq_mcc :: string
  rq_merchant_name :: string
  rq_merchant_city :: string
  rq_amount_minor :: "int option"
  rq_postal_code :: "string option"
  rq_tip_indicator :: "string option"
  rq_convenience_fee_fixed_minor :: "int option"
  rq_convenience_fee_percentage :: "string option"
  rq_additional :: "additional_data option"
  rq_language :: "language_template option"

record parsed_payload =
  pp_payload_string :: string
  pp_payload_hash :: string
  pp_qr_type :: qr_type
  pp_route_class :: route_class
  pp_mcc :: string
  pp_merchant_name :: string
  pp_merchant_city :: string
  pp_country_code :: string
  pp_currency :: string
  pp_amount_minor :: "int option"
  pp_tip_indicator :: "string option"
  pp_convenience_fee_fixed_minor :: "int option"
  pp_convenience_fee_percentage :: "string option"
  pp_postal_code :: "string option"
  pp_additional :: additional_data
  pp_language :: "language_template option"
  pp_bangla_template :: "merchant_account_info option"
  pp_card_template_ids :: "int list"

definition payload_hash_of :: "qr_env \<Rightarrow> string \<Rightarrow> qr_error + string" where
  "payload_hash_of env payload_string =
     (case sha256_canonical (qe_sha256 env) (PStr payload_string) of
        Inl e \<Rightarrow> Inl (QrCanonicalError e) | Inr digest \<Rightarrow> Inr digest)"

text \<open>\<^verbatim>\<open>^\d{4}$\<close> and \<^verbatim>\<open>^\d{2}\.\d{2}$\<close> with the bounds of the percentage.\<close>

definition mcc_matches :: "string \<Rightarrow> bool" where
  "mcc_matches s \<longleftrightarrow> length (strip_newline s) = 4 \<and> list_all is_digit (strip_newline s)"

definition pct_matches :: "string \<Rightarrow> bool" where
  "pct_matches s \<longleftrightarrow>
     (case strip_newline s of
        [a, b, dot, c, d] \<Rightarrow> is_digit a \<and> is_digit b \<and> dot = CHR ''.'' \<and> is_digit c \<and> is_digit d
      | _ \<Rightarrow> False)"

definition pct_valid :: "string \<Rightarrow> bool" where
  "pct_valid s \<longleftrightarrow> pct_matches s \<and> ''00.01'' \<le> s \<and> s \<le> ''99.99''"

abbreviation truthy :: "string option \<Rightarrow> bool" where
  "truthy x \<equiv> x \<noteq> None \<and> x \<noteq> Some []"

subsection \<open>The encoder\<close>

definition require_ascii :: "string \<Rightarrow> qr_error + string" where
  "require_ascii value = bind_sum (check_sum (isascii value) (QrEncodeError ''must be ASCII/Latin'')) (\<lambda>_. Inr value)"

definition merchant_account_template :: "merchant_account_info \<Rightarrow> qr_error + int \<times> string" where
  "merchant_account_template info =
     bind_sum (check_sum (ma_root_id info \<in> set MERCHANT_TEMPLATE_RANGE)
       (QrEncodeError ''merchant account template root ID must be 26-51'')) (\<lambda>_.
     bind_sum (assemble ([(0, ma_guid info), (1, ma_acquirer_id info), (2, ma_merchant_id info)] @
         (case ma_psp_sub_id info of None \<Rightarrow> [] | Some v \<Rightarrow> if v = [] then [] else [(3, v)]))) (\<lambda>value.
     Inr (ma_root_id info, value)))"

definition truthy_subs :: "(int \<times> string option) list \<Rightarrow> (int \<times> string) list" where
  "truthy_subs subs = concat (map (\<lambda>(i, v). if truthy v then [(i, the v)] else []) subs)"

definition additional_fields :: "additional_data \<Rightarrow> (int \<times> string option) list" where
  "additional_fields data =
     [(1, ad_bill_number data), (2, ad_mobile data), (3, ad_store_label data), (5, ad_reference_label data),
      (7, ad_terminal_label data), (9, ad_consumer_data_request data)]"

definition additional_data_template :: "additional_data \<Rightarrow> qr_error + string option" where
  "additional_data_template data =
     (let subs = truthy_subs (additional_fields data) in
      if subs = [] then Inr None else bind_sum (assemble subs) (\<lambda>value. Inr (Some value)))"

definition TEMPLATE_VALUE_BUDGET :: int where
  "TEMPLATE_VALUE_BUDGET = 99"

text \<open>One Bengali field of the language template: what is added and the bytes it uses.\<close>

definition language_sub :: "qr_env \<Rightarrow> int \<Rightarrow> string option \<Rightarrow> int \<Rightarrow> (int \<times> string) list" where
  "language_sub env sub_id field used =
     (if truthy field then
        let text = truncate_graphemes env (the field) (TEMPLATE_VALUE_BUDGET - used - 4) True in
        if text = [] then [] else [(sub_id, text)]
      else [])"

definition sub_bytes :: "(int \<times> string) list \<Rightarrow> int" where
  "sub_bytes subs = (\<Sum>(i, v) \<leftarrow> subs. 4 + int (length v))"

definition language_subs :: "qr_env \<Rightarrow> language_template \<Rightarrow> (int \<times> string) list" where
  "language_subs env language =
     (let pref = [(0, lt_language_preference language)];
          with_name = pref @ language_sub env 1 (lt_merchant_name language) (sub_bytes pref)
      in with_name @ language_sub env 2 (lt_merchant_city language) (sub_bytes with_name))"

definition encode_language_template :: "qr_env \<Rightarrow> language_template \<Rightarrow> qr_error + string option" where
  "encode_language_template env language =
     (let subs = language_subs env language in
      if length subs = 1 then Inr None else bind_sum (assemble subs) (\<lambda>value. Inr (Some value)))"

definition validate_tip_objects :: "qr_encode_request \<Rightarrow> qr_error + unit" where
  "validate_tip_objects request =
     (let tip = rq_tip_indicator request; pct = rq_convenience_fee_percentage request in
      bind_sum (check_sum (tip = None \<or> tip \<in> {Some ''01'', Some ''02'', Some ''03''}) (QrEncodeError ''tip indicator must be 01/02/03'')) (\<lambda>_.
      bind_sum (check_sum ((rq_convenience_fee_fixed_minor request \<noteq> None) = (tip = Some ''02'')) (QrEncodeError ''ID 56 requires tip indicator 02'')) (\<lambda>_.
      bind_sum (check_sum ((pct \<noteq> None) = (tip = Some ''03'')) (QrEncodeError ''ID 57 requires tip indicator 03'')) (\<lambda>_.
      check_sum (pct = None \<or> pct_valid (the pct)) (QrEncodeError ''ID 57 must be 00.01..99.99'')))))"

definition opt_object :: "int \<Rightarrow> string option \<Rightarrow> (int \<times> string) list" where
  "opt_object i v = (case v of None \<Rightarrow> [] | Some x \<Rightarrow> [(i, x)])"

definition build :: "qr_env \<Rightarrow> (int \<times> string) list \<Rightarrow> language_template option \<Rightarrow> additional_data option \<Rightarrow> qr_error + string" where
  "build env base_objects lang extra =
     bind_sum (case extra of None \<Rightarrow> Inr None | Some e \<Rightarrow> additional_data_template e) (\<lambda>v62.
     bind_sum (case lang of None \<Rightarrow> Inr None | Some l \<Rightarrow> encode_language_template env l) (\<lambda>v64.
     bind_sum (assemble (sort_key fst (base_objects @ opt_object 62 v62 @ opt_object 64 v64))) (\<lambda>body.
     Inr (append_crc body))))"

definition fits :: "string \<Rightarrow> bool" where
  "fits candidate \<longleftrightarrow> length candidate \<le> MAX_PAYLOAD_BYTES"

text \<open>The optional sub-fields in the order in which they are dropped.\<close>

definition OPTIONAL_FIELDS :: "((additional_data \<Rightarrow> string option) \<times> (additional_data \<Rightarrow> additional_data)) list" where
  "OPTIONAL_FIELDS =
     [(ad_consumer_data_request, ad_consumer_data_request_update (\<lambda>_. None)),
      (ad_mobile, ad_mobile_update (\<lambda>_. None)),
      (ad_bill_number, ad_bill_number_update (\<lambda>_. None)),
      (ad_terminal_label, ad_terminal_label_update (\<lambda>_. None)),
      (ad_store_label, ad_store_label_update (\<lambda>_. None))]"

fun drop_fields ::
    "qr_env \<Rightarrow> (int \<times> string) list \<Rightarrow> ((additional_data \<Rightarrow> string option) \<times> (additional_data \<Rightarrow> additional_data)) list \<Rightarrow>
     additional_data \<Rightarrow> qr_error + string" where
  "drop_fields env base [] additional = Inl (QrEncodeError ''payload exceeds 512 bytes even after deterministic trimming'')"
| "drop_fields env base ((field, clear) # others) additional =
     (if field additional \<noteq> None then
        bind_sum (build env base None (Some (clear additional))) (\<lambda>payload.
        if fits payload then Inr payload else drop_fields env base others (clear additional))
      else drop_fields env base others additional)"

definition trim_additional :: "qr_env \<Rightarrow> (int \<times> string) list \<Rightarrow> additional_data option \<Rightarrow> qr_error + string" where
  "trim_additional env base additional =
     (case additional of
        None \<Rightarrow> Inl (QrEncodeError ''payload exceeds 512 bytes even after deterministic trimming'')
      | Some a \<Rightarrow> drop_fields env base OPTIONAL_FIELDS a)"

definition trim_language ::
    "qr_env \<Rightarrow> (int \<times> string) list \<Rightarrow> language_template option \<Rightarrow> additional_data option \<Rightarrow> qr_error + string" where
  "trim_language env base language additional =
     (if language \<noteq> None then
        bind_sum (build env base None additional) (\<lambda>payload.
        if fits payload then Inr payload else trim_additional env base additional)
      else trim_additional env base additional)"

definition trim_name ::
    "qr_env \<Rightarrow> (int \<times> string) list \<Rightarrow> language_template option \<Rightarrow> additional_data option \<Rightarrow> string \<Rightarrow> qr_error + string" where
  "trim_name env base language additional payload =
     (case language of
        Some l \<Rightarrow>
          if truthy (lt_merchant_name l) then
            let name = the (lt_merchant_name l);
                overflow = int (length payload) - int MAX_PAYLOAD_BYTES;
                target = max (int (length name) - overflow) 0;
                trimmed = truncate_graphemes env name target True;
                l' = \<lparr>lt_language_preference = lt_language_preference l,
                      lt_merchant_name = (if trimmed = [] then None else Some trimmed), lt_merchant_city = None\<rparr> in
            bind_sum (build env base (Some l') additional) (\<lambda>payload.
            if fits payload then Inr payload else trim_language env base (Some l') additional)
          else trim_language env base language additional
      | None \<Rightarrow> trim_language env base language additional)"

definition trim_to_budget ::
    "qr_env \<Rightarrow> (int \<times> string) list \<Rightarrow> language_template option \<Rightarrow> additional_data option \<Rightarrow> qr_error + string" where
  "trim_to_budget env base language additional =
     bind_sum (build env base language additional) (\<lambda>payload.
     if fits payload then Inr payload else
     case language of
       Some l \<Rightarrow>
         if truthy (lt_merchant_city l) then
           let l' = l\<lparr>lt_merchant_city := None\<rparr> in
           bind_sum (build env base (Some l') additional) (\<lambda>payload.
           if fits payload then Inr payload else trim_name env base (Some l') additional payload)
         else trim_name env base language additional payload
     | None \<Rightarrow> trim_name env base language additional payload)"

definition opt_sum :: "('a \<Rightarrow> 'e + 'b) \<Rightarrow> 'a option \<Rightarrow> 'e + 'b option" where
  "opt_sum f x = (case x of None \<Rightarrow> Inr None | Some a \<Rightarrow> bind_sum (f a) (\<lambda>b. Inr (Some b)))"

definition postal_field :: "string option \<Rightarrow> qr_error + string option" where
  "postal_field code =
     (if truthy code then
        let postal = strip (the code) in
        bind_sum (check_sum (py_len postal \<le> MAX_POSTAL_CODE_CHARS) (QrEncodeError ''postal code exceeds 10 chars'')) (\<lambda>_.
        Inr (Some postal))
      else Inr None)"

definition encode_payload :: "qr_env \<Rightarrow> qr_encode_request \<Rightarrow> qr_error + string" where
  "encode_payload env request =
     bind_sum (check_sum (mcc_matches (rq_mcc request)) (QrEncodeError ''MCC must be 4 ASCII digits'')) (\<lambda>_.
     bind_sum (check_sum (\<not> (rq_qr_type request = STATIC \<and> rq_amount_minor request \<noteq> None))
       (QrEncodeError ''static QR must not carry an amount'')) (\<lambda>_.
     bind_sum (check_sum (\<not> (rq_qr_type request = DYNAMIC \<and> rq_amount_minor request = None))
       (QrEncodeError ''dynamic QR requires amount_minor'')) (\<lambda>_.
     bind_sum (validate_tip_objects request) (\<lambda>_.
     bind_sum (require_ascii (rq_merchant_name request)) (\<lambda>raw_name.
     let name = truncate_graphemes env (strip raw_name) MAX_MERCHANT_NAME_CHARS False;
         city = truncate_graphemes env (strip (rq_merchant_city request)) MAX_MERCHANT_CITY_CHARS False in
     bind_sum (check_sum (name \<noteq> [] \<and> city \<noteq> []) (QrEncodeError ''merchant name and city are mandatory'')) (\<lambda>_.
     bind_sum (merchant_account_template (rq_merchant_account request)) (\<lambda>account.
     bind_sum (opt_sum (\<lambda>n. render_amount_54 (PInt n)) (rq_amount_minor request)) (\<lambda>amount.
     bind_sum (opt_sum (\<lambda>n. render_amount_54 (PInt n)) (rq_convenience_fee_fixed_minor request)) (\<lambda>fee.
     bind_sum (postal_field (rq_postal_code request)) (\<lambda>postal.
     trim_to_budget env
       ([(0, PAYLOAD_FORMAT), (1, if rq_qr_type request = STATIC then POI_STATIC else POI_DYNAMIC), account,
         (52, rq_mcc request), (53, BDT_NUMERIC), (58, COUNTRY_BD), (59, name), (60, city)] @
        opt_object 54 amount @ opt_object 55 (rq_tip_indicator request) @ opt_object 56 fee @
        opt_object 57 (rq_convenience_fee_percentage request) @ opt_object 61 postal)
       (rq_language request) (rq_additional request)))))))))))"

subsection \<open>The decoder\<close>

definition check_crc_object :: "string \<Rightarrow> tlv_object list \<Rightarrow> qr_error + unit" where
  "check_crc_object payload objects =
     (let lst = last objects in
      bind_sum (check_sum (tlv_object_id lst = 63 \<and> py_len (tlv_value lst) = 4) (QrValidationError ''qr_invalid_crc'')) (\<lambda>_.
      check_sum (verify_crc payload) (QrValidationError ''qr_invalid_crc'')))"

definition parse_tip :: "(int, string) dict \<Rightarrow> qr_error + string option \<times> int option \<times> string option" where
  "parse_tip flds =
     (let tip = dget flds 55; fee_fixed = dget flds 56; fee_pct = dget flds 57 in
      bind_sum (check_sum (tip = None \<or> tip \<in> {Some ''01'', Some ''02'', Some ''03''}) (QrValidationError ''qr_validation_failed'')) (\<lambda>_.
      bind_sum (check_sum ((fee_fixed \<noteq> None) = (tip = Some ''02'')) (QrValidationError ''qr_validation_failed'')) (\<lambda>_.
      bind_sum (check_sum ((fee_pct \<noteq> None) = (tip = Some ''03'')) (QrValidationError ''qr_validation_failed'')) (\<lambda>_.
      bind_sum (opt_sum parse_amount_54 fee_fixed) (\<lambda>fee_fixed_minor.
      bind_sum (check_sum (fee_pct = None \<or> pct_valid (the fee_pct)) (QrValidationError ''qr_validation_failed'')) (\<lambda>_.
      Inr (tip, fee_fixed_minor, fee_pct)))))))"

text \<open>The loop over the merchant account templates: the first one that carries the scheme's GUID.\<close>

fun find_bangla :: "qr_env \<Rightarrow> (int, string) dict \<Rightarrow> qr_config \<Rightarrow> int list \<Rightarrow> qr_error + merchant_account_info option" where
  "find_bangla env flds config [] = Inr None"
| "find_bangla env flds config (root_id # roots) =
     (case dget flds root_id of
        None \<Rightarrow> find_bangla env flds config roots
      | Some value \<Rightarrow>
          (case walk_template value of
             Inl _ \<Rightarrow> find_bangla env flds config roots
           | Inr subs \<Rightarrow>
               (case dget subs 0 of
                  None \<Rightarrow> find_bangla env flds config roots
                | Some guid \<Rightarrow>
                    if qe_upper env guid \<noteq> qe_upper env (cfg_scheme_guid config) then find_bangla env flds config roots
                    else if \<not> truthy (dget subs 1) \<or> \<not> truthy (dget subs 2) then Inl (QrValidationError ''qr_validation_failed'')
                    else Inr (Some \<lparr>ma_root_id = root_id, ma_guid = guid, ma_acquirer_id = the (dget subs 1),
                      ma_merchant_id = the (dget subs 2), ma_psp_sub_id = dget subs 3\<rparr>))))"

definition resolve_templates ::
    "qr_env \<Rightarrow> (int, string) dict \<Rightarrow> qr_config \<Rightarrow> qr_error + route_class \<times> merchant_account_info option \<times> int list" where
  "resolve_templates env flds config =
     (let card_ids = filter (\<lambda>i. dget flds i \<noteq> None) CARD_TEMPLATE_RANGE in
      bind_sum (find_bangla env flds config MERCHANT_TEMPLATE_RANGE) (\<lambda>bangla.
      if bangla \<noteq> None then Inr (ROUTE_BANGLA_QR, bangla, card_ids)
      else if card_ids \<noteq> [] then Inr (ROUTE_CARD_SCHEME, None, card_ids)
      else Inl (QrValidationError ''qr_no_routable_template'')))"

definition NO_ADDITIONAL :: additional_data where
  "NO_ADDITIONAL = \<lparr>ad_bill_number = None, ad_mobile = None, ad_store_label = None, ad_reference_label = None,
     ad_terminal_label = None, ad_consumer_data_request = None\<rparr>"

definition parse_additional :: "(int, string) dict \<Rightarrow> qr_error + additional_data" where
  "parse_additional flds =
     (case dget flds 62 of
        None \<Rightarrow> Inr NO_ADDITIONAL
      | Some value \<Rightarrow> bind_sum (walk_template value) (\<lambda>subs.
          Inr \<lparr>ad_bill_number = dget subs 1, ad_mobile = dget subs 2, ad_store_label = dget subs 3,
               ad_reference_label = dget subs 5, ad_terminal_label = dget subs 7,
               ad_consumer_data_request = dget subs 9\<rparr>))"

definition parse_language :: "(int, string) dict \<Rightarrow> qr_error + language_template option" where
  "parse_language flds =
     (case dget flds 64 of
        None \<Rightarrow> Inr None
      | Some value \<Rightarrow> bind_sum (walk_template value) (\<lambda>subs.
          case dget subs 0 of
            None \<Rightarrow> Inl (QrValidationError ''qr_validation_failed'')
          | Some pref \<Rightarrow> Inr (Some \<lparr>lt_language_preference = pref, lt_merchant_name = dget subs 1,
              lt_merchant_city = dget subs 2\<rparr>)))"

text \<open>The amount of a static or dynamic code.\<close>

definition parse_poi :: "string option \<Rightarrow> (int, string) dict \<Rightarrow> qr_error + int option \<times> qr_type" where
  "parse_poi poi flds =
     (if poi = Some POI_STATIC then
        bind_sum (check_sum (dget flds 54 = None) (QrValidationError ''qr_static_with_amount'')) (\<lambda>_. Inr (None, STATIC))
      else
        (case dget flds 54 of
           None \<Rightarrow> Inl (QrValidationError ''qr_validation_failed'')
         | Some text \<Rightarrow> bind_sum (parse_amount_54 text) (\<lambda>n. Inr (Some n, DYNAMIC))))"

definition parse_and_validate :: "qr_env \<Rightarrow> string \<Rightarrow> qr_config \<Rightarrow> qr_error + parsed_payload" where
  "parse_and_validate env payload config =
     bind_sum (check_sum (payload \<noteq> []) (QrValidationError ''qr_malformed_tlv'')) (\<lambda>_.
     bind_sum (walk payload True) (\<lambda>objects.
     bind_sum (check_sum (\<not> list_ex (\<lambda>obj. tlv_object_id obj \<in> set RESERVED_RANGE) objects) (QrValidationError ''qr_reserved_id'')) (\<lambda>_.
     bind_sum (check_crc_object payload objects) (\<lambda>_.
     let flds = fields_of objects; poi = dget flds 1; mcc = dget flds 52; currency = dget flds 53;
         country = dget flds 58; merchant_name = dget flds 59; merchant_city = dget flds 60 in
     bind_sum (check_sum (dget flds 0 = Some PAYLOAD_FORMAT) (QrValidationError ''qr_unsupported_version'')) (\<lambda>_.
     bind_sum (check_sum (poi = Some POI_STATIC \<or> poi = Some POI_DYNAMIC) (QrValidationError ''qr_validation_failed'')) (\<lambda>_.
     bind_sum (check_sum (mcc \<noteq> None \<and> mcc_matches (the mcc)) (QrValidationError ''qr_validation_failed'')) (\<lambda>_.
     bind_sum (check_sum (currency \<noteq> None) (QrValidationError ''qr_validation_failed'')) (\<lambda>_.
     bind_sum (check_sum (currency = Some BDT_NUMERIC) (QrValidationError ''qr_wrong_currency'')) (\<lambda>_.
     bind_sum (check_sum (country \<noteq> None) (QrValidationError ''qr_validation_failed'')) (\<lambda>_.
     bind_sum (check_sum (country = Some COUNTRY_BD) (QrValidationError ''qr_wrong_country'')) (\<lambda>_.
     bind_sum (check_sum (truthy merchant_name \<and> truthy merchant_city) (QrValidationError ''qr_validation_failed'')) (\<lambda>_.
     bind_sum (parse_poi poi flds) (\<lambda>(amount_minor, qr_type).
     bind_sum (parse_tip flds) (\<lambda>(tip, fee_fixed_minor, fee_pct).
     bind_sum (resolve_templates env flds config) (\<lambda>(route_class, bangla, card_ids).
     bind_sum (payload_hash_of env payload) (\<lambda>payload_hash.
     bind_sum (parse_additional flds) (\<lambda>additional.
     bind_sum (parse_language flds) (\<lambda>language.
     Inr \<lparr>pp_payload_string = payload, pp_payload_hash = payload_hash, pp_qr_type = qr_type, pp_route_class = route_class,
          pp_mcc = the mcc, pp_merchant_name = the merchant_name, pp_merchant_city = the merchant_city,
          pp_country_code = the country, pp_currency = the currency, pp_amount_minor = amount_minor,
          pp_tip_indicator = tip, pp_convenience_fee_fixed_minor = fee_fixed_minor,
          pp_convenience_fee_percentage = fee_pct, pp_postal_code = dget flds 61, pp_additional = additional,
          pp_language = language, pp_bangla_template = bangla, pp_card_template_ids = card_ids\<rparr>))))))))))))))))))"

end
