(* ===== verification/Qr_Roundtrip.thy ===== *)
theory Qr_Roundtrip
  imports Qr_Codec
begin

text \<open>
  The encoder and the decoder agree: what \<open>encode_payload\<close> returns is accepted by
  \<open>parse_and_validate\<close> and carries the fields of the request; trimming keeps the budget and drops only
  what it may; a payload with one changed byte is refused.
\<close>

subsection \<open>Texts stay texts\<close>

lemma cut_from_chars: "set (cut_from env cs m b n) \<subseteq> set cs"
proof (induction n)
  case (Suc n)
  have "set (rstrip_chars xs) \<subseteq> set xs" for xs by (auto simp: rstrip_chars_def dest!: set_dropWhileD)
  then show ?case using Suc by (auto simp: Let_def dest: in_set_takeD)
qed simp

lemma truncate_py_str:
  assumes "py_str s"
  shows "py_str (truncate_graphemes env s m b)"
proof -
  have "list_all utf8_char (cut_from env (chars s) m b (length (chars s)))"
    using cut_from_chars [of env "chars s" m b "length (chars s)"] py_str_chars(1) [OF assms] by (auto simp: list_all_iff)
  then show ?thesis using assms by (auto simp: truncate_graphemes_def Let_def)
qed

definition opt_text :: "string option \<Rightarrow> bool" where
  "opt_text v \<longleftrightarrow> (case v of None \<Rightarrow> True | Some s \<Rightarrow> py_str s)"

definition objects_text :: "(int \<times> string) list \<Rightarrow> bool" where
  "objects_text objs \<longleftrightarrow> list_all (\<lambda>(i, v). py_str v) objs"

definition additional_text :: "additional_data \<Rightarrow> bool" where
  "additional_text d \<longleftrightarrow> list_all (\<lambda>(i, v). opt_text v) (additional_fields d)"

definition language_text :: "language_template \<Rightarrow> bool" where
  "language_text l \<longleftrightarrow> py_str (lt_language_preference l) \<and> opt_text (lt_merchant_name l) \<and> opt_text (lt_merchant_city l)"

lemma objects_text_simps [simp]:
  "objects_text []" "objects_text ((i, v) # objs) \<longleftrightarrow> py_str v \<and> objects_text objs"
  "objects_text (xs @ ys) \<longleftrightarrow> objects_text xs \<and> objects_text ys"
  "objects_text (opt_object i w) \<longleftrightarrow> opt_text w"
  by (auto simp: objects_text_def opt_object_def opt_text_def split: option.splits)

lemma opt_text_simps [simp]: "opt_text None" "opt_text (Some s) \<longleftrightarrow> py_str s"
  by (simp_all add: opt_text_def)

subsection \<open>The templates inside the payload\<close>

definition norm :: "string option \<Rightarrow> string option" where
  "norm v = (if truthy v then v else None)"

definition norm_additional :: "additional_data \<Rightarrow> additional_data" where
  "norm_additional d = \<lparr>ad_bill_number = norm (ad_bill_number d), ad_mobile = norm (ad_mobile d),
     ad_store_label = norm (ad_store_label d), ad_reference_label = norm (ad_reference_label d),
     ad_terminal_label = norm (ad_terminal_label d), ad_consumer_data_request = norm (ad_consumer_data_request d)\<rparr>"

lemma truthy_subs_Cons:
  "truthy_subs [] = []"
  "truthy_subs ((j, v) # subs) = (if truthy v then [(j, the v)] else []) @ truthy_subs subs"
  by (simp_all add: truthy_subs_def)

lemma truthy_subs_keys_subset: "set (map fst (truthy_subs subs)) \<subseteq> set (map fst subs)"
proof (induction subs)
  case (Cons sub subs)
  then show ?case by (cases sub) (auto simp: truthy_subs_Cons)
qed (simp add: truthy_subs_Cons)

lemma truthy_subs_keys: "distinct (map fst subs) \<Longrightarrow> distinct (map fst (truthy_subs subs))"
proof (induction subs)
  case (Cons sub subs)
  then show ?case using truthy_subs_keys_subset [of subs] by (cases sub) (auto simp: truthy_subs_Cons)
qed (simp add: truthy_subs_Cons)

lemma map_of_truthy_subs:
  "distinct (map fst subs) \<Longrightarrow> map_of (truthy_subs subs) i = Option.bind (map_of subs i) norm"
proof (induction subs)
  case (Cons sub subs)
  obtain j v where sub: "sub = (j, v)" by (cases sub)
  have "j \<notin> set (map fst subs)" using Cons.prems sub by simp
  then have "map_of (truthy_subs subs) j = None" using truthy_subs_keys_subset [of subs] by (auto simp: map_of_eq_None_iff)
  then show ?case using Cons by (auto simp: sub norm_def truthy_subs_Cons)
qed (simp add: truthy_subs_Cons)

lemma truthy_subs_text: "list_all (\<lambda>(i, v). opt_text v) subs \<Longrightarrow> objects_text (truthy_subs subs)"
proof (induction subs)
  case (Cons sub subs)
  then show ?case by (cases sub) (auto simp: truthy_subs_Cons)
qed (simp add: truthy_subs_Cons)

lemma additional_roundtrip:
  assumes "additional_data_template d = Inr v" and "additional_text d"
  shows "opt_text v \<and> (dget flds 62 = v \<longrightarrow> parse_additional flds = Inr (norm_additional d))"
proof -
  let ?subs = "truthy_subs (additional_fields d)"
  have dist: "distinct (map fst (additional_fields d))" by (simp add: additional_fields_def)
  note keys = truthy_subs_keys [OF dist]
  have texts: "objects_text ?subs" using assms(2) by (simp add: additional_text_def truthy_subs_text)
  have lookups: "map_of ?subs 1 = norm (ad_bill_number d)" "map_of ?subs 2 = norm (ad_mobile d)"
    "map_of ?subs 3 = norm (ad_store_label d)" "map_of ?subs 5 = norm (ad_reference_label d)"
    "map_of ?subs 7 = norm (ad_terminal_label d)" "map_of ?subs 9 = norm (ad_consumer_data_request d)"
    unfolding map_of_truthy_subs [OF dist] by (simp_all add: additional_fields_def)
  consider (empty) "?subs = []" "v = None" | (some) s where "assemble ?subs = Inr s" "v = Some s"
    using assms(1) by (auto simp: additional_data_template_def Let_def bind_sum_Inr_iff split: if_splits)
  then show ?thesis
  proof cases
    case empty
    then show ?thesis using lookups by (simp add: parse_additional_def norm_additional_def NO_ADDITIONAL_def)
  next
    case some
    have "walk_template s = Inr ?subs"
      using walk_template_assembled [OF some(1)] texts keys by (simp add: objects_text_def)
    moreover have "py_str s" using assemble_py_str [OF some(1)] texts by (simp add: objects_text_def)
    ultimately show ?thesis using lookups some(2) by (simp add: parse_additional_def norm_additional_def)
  qed
qed

text \<open>The language template that a payload carries.\<close>

definition carried_language :: "qr_env \<Rightarrow> language_template \<Rightarrow> language_template option" where
  "carried_language env l =
     (let subs = language_subs env l in
      if length subs = 1 then None
      else Some \<lparr>lt_language_preference = lt_language_preference l, lt_merchant_name = map_of subs 1,
        lt_merchant_city = map_of subs 2\<rparr>)"

lemma language_sub_cases:
  "language_sub env i field used = [] \<or>
   (\<exists>text. truthy field \<and> text = truncate_graphemes env (the field) (TEMPLATE_VALUE_BUDGET - used - 4) True \<and>
      language_sub env i field used = [(i, text)])"
  by (auto simp: language_sub_def Let_def)

lemma language_subs_facts:
  shows "distinct (map fst (language_subs env l))" and "map_of (language_subs env l) 0 = Some (lt_language_preference l)"
    and "language_text l \<Longrightarrow> objects_text (language_subs env l)"
proof -
  let ?p = "[(0 :: int, lt_language_preference l)]"
  let ?n = "language_sub env 1 (lt_merchant_name l) (sub_bytes ?p)"
  let ?c = "language_sub env 2 (lt_merchant_city l) (sub_bytes (?p @ ?n))"
  have subs: "language_subs env l = ?p @ ?n @ ?c" by (simp add: language_subs_def Let_def)
  have keys: "map fst (language_sub env i f u) = [] \<or> map fst (language_sub env i f u) = [i]" for i f u
    using language_sub_cases [of env i f u] by auto
  show "distinct (map fst (language_subs env l))"
    unfolding subs map_append using keys [of 1 "lt_merchant_name l" "sub_bytes ?p"]
      keys [of 2 "lt_merchant_city l" "sub_bytes (?p @ ?n)"] by auto
  show "map_of (language_subs env l) 0 = Some (lt_language_preference l)" by (simp add: subs)
  have "objects_text (language_sub env i f u)" if "opt_text f" for i f u
    using language_sub_cases [of env i f u] that truncate_py_str by (cases f) auto
  then show "language_text l \<Longrightarrow> objects_text (language_subs env l)"
    unfolding subs language_text_def by simp
qed

lemma language_roundtrip:
  assumes "encode_language_template env l = Inr v" and "language_text l"
  shows "opt_text v \<and> (dget flds 64 = v \<longrightarrow> parse_language flds = Inr (carried_language env l))"
proof -
  let ?subs = "language_subs env l"
  note facts = language_subs_facts [where env = env and l = l]
  consider (none) "length ?subs = 1" "v = None" | (some) s where "length ?subs \<noteq> 1" "assemble ?subs = Inr s" "v = Some s"
    using assms(1) by (auto simp: encode_language_template_def Let_def bind_sum_Inr_iff split: if_splits)
  then show ?thesis
  proof cases
    case none
    then show ?thesis by (simp add: parse_language_def carried_language_def Let_def)
  next
    case some
    have texts: "list_all (\<lambda>(i, v). py_str v) ?subs" using facts(3) [OF assms(2)] by (simp add: objects_text_def)
    have "walk_template s = Inr ?subs" using walk_template_assembled [OF some(2) texts facts(1)] .
    then show ?thesis
      using some facts(2) assemble_py_str [OF some(2) texts] by (simp add: parse_language_def carried_language_def Let_def)
  qed
qed

subsection \<open>One built payload\<close>

definition base_ok :: "(int \<times> string) list \<Rightarrow> bool" where
  "base_ok base \<longleftrightarrow> distinct (map fst base) \<and> objects_text base \<and> (\<forall>i \<in> set (map fst base). 0 \<le> i \<and> i \<le> 61)"

lemma crc_object: "encode_object 63 (hex4 w) = Inr (CRC_PREFIX @ hex4 w)"
proof -
  have "pad_dec 2 63 = ''63''" "pad_dec 2 4 = ''04''" by code_simp+
  moreover have "hex4 w \<noteq> []" using hex4_length [of w] by (metis length_0_conv zero_neq_numeral)
  ultimately show ?thesis by (simp add: encode_object_Inr CRC_PREFIX_def)
qed

lemma assemble_snoc:
  assumes "assemble objs = Inr s" and "encode_object i v = Inr t"
  shows "assemble (objs @ [(i, v)]) = Inr (s @ t)"
  using assms
proof (induction objs arbitrary: s)
  case (Cons ob objs)
  then show ?case by (cases ob) (auto simp: assemble_Cons)
qed (auto simp: assemble_Cons)

lemma sort_key_map_of:
  assumes "distinct (map fst xs)"
  shows "map_of (sort_key fst xs) = map_of xs" and "distinct (map fst (sort_key fst xs))"
proof -
  show dist: "distinct (map fst (sort_key fst xs))"
  proof (rule card_distinct)
    have "card (set (map fst (sort_key fst xs))) = card (set (map fst xs))" by simp
    then show "card (set (map fst (sort_key fst xs))) = length (map fst (sort_key fst xs))"
      using distinct_card [OF assms] by simp
  qed
  show "map_of (sort_key fst xs) = map_of xs"
    using map_of_inject_set [OF dist assms] by simp
qed

lemma built_payload:
  assumes built: "build env base lang extra = Inr p" and base: "base_ok base"
    and "\<And>l. lang = Some l \<Longrightarrow> language_text l" and "\<And>d. extra = Some d \<Longrightarrow> additional_text d"
  obtains body objs where "p = append_crc body" and "py_str body" and "walk p True = Inr objs"
    and "objs \<noteq> []" and "tlv_object_id (last objs) = 63" and "py_len (tlv_value (last objs)) = 4"
    and "\<And>ob. ob \<in> set objs \<Longrightarrow> tlv_object_id ob \<le> 64"
    and "\<And>k. k \<le> 61 \<Longrightarrow> dget (fields_of objs) k = map_of base k"
    and "parse_additional (fields_of objs) = Inr (case extra of None \<Rightarrow> NO_ADDITIONAL | Some d \<Rightarrow> norm_additional d)"
    and "parse_language (fields_of objs) = Inr (Option.bind lang (carried_language env))"
proof -
  obtain v62 v64 body where v62: "(case extra of None \<Rightarrow> Inr None | Some e \<Rightarrow> additional_data_template e) = Inr v62"
    and v64: "(case lang of None \<Rightarrow> Inr None | Some l \<Rightarrow> encode_language_template env l) = Inr v64"
    and body: "assemble (sort_key fst (base @ opt_object 62 v62 @ opt_object 64 v64)) = Inr body"
    and p: "p = append_crc body"
    using built by (auto simp: build_def bind_sum_Inr_iff)
  let ?all = "base @ opt_object 62 v62 @ opt_object 64 v64"
  define crc where "crc = hex4 (crc16_ccitt_false (body @ CRC_PREFIX))"
  let ?objs = "sort_key fst ?all @ [(63, crc)]"
  have ids: "fst ` set base \<subseteq> {0..61}" using base by (auto simp: base_ok_def)
  have opt_keys: "fst ` set (opt_object i w) \<subseteq> {i}" "distinct (map fst (opt_object i w))" for i w
    by (auto simp: opt_object_def split: option.splits)
  have dist: "distinct (map fst ?all)"
    using base ids opt_keys [of 62 v62] opt_keys [of 64 v64] by (fastforce simp: base_ok_def)
  have keys: "fst ` set ?all \<subseteq> {0..61} \<union> {62, 64}"
    using ids opt_keys(1) [of 62 v62] opt_keys(1) [of 64 v64] by auto
  have add: "opt_text v62" "dget flds 62 = v62 \<Longrightarrow>
      parse_additional flds = Inr (case extra of None \<Rightarrow> NO_ADDITIONAL | Some d \<Rightarrow> norm_additional d)" for flds
    using v62 additional_roundtrip assms(4) by (cases extra; force simp: parse_additional_def)+
  have lng: "opt_text v64" "dget flds 64 = v64 \<Longrightarrow> parse_language flds = Inr (Option.bind lang (carried_language env))" for flds
    using v64 language_roundtrip assms(3) by (cases lang; force simp: parse_language_def)+
  have texts: "list_all (\<lambda>(i, v). py_str v) (sort_key fst ?all)"
    using base add(1) lng(1) by (auto simp: base_ok_def objects_text_def list_all_iff opt_object_def split: option.splits)
  have str: "py_str body" using assemble_py_str [OF body texts] .
  have "p = body @ (CRC_PREFIX @ crc)" by (simp add: p append_crc_def Let_def crc_def)
  then have whole: "assemble ?objs = Inr p" using assemble_snoc [OF body crc_object] by (simp add: crc_def)
  have "63 \<notin> fst ` set ?all" using keys by auto
  then have dist': "distinct (map fst ?objs)" using sort_key_map_of(2) [OF dist] by simp
  have "list_all (\<lambda>(i, v). py_str v) ?objs" using texts hex4_ascii by (simp add: crc_def py_str_ascii)
  then have walked: "walk p True = Inr (map tlv_of ?objs)"
    using walk_assembled [OF whole _ dist', of "[]"] by (simp add: walk_def)
  have "fields_of (map tlv_of ?objs) = ?objs" using fields_of_objects [OF dist'] .
  then have fields_eq: "k \<noteq> 63 \<Longrightarrow> dget (fields_of (map tlv_of ?objs)) k = map_of ?all k" for k
    using sort_key_map_of(1) [OF dist] by (simp add: map_add_def split: option.splits)
  have opt_get: "map_of (opt_object i w) k = (if k = i then w else None)" for i w k
    by (auto simp: opt_object_def split: option.splits)
  have none: "map_of base 62 = None" "map_of base 64 = None" unfolding map_of_eq_None_iff using ids by auto
  have lk: "map_of ?all 62 = v62" "map_of ?all 64 = v64" "k \<le> 61 \<Longrightarrow> map_of ?all k = map_of base k" for k
    using none by (auto simp: map_add_def opt_get split: option.splits)
  show ?thesis
  proof (rule that [OF p str walked])
    show "map tlv_of ?objs \<noteq> []" "tlv_object_id (last (map tlv_of ?objs)) = 63"
      "py_len (tlv_value (last (map tlv_of ?objs))) = 4"
      using ascii_py_len [OF hex4_ascii] by (simp_all add: tlv_of_def crc_def)
    show "tlv_object_id ob \<le> 64" if "ob \<in> set (map tlv_of ?objs)" for ob
      using that keys by (fastforce simp: tlv_of_def split: prod.splits)
    show "k \<le> 61 \<Longrightarrow> dget (fields_of (map tlv_of ?objs)) k = map_of base k" for k
      using fields_eq [of k] lk(3) [of k] by simp
    show "parse_additional (fields_of (map tlv_of ?objs)) = Inr (case extra of None \<Rightarrow> NO_ADDITIONAL | Some d \<Rightarrow> norm_additional d)"
      by (rule add(2)) (use fields_eq [of 62] lk(1) in simp)
    show "parse_language (fields_of (map tlv_of ?objs)) = Inr (Option.bind lang (carried_language env))"
      by (rule lng(2)) (use fields_eq [of 64] lk(2) in simp)
  qed
qed

subsection \<open>The decoder accepts a built payload\<close>

lemma find_bangla_single:
  assumes "\<And>i. i \<in> set roots \<Longrightarrow> i \<noteq> r \<Longrightarrow> dget flds i = None" and "r \<in> set roots"
    and "dget flds r = Some value" and "walk_template value = Inr subs" and "dget subs 0 = Some guid"
    and "qe_upper env guid = qe_upper env (cfg_scheme_guid config)" and "truthy (dget subs 1)" and "truthy (dget subs 2)"
  shows "find_bangla env flds config roots = Inr (Some \<lparr>ma_root_id = r, ma_guid = guid, ma_acquirer_id = the (dget subs 1),
    ma_merchant_id = the (dget subs 2), ma_psp_sub_id = dget subs 3\<rparr>)"
  using assms(1,2)
proof (induction roots)
  case (Cons i roots)
  show ?case
  proof (cases "i = r")
    case True
    then show ?thesis using assms(3-8) by simp
  next
    case False
    then have "dget flds i = None" using Cons.prems(1) by simp
    then show ?thesis using Cons False by simp
  qed
qed simp

definition account_text :: "merchant_account_info \<Rightarrow> bool" where
  "account_text info \<longleftrightarrow> py_str (ma_guid info) \<and> py_str (ma_acquirer_id info) \<and> py_str (ma_merchant_id info) \<and>
     opt_text (ma_psp_sub_id info)"

definition norm_account :: "merchant_account_info \<Rightarrow> merchant_account_info" where
  "norm_account info = info\<lparr>ma_psp_sub_id := norm (ma_psp_sub_id info)\<rparr>"

lemma account_roundtrip:
  assumes "merchant_account_template info = Inr account" and "account_text info"
  obtains tmpl where "account = (ma_root_id info, tmpl)" and "26 \<le> ma_root_id info" and "ma_root_id info \<le> 51"
    and "py_str tmpl"
    and "\<And>env flds config. dget flds (ma_root_id info) = Some tmpl \<Longrightarrow>
      (\<And>i. 26 \<le> i \<Longrightarrow> i \<le> 51 \<Longrightarrow> i \<noteq> ma_root_id info \<Longrightarrow> dget flds i = None) \<Longrightarrow>
      qe_upper env (ma_guid info) = qe_upper env (cfg_scheme_guid config) \<Longrightarrow>
      find_bangla env flds config MERCHANT_TEMPLATE_RANGE = Inr (Some (norm_account info))"
proof -
  let ?subs = "[(0 :: int, ma_guid info), (1, ma_acquirer_id info), (2, ma_merchant_id info)] @
    (case ma_psp_sub_id info of None \<Rightarrow> [] | Some v \<Rightarrow> if v = [] then [] else [(3, v)])"
  obtain tmpl where tmpl: "assemble ?subs = Inr tmpl" "account = (ma_root_id info, tmpl)"
    and root: "ma_root_id info \<in> set MERCHANT_TEMPLATE_RANGE"
    using assms(1) by (auto simp: merchant_account_template_def bind_sum_Inr_iff)
  have range: "26 \<le> ma_root_id info" "ma_root_id info \<le> 51" using root by (auto simp: MERCHANT_TEMPLATE_RANGE_def)
  have texts: "list_all (\<lambda>(i, v). py_str v) ?subs"
    using assms(2) by (auto simp: account_text_def split: option.splits)
  have dist: "distinct (map fst ?subs)" by (auto split: option.splits)
  have nonempty: "ma_acquirer_id info \<noteq> []" "ma_merchant_id info \<noteq> []"
    using tmpl(1) by (auto simp: assemble_Cons encode_object_Inr)
  have walked: "walk_template tmpl = Inr ?subs" by (rule walk_template_assembled [OF tmpl(1) texts dist])
  have "find_bangla env flds config MERCHANT_TEMPLATE_RANGE = Inr (Some (norm_account info))"
    if "dget flds (ma_root_id info) = Some tmpl" "\<And>i. 26 \<le> i \<Longrightarrow> i \<le> 51 \<Longrightarrow> i \<noteq> ma_root_id info \<Longrightarrow> dget flds i = None"
      "qe_upper env (ma_guid info) = qe_upper env (cfg_scheme_guid config)" for env :: qr_env and flds config
  proof -
    have "find_bangla env flds config MERCHANT_TEMPLATE_RANGE = Inr (Some \<lparr>ma_root_id = ma_root_id info, ma_guid = ma_guid info,
        ma_acquirer_id = the (dget ?subs 1), ma_merchant_id = the (dget ?subs 2), ma_psp_sub_id = dget ?subs 3\<rparr>)"
      using that nonempty
      by (intro find_bangla_single [OF _ root _ walked]) (auto simp: MERCHANT_TEMPLATE_RANGE_def)
    then show ?thesis by (auto simp: norm_account_def norm_def split: option.splits)
  qed
  then show ?thesis using that [OF tmpl(2) range] assemble_py_str [OF tmpl(1) texts] by blast
qed

subsection \<open>What trimming may drop\<close>

definition dropped :: "string option \<Rightarrow> string option \<Rightarrow> bool" where
  "dropped v w \<longleftrightarrow> w = v \<or> w = None"

definition kept :: "additional_data \<Rightarrow> additional_data \<Rightarrow> bool" where
  "kept a a' \<longleftrightarrow> ad_reference_label a' = ad_reference_label a \<and>
     dropped (ad_bill_number a) (ad_bill_number a') \<and> dropped (ad_mobile a) (ad_mobile a') \<and>
     dropped (ad_store_label a) (ad_store_label a') \<and> dropped (ad_terminal_label a) (ad_terminal_label a') \<and>
     dropped (ad_consumer_data_request a) (ad_consumer_data_request a')"

lemma dropped_simps [simp]: "dropped v v" "dropped v None"
  by (simp_all add: dropped_def)

lemma dropped_trans: "dropped u v \<Longrightarrow> dropped v w \<Longrightarrow> dropped u w"
  by (auto simp: dropped_def)

lemma dropped_text: "dropped v w \<Longrightarrow> opt_text v \<Longrightarrow> opt_text w"
  by (auto simp: dropped_def)

lemma kept_refl [simp]: "kept a a"
  by (simp add: kept_def)

lemma kept_trans: "kept a b \<Longrightarrow> kept b c \<Longrightarrow> kept a c"
  unfolding kept_def by (intro conjI) (simp, (blast intro: dropped_trans)+)

lemma kept_text: "kept a a' \<Longrightarrow> additional_text a \<Longrightarrow> additional_text a'"
  unfolding kept_def additional_text_def additional_fields_def list.pred_inject split_conv
  by (metis dropped_text)

lemma optional_fields_kept: "(f, c) \<in> set OPTIONAL_FIELDS \<Longrightarrow> kept x (c x)"
  by (auto simp: OPTIONAL_FIELDS_def kept_def)

lemma drop_fields_built:
  assumes "drop_fields env base flds a = Inr p" and "\<And>f c x. (f, c) \<in> set flds \<Longrightarrow> kept x (c x)"
  shows "\<exists>a'. build env base None (Some a') = Inr p \<and> fits p \<and> kept a a'"
  using assms
proof (induction flds arbitrary: a)
  case (Cons fc flds)
  obtain f c where fc: "fc = (f, c)" by (cases fc)
  have step: "kept x (c x)" for x using Cons.prems(2) [of f c] fc by simp
  show ?case
  proof (cases "f a = None")
    case True
    then show ?thesis using Cons.IH [of a] Cons.prems fc by auto
  next
    case False
    then obtain q where q: "build env base None (Some (c a)) = Inr q"
      "(if fits q then Inr q else drop_fields env base flds (c a)) = Inr p"
      using Cons.prems(1) fc by (auto simp: bind_sum_Inr_iff)
    show ?thesis
    proof (cases "fits q")
      case True
      then show ?thesis using q step by auto
    next
      case False
      then obtain a' where "build env base None (Some a') = Inr p" "fits p" "kept (c a) a'"
        using Cons.IH [of "c a"] Cons.prems(2) q(2) by auto
      then show ?thesis using kept_trans [OF step] by blast
    qed
  qed
qed simp

definition lang_kept :: "language_template option \<Rightarrow> language_template option \<Rightarrow> bool" where
  "lang_kept lang lang' \<longleftrightarrow> ((\<forall>l. lang = Some l \<longrightarrow> language_text l) \<longrightarrow> (\<forall>l. lang' = Some l \<longrightarrow> language_text l))"

definition trimmed :: "qr_env \<Rightarrow> (int \<times> string) list \<Rightarrow> language_template option \<Rightarrow> additional_data option \<Rightarrow> string \<Rightarrow> bool" where
  "trimmed env base lang add p \<longleftrightarrow>
     (\<exists>lang' add'. build env base lang' add' = Inr p \<and> fits p \<and> lang_kept lang lang' \<and> rel_option kept add add')"

lemma lang_kept_refl [simp]: "lang_kept l l" "lang_kept l None"
  by (simp_all add: lang_kept_def)

lemma rel_option_kept_refl [simp]: "rel_option kept add add"
  by (cases add) simp_all

lemma built_trimmed: "build env base lang' add = Inr p \<Longrightarrow> fits p \<Longrightarrow> lang_kept lang lang' \<Longrightarrow> trimmed env base lang add p"
  unfolding trimmed_def by (meson rel_option_kept_refl)

lemma trimmed_mono: "trimmed env base lang' add p \<Longrightarrow> lang_kept lang lang' \<Longrightarrow> trimmed env base lang add p"
  unfolding trimmed_def lang_kept_def by blast

lemma trim_additional_trimmed:
  assumes "trim_additional env base add = Inr p"
  shows "trimmed env base lang add p"
proof -
  obtain a where a: "add = Some a" "drop_fields env base OPTIONAL_FIELDS a = Inr p"
    using assms by (auto simp: trim_additional_def split: option.splits)
  obtain a' where "build env base None (Some a') = Inr p" "fits p" "kept a a'"
    using drop_fields_built [OF a(2)] optional_fields_kept by blast
  then show ?thesis unfolding trimmed_def a(1) by (metis lang_kept_refl(2) option.rel_inject(2))
qed

lemma trim_language_trimmed: "trim_language env base lang add = Inr p \<Longrightarrow> trimmed env base lang add p"
  using trim_additional_trimmed built_trimmed
  by (auto simp: trim_language_def bind_sum_Inr_iff split: if_splits)

lemma trim_name_trimmed:
  assumes "trim_name env base lang add q = Inr p"
  shows "trimmed env base lang add p"
proof (cases "\<exists>l. lang = Some l \<and> truthy (lt_merchant_name l)")
  case True
  then obtain l where l: "lang = Some l" "truthy (lt_merchant_name l)" by blast
  define t where "t = truncate_graphemes env (the (lt_merchant_name l))
    (max (int (length (the (lt_merchant_name l))) - (int (length q) - int MAX_PAYLOAD_BYTES)) 0) True"
  let ?l = "\<lparr>lt_language_preference = lt_language_preference l,
    lt_merchant_name = (if t = [] then None else Some t), lt_merchant_city = None\<rparr>"
  have eq: "trim_name env base lang add q = bind_sum (build env base (Some ?l) add) (\<lambda>payload.
      if fits payload then Inr payload else trim_language env base (Some ?l) add)"
    unfolding trim_name_def using l by (simp only: option.case if_True Let_def t_def) simp
  obtain q' where q': "build env base (Some ?l) add = Inr q'"
      "(if fits q' then Inr q' else trim_language env base (Some ?l) add) = Inr p"
    using assms eq by (auto simp: bind_sum_Inr_iff)
  have "lang_kept lang (Some ?l)"
    using l truncate_py_str by (auto simp: lang_kept_def language_text_def t_def)
  moreover have "trimmed env base (Some ?l) add p"
    using q' built_trimmed [OF q'(1)] trim_language_trimmed by (auto split: if_splits)
  ultimately show ?thesis using trimmed_mono by blast
next
  case False
  then have "trim_language env base lang add = Inr p"
    using assms by (auto simp: trim_name_def split: option.splits if_splits)
  then show ?thesis by (rule trim_language_trimmed)
qed

lemma trim_to_budget_trimmed:
  assumes "trim_to_budget env base lang add = Inr p"
  shows "trimmed env base lang add p"
proof -
  obtain q where q: "build env base lang add = Inr q"
    using assms by (auto simp: trim_to_budget_def bind_sum_Inr_iff)
  show ?thesis
  proof (cases "fits q")
    case True
    then show ?thesis using assms q built_trimmed by (simp add: trim_to_budget_def)
  next
    case nofit: False
    show ?thesis
    proof (cases "\<exists>l. lang = Some l \<and> truthy (lt_merchant_city l)")
      case True
      then obtain l where l: "lang = Some l" "truthy (lt_merchant_city l)" by blast
      let ?l = "l\<lparr>lt_merchant_city := None\<rparr>"
      obtain q' where q': "build env base (Some ?l) add = Inr q'"
          "(if fits q' then Inr q' else trim_name env base (Some ?l) add q') = Inr p"
        using assms l q nofit by (auto simp: trim_to_budget_def Let_def bind_sum_Inr_iff)
      have "lang_kept lang (Some ?l)" using l by (simp add: lang_kept_def language_text_def)
      moreover have "trimmed env base (Some ?l) add p"
        using q' built_trimmed [OF q'(1)] trim_name_trimmed by (auto split: if_splits)
      ultimately show ?thesis using trimmed_mono by blast
    next
      case False
      then have "trim_name env base lang add q = Inr p"
        using assms q nofit by (auto simp: trim_to_budget_def split: option.splits if_splits)
      then show ?thesis by (rule trim_name_trimmed)
    qed
  qed
qed

subsection \<open>The whole request\<close>

definition request_text :: "qr_encode_request \<Rightarrow> bool" where
  "request_text r \<longleftrightarrow> account_text (rq_merchant_account r) \<and> py_str (rq_mcc r) \<and> py_str (rq_merchant_city r) \<and>
     opt_text (rq_postal_code r) \<and> opt_text (rq_tip_indicator r) \<and> opt_text (rq_convenience_fee_percentage r) \<and>
     (case rq_additional r of None \<Rightarrow> True | Some a \<Rightarrow> additional_text a) \<and>
     (case rq_language r of None \<Rightarrow> True | Some l \<Rightarrow> language_text l)"

definition request_objects ::
    "qr_encode_request \<Rightarrow> int \<times> string \<Rightarrow> string \<Rightarrow> string \<Rightarrow> string option \<Rightarrow> string option \<Rightarrow> string option \<Rightarrow> (int \<times> string) list" where
  "request_objects request account name city amount fee postal =
     [(0, PAYLOAD_FORMAT), (1, if rq_qr_type request = STATIC then POI_STATIC else POI_DYNAMIC), account,
      (52, rq_mcc request), (53, BDT_NUMERIC), (58, COUNTRY_BD), (59, name), (60, city)] @
     opt_object 54 amount @ opt_object 55 (rq_tip_indicator request) @ opt_object 56 fee @
     opt_object 57 (rq_convenience_fee_percentage request) @ opt_object 61 postal"

lemma encode_payloadD:
  assumes "encode_payload env request = Inr p"
  defines "name \<equiv> truncate_graphemes env (strip (rq_merchant_name request)) MAX_MERCHANT_NAME_CHARS False"
    and "city \<equiv> truncate_graphemes env (strip (rq_merchant_city request)) MAX_MERCHANT_CITY_CHARS False"
  shows "mcc_matches (rq_mcc request)" and "(rq_qr_type request = STATIC) = (rq_amount_minor request = None)"
    and "validate_tip_objects request = Inr ()" and "isascii (rq_merchant_name request)" and "name \<noteq> []" and "city \<noteq> []"
    and "\<exists>account. merchant_account_template (rq_merchant_account request) = Inr account \<and>
      (\<exists>amount. opt_sum (\<lambda>n. render_amount_54 (PInt n)) (rq_amount_minor request) = Inr amount \<and>
      (\<exists>fee. opt_sum (\<lambda>n. render_amount_54 (PInt n)) (rq_convenience_fee_fixed_minor request) = Inr fee \<and>
      (\<exists>postal. postal_field (rq_postal_code request) = Inr postal \<and>
        trim_to_budget env (request_objects request account name city amount fee postal)
          (rq_language request) (rq_additional request) = Inr p)))"
proof -
  have kind: "\<not> (t = STATIC \<and> n \<noteq> None) \<Longrightarrow> \<not> (t = DYNAMIC \<and> n = None) \<Longrightarrow> (t = STATIC) = (n = None)"
    for t and n :: "int option" by (cases t) auto
  note unfolded = assms(1) [unfolded encode_payload_def Let_def bind_sum_Inr_iff check_sum_Inr_iff require_ascii_def,
    folded request_objects_def name_def city_def]
  show "mcc_matches (rq_mcc request)" "validate_tip_objects request = Inr ()" "isascii (rq_merchant_name request)"
    "name \<noteq> []" "city \<noteq> []"
    using unfolded unfolding name_def city_def by simp_all
  show "(rq_qr_type request = STATIC) = (rq_amount_minor request = None)"
    by (rule kind) (use unfolded in simp_all)
  show "\<exists>account. merchant_account_template (rq_merchant_account request) = Inr account \<and>
      (\<exists>amount. opt_sum (\<lambda>n. render_amount_54 (PInt n)) (rq_amount_minor request) = Inr amount \<and>
      (\<exists>fee. opt_sum (\<lambda>n. render_amount_54 (PInt n)) (rq_convenience_fee_fixed_minor request) = Inr fee \<and>
      (\<exists>postal. postal_field (rq_postal_code request) = Inr postal \<and>
        trim_to_budget env (request_objects request account name city amount fee postal)
          (rq_language request) (rq_additional request) = Inr p)))"
    using unfolded unfolding name_def city_def request_objects_def by simp
qed

lemma opt_render_roundtrip:
  assumes "opt_sum (\<lambda>n. render_amount_54 (PInt n)) x = Inr v"
  shows "opt_text v" and "(v = None) = (x = None)" and "opt_sum parse_amount_54 v = Inr x"
  using assms render_amount_Inr(3) parse_render_amount
  by (auto simp: opt_sum_def bind_sum_Inr_iff py_str_ascii split: option.splits)

lemma opt_object_lookup:
  "map_of (opt_object i v) k = (if k = i then v else None)"
  by (auto simp: opt_object_def split: option.splits)

lemma request_lookup:
  assumes "account = (r, tmpl)" and "26 \<le> r" and "r \<le> 51"
    and base: "base = request_objects request account name city amount fee postal"
  shows "map_of base 0 = Some PAYLOAD_FORMAT"
    and "map_of base 1 = Some (if rq_qr_type request = STATIC then POI_STATIC else POI_DYNAMIC)"
    and "map_of base r = Some tmpl" and "map_of base 52 = Some (rq_mcc request)" and "map_of base 53 = Some BDT_NUMERIC"
    and "map_of base 54 = amount" and "map_of base 55 = rq_tip_indicator request" and "map_of base 56 = fee"
    and "map_of base 57 = rq_convenience_fee_percentage request" and "map_of base 58 = Some COUNTRY_BD"
    and "map_of base 59 = Some name" and "map_of base 60 = Some city" and "map_of base 61 = postal"
    and "2 \<le> i \<Longrightarrow> i \<le> 51 \<Longrightarrow> i \<noteq> r \<Longrightarrow> map_of base i = None"
  using assms(1-3) by (auto simp: base request_objects_def opt_object_lookup map_add_def split: option.splits)

lemma request_base_ok:
  assumes "account = (r, tmpl)" and "26 \<le> r" and "r \<le> 51" and "py_str tmpl" and "py_str name" and "py_str city"
    and "opt_text amount" and "opt_text fee" and "opt_text postal" and "request_text request"
  shows "base_ok (request_objects request account name city amount fee postal)"
proof -
  have fixed: "py_str PAYLOAD_FORMAT" "py_str POI_STATIC" "py_str POI_DYNAMIC" "py_str BDT_NUMERIC" "py_str COUNTRY_BD"
    by code_simp+
  have keys: "map fst (opt_object i v) = (if v = None then [] else [i])" for i v
    by (simp add: opt_object_def split: option.splits)
  have all_keys: "map fst (request_objects request account name city amount fee postal) =
      [0, 1, r, 52, 53, 58, 59, 60] @ (if amount = None then [] else [54]) @
      (if rq_tip_indicator request = None then [] else [55]) @ (if fee = None then [] else [56]) @
      (if rq_convenience_fee_percentage request = None then [] else [57]) @ (if postal = None then [] else [61])"
    by (simp add: request_objects_def keys assms(1))
  have "objects_text (request_objects request account name city amount fee postal)"
    using assms fixed by (simp add: request_objects_def request_text_def)
  then show ?thesis unfolding base_ok_def all_keys using assms(2,3) by auto
qed


lemma pp_tip:
  assumes "validate_tip_objects request = Inr ()"
    and "opt_sum (\<lambda>n. render_amount_54 (PInt n)) (rq_convenience_fee_fixed_minor request) = Inr fee"
    and "dget flds 55 = rq_tip_indicator request" and "dget flds 56 = fee" and "dget flds 57 = rq_convenience_fee_percentage request"
  shows "parse_tip flds = Inr (rq_tip_indicator request, rq_convenience_fee_fixed_minor request, rq_convenience_fee_percentage request)"
  using assms opt_render_roundtrip [OF assms(2)]
  by (auto simp: parse_tip_def validate_tip_objects_def Let_def bind_sum_Inr_iff)

lemma pp_amount:
  assumes "(rq_qr_type request = STATIC) = (rq_amount_minor request = None)"
    and "opt_sum (\<lambda>n. render_amount_54 (PInt n)) (rq_amount_minor request) = Inr amount" and "dget flds 54 = amount"
  shows "parse_poi (Some (if rq_qr_type request = STATIC then POI_STATIC else POI_DYNAMIC)) flds =
    Inr (rq_amount_minor request, rq_qr_type request)"
proof (cases "rq_qr_type request")
  case STATIC
  then show ?thesis using assms opt_render_roundtrip(2) [OF assms(2)] by (simp add: parse_poi_def)
next
  case DYNAMIC
  then obtain n where n: "rq_amount_minor request = Some n" using assms(1) by auto
  then obtain a where "amount = Some a" "parse_amount_54 a = Inr n"
    using assms(2) parse_render_amount by (auto simp: opt_sum_def bind_sum_Inr_iff)
  then show ?thesis using DYNAMIC n assms(3) by (simp add: parse_poi_def POI_STATIC_def POI_DYNAMIC_def)
qed

lemma payload_hash_total: "payload_hash_of env p = Inr (qe_sha256 env (json_string p))"
  by (simp add: payload_hash_of_def sha256_canonical_def canonical_json_def)

text \<open>What a scan of an encoded payload returns, field by field.\<close>

definition scanned :: "qr_env \<Rightarrow> qr_encode_request \<Rightarrow> string \<Rightarrow> additional_data \<Rightarrow> language_template option \<Rightarrow> parsed_payload" where
  "scanned env request p additional language =
     \<lparr>pp_payload_string = p, pp_payload_hash = qe_sha256 env (json_string p), pp_qr_type = rq_qr_type request,
      pp_route_class = ROUTE_BANGLA_QR, pp_mcc = rq_mcc request,
      pp_merchant_name = truncate_graphemes env (strip (rq_merchant_name request)) MAX_MERCHANT_NAME_CHARS False,
      pp_merchant_city = truncate_graphemes env (strip (rq_merchant_city request)) MAX_MERCHANT_CITY_CHARS False,
      pp_country_code = COUNTRY_BD, pp_currency = BDT_NUMERIC, pp_amount_minor = rq_amount_minor request,
      pp_tip_indicator = rq_tip_indicator request, pp_convenience_fee_fixed_minor = rq_convenience_fee_fixed_minor request,
      pp_convenience_fee_percentage = rq_convenience_fee_percentage request,
      pp_postal_code = (if truthy (rq_postal_code request) then Some (strip (the (rq_postal_code request))) else None),
      pp_additional = additional, pp_language = language,
      pp_bangla_template = Some (norm_account (rq_merchant_account request)), pp_card_template_ids = []\<rparr>"

lemma built_request_parses:
  assumes enc: "encode_payload env request = Inr p" and texts: "request_text request"
    and guid: "qe_upper env (ma_guid (rq_merchant_account request)) = qe_upper env (cfg_scheme_guid config)"
  obtains lang extra where "fits p" and "rel_option kept (rq_additional request) extra"
    and "parse_and_validate env p config = Inr (scanned env request p
      (case extra of None \<Rightarrow> NO_ADDITIONAL | Some d \<Rightarrow> norm_additional d) (Option.bind lang (carried_language env)))"
proof -
  define name city where "name = truncate_graphemes env (strip (rq_merchant_name request)) MAX_MERCHANT_NAME_CHARS False"
    and "city = truncate_graphemes env (strip (rq_merchant_city request)) MAX_MERCHANT_CITY_CHARS False"
  note parts = encode_payloadD(1-4) [OF enc] and name = name_def encode_payloadD(5) [OF enc, folded name_def]
    and city = city_def encode_payloadD(6) [OF enc, folded city_def]
  obtain account amount fee postal where account: "merchant_account_template (rq_merchant_account request) = Inr account"
    and amount: "opt_sum (\<lambda>n. render_amount_54 (PInt n)) (rq_amount_minor request) = Inr amount"
    and fee: "opt_sum (\<lambda>n. render_amount_54 (PInt n)) (rq_convenience_fee_fixed_minor request) = Inr fee"
    and postal: "postal_field (rq_postal_code request) = Inr postal"
    and trim: "trim_to_budget env (request_objects request account name city amount fee postal)
      (rq_language request) (rq_additional request) = Inr p"
    using encode_payloadD(7) [OF enc, folded name_def city_def] by blast
  let ?base = "request_objects request account name city amount fee postal"
  let ?r = "ma_root_id (rq_merchant_account request)"
  have acct: "account_text (rq_merchant_account request)" using texts by (simp add: request_text_def)
  obtain tmpl where tmpl: "account = (?r, tmpl)" "26 \<le> ?r" "?r \<le> 51" "py_str tmpl"
    and bangla: "\<And>env flds config. dget flds ?r = Some tmpl \<Longrightarrow>
      (\<And>i. 26 \<le> i \<Longrightarrow> i \<le> 51 \<Longrightarrow> i \<noteq> ?r \<Longrightarrow> dget flds i = None) \<Longrightarrow>
      qe_upper env (ma_guid (rq_merchant_account request)) = qe_upper env (cfg_scheme_guid config) \<Longrightarrow>
      find_bangla env flds config MERCHANT_TEMPLATE_RANGE = Inr (Some (norm_account (rq_merchant_account request)))"
    using account_roundtrip [OF account acct] by metis
  have post: "postal = (if truthy (rq_postal_code request) then Some (strip (the (rq_postal_code request))) else None)"
    using postal by (auto simp: postal_field_def Let_def bind_sum_Inr_iff split: if_splits)
  have "opt_text postal" using texts by (auto simp: post request_text_def strip_py_str)
  then have base: "base_ok ?base"
    using request_base_ok [OF tmpl] name(1) city(1) parts(4) texts truncate_py_str strip_py_str py_str_ascii
      opt_render_roundtrip(1) [OF amount] opt_render_roundtrip(1) [OF fee] by (simp add: request_text_def)
  obtain lang extra where built: "build env ?base lang extra = Inr p" and fit: "fits p"
    and lang: "lang_kept (rq_language request) lang" and extra: "rel_option kept (rq_additional request) extra"
    using trim_to_budget_trimmed [OF trim] by (auto simp: trimmed_def)
  have lang_ok: "language_text l" if "lang = Some l" for l
    using lang texts that by (auto simp: lang_kept_def request_text_def)
  have extra_ok: "additional_text d" if "extra = Some d" for d
    using extra texts that kept_text by (auto simp: request_text_def option_rel_Some2)
  obtain body objs where p: "p = append_crc body" "py_str body" and walked: "walk p True = Inr objs" "objs \<noteq> []"
    and crc: "tlv_object_id (last objs) = 63" "py_len (tlv_value (last objs)) = 4"
    and small: "\<And>ob. ob \<in> set objs \<Longrightarrow> tlv_object_id ob \<le> 64"
    and flds: "\<And>k. k \<le> 61 \<Longrightarrow> dget (fields_of objs) k = map_of ?base k"
    and add: "parse_additional (fields_of objs) = Inr (case extra of None \<Rightarrow> NO_ADDITIONAL | Some d \<Rightarrow> norm_additional d)"
    and lng: "parse_language (fields_of objs) = Inr (Option.bind lang (carried_language env))"
    using built_payload [OF built base lang_ok extra_ok] by metis
  note lk = request_lookup [OF tmpl(1-3) refl]
  have fb: "find_bangla env (fields_of objs) config MERCHANT_TEMPLATE_RANGE = Inr (Some (norm_account (rq_merchant_account request)))"
    using bangla [of "fields_of objs" env config] guid flds lk(3,14) tmpl(2,3) by simp
  have cards: "filter (\<lambda>i. dget (fields_of objs) i \<noteq> None) CARD_TEMPLATE_RANGE = []"
    using flds lk(14) tmpl(2) by (auto simp: filter_empty_conv CARD_TEMPLATE_RANGE_def)
  have res: "resolve_templates env (fields_of objs) config = Inr (ROUTE_BANGLA_QR, Some (norm_account (rq_merchant_account request)), [])"
    using fb cards by (simp add: resolve_templates_def Let_def)
  have reserved: "\<not> list_ex (\<lambda>ob. tlv_object_id ob \<in> set RESERVED_RANGE) objs"
    using small by (force simp: list_ex_iff RESERVED_RANGE_def)
  have crc_ok: "check_crc_object p objs = Inr ()"
    using crc verify_append_crc p by (simp add: check_crc_object_def Let_def)
  have "p \<noteq> []" by (simp add: p append_crc_def Let_def CRC_PREFIX_def)
  moreover have "parse_tip (fields_of objs) = Inr (rq_tip_indicator request, rq_convenience_fee_fixed_minor request, rq_convenience_fee_percentage request)"
    by (rule pp_tip [OF parts(3) fee]) (simp_all add: flds lk)
  moreover have "parse_poi (dget (fields_of objs) 1) (fields_of objs) = Inr (rq_amount_minor request, rq_qr_type request)"
    using pp_amount [OF parts(2) amount, of "fields_of objs"] by (simp add: flds lk)
  ultimately have "parse_and_validate env p config = Inr (scanned env request p
      (case extra of None \<Rightarrow> NO_ADDITIONAL | Some d \<Rightarrow> norm_additional d) (Option.bind lang (carried_language env)))"
    using walked(1) reserved crc_ok res add lng parts(1) name city
    by (simp add: parse_and_validate_def Let_def flds lk payload_hash_total scanned_def post)
  then show ?thesis using that [OF fit extra] by blast
qed

lemma kept_norm: "kept a a' \<Longrightarrow> kept (norm_additional a) (norm_additional a')"
proof -
  have "dropped v w \<Longrightarrow> dropped (norm v) (norm w)" for v w by (auto simp: dropped_def norm_def)
  then show "kept a a' \<Longrightarrow> kept (norm_additional a) (norm_additional a')" by (simp add: kept_def norm_additional_def)
qed

lemma scanned_additional:
  assumes "rel_option kept (rq_additional request) extra"
  shows "kept (case rq_additional request of None \<Rightarrow> NO_ADDITIONAL | Some a \<Rightarrow> norm_additional a)
    (case extra of None \<Rightarrow> NO_ADDITIONAL | Some d \<Rightarrow> norm_additional d)"
  using assms kept_norm by (auto simp: option_rel_Some1 split: option.splits)

end
