(* ===== verification/Qr_Walk.thy ===== *)
theory Qr_Walk
  imports Qr_Roundtrip "HOL-Library.While_Combinator"
begin

text \<open>
  The TLV walk as the loop that \<^verbatim>\<open>qr/tlv.py\<close> runs, over the position in the data: it ends on every
  input, with the outcome of the recursive definition, and what it accepts is what the encoder writes.
\<close>

subsection \<open>The loop\<close>

record walk_state =
  ws_position :: nat
  ws_seen :: "int list"
  ws_objects :: "tlv_object list"
  ws_raised :: "qr_error option"

text \<open>One pass of the body; a raise ends the loop.\<close>

definition walk_body :: "string \<Rightarrow> bool \<Rightarrow> walk_state \<Rightarrow> walk_state" where
  "walk_body data reject_duplicates st =
     (let position = ws_position st; id_chunk = take 2 (drop position data);
          len_chunk = take 2 (drop (position + 2) data) in
      if \<not> is_ascii_digits id_chunk \<or> \<not> is_ascii_digits len_chunk
      then st\<lparr>ws_raised := Some (QrValidationError ''qr_malformed_tlv'')\<rparr>
      else
      let object_id = int (nat_of_dec id_chunk); len = nat_of_dec len_chunk;
          value_bytes = take len (drop (position + 4) data) in
      if length value_bytes \<noteq> len \<or> len = 0 then st\<lparr>ws_raised := Some (QrValidationError ''qr_malformed_tlv'')\<rparr>
      else if \<not> py_str value_bytes then st\<lparr>ws_raised := Some (QrValidationError ''qr_malformed_tlv'')\<rparr>
      else if reject_duplicates \<and> object_id \<in> set (ws_seen st)
      then st\<lparr>ws_raised := Some (QrValidationError ''qr_duplicate_id'')\<rparr>
      else st\<lparr>ws_seen := (if reject_duplicates then object_id # ws_seen st else ws_seen st),
        ws_objects := ws_objects st @
          [\<lparr>tlv_object_id = object_id, tlv_value = value_bytes, tlv_raw = take (4 + len) (drop position data)\<rparr>],
        ws_position := position + (4 + len)\<rparr>)"

definition walk_continues :: "string \<Rightarrow> walk_state \<Rightarrow> bool" where
  "walk_continues data st \<longleftrightarrow> ws_raised st = None \<and> ws_position st < length data"

definition walk_loop :: "string \<Rightarrow> bool \<Rightarrow> walk_state \<Rightarrow> walk_state option" where
  "walk_loop data reject_duplicates st = while_option (walk_continues data) (walk_body data reject_duplicates) st"

definition walk_start :: walk_state where
  "walk_start = \<lparr>ws_position = 0, ws_seen = [], ws_objects = [], ws_raised = None\<rparr>"

definition walk_outcome :: "walk_state \<Rightarrow> qr_error + tlv_object list" where
  "walk_outcome st = (case ws_raised st of None \<Rightarrow> Inr (ws_objects st) | Some e \<Rightarrow> Inl e)"

subsection \<open>The loop against the recursion\<close>

text \<open>The cases of one pass, which the recursion has in common with the loop.\<close>

definition next_object :: "bool \<Rightarrow> int list \<Rightarrow> string \<Rightarrow> qr_error + tlv_object" where
  "next_object reject_duplicates seen data =
     (let id_chunk = take 2 data; len_chunk = take 2 (drop 2 data);
          object_id = int (nat_of_dec id_chunk); len = nat_of_dec len_chunk; value_bytes = take len (drop 4 data) in
      bind_sum (check_sum (is_ascii_digits id_chunk \<and> is_ascii_digits len_chunk \<and> length value_bytes = len \<and> len \<noteq> 0 \<and>
        py_str value_bytes) (QrValidationError ''qr_malformed_tlv'')) (\<lambda>_.
      bind_sum (check_sum (\<not> (reject_duplicates \<and> object_id \<in> set seen)) (QrValidationError ''qr_duplicate_id'')) (\<lambda>_.
      Inr \<lparr>tlv_object_id = object_id, tlv_value = value_bytes, tlv_raw = take (4 + len) data\<rparr>)))"

lemma next_object_seen: "(rd \<Longrightarrow> seen = seen') \<Longrightarrow> next_object rd seen data = next_object rd seen' data"
  by (auto simp: next_object_def Let_def)

lemma next_object_Inr:
  assumes "next_object rd seen data = Inr obj"
  shows "encode_object (tlv_object_id obj) (tlv_value obj) = Inr (tlv_raw obj)"
    and "data = tlv_raw obj @ drop (4 + length (tlv_value obj)) data"
    and "4 + length (tlv_value obj) \<le> length data" and "rd \<Longrightarrow> tlv_object_id obj \<notin> set seen" and "tlv_value obj \<noteq> []"
proof -
  define ids lens where "ids = take 2 data" and "lens = take 2 (drop 2 data)"
  have digits: "is_ascii_digits ids" "is_ascii_digits lens" and dup: "rd \<Longrightarrow> int (nat_of_dec ids) \<notin> set seen"
    and len: "length (take (nat_of_dec lens) (drop 4 data)) = nat_of_dec lens" "nat_of_dec lens \<noteq> 0"
    and obj: "obj = \<lparr>tlv_object_id = int (nat_of_dec ids), tlv_value = take (nat_of_dec lens) (drop 4 data),
      tlv_raw = take (4 + nat_of_dec lens) data\<rparr>"
    using assms by (auto simp: next_object_def Let_def bind_sum_Inr_iff ids_def lens_def)
  have pad: "pad_dec 2 (nat_of_dec w) = w \<and> nat_of_dec w \<le> 99" if "is_ascii_digits w" for w
  proof -
    have w: "length w = 2" "\<And>c. c \<in> set w \<Longrightarrow> is_digit c"
      using that by (auto simp: is_ascii_digits_def list_all_iff)
    have "nat_of_dec w < 10 ^ length w" using nat_of_dec_bound w(2) by blast
    then have small: "nat_of_dec w < 100" using w(1) by simp
    have "length (pad_dec 2 (nat_of_dec w)) = length w" using two_digits(1) [of "nat_of_dec w"] small w(1) by simp
    then have "pad_dec 2 (nat_of_dec w) = w"
      using nat_of_dec_inject [of "pad_dec 2 (nat_of_dec w)" w] w(2) pad_dec_digits by simp
    then show ?thesis using small by simp
  qed
  have "length ids = 2" "length lens = 2" using digits by (simp_all add: is_ascii_digits_def)
  then have split: "data = ids @ lens @ drop 4 data"
    unfolding ids_def lens_def by (metis append_take_drop_id drop_drop numeral_Bit0)
  have raw: "tlv_raw obj = ids @ lens @ take (nat_of_dec lens) (drop 4 data)"
    using \<open>length ids = 2\<close> \<open>length lens = 2\<close> by (simp add: obj) (subst (1) split, simp)
  show "encode_object (tlv_object_id obj) (tlv_value obj) = Inr (tlv_raw obj)"
    using pad [OF digits(1)] pad [OF digits(2)] len raw by (auto simp: encode_object_Inr obj)
  show "4 + length (tlv_value obj) \<le> length data" using len by (simp add: obj)
  show "data = tlv_raw obj @ drop (4 + length (tlv_value obj)) data" using len by (simp add: obj)
  show "rd \<Longrightarrow> tlv_object_id obj \<notin> set seen" using dup by (simp add: obj)
  show "tlv_value obj \<noteq> []" using len by (auto simp: obj)
qed

lemma walk_from_next:
  "walk_from rd seen data =
     (if data = [] then Inr [] else
      bind_sum (next_object rd seen data) (\<lambda>obj.
      bind_sum (walk_from rd (tlv_object_id obj # seen) (drop (4 + length (tlv_value obj)) data)) (\<lambda>objects.
      Inr (obj # objects))))"
  by (subst walk_from.simps) (auto simp: next_object_def Let_def check_sum_def)

lemma walk_body_next:
  "walk_body data rd st =
     (case next_object rd (ws_seen st) (drop (ws_position st) data) of
        Inl e \<Rightarrow> st\<lparr>ws_raised := Some e\<rparr>
      | Inr obj \<Rightarrow> st\<lparr>ws_seen := (if rd then tlv_object_id obj # ws_seen st else ws_seen st),
          ws_objects := ws_objects st @ [obj], ws_position := ws_position st + (4 + length (tlv_value obj))\<rparr>)"
  by (auto simp: walk_body_def next_object_def Let_def check_sum_def add.commute)

lemma walk_loop_outcome:
  assumes "ws_raised st = None" and "ws_position st \<le> length data" and "rd \<Longrightarrow> seen = ws_seen st"
  shows "\<exists>st'. walk_loop data rd st = Some st' \<and>
    walk_outcome st' = bind_sum (walk_from rd seen (drop (ws_position st) data)) (\<lambda>objects. Inr (ws_objects st @ objects))"
  using assms
proof (induction "length data - ws_position st" arbitrary: st seen rule: less_induct)
  case less
  let ?rest = "drop (ws_position st) data"
  show ?case
  proof (cases "ws_position st = length data")
    case True
    then have "walk_loop data rd st = Some st"
      by (simp add: walk_loop_def while_option_unfold [of _ _ st] walk_continues_def)
    then show ?thesis using True less.prems(1) by (simp add: walk_from_next walk_outcome_def)
  next
    case False
    then have inside: "ws_position st < length data" using less.prems(2) by simp
    then have step: "walk_loop data rd st = walk_loop data rd (walk_body data rd st)"
      using less.prems(1) by (simp add: walk_loop_def while_option_unfold [of _ _ st] walk_continues_def)
    have seen: "next_object rd seen ?rest = next_object rd (ws_seen st) ?rest"
      using less.prems(3) by (rule next_object_seen)
    show ?thesis
    proof (cases "next_object rd (ws_seen st) ?rest")
      case (Inl e)
      then have "walk_loop data rd st = Some (st\<lparr>ws_raised := Some e\<rparr>)"
        unfolding step by (simp add: walk_body_next walk_loop_def while_option_unfold [of _ _ "st\<lparr>ws_raised := Some e\<rparr>"] walk_continues_def)
      then show ?thesis using Inl inside seen by (simp add: walk_from_next [of rd seen] walk_outcome_def)
    next
      case (Inr obj)
      note obj = next_object_Inr [OF Inr]
      let ?st = "walk_body data rd st"
      have st: "?st = st\<lparr>ws_seen := (if rd then tlv_object_id obj # ws_seen st else ws_seen st),
          ws_objects := ws_objects st @ [obj], ws_position := ws_position st + (4 + length (tlv_value obj))\<rparr>"
        using Inr by (simp add: walk_body_next)
      have "\<exists>st'. walk_loop data rd ?st = Some st' \<and> walk_outcome st' =
          bind_sum (walk_from rd (tlv_object_id obj # seen) (drop (ws_position ?st) data)) (\<lambda>objects. Inr (ws_objects ?st @ objects))"
        using obj(3) inside less.prems unfolding st by (intro less.hyps) auto
      moreover have "drop (ws_position ?st) data = drop (4 + length (tlv_value obj)) ?rest"
        by (simp add: st add.commute)
      ultimately show ?thesis
        using inside Inr seen unfolding step by (simp add: walk_from_next [of rd seen ?rest] st bind_sum_assoc)
    qed
  qed
qed

lemma walk_from_assemble:
  "walk_from rd seen data = Inr objs \<Longrightarrow> assemble (map (\<lambda>obj. (tlv_object_id obj, tlv_value obj)) objs) = Inr data \<and>
     5 * length objs \<le> length data \<and> (rd \<longrightarrow> distinct (map tlv_object_id objs) \<and> set (map tlv_object_id objs) \<inter> set seen = {})"
proof (induction objs arbitrary: seen data)
  case Nil
  then show ?case by (subst (asm) walk_from_next) (auto simp: bind_sum_Inr_iff split: if_splits)
next
  case (Cons obj objs)
  let ?rest = "drop (4 + length (tlv_value obj)) data"
  have "next_object rd seen data = Inr obj" and walked: "walk_from rd (tlv_object_id obj # seen) ?rest = Inr objs"
    using Cons.prems by (subst (asm) walk_from_next, auto simp: bind_sum_Inr_iff split: if_splits)+
  note obj = next_object_Inr [OF this(1)]
  obtain n where "length (tlv_value obj) = Suc n" using obj(5) by (cases "tlv_value obj") auto
  then have "5 * length (obj # objs) \<le> length data" using Cons.IH [OF walked] obj(3) by auto
  then show ?case using Cons.IH [OF walked] obj by (auto simp: assemble_Cons)
qed

subsection \<open>Properties\<close>

text \<open>C38. The walk ends on every input: the loop over the position in the data leaves its \<open>while\<close>
  whatever the bytes are, valid or hostile, with the objects or the refusal of the recursive definition
  that the decoder is built on.\<close>

theorem walk_loop_ends:
  "\<exists>st. walk_loop data reject_duplicates walk_start = Some st \<and> walk_outcome st = walk data reject_duplicates"
  using walk_loop_outcome [of walk_start data reject_duplicates "[]"] by (cases "walk data reject_duplicates") (simp_all add: walk_start_def walk_def)

text \<open>C37. The walk accepts only what the encoder writes: assembling the objects of an accepted text gives
  the text back byte for byte, so there is nothing between the objects, nothing after them and no second
  spelling of an id or a length; at the root level no id occurs twice; and every object takes at least
  five bytes, which bounds the objects of a text.\<close>

theorem walk_accepts_assembled:
  assumes "walk data reject_duplicates = Inr objs"
  shows "assemble (map (\<lambda>obj. (tlv_object_id obj, tlv_value obj)) objs) = Inr data \<and>
    (reject_duplicates \<longrightarrow> distinct (map tlv_object_id objs)) \<and> 5 * length objs \<le> length data"
  using walk_from_assemble assms unfolding walk_def by blast

theorem walk_accepts_assembled_witness: "assemble [(0, ''01''), (53, ''050'')] = Inr ''0002015303050''"
proof -
  have "walk ''0002015303050'' True = Inr [\<lparr>tlv_object_id = 0, tlv_value = ''01'', tlv_raw = ''000201''\<rparr>,
      \<lparr>tlv_object_id = 53, tlv_value = ''050'', tlv_raw = ''5303050''\<rparr>]"
    by code_simp
  from walk_accepts_assembled [OF this] show ?thesis by simp
qed

end
