(* ===== verification/Qr_Guarantees.thy ===== *)
theory Qr_Guarantees
  imports Qr_Roundtrip
begin

text \<open>
  What the QR codec guarantees: the round trip of a request, the budget, the refusal of damaged payloads,
  the round trip of amounts, and that every refusal carries a declared code.
\<close>

subsection \<open>Properties\<close>

text \<open>C14. The codec round-trips: every payload that the encoder returns for a request with the scheme's
  GUID is accepted by the decoder, on the Bangla QR route, and the scan returns the fields of the
  request: its type, its amount and fees to the paisa, its merchant account, category, name, city and
  postal code, and the reference label that reconciliation joins on, which trimming never drops.\<close>

theorem encode_parse_roundtrip:
  assumes "encode_payload env request = Inr p" and "request_text request"
    and "qe_upper env (ma_guid (rq_merchant_account request)) = qe_upper env (cfg_scheme_guid config)"
  shows "\<exists>additional language.
    parse_and_validate env p config = Inr (scanned env request p additional language) \<and>
    ad_reference_label additional = Option.bind (rq_additional request) (norm \<circ> ad_reference_label)"
proof -
  obtain lang extra where extra: "rel_option kept (rq_additional request) extra"
    and parsed: "parse_and_validate env p config = Inr (scanned env request p
      (case extra of None \<Rightarrow> NO_ADDITIONAL | Some d \<Rightarrow> norm_additional d) (Option.bind lang (carried_language env)))"
    using built_request_parses [OF assms] by metis
  have "ad_reference_label (case extra of None \<Rightarrow> NO_ADDITIONAL | Some d \<Rightarrow> norm_additional d) =
      Option.bind (rq_additional request) (norm \<circ> ad_reference_label)"
    using scanned_additional [OF extra] by (auto simp: kept_def norm_additional_def NO_ADDITIONAL_def split: option.splits)
  then show ?thesis using parsed by blast
qed

definition sample_env :: qr_env where
  "sample_env = \<lparr>qe_combining = (\<lambda>_. False), qe_upper = (\<lambda>s. s), qe_sha256 = (\<lambda>s. s)\<rparr>"

definition sample_config :: qr_config where
  "sample_config = \<lparr>cfg_acquirer_id = ''ACQ1'', cfg_psp_sub_id = ''P1'', cfg_template_root_id = 26,
     cfg_scheme_guid = ''BD.BANGLAQR.NPSB''\<rparr>"

definition sample_request :: qr_encode_request where
  "sample_request = \<lparr>rq_qr_type = DYNAMIC, rq_merchant_account = \<lparr>ma_root_id = 26, ma_guid = ''BD.BANGLAQR.NPSB'',
       ma_acquirer_id = ''ACQ1'', ma_merchant_id = ''M1'', ma_psp_sub_id = Some ''P1''\<rparr>,
     rq_mcc = ''5411'', rq_merchant_name = ''Shop'', rq_merchant_city = ''Dhaka'', rq_amount_minor = Some 125050,
     rq_postal_code = None, rq_tip_indicator = None, rq_convenience_fee_fixed_minor = None,
     rq_convenience_fee_percentage = None,
     rq_additional = Some (NO_ADDITIONAL\<lparr>ad_reference_label := Some ''pi_1''\<rparr>), rq_language = None\<rparr>"

lemma trim_to_budget_short:
  assumes "(case extra of None \<Rightarrow> Inr None | Some e \<Rightarrow> additional_data_template e) = Inr v62"
    and "(case lang of None \<Rightarrow> Inr None | Some l \<Rightarrow> encode_language_template env l) = Inr v64"
    and "assemble (sort_key fst (base @ opt_object 62 v62 @ opt_object 64 v64)) = Inr body" and "length body \<le> 504"
  shows "trim_to_budget env base lang extra = Inr (append_crc body)"
  using assms by (simp add: trim_to_budget_def build_def fits_def MAX_PAYLOAD_BYTES_def append_crc_def Let_def CRC_PREFIX_def)

definition sample_template :: string where
  "sample_template = ''0016BD.BANGLAQR.NPSB0104ACQ10202M10302P1''"

definition sample_body :: string where
  "sample_body = ''0002010102122640'' @ sample_template @
     ''52045411530305054071250.505802BD5904Shop6005Dhaka62080504pi_1''"

lemma sample_account: "merchant_account_template (rq_merchant_account sample_request) = Inr (26, sample_template)"
  by code_simp

lemma sample_trim:
  "trim_to_budget sample_env (request_objects sample_request (26, sample_template) ''Shop'' ''Dhaka'' (Some ''1250.50'') None None)
     None (rq_additional sample_request) = Inr (append_crc sample_body)"
proof (rule trim_to_budget_short)
  show "(case rq_additional sample_request of None \<Rightarrow> Inr None | Some e \<Rightarrow> additional_data_template e) = Inr (Some ''0504pi_1'')"
    by code_simp
  show "(case None of None \<Rightarrow> Inr None | Some l \<Rightarrow> encode_language_template sample_env l) = Inr None" by simp
  show "assemble (sort_key fst (request_objects sample_request (26, sample_template) ''Shop'' ''Dhaka'' (Some ''1250.50'') None None @
      opt_object 62 (Some ''0504pi_1'') @ opt_object 64 None)) = Inr sample_body"
    by code_simp
  show "length sample_body \<le> 504" by (simp add: sample_body_def sample_template_def)
qed

lemma sample_encodes: "encode_payload sample_env sample_request = Inr (append_crc sample_body)"
proof -
  have checks: "mcc_matches (rq_mcc sample_request)" "validate_tip_objects sample_request = Inr ()"
    "require_ascii (rq_merchant_name sample_request) = Inr ''Shop''"
    "truncate_graphemes sample_env (strip ''Shop'') MAX_MERCHANT_NAME_CHARS False = ''Shop''"
    "truncate_graphemes sample_env (strip (rq_merchant_city sample_request)) MAX_MERCHANT_CITY_CHARS False = ''Dhaka''"
    "opt_sum (\<lambda>n. render_amount_54 (PInt n)) (rq_amount_minor sample_request) = Inr (Some ''1250.50'')"
    "opt_sum (\<lambda>n. render_amount_54 (PInt n)) (rq_convenience_fee_fixed_minor sample_request) = Inr None"
    "postal_field (rq_postal_code sample_request) = Inr None"
    by code_simp+
  have simple: "rq_qr_type sample_request = DYNAMIC" "rq_amount_minor sample_request \<noteq> None" "rq_language sample_request = None"
    by (simp_all add: sample_request_def)
  show ?thesis
    using sample_trim simple
    unfolding encode_payload_def Let_def checks sample_account request_objects_def [symmetric] by (simp add: checks sample_account)
qed

lemma sample_request_text: "request_text sample_request"
  by code_simp

theorem encode_parse_roundtrip_witness:
  "\<exists>additional language. parse_and_validate sample_env (append_crc sample_body) sample_config =
      Inr (scanned sample_env sample_request (append_crc sample_body) additional language) \<and>
    ad_reference_label additional = Option.bind (rq_additional sample_request) (norm \<circ> ad_reference_label)"
  by (rule encode_parse_roundtrip [OF sample_encodes sample_request_text]) (simp add: sample_request_def sample_config_def)



text \<open>C18. A damaged code is refused: of a payload that validates, no text of the same length that
  differs in exactly one byte validates, wherever the byte is and whatever it was changed to.\<close>

theorem single_byte_corruption_refused:
  assumes "py_str (s @ x # t)" and "py_str (s @ y # t)" and "x \<noteq> y"
    and "parse_and_validate env (s @ x # t) config = Inr scan"
  shows "\<exists>e. parse_and_validate env (s @ y # t) config = Inl e"
proof (rule ccontr)
  have crc: "verify_crc p" if "parse_and_validate env p config = Inr r" for p r
    using that unfolding parse_and_validate_def Let_def bind_sum_Inr_iff check_crc_object_def by auto
  assume "\<nexists>e. parse_and_validate env (s @ y # t) config = Inl e"
  then obtain r where "parse_and_validate env (s @ y # t) config = Inr r"
    by (cases "parse_and_validate env (s @ y # t) config") auto
  then obtain b where "s @ y # t = append_crc b" using crc verify_crcD [OF assms(2)] by metis
  moreover obtain a where "s @ x # t = append_crc a" using crc [OF assms(4)] verify_crcD [OF assms(1)] by metis
  ultimately show False using append_crc_one_byte assms(3) by metis
qed

theorem single_byte_corruption_refused_witness:
  "\<exists>e. parse_and_validate sample_env (CHR ''1'' # tl (append_crc sample_body)) sample_config = Inl e"
proof -
  let ?t = "tl (append_crc sample_body)"
  have "append_crc sample_body \<noteq> []" "hd (append_crc sample_body) = CHR ''0''"
    by (simp_all add: append_crc_def Let_def sample_body_def)
  then have p: "CHR ''0'' # ?t = append_crc sample_body" by (metis list.collapse)
  have "isascii sample_body" by code_simp
  then have "isascii (append_crc sample_body)"
    using crc_prefix_ascii hex4_ascii by (simp add: append_crc_def Let_def)
  then have "isascii (CHR ''0'' # ?t)" using p by simp
  then have texts: "py_str ([] @ CHR ''0'' # ?t)" "py_str ([] @ CHR ''1'' # ?t)"
    using py_str_ascii by (simp_all add: isascii_def byte_def)
  have guid: "qe_upper sample_env (ma_guid (rq_merchant_account sample_request)) = qe_upper sample_env (cfg_scheme_guid sample_config)"
    by (simp add: sample_request_def sample_config_def)
  obtain scan where "parse_and_validate sample_env ([] @ CHR ''0'' # ?t) sample_config = Inr scan"
    using built_request_parses [OF sample_encodes sample_request_text guid] p by (metis append_Nil)
  then show ?thesis using single_byte_corruption_refused [OF texts] by simp
qed

text \<open>C39. Amounts survive the wire: parsing the rendered text of an amount of paisa gives the amount
  back.\<close>

theorem amount_54_roundtrip:
  assumes "render_amount_54 (PInt n) = Inr s"
  shows "parse_amount_54 s = Inr n"
  using assms by (rule parse_render_amount)

theorem amount_54_roundtrip_witness: "parse_amount_54 ''1250.05'' = Inr 125005"
  by (rule amount_54_roundtrip) code_simp

subsection \<open>Every refusal carries a declared code\<close>

definition coded :: "qr_error + 'a \<Rightarrow> bool" where
  "coded r \<longleftrightarrow> (case r of Inr _ \<Rightarrow> True | Inl (QrValidationError c) \<Rightarrow> c \<in> set QR_FAILURE_CODES | Inl _ \<Rightarrow> False)"

lemma coded_basic [simp]:
  "coded (Inr a)" "coded (Inl (QrValidationError c)) \<longleftrightarrow> c \<in> set QR_FAILURE_CODES"
  "coded (check_sum b (QrValidationError c)) \<longleftrightarrow> b \<or> c \<in> set QR_FAILURE_CODES"
  by (simp_all add: coded_def check_sum_def)

lemma coded_bind: "coded m \<Longrightarrow> (\<And>a. m = Inr a \<Longrightarrow> coded (k a)) \<Longrightarrow> coded (bind_sum m k)"
  by (cases m) (simp_all add: coded_def split: qr_error.splits)

lemma codes [simp]:
  "''qr_malformed_tlv'' \<in> set QR_FAILURE_CODES" "''qr_duplicate_id'' \<in> set QR_FAILURE_CODES"
  "''qr_reserved_id'' \<in> set QR_FAILURE_CODES" "''qr_invalid_crc'' \<in> set QR_FAILURE_CODES"
  "''qr_unsupported_version'' \<in> set QR_FAILURE_CODES" "''qr_validation_failed'' \<in> set QR_FAILURE_CODES"
  "''qr_wrong_currency'' \<in> set QR_FAILURE_CODES" "''qr_wrong_country'' \<in> set QR_FAILURE_CODES"
  "''qr_static_with_amount'' \<in> set QR_FAILURE_CODES" "''qr_bengali_digits_in_amount'' \<in> set QR_FAILURE_CODES"
  "''qr_no_routable_template'' \<in> set QR_FAILURE_CODES"
  by (simp_all add: QR_FAILURE_CODES_def)

lemma coded_walk_from: "coded (walk_from rd seen data)"
proof (induction rd seen data rule: walk_from.induct)
  case (1 rd seen data)
  show ?case
    unfolding walk_from.simps [of rd seen data] Let_def using 1 by (auto intro!: coded_bind)
qed

lemma coded_walk_template: "coded (walk_template v)"
  by (auto simp: walk_template_def walk_def intro!: coded_bind coded_walk_from)

lemma coded_amount: "coded (parse_amount_54 s)"
  by (auto simp: parse_amount_54_def Let_def intro!: coded_bind split: option.splits)

lemma coded_find_bangla: "coded (find_bangla env flds config roots)"
  by (induction roots) (simp_all split: option.splits sum.splits)

text \<open>C20. The decoder is total and closed: whatever text is scanned, it returns a payload or refuses
  with one of the declared failure codes, and raises nothing else.\<close>

theorem decoder_refusals_declared: "coded (parse_and_validate env payload config)"
proof -
  have tip: "coded (parse_tip flds)" for flds
    unfolding parse_tip_def Let_def opt_sum_def
    by (intro coded_bind; simp add: coded_bind coded_amount split: option.splits)
  have poi: "coded (parse_poi poi flds)" for poi flds
    by (auto simp: parse_poi_def intro!: coded_bind coded_amount split: option.splits)
  have templates: "coded (resolve_templates env flds config)" for flds
    unfolding resolve_templates_def Let_def by (intro coded_bind coded_find_bangla) simp
  have additional: "coded (parse_additional flds)" for flds
    by (auto simp: parse_additional_def intro!: coded_bind coded_walk_template split: option.splits)
  have language: "coded (parse_language flds)" for flds
    by (auto simp: parse_language_def intro!: coded_bind coded_walk_template split: option.splits)
  have crc: "coded (check_crc_object p objs)" for p objs
    unfolding check_crc_object_def Let_def by (intro coded_bind) simp_all
  have walked: "coded (walk p True)" for p by (simp add: walk_def coded_walk_from)
  have hash: "coded (payload_hash_of env p)" for p by (simp add: payload_hash_total)
  show ?thesis
    unfolding parse_and_validate_def Let_def split_beta
    by (intro coded_bind tip poi templates additional language crc walked hash) simp_all
qed

subsection \<open>A divergence\<close>

text \<open>The amount grammar is documented as an ASCII decimal; the \<open>$\<close> of its regular expression also
  matches before a final newline, so such a text is an amount.\<close>

lemma newline_after_amount_accepted: "parse_amount_54 (''1250'' @ [CHR 0x0A]) = Inr 125000"
  by code_simp

end
