(* ===== verification/Qr_States.thy ===== *)
theory Qr_States
  imports Qr_Codec
begin

text \<open>
  The entities of the QR package (\<^verbatim>\<open>qr/model.py\<close>), its two transition tables (\<^verbatim>\<open>qr/fsm.py\<close>), the rows
  it hands to the NPSB rail (\<^verbatim>\<open>qr/npsb.py\<close>) and the records of its ports (\<^verbatim>\<open>qr/ports.py\<close>).
\<close>

datatype qr_service_error =
    NotFoundError string
  | ConflictError string
  | LimitExceededError string
  | InvalidRequestError string
  | QrCodecError qr_error
  | QrValueError string

definition lift_qr :: "qr_error + 'a \<Rightarrow> qr_service_error + 'a" where
  "lift_qr r = (case r of Inl e \<Rightarrow> Inl (QrCodecError e) | Inr a \<Rightarrow> Inr a)"

subsection \<open>Entities\<close>

datatype merchant_qr_state = DRAFT | ACTIVE | SUSPENDED | REVOKED

datatype dynamic_payload_state = ISSUED | SCANNED | PAID | EXPIRED | CANCELLED

datatype validation_result = VALID | INVALID

record merchant_qr =
  mq_merchant_qr_id :: string
  mq_merchant_id :: string
  mq_state :: merchant_qr_state
  mq_label :: string
  mq_store_id :: "string option"
  mq_terminal_id :: "string option"
  mq_current_payload_id :: "string option"
  mq_suspend_reason :: "string option"
  mq_created_at :: instant
  mq_updated_at :: instant

record qr_payload =
  qp_payload_id :: string
  qp_qr_type :: qr_type
  qp_merchant_qr_id :: "string option"
  qp_payment_intent_id :: "string option"
  qp_state :: dynamic_payload_state
  qp_payload_string :: string
  qp_payload_hash :: string
  qp_amount_minor :: "int option"
  qp_currency :: string
  qp_mcc :: string
  qp_merchant_name :: string
  qp_merchant_name_bn :: "string option"
  qp_merchant_city :: string
  qp_expires_at :: "instant option"
  qp_created_at :: instant

record qr_scan_resolution =
  qs_resolution_id :: string
  qs_payload_hash :: string
  qs_payload_id :: "string option"
  qs_on_us :: bool
  qs_customer_ref :: string
  qs_qr_type :: string
  qs_validation_result :: validation_result
  qs_failure_code :: "string option"
  qs_quoted_fee_minor :: "int option"
  qs_payment_intent_id :: "string option"
  qs_scanned_at :: instant

definition QR_ID_PREFIXES :: "string list" where
  "QR_ID_PREFIXES = [''mqr'', ''qrp'', ''qres'', ''qtest'']"

definition qr_make_id :: "(string \<Rightarrow> string) \<Rightarrow> string \<Rightarrow> (string \<times> pyobj) list \<Rightarrow> qr_service_error + string" where
  "qr_make_id h pfx payload =
     bind_sum (check_sum (pfx \<in> set QR_ID_PREFIXES) (QrValueError ''unknown qr id prefix'')) (\<lambda>_.
     bind_sum (case sha256_canonical h (str_dict payload) of
         Inl e \<Rightarrow> Inl (QrCodecError (QrCanonicalError e)) | Inr d \<Rightarrow> Inr d) (\<lambda>digest.
     Inr (pfx @ ''_'' @ take HASH_LENGTH digest)))"

subsection \<open>Transition tables\<close>

definition MERCHANT_QR_TRANSITIONS :: "(merchant_qr_state \<times> string, merchant_qr_state) dict" where
  "MERCHANT_QR_TRANSITIONS =
     [((DRAFT, ''activate''), ACTIVE), ((ACTIVE, ''suspend''), SUSPENDED), ((SUSPENDED, ''reactivate''), ACTIVE),
      ((ACTIVE, ''revoke''), REVOKED), ((SUSPENDED, ''revoke''), REVOKED)]"

definition DYNAMIC_PAYLOAD_TRANSITIONS :: "(dynamic_payload_state \<times> string, dynamic_payload_state) dict" where
  "DYNAMIC_PAYLOAD_TRANSITIONS =
     [((ISSUED, ''scanned''), SCANNED), ((ISSUED, ''paid''), PAID), ((SCANNED, ''paid''), PAID),
      ((ISSUED, ''ttl_expired''), EXPIRED), ((SCANNED, ''ttl_expired''), EXPIRED),
      ((ISSUED, ''cancelled''), CANCELLED), ((SCANNED, ''cancelled''), CANCELLED)]"

definition advance_merchant_qr :: "merchant_qr_state \<Rightarrow> string \<Rightarrow> qr_service_error + merchant_qr_state" where
  "advance_merchant_qr state trigger =
     (case dget MERCHANT_QR_TRANSITIONS (state, trigger) of
        None \<Rightarrow> Inl (ConflictError ''qr_invalid_transition'') | Some s \<Rightarrow> Inr s)"

definition advance_dynamic_payload :: "dynamic_payload_state \<Rightarrow> string \<Rightarrow> qr_service_error + dynamic_payload_state" where
  "advance_dynamic_payload state trigger =
     (case dget DYNAMIC_PAYLOAD_TRANSITIONS (state, trigger) of
        None \<Rightarrow> Inl (ConflictError ''qr_invalid_transition'') | Some s \<Rightarrow> Inr s)"

subsection \<open>Ports\<close>

record merchant_record =
  mr_merchant_id :: string
  mr_state :: string
  mr_mcc :: "string option"
  mr_name :: string
  mr_name_bn :: "string option"
  mr_city :: string
  mr_merchant_pan :: string
  mr_bangla_qr_allowed :: bool

record intent_record =
  ir_payment_intent_id :: string
  ir_merchant_id :: string
  ir_state :: string
  ir_amount_minor :: int
  ir_currency :: string
  ir_method :: string

record fee_quote =
  fq_fee_minor :: int
  fq_payer_pays :: bool
  fq_disclosure :: string

definition zero_fee_quote :: fee_quote where
  "zero_fee_quote = \<lparr>fq_fee_minor = 0, fq_payer_pays = False, fq_disclosure = ''No charge to sender for QR merchant payment''\<rparr>"

subsection \<open>Rows for the NPSB rail\<close>

definition NPSB_QR_MTI :: string where
  "NPSB_QR_MTI = ''0200''"

definition AMOUNT_DIGITS :: nat where
  "AMOUNT_DIGITS = 12"

definition npsb_qr_dictionary_rows ::
    "pyobj \<Rightarrow> string \<Rightarrow> merchant_account_info \<Rightarrow> string \<Rightarrow> string \<Rightarrow> qr_error + (string, string) dict" where
  "npsb_qr_dictionary_rows amount_minor payload_hash template sender_ref processing_code =
     (case amount_minor of
        PInt n \<Rightarrow>
          bind_sum (check_sum (0 < n) (QrEncodeError ''amount_minor must be a positive int (paisa)'')) (\<lambda>_.
          bind_sum (check_sum (py_len processing_code = 6 \<and> list_all is_digit processing_code)
            (QrEncodeError ''processing code must be 6 ASCII digits'')) (\<lambda>_.
          bind_sum (check_sum (take 2 processing_code = ''26'')
            (QrEncodeError ''QR transactions use the 26 merchant-payment family'')) (\<lambda>_.
          let amount = str_int n in
          bind_sum (check_sum (length amount \<le> AMOUNT_DIGITS) (QrEncodeError ''amount exceeds DE4 n12'')) (\<lambda>_.
          let parts = filter (\<lambda>p. p \<noteq> []) ([ma_acquirer_id template, ma_merchant_id template] @
                (case ma_psp_sub_id template of None \<Rightarrow> [] | Some p \<Rightarrow> [p]));
              template_echo = (case parts of [] \<Rightarrow> [] | p # ps \<Rightarrow> p @ concat (map (\<lambda>q. ''|'' @ q) ps)) in
          Inr [(''mti'', NPSB_QR_MTI), (''de3'', processing_code), (''de4'', zero_pad AMOUNT_DIGITS amount),
               (''de48.10'', payload_hash), (''de48.11'', template_echo), (''de49'', ''050''),
               (''de102'', sender_ref), (''de103'', ma_merchant_id template)]))))
      | _ \<Rightarrow> Inl (QrEncodeError ''amount_minor must be a positive int (paisa)''))"

lemma dec_length_bound: "length (dec_nat n) \<le> k \<Longrightarrow> n < 10 ^ k"
  using nat_of_dec_bound [of "dec_nat n"] dec_nat_digits [of _ n] by (simp add: order_less_le_trans power_increasing)

text \<open>C40. The rows for the NPSB rail carry the amount exactly: rows are only built for a positive amount
  below a million million paisa and a processing code of the merchant-payment family, the amount field
  is twelve ASCII digits that read back as the amount, and the payload hash is passed on unchanged.\<close>

theorem npsb_rows_carry_amount:
  assumes "npsb_qr_dictionary_rows (PInt n) payload_hash template sender_ref processing_code = Inr rows"
  shows "0 < n \<and> n < 10 ^ 12 \<and> take 2 processing_code = ''26'' \<and> dget rows ''de48.10'' = Some payload_hash \<and>
    (\<exists>de4. dget rows ''de4'' = Some de4 \<and> length de4 = 12 \<and> list_all is_digit de4 \<and> int (nat_of_dec de4) = n)"
proof -
  have n: "0 < n" and pc: "take 2 processing_code = ''26''" and len: "length (str_int n) \<le> 12"
    and rows: "dget rows ''de4'' = Some (zero_pad 12 (str_int n))" "dget rows ''de48.10'' = Some payload_hash"
    using assms by (auto simp: npsb_qr_dictionary_rows_def bind_sum_Inr_iff AMOUNT_DIGITS_def Let_def)
  have str: "str_int n = dec_nat (nat n)" using n by (simp add: str_int_def)
  have "nat n < 10 ^ 12" using dec_length_bound [of "nat n" 12] len by (simp add: str)
  then have "n < 10 ^ 12" using n by (simp add: nat_less_iff)
  moreover have "length (zero_pad 12 (str_int n)) = 12" using len by (simp add: zero_pad_def)
  moreover have "list_all is_digit (zero_pad 12 (str_int n))"
    using pad_dec_digits [of _ 12 "nat n"] by (auto simp: str pad_dec_def list_all_iff)
  moreover have "int (nat_of_dec (zero_pad 12 (str_int n))) = n" using n by (simp add: str)
  ultimately show ?thesis using n pc rows by simp
qed

theorem npsb_rows_carry_amount_witness: "(950::int) < 10 ^ 12 \<and> int (nat_of_dec ''000000000950'') = 950"
proof -
  have "npsb_qr_dictionary_rows (PInt 950) ''h'' \<lparr>ma_root_id = 26, ma_guid = ''G'', ma_acquirer_id = ''A'',
      ma_merchant_id = ''M'', ma_psp_sub_id = None\<rparr> ''S'' ''260000'' =
    Inr [(''mti'', ''0200''), (''de3'', ''260000''), (''de4'', ''000000000950''), (''de48.10'', ''h''), (''de48.11'', ''A|M''),
      (''de49'', ''050''), (''de102'', ''S''), (''de103'', ''M'')]"
  proof -
    have "str_int 950 = ''950''" "py_len ''260000'' = 6" "list_all is_digit ''260000''"
      "zero_pad 12 ''950'' = ''000000000950''" by code_simp+
    then show ?thesis
      by (simp add: npsb_qr_dictionary_rows_def AMOUNT_DIGITS_def NPSB_QR_MTI_def Let_def)
  qed
  from npsb_rows_carry_amount [OF this] show ?thesis by simp
qed

end
