(* ===== verification/Qr_Service.thy ===== *)
theory Qr_Service
  imports Qr_States
begin

text \<open>
  The QR service over its in-memory repository (\<^verbatim>\<open>qr/service.py\<close>, \<^verbatim>\<open>qr/repository.py\<close>). The state is the
  repository together with what was recorded through the audit and event ports. The merchant directory,
  the intent port and the fee quoter answer as the environment of the call says; the clock is the
  argument \<open>now\<close>.
\<close>

definition STATIC_LIMIT_MINOR :: int where "STATIC_LIMIT_MINOR = 2020000"
definition DYNAMIC_TTL_MIN_SECONDS :: int where "DYNAMIC_TTL_MIN_SECONDS = 60"
definition DYNAMIC_TTL_MAX_SECONDS :: int where "DYNAMIC_TTL_MAX_SECONDS = 900"
definition RESOLUTION_TTL_SECONDS :: int where "RESOLUTION_TTL_SECONDS = 300"
definition MAX_STATIC_QRS_PER_MERCHANT :: nat where "MAX_STATIC_QRS_PER_MERCHANT = 50"

definition seconds :: "int \<Rightarrow> int" where
  "seconds n = n * 1000000"

definition INTENT_PAYABLE_STATES :: "string list" where
  "INTENT_PAYABLE_STATES = [''REQUIRES_PAYMENT_METHOD'', ''REQUIRES_CONFIRMATION'']"

record qr_audit =
  qa_action :: string
  qa_subject_type :: string
  qa_subject_id :: string
  qa_occurred_at :: instant
  qa_details :: "(string \<times> pyobj) list"

record qr_event =
  qv_event_type :: string
  qv_subject_type :: string
  qv_subject_id :: string
  qv_occurred_at :: instant
  qv_payload :: "(string \<times> pyobj) list"

record qr_repo =
  rp_merchant_qrs :: "(string, merchant_qr) dict"
  rp_payloads :: "(string, qr_payload) dict"
  rp_payloads_by_hash :: "(string, string) dict"
  rp_resolutions :: "(string, qr_scan_resolution) dict"
  rp_resolution_order :: "string list"
  rp_audit :: "qr_audit list"
  rp_events :: "qr_event list"

record qr_service_env =
  sv_codec :: qr_env
  sv_config :: qr_config
  sv_merchants :: "string \<Rightarrow> merchant_record option"
  sv_intents_get :: "string \<Rightarrow> intent_record option"
  sv_intents_create :: "string \<Rightarrow> int \<Rightarrow> string \<Rightarrow> (string \<times> string) list \<Rightarrow> intent_record"
  sv_quote :: "string \<Rightarrow> bool \<Rightarrow> int option \<Rightarrow> fee_quote"
  sv_scan_only :: bool

type_synonym 'a qr_call = "(qr_repo, qr_service_error, 'a) pm"

subsection \<open>The repository\<close>

definition empty_repo :: qr_repo where
  "empty_repo = \<lparr>rp_merchant_qrs = [], rp_payloads = [], rp_payloads_by_hash = [], rp_resolutions = [],
     rp_resolution_order = [], rp_audit = [], rp_events = []\<rparr>"

text \<open>\<open>transaction\<close> restores the tables when its body raises.\<close>

definition repo_transaction :: "'a qr_call \<Rightarrow> 'a qr_call" where
  "repo_transaction body = (\<lambda>s. case body s of (Inl e, _) \<Rightarrow> (Inl e, s) | (Inr a, s') \<Rightarrow> (Inr a, s'))"

definition insert_merchant_qr :: "merchant_qr \<Rightarrow> unit qr_call" where
  "insert_merchant_qr row =
     bind_pm (get_pm (\<lambda>s. dget (rp_merchant_qrs s) (mq_merchant_qr_id row))) (\<lambda>old.
     bind_pm (require_that (old = None) (QrValueError ''duplicate merchant_qr_id'')) (\<lambda>_.
     modify_pm (rp_merchant_qrs_update (dput (mq_merchant_qr_id row) row))))"

definition save_merchant_qr :: "merchant_qr \<Rightarrow> unit qr_call" where
  "save_merchant_qr row =
     bind_pm (get_pm (\<lambda>s. dget (rp_merchant_qrs s) (mq_merchant_qr_id row))) (\<lambda>old.
     bind_pm (require_that (old \<noteq> None) (QrValueError ''unknown merchant_qr_id'')) (\<lambda>_.
     modify_pm (rp_merchant_qrs_update (dput (mq_merchant_qr_id row) row))))"

definition repo_list_merchant_qrs :: "string \<Rightarrow> qr_repo \<Rightarrow> merchant_qr list" where
  "repo_list_merchant_qrs merchant_id s = filter (\<lambda>r. mq_merchant_id r = merchant_id) (dvals (rp_merchant_qrs s))"

definition find_merchant_qr_by_label :: "string \<Rightarrow> string \<Rightarrow> qr_repo \<Rightarrow> merchant_qr option" where
  "find_merchant_qr_by_label merchant_id label s =
     find (\<lambda>r. mq_merchant_id r = merchant_id \<and> mq_label r = label) (dvals (rp_merchant_qrs s))"

definition insert_payload :: "qr_payload \<Rightarrow> unit qr_call" where
  "insert_payload row =
     bind_pm (get_pm (\<lambda>s. dget (rp_payloads s) (qp_payload_id row) = None \<and> dget (rp_payloads_by_hash s) (qp_payload_hash row) = None)) (\<lambda>fresh.
     bind_pm (require_that fresh (QrValueError ''duplicate payload'')) (\<lambda>_.
     modify_pm (\<lambda>s. s\<lparr>rp_payloads := dput (qp_payload_id row) row (rp_payloads s),
       rp_payloads_by_hash := dput (qp_payload_hash row) (qp_payload_id row) (rp_payloads_by_hash s)\<rparr>)))"

definition get_payload_by_hash :: "string \<Rightarrow> qr_repo \<Rightarrow> qr_payload option" where
  "get_payload_by_hash payload_hash s =
     (case dget (rp_payloads_by_hash s) payload_hash of
        None \<Rightarrow> None
      | Some payload_id \<Rightarrow> if payload_id = [] then None else dget (rp_payloads s) payload_id)"

definition save_payload :: "qr_payload \<Rightarrow> unit qr_call" where
  "save_payload row =
     bind_pm (get_pm (\<lambda>s. dget (rp_payloads s) (qp_payload_id row))) (\<lambda>old.
     bind_pm (require_that (old \<noteq> None) (QrValueError ''unknown payload_id'')) (\<lambda>_.
     modify_pm (rp_payloads_update (dput (qp_payload_id row) row))))"

definition find_dynamic_by_intent :: "string \<Rightarrow> qr_repo \<Rightarrow> qr_payload option" where
  "find_dynamic_by_intent payment_intent_id s =
     find (\<lambda>r. qp_qr_type r = DYNAMIC \<and> qp_payment_intent_id r = Some payment_intent_id) (dvals (rp_payloads s))"

definition list_expirable :: "instant \<Rightarrow> qr_repo \<Rightarrow> qr_payload list" where
  "list_expirable now s =
     filter (\<lambda>r. qp_qr_type r = DYNAMIC \<and> qp_state r \<in> {ISSUED, SCANNED} \<and>
       (case qp_expires_at r of None \<Rightarrow> False | Some t \<Rightarrow> t < now)) (dvals (rp_payloads s))"

definition insert_resolution :: "qr_scan_resolution \<Rightarrow> unit qr_call" where
  "insert_resolution row =
     bind_pm (get_pm (\<lambda>s. dget (rp_resolutions s) (qs_resolution_id row))) (\<lambda>old.
     bind_pm (require_that (old = None) (QrValueError ''duplicate resolution_id'')) (\<lambda>_.
     modify_pm (\<lambda>s. s\<lparr>rp_resolutions := dput (qs_resolution_id row) row (rp_resolutions s),
       rp_resolution_order := rp_resolution_order s @ [qs_resolution_id row]\<rparr>)))"

definition set_resolution_intent :: "string \<Rightarrow> string \<Rightarrow> unit qr_call" where
  "set_resolution_intent resolution_id payment_intent_id =
     bind_pm (get_pm (\<lambda>s. dget (rp_resolutions s) resolution_id)) (\<lambda>found.
     case found of
       None \<Rightarrow> raise_err (QrValueError ''KeyError'')
     | Some row \<Rightarrow> modify_pm (rp_resolutions_update (dput resolution_id (row\<lparr>qs_payment_intent_id := Some payment_intent_id\<rparr>))))"

definition list_resolutions :: "qr_repo \<Rightarrow> qr_scan_resolution list" where
  "list_resolutions s = map (\<lambda>rid. the (dget (rp_resolutions s) rid)) (rp_resolution_order s)"

subsection \<open>Internals of the service\<close>

definition publish :: "string \<Rightarrow> string \<Rightarrow> string \<Rightarrow> instant \<Rightarrow> (string \<times> pyobj) list \<Rightarrow> unit qr_call" where
  "publish event_type subject_type subject_id occurred_at payload =
     modify_pm (rp_events_update (\<lambda>es. es @ [\<lparr>qv_event_type = event_type, qv_subject_type = subject_type,
       qv_subject_id = subject_id, qv_occurred_at = occurred_at, qv_payload = payload\<rparr>]))"

definition audit_record :: "string \<Rightarrow> string \<Rightarrow> string \<Rightarrow> instant \<Rightarrow> (string \<times> pyobj) list \<Rightarrow> unit qr_call" where
  "audit_record action subject_type subject_id occurred_at details =
     modify_pm (rp_audit_update (\<lambda>es. es @ [\<lparr>qa_action = action, qa_subject_type = subject_type,
       qa_subject_id = subject_id, qa_occurred_at = occurred_at, qa_details = details\<rparr>]))"

definition refuse_if_scan_only :: "qr_service_env \<Rightarrow> unit qr_call" where
  "refuse_if_scan_only env = require_that (\<not> sv_scan_only env) (ConflictError ''qr_scan_only_mode'')"

definition service_merchant_account :: "qr_config \<Rightarrow> string \<Rightarrow> merchant_account_info" where
  "service_merchant_account config merchant_pan =
     \<lparr>ma_root_id = cfg_template_root_id config, ma_guid = cfg_scheme_guid config,
      ma_acquirer_id = cfg_acquirer_id config, ma_merchant_id = merchant_pan,
      ma_psp_sub_id = Some (cfg_psp_sub_id config)\<rparr>"

definition new_payload_row ::
    "qr_service_env \<Rightarrow> parsed_payload \<Rightarrow> qr_type \<Rightarrow> string option \<Rightarrow> string option \<Rightarrow> int option \<Rightarrow> instant option \<Rightarrow> instant \<Rightarrow>
     qr_service_error + qr_payload" where
  "new_payload_row env parsed qr_type merchant_qr_id payment_intent_id amount_minor expires_at created_at =
     bind_sum (qr_make_id (qe_sha256 (sv_codec env)) ''qrp'' [(''payload_string'', PStr (pp_payload_string parsed))]) (\<lambda>payload_id.
     Inr \<lparr>qp_payload_id = payload_id, qp_qr_type = qr_type, qp_merchant_qr_id = merchant_qr_id,
          qp_payment_intent_id = payment_intent_id, qp_state = ISSUED,
          qp_payload_string = pp_payload_string parsed, qp_payload_hash = pp_payload_hash parsed,
          qp_amount_minor = amount_minor, qp_currency = ''BDT'', qp_mcc = pp_mcc parsed,
          qp_merchant_name = pp_merchant_name parsed,
          qp_merchant_name_bn = Option.bind (pp_language parsed) lt_merchant_name,
          qp_merchant_city = pp_merchant_city parsed, qp_expires_at = expires_at, qp_created_at = created_at\<rparr>)"

definition require_merchant_qr :: "string \<Rightarrow> merchant_qr qr_call" where
  "require_merchant_qr merchant_qr_id =
     bind_pm (get_pm (\<lambda>s. dget (rp_merchant_qrs s) merchant_qr_id)) (\<lambda>found.
     case found of None \<Rightarrow> raise_err (NotFoundError merchant_qr_id) | Some row \<Rightarrow> ret row)"

definition lifecycle_event :: "string \<Rightarrow> string" where
  "lifecycle_event trigger =
     (if trigger = ''suspend'' then ''merchant_qr.suspended''
      else if trigger = ''revoke'' then ''merchant_qr.revoked'' else ''merchant_qr.activated'')"

definition lifecycle_action :: "string \<Rightarrow> string" where
  "lifecycle_action trigger =
     (if trigger = ''suspend'' then ''QR_SUSPEND'' else if trigger = ''revoke'' then ''QR_REVOKE''
      else if trigger = ''reactivate'' then ''QR_REACTIVATE'' else ''QR_ACTIVATE'')"

definition lifecycle :: "string \<Rightarrow> string \<Rightarrow> string option \<Rightarrow> instant \<Rightarrow> merchant_qr qr_call" where
  "lifecycle merchant_qr_id trigger reason now =
     bind_pm (require_merchant_qr merchant_qr_id) (\<lambda>row.
     bind_pm (lift_sum (advance_merchant_qr (mq_state row) trigger)) (\<lambda>new_state.
     let row' = row\<lparr>mq_state := new_state,
           mq_suspend_reason := (if trigger \<in> {''suspend'', ''revoke''} then reason else None), mq_updated_at := now\<rparr>;
         payload = [(''merchant_qr_id'', PStr merchant_qr_id), (''merchant_id'', PStr (mq_merchant_id row'))] @
           (if truthy reason then [(''reason'', PStr (the reason))] else []) in
     bind_pm (save_merchant_qr row') (\<lambda>_.
     bind_pm (audit_record (lifecycle_action trigger) ''MerchantQr'' merchant_qr_id now payload) (\<lambda>_.
     bind_pm (publish (lifecycle_event trigger) ''MerchantQr'' merchant_qr_id now payload) (\<lambda>_.
     ret row')))))"

definition check_merchant_qr_live :: "qr_service_env \<Rightarrow> merchant_qr \<Rightarrow> unit qr_call" where
  "check_merchant_qr_live env merchant_qr =
     bind_pm (require_that (mq_state merchant_qr \<noteq> REVOKED) (ConflictError ''qr_revoked'')) (\<lambda>_.
     bind_pm (require_that (mq_state merchant_qr = ACTIVE) (ConflictError ''qr_merchant_suspended'')) (\<lambda>_.
     require_that (case sv_merchants env (mq_merchant_id merchant_qr) of None \<Rightarrow> False | Some m \<Rightarrow> mr_state m = ''ACTIVE'')
       (ConflictError ''qr_merchant_suspended'')))"

definition intent_ref :: "qr_payload \<Rightarrow> pyobj" where
  "intent_ref row = (case qp_payment_intent_id row of None \<Rightarrow> PNone | Some i \<Rightarrow> PStr i)"

text \<open>A live dynamic payload is moved on by a trigger, saved and announced.\<close>

definition expire_payload :: "qr_payload \<Rightarrow> instant \<Rightarrow> unit qr_call" where
  "expire_payload row now =
     bind_pm (lift_sum (advance_dynamic_payload (qp_state row) ''ttl_expired'')) (\<lambda>new_state.
     bind_pm (save_payload (row\<lparr>qp_state := new_state\<rparr>)) (\<lambda>_.
     publish ''qr_payload.expired'' ''QrPayload'' (qp_payload_id row) now
       [(''payload_id'', PStr (qp_payload_id row)), (''payment_intent_id'', intent_ref row)]))"

definition check_on_us :: "qr_service_env \<Rightarrow> qr_payload \<Rightarrow> instant \<Rightarrow> unit qr_call" where
  "check_on_us env ours now =
     (if qp_qr_type ours = STATIC then
        (case qp_merchant_qr_id ours of
           None \<Rightarrow> ret ()
         | Some mid \<Rightarrow> bind_pm (require_merchant_qr mid) (check_merchant_qr_live env))
      else
        bind_pm (require_that (qp_state ours \<noteq> PAID) (ConflictError ''qr_already_paid'')) (\<lambda>_.
        bind_pm (require_that (qp_state ours \<noteq> EXPIRED) (ConflictError ''qr_expired'')) (\<lambda>_.
        bind_pm (require_that (qp_state ours \<noteq> CANCELLED) (ConflictError ''qr_cancelled'')) (\<lambda>_.
        if (case qp_expires_at ours of None \<Rightarrow> False | Some t \<Rightarrow> t < now) then
          bind_pm (expire_payload ours now) (\<lambda>_. raise_err (ConflictError ''qr_expired''))
        else ret ()))))"

text \<open>The identifier of a scan resolution.\<close>

definition record_scan ::
    "qr_service_env \<Rightarrow> string \<Rightarrow> string option \<Rightarrow> bool \<Rightarrow> string \<Rightarrow> string \<Rightarrow> validation_result \<Rightarrow> string option \<Rightarrow> int option \<Rightarrow>
     instant \<Rightarrow> qr_scan_resolution qr_call" where
  "record_scan env payload_hash payload_id on_us customer_ref qr_type result failure_code quoted_fee_minor scanned_at =
     bind_pm (lift_sum (qr_make_id (qe_sha256 (sv_codec env)) ''qres''
       [(''payload_hash'', PStr payload_hash), (''customer_ref'', PStr customer_ref), (''scanned_at'', PDatetime (Aware scanned_at))])) (\<lambda>resolution_id.
     let resolution = \<lparr>qs_resolution_id = resolution_id, qs_payload_hash = payload_hash, qs_payload_id = payload_id,
           qs_on_us = on_us, qs_customer_ref = customer_ref, qs_qr_type = qr_type, qs_validation_result = result,
           qs_failure_code = failure_code, qs_quoted_fee_minor = quoted_fee_minor, qs_payment_intent_id = None,
           qs_scanned_at = scanned_at\<rparr> in
     bind_pm (insert_resolution resolution) (\<lambda>_.
     bind_pm (publish ''qr_payload.scanned'' ''QrScanResolution'' resolution_id scanned_at
       ([(''resolution_id'', PStr resolution_id), (''payload_hash'', PStr payload_hash), (''on_us'', PBool on_us),
         (''validation_result'', PStr (if result = VALID then ''VALID'' else ''INVALID''))] @
        (if truthy failure_code then [(''failure_code'', PStr (the failure_code))] else []))) (\<lambda>_.
     ret resolution)))"

subsection \<open>Issuing\<close>

record static_qr_issue_result =
  si_merchant_qr_id :: string
  si_state :: merchant_qr_state
  si_payload :: string
  si_payload_hash :: string
  si_static_limit_minor :: int

record dynamic_qr_issue_result =
  di_payload_id :: string
  di_payment_intent_id :: string
  di_payload :: string
  di_payload_hash :: string
  di_amount_minor :: int
  di_expires_at :: instant

definition bengali_language :: "merchant_record \<Rightarrow> language_template option" where
  "bengali_language merchant =
     (if truthy (mr_name_bn merchant)
      then Some \<lparr>lt_language_preference = ''bn'', lt_merchant_name = mr_name_bn merchant, lt_merchant_city = None\<rparr>
      else None)"

definition static_request :: "qr_service_env \<Rightarrow> merchant_record \<Rightarrow> string option \<Rightarrow> string option \<Rightarrow> qr_encode_request" where
  "static_request env merchant store_id terminal_id =
     \<lparr>rq_qr_type = STATIC, rq_merchant_account = service_merchant_account (sv_config env) (mr_merchant_pan merchant),
      rq_mcc = the (mr_mcc merchant), rq_merchant_name = mr_name merchant, rq_merchant_city = mr_city merchant,
      rq_amount_minor = None, rq_postal_code = None, rq_tip_indicator = None, rq_convenience_fee_fixed_minor = None,
      rq_convenience_fee_percentage = None,
      rq_additional = Some (NO_ADDITIONAL\<lparr>ad_store_label := store_id, ad_terminal_label := terminal_id\<rparr>),
      rq_language = bengali_language merchant\<rparr>"

definition require_issuable :: "merchant_record \<Rightarrow> unit qr_call" where
  "require_issuable merchant =
     bind_pm (require_that (mr_state merchant = ''ACTIVE'' \<and> truthy (mr_mcc merchant)) (ConflictError ''merchant_not_active'')) (\<lambda>_.
     require_that (mr_bangla_qr_allowed merchant) (ConflictError ''qr_method_not_allowed''))"

definition issue_static ::
    "qr_service_env \<Rightarrow> string \<Rightarrow> string \<Rightarrow> string option \<Rightarrow> string option \<Rightarrow> instant \<Rightarrow> static_qr_issue_result qr_call" where
  "issue_static env merchant_id label store_id terminal_id now =
     bind_pm (refuse_if_scan_only env) (\<lambda>_.
     case sv_merchants env merchant_id of
       None \<Rightarrow> raise_err (NotFoundError merchant_id)
     | Some merchant \<Rightarrow>
     bind_pm (require_issuable merchant) (\<lambda>_.
     bind_pm (get_pm (repo_list_merchant_qrs merchant_id)) (\<lambda>existing.
     bind_pm (require_that (length existing < MAX_STATIC_QRS_PER_MERCHANT) (LimitExceededError ''qr_count_limit'')) (\<lambda>_.
     bind_pm (get_pm (find_merchant_qr_by_label merchant_id label)) (\<lambda>same_label.
     bind_pm (require_that (same_label = None) (ConflictError ''qr_label_exists'')) (\<lambda>_.
     bind_pm (lift_sum (lift_qr (encode_payload (sv_codec env) (static_request env merchant store_id terminal_id)))) (\<lambda>payload_string.
     bind_pm (require_that (verify_crc payload_string) (ConflictError ''qr_encode_failed'')) (\<lambda>_.
     bind_pm (lift_sum (lift_qr (parse_and_validate (sv_codec env) payload_string (sv_config env)))) (\<lambda>parsed.
     bind_pm (get_pm (get_payload_by_hash (pp_payload_hash parsed))) (\<lambda>same_payload.
     bind_pm (require_that (same_payload = None) (ConflictError ''qr_payload_exists'')) (\<lambda>_.
     bind_pm (lift_sum (qr_make_id (qe_sha256 (sv_codec env)) ''mqr''
       [(''merchant_id'', PStr merchant_id), (''store_id'', opt_str store_id), (''terminal_id'', opt_str terminal_id),
        (''label'', PStr label)])) (\<lambda>merchant_qr_id.
     bind_pm (lift_sum (new_payload_row env parsed STATIC (Some merchant_qr_id) None None None now)) (\<lambda>payload_row.
     bind_pm (lift_sum (advance_merchant_qr DRAFT ''activate'')) (\<lambda>state.
     let row = \<lparr>mq_merchant_qr_id = merchant_qr_id, mq_merchant_id = merchant_id, mq_state = state, mq_label = label,
           mq_store_id = store_id, mq_terminal_id = terminal_id, mq_current_payload_id = Some (qp_payload_id payload_row),
           mq_suspend_reason = None, mq_created_at = now, mq_updated_at = now\<rparr> in
     bind_pm (repo_transaction (bind_pm (insert_merchant_qr row) (\<lambda>_. insert_payload payload_row))) (\<lambda>_.
     bind_pm (audit_record ''QR_ISSUED'' ''MerchantQr'' merchant_qr_id now
       [(''merchant_id'', PStr merchant_id), (''payload_hash'', PStr (qp_payload_hash payload_row))]) (\<lambda>_.
     bind_pm (publish ''merchant_qr.activated'' ''MerchantQr'' merchant_qr_id now
       [(''merchant_qr_id'', PStr merchant_qr_id), (''merchant_id'', PStr merchant_id)]) (\<lambda>_.
     bind_pm (publish ''qr_payload.issued'' ''QrPayload'' (qp_payload_id payload_row) now
       [(''payload_id'', PStr (qp_payload_id payload_row)), (''qr_type'', PStr ''STATIC''),
        (''payload_hash'', PStr (qp_payload_hash payload_row))]) (\<lambda>_.
     ret \<lparr>si_merchant_qr_id = merchant_qr_id, si_state = state, si_payload = payload_string,
          si_payload_hash = ''sha256:'' @ qp_payload_hash payload_row, si_static_limit_minor = STATIC_LIMIT_MINOR\<rparr>))))))))))))))))))"

definition dynamic_request :: "qr_service_env \<Rightarrow> merchant_record \<Rightarrow> intent_record \<Rightarrow> string \<Rightarrow> qr_encode_request" where
  "dynamic_request env merchant intent payment_intent_id =
     \<lparr>rq_qr_type = DYNAMIC, rq_merchant_account = service_merchant_account (sv_config env) (mr_merchant_pan merchant),
      rq_mcc = the (mr_mcc merchant), rq_merchant_name = mr_name merchant, rq_merchant_city = mr_city merchant,
      rq_amount_minor = Some (ir_amount_minor intent), rq_postal_code = None, rq_tip_indicator = None,
      rq_convenience_fee_fixed_minor = None, rq_convenience_fee_percentage = None,
      rq_additional = Some (NO_ADDITIONAL\<lparr>ad_reference_label := Some payment_intent_id\<rparr>),
      rq_language = bengali_language merchant\<rparr>"

definition issue_dynamic :: "qr_service_env \<Rightarrow> string \<Rightarrow> pyobj \<Rightarrow> instant \<Rightarrow> dynamic_qr_issue_result qr_call" where
  "issue_dynamic env payment_intent_id ttl_seconds now =
     bind_pm (refuse_if_scan_only env) (\<lambda>_.
     bind_pm (lift_sum (case ttl_seconds of
         PInt n \<Rightarrow> if DYNAMIC_TTL_MIN_SECONDS \<le> n \<and> n \<le> DYNAMIC_TTL_MAX_SECONDS then Inr n
           else Inl (InvalidRequestError ''qr_invalid_ttl'')
       | _ \<Rightarrow> Inl (InvalidRequestError ''qr_invalid_ttl''))) (\<lambda>ttl.
     case sv_intents_get env payment_intent_id of
       None \<Rightarrow> raise_err (NotFoundError payment_intent_id)
     | Some intent \<Rightarrow>
     bind_pm (require_that (ir_state intent \<in> set INTENT_PAYABLE_STATES) (ConflictError ''intent_not_payable'')) (\<lambda>_.
     bind_pm (get_pm (find_dynamic_by_intent payment_intent_id)) (\<lambda>existing.
     bind_pm (require_that (existing = None) (ConflictError ''qr_intent_already_has_payload'')) (\<lambda>_.
     case sv_merchants env (ir_merchant_id intent) of
       None \<Rightarrow> raise_err (NotFoundError (ir_merchant_id intent))
     | Some merchant \<Rightarrow>
     bind_pm (require_issuable merchant) (\<lambda>_.
     let expires_at = now + seconds ttl in
     bind_pm (lift_sum (lift_qr (encode_payload (sv_codec env) (dynamic_request env merchant intent payment_intent_id)))) (\<lambda>payload_string.
     bind_pm (lift_sum (lift_qr (parse_and_validate (sv_codec env) payload_string (sv_config env)))) (\<lambda>parsed.
     bind_pm (lift_sum (new_payload_row env parsed DYNAMIC None (Some payment_intent_id) (Some (ir_amount_minor intent))
       (Some expires_at) now)) (\<lambda>payload_row.
     bind_pm (insert_payload payload_row) (\<lambda>_.
     bind_pm (publish ''qr_payload.issued'' ''QrPayload'' (qp_payload_id payload_row) now
       [(''payload_id'', PStr (qp_payload_id payload_row)), (''qr_type'', PStr ''DYNAMIC''),
        (''payload_hash'', PStr (qp_payload_hash payload_row)), (''amount_minor'', PInt (ir_amount_minor intent))]) (\<lambda>_.
     ret \<lparr>di_payload_id = qp_payload_id payload_row, di_payment_intent_id = payment_intent_id, di_payload = payload_string,
          di_payload_hash = ''sha256:'' @ qp_payload_hash payload_row, di_amount_minor = ir_amount_minor intent,
          di_expires_at = expires_at\<rparr>)))))))))))"

subsection \<open>Life cycle of a merchant's code\<close>

definition suspend_qr :: "string \<Rightarrow> string \<Rightarrow> instant \<Rightarrow> merchant_qr qr_call" where
  "suspend_qr merchant_qr_id reason now = lifecycle merchant_qr_id ''suspend'' (Some reason) now"

definition reactivate_qr :: "qr_service_env \<Rightarrow> string \<Rightarrow> instant \<Rightarrow> merchant_qr qr_call" where
  "reactivate_qr env merchant_qr_id now =
     bind_pm (require_merchant_qr merchant_qr_id) (\<lambda>row.
     bind_pm (require_that (case sv_merchants env (mq_merchant_id row) of None \<Rightarrow> False | Some m \<Rightarrow> mr_state m = ''ACTIVE'')
       (ConflictError ''merchant_not_active'')) (\<lambda>_.
     lifecycle merchant_qr_id ''reactivate'' None now))"

definition revoke_qr :: "string \<Rightarrow> string \<Rightarrow> instant \<Rightarrow> merchant_qr qr_call" where
  "revoke_qr merchant_qr_id reason now = lifecycle merchant_qr_id ''revoke'' (Some reason) now"

text \<open>The cascades read the list once; \<open>clock\<close> gives the instant at which each code is handled.\<close>

fun cascade :: "string \<Rightarrow> string \<Rightarrow> (string \<Rightarrow> instant) \<Rightarrow> merchant_qr list \<Rightarrow> nat qr_call" where
  "cascade trigger reason clock [] = ret 0"
| "cascade trigger reason clock (row # rows) =
     bind_pm (lifecycle (mq_merchant_qr_id row) trigger (Some reason) (clock (mq_merchant_qr_id row))) (\<lambda>_.
     bind_pm (cascade trigger reason clock rows) (\<lambda>n. ret (Suc n)))"

definition on_merchant_suspended :: "string \<Rightarrow> (string \<Rightarrow> instant) \<Rightarrow> nat qr_call" where
  "on_merchant_suspended merchant_id clock =
     bind_pm (get_pm (repo_list_merchant_qrs merchant_id)) (\<lambda>rows.
     cascade ''suspend'' ''merchant_suspended'' clock (filter (\<lambda>r. mq_state r = ACTIVE) rows))"

definition on_merchant_terminated :: "string \<Rightarrow> (string \<Rightarrow> instant) \<Rightarrow> nat qr_call" where
  "on_merchant_terminated merchant_id clock =
     bind_pm (get_pm (repo_list_merchant_qrs merchant_id)) (\<lambda>rows.
     cascade ''revoke'' ''merchant_terminated'' clock (filter (\<lambda>r. mq_state r \<in> {ACTIVE, SUSPENDED}) rows))"

definition get_payload_for_qr :: "string \<Rightarrow> qr_payload qr_call" where
  "get_payload_for_qr merchant_qr_id =
     bind_pm (require_merchant_qr merchant_qr_id) (\<lambda>row.
     bind_pm (get_pm (\<lambda>s. if truthy (mq_current_payload_id row) then dget (rp_payloads s) (the (mq_current_payload_id row)) else None)) (\<lambda>found.
     case found of None \<Rightarrow> raise_err (NotFoundError ''qr_payload_missing'') | Some row \<Rightarrow> ret row))"

subsection \<open>Scan and pay\<close>

record resolve_result =
  rr_resolution_id :: string
  rr_qr_type :: qr_type
  rr_on_us :: bool
  rr_merchant_name :: string
  rr_merchant_name_alt :: "string option"
  rr_merchant_city :: string
  rr_mcc :: string
  rr_acquirer_scheme :: route_class
  rr_acquirer_id :: "string option"
  rr_merchant_pan_ref :: "string option"
  rr_amount_minor :: "int option"
  rr_tip_indicator :: "string option"
  rr_static_limit_minor :: "int option"
  rr_fee_quote :: fee_quote
  rr_expires_at :: instant

definition type_name :: "qr_type \<Rightarrow> string" where
  "type_name t = (case t of STATIC \<Rightarrow> ''STATIC'' | DYNAMIC \<Rightarrow> ''DYNAMIC'')"

text \<open>\<^verbatim>\<open>except ConflictError\<close>.\<close>

definition catch_conflict :: "'a qr_call \<Rightarrow> (string \<Rightarrow> 'a qr_call) \<Rightarrow> 'a qr_call" where
  "catch_conflict m handler = (\<lambda>s. case m s of (Inl (ConflictError c), s') \<Rightarrow> handler c s' | r \<Rightarrow> r)"

definition mark_scanned :: "qr_payload \<Rightarrow> unit qr_call" where
  "mark_scanned ours =
     (if qp_qr_type ours = DYNAMIC \<and> qp_state ours = ISSUED then
        bind_pm (lift_sum (advance_dynamic_payload (qp_state ours) ''scanned'')) (\<lambda>new_state.
        save_payload (ours\<lparr>qp_state := new_state\<rparr>))
      else ret ())"

definition resolve_result_of :: "parsed_payload \<Rightarrow> bool \<Rightarrow> fee_quote \<Rightarrow> qr_scan_resolution \<Rightarrow> instant \<Rightarrow> resolve_result" where
  "resolve_result_of parsed on_us quote resolution scanned_at =
     (let bengali_name = Option.bind (pp_language parsed) lt_merchant_name; template = pp_bangla_template parsed in
      \<lparr>rr_resolution_id = qs_resolution_id resolution, rr_qr_type = pp_qr_type parsed, rr_on_us = on_us,
       rr_merchant_name = (if truthy bengali_name then the bengali_name else pp_merchant_name parsed),
       rr_merchant_name_alt = (if truthy bengali_name then Some (pp_merchant_name parsed) else None),
       rr_merchant_city = pp_merchant_city parsed, rr_mcc = pp_mcc parsed, rr_acquirer_scheme = pp_route_class parsed,
       rr_acquirer_id = map_option ma_acquirer_id template, rr_merchant_pan_ref = map_option ma_merchant_id template,
       rr_amount_minor = pp_amount_minor parsed, rr_tip_indicator = pp_tip_indicator parsed,
       rr_static_limit_minor = (if pp_qr_type parsed = STATIC then Some STATIC_LIMIT_MINOR else None),
       rr_fee_quote = quote, rr_expires_at = scanned_at + seconds RESOLUTION_TTL_SECONDS\<rparr>)"

definition resolve_accepted :: "qr_service_env \<Rightarrow> parsed_payload \<Rightarrow> string \<Rightarrow> instant \<Rightarrow> resolve_result qr_call" where
  "resolve_accepted env parsed customer_ref scanned_at =
     bind_pm (get_pm (get_payload_by_hash (pp_payload_hash parsed))) (\<lambda>ours.
     let on_us = ours \<noteq> None; payload_id = map_option qp_payload_id ours in
     bind_pm (catch_conflict (case ours of None \<Rightarrow> ret () | Some row \<Rightarrow> check_on_us env row scanned_at) (\<lambda>code.
       bind_pm (record_scan env (pp_payload_hash parsed) payload_id on_us customer_ref (type_name (pp_qr_type parsed))
         INVALID (Some code) None scanned_at) (\<lambda>_. raise_err (ConflictError code)))) (\<lambda>_.
     bind_pm (case ours of None \<Rightarrow> ret () | Some row \<Rightarrow> mark_scanned row) (\<lambda>_.
     let quote = sv_quote env (type_name (pp_qr_type parsed)) on_us (pp_amount_minor parsed) in
     bind_pm (record_scan env (pp_payload_hash parsed) payload_id on_us customer_ref (type_name (pp_qr_type parsed))
       VALID None (Some (fq_fee_minor quote)) scanned_at) (\<lambda>resolution.
     ret (resolve_result_of parsed on_us quote resolution scanned_at)))))"

definition resolve_scan :: "qr_service_env \<Rightarrow> string \<Rightarrow> string \<Rightarrow> instant \<Rightarrow> resolve_result qr_call" where
  "resolve_scan env payload customer_ref scanned_at =
     (case parse_and_validate (sv_codec env) payload (sv_config env) of
        Inl (QrValidationError code) \<Rightarrow>
          bind_pm (lift_sum (lift_qr (payload_hash_of (sv_codec env) payload))) (\<lambda>payload_hash.
          bind_pm (record_scan env payload_hash None False customer_ref ''UNKNOWN'' INVALID (Some code) None scanned_at) (\<lambda>_.
          raise_err (QrCodecError (QrValidationError code))))
      | Inl e \<Rightarrow> raise_err (QrCodecError e)
      | Inr parsed \<Rightarrow> resolve_accepted env parsed customer_ref scanned_at)"

definition pay_dynamic :: "qr_service_env \<Rightarrow> string \<Rightarrow> qr_payload option \<Rightarrow> pyobj \<Rightarrow> instant \<Rightarrow> intent_record qr_call" where
  "pay_dynamic env resolution_id payload_row amount_minor now =
     bind_pm (require_that (amount_minor = PNone) (InvalidRequestError ''qr_amount_not_allowed'')) (\<lambda>_.
     case payload_row of
       None \<Rightarrow> raise_err (ConflictError ''qr_no_routable_template'')
     | Some row \<Rightarrow>
         bind_pm (check_on_us env row now) (\<lambda>_.
         case sv_intents_get env (case qp_payment_intent_id row of None \<Rightarrow> [] | Some i \<Rightarrow> i) of
           None \<Rightarrow> raise_err (ConflictError ''qr_cancelled'')
         | Some intent \<Rightarrow>
             bind_pm (set_resolution_intent resolution_id (ir_payment_intent_id intent)) (\<lambda>_. ret intent)))"

definition pay_static :: "qr_service_env \<Rightarrow> qr_scan_resolution \<Rightarrow> string \<Rightarrow> qr_payload option \<Rightarrow> pyobj \<Rightarrow> instant \<Rightarrow> intent_record qr_call" where
  "pay_static env resolution resolution_id payload_row amount_minor now =
     bind_pm (lift_sum (case amount_minor of PInt n \<Rightarrow> Inr n | _ \<Rightarrow> Inl (InvalidRequestError ''qr_amount_required''))) (\<lambda>amount.
     bind_pm (require_that (0 < amount) (InvalidRequestError ''qr_amount_required'')) (\<lambda>_.
     bind_pm (require_that (amount \<le> STATIC_LIMIT_MINOR) (LimitExceededError ''qr_static_over_limit'')) (\<lambda>_.
     bind_pm (case Option.bind payload_row qp_merchant_qr_id of
         None \<Rightarrow> ret []
       | Some mid \<Rightarrow> bind_pm (require_merchant_qr mid) (\<lambda>merchant_qr.
           bind_pm (check_merchant_qr_live env merchant_qr) (\<lambda>_. ret (mq_merchant_id merchant_qr)))) (\<lambda>merchant_id.
     let intent = sv_intents_create env merchant_id amount ''BANGLA_QR''
           [(''qr_payload_hash'', qs_payload_hash resolution), (''qr_type'', qs_qr_type resolution), (''resolution_id'', resolution_id)] in
     bind_pm (set_resolution_intent resolution_id (ir_payment_intent_id intent)) (\<lambda>_.
     bind_pm (audit_record ''QR_PAY_INITIATED'' ''QrScanResolution'' resolution_id now
       [(''payment_intent_id'', PStr (ir_payment_intent_id intent))]) (\<lambda>_.
     ret intent))))))"

definition pay :: "qr_service_env \<Rightarrow> string \<Rightarrow> pyobj \<Rightarrow> instant \<Rightarrow> intent_record qr_call" where
  "pay env resolution_id amount_minor now =
     bind_pm (get_pm (\<lambda>s. dget (rp_resolutions s) resolution_id)) (\<lambda>found.
     case found of
       None \<Rightarrow> raise_err (NotFoundError resolution_id)
     | Some resolution \<Rightarrow>
     bind_pm (require_that (qs_validation_result resolution = VALID) (ConflictError ''qr_resolution_invalid'')) (\<lambda>_.
     bind_pm (require_that (now \<le> qs_scanned_at resolution + seconds RESOLUTION_TTL_SECONDS) (ConflictError ''qr_resolution_expired'')) (\<lambda>_.
     bind_pm (require_that (qs_payment_intent_id resolution = None) (ConflictError ''qr_already_paid'')) (\<lambda>_.
     bind_pm (get_pm (\<lambda>s. if truthy (qs_payload_id resolution) then dget (rp_payloads s) (the (qs_payload_id resolution)) else None)) (\<lambda>payload_row.
     if qs_qr_type resolution = ''DYNAMIC'' then pay_dynamic env resolution_id payload_row amount_minor now
     else pay_static env resolution resolution_id payload_row amount_minor now)))))"

subsection \<open>Intent events and the sweep\<close>

definition outcome_trigger :: "string \<Rightarrow> string option" where
  "outcome_trigger outcome =
     map_of [(''succeeded'', ''paid''), (''failed'', ''cancelled''), (''cancelled'', ''cancelled'')] outcome"

definition on_intent_event :: "string \<Rightarrow> string \<Rightarrow> instant \<Rightarrow> unit qr_call" where
  "on_intent_event payment_intent_id outcome now =
     (case outcome_trigger outcome of
        None \<Rightarrow> raise_err (InvalidRequestError ''unknown intent outcome'')
      | Some trigger \<Rightarrow>
          bind_pm (get_pm (find_dynamic_by_intent payment_intent_id)) (\<lambda>found.
          case found of
            None \<Rightarrow> ret ()
          | Some row \<Rightarrow>
              if qp_state row \<notin> {ISSUED, SCANNED} then ret ()
              else
                bind_pm (lift_sum (advance_dynamic_payload (qp_state row) trigger)) (\<lambda>new_state.
                bind_pm (save_payload (row\<lparr>qp_state := new_state\<rparr>)) (\<lambda>_.
                publish (if trigger = ''paid'' then ''qr_payload.paid'' else ''qr_payload.cancelled'') ''QrPayload''
                  (qp_payload_id row) now
                  [(''payload_id'', PStr (qp_payload_id row)), (''payment_intent_id'', PStr payment_intent_id)]))))"

definition sweep_expired :: "instant \<Rightarrow> nat qr_call" where
  "sweep_expired now =
     bind_pm (get_pm (list_expirable now)) (\<lambda>rows.
     bind_pm (for_each (\<lambda>row. expire_payload row now) rows) (\<lambda>_. ret (length rows)))"

record dashboard_stats =
  ds_static_qr_count :: nat
  ds_payload_count :: nat
  ds_scan_count :: nat
  ds_scan_valid_count :: nat
  ds_failure_breakdown :: "(string, nat) dict"

definition dashboard :: "qr_repo \<Rightarrow> dashboard_stats" where
  "dashboard s =
     (let resolutions = list_resolutions s in
      \<lparr>ds_static_qr_count = length (filter (\<lambda>r. qs_qr_type r = ''STATIC'' \<and> qs_on_us r) resolutions),
       ds_payload_count = length (remdups (filter truthy (map qs_payload_id resolutions))),
       ds_scan_count = length resolutions,
       ds_scan_valid_count = length (filter (\<lambda>r. qs_validation_result r = VALID) resolutions),
       ds_failure_breakdown = foldl (\<lambda>d r.
         if qs_validation_result r \<noteq> VALID \<and> truthy (qs_failure_code r)
         then dput (the (qs_failure_code r)) (dget_or d (the (qs_failure_code r)) 0 + 1) d else d) [] resolutions\<rparr>)"

end
