(* ===== verification/Qr_Lifecycle.thy ===== *)
theory Qr_Lifecycle
  imports Qr_Service Qr_Guarantees
begin

text \<open>
  The QR service against an abstract specification: per payment intent, the state of its dynamic code.
  Every call of the service refines a sequence of steps of that specification, so a settled code stays
  settled; a scan resolution is paid at most once, and only within its guards.
\<close>

subsection \<open>The specification\<close>

type_synonym code_states = "string \<Rightarrow> dynamic_payload_state option"

inductive code_step :: "code_states \<Rightarrow> code_states \<Rightarrow> bool" where
  issue: "A i = None \<Longrightarrow> code_step A (A(i \<mapsto> ISSUED))"
| scan: "A i = Some ISSUED \<Longrightarrow> code_step A (A(i \<mapsto> SCANNED))"
| settle: "A i = Some t \<Longrightarrow> t \<in> {ISSUED, SCANNED} \<Longrightarrow> u \<in> {PAID, EXPIRED, CANCELLED} \<Longrightarrow> code_step A (A(i \<mapsto> u))"

inductive_cases code_stepE: "code_step A B"

definition settled :: "dynamic_payload_state \<Rightarrow> bool" where
  "settled t \<longleftrightarrow> t \<in> {PAID, EXPIRED, CANCELLED}"

lemma code_step_settled: "code_step A B \<Longrightarrow> A i = Some t \<Longrightarrow> settled t \<Longrightarrow> B i = Some t"
  by (auto simp: settled_def elim!: code_stepE)

lemma code_steps_settled: "code_step\<^sup>*\<^sup>* A B \<Longrightarrow> A i = Some t \<Longrightarrow> settled t \<Longrightarrow> B i = Some t"
  by (induction rule: rtranclp_induct) (auto dest: code_step_settled)

subsection \<open>The abstraction\<close>

definition code_of :: "qr_repo \<Rightarrow> code_states" where
  "code_of s i = map_option qp_state (find_dynamic_by_intent i s)"

definition payloads_ok :: "qr_repo \<Rightarrow> bool" where
  "payloads_ok s \<longleftrightarrow> dict_ok (rp_payloads s) \<and>
     (\<forall>k r. dget (rp_payloads s) k = Some r \<longrightarrow> qp_payload_id r = k \<and> (qp_qr_type r = DYNAMIC \<longrightarrow> qp_payment_intent_id r \<noteq> None)) \<and>
     (\<forall>k k' r r'. dget (rp_payloads s) k = Some r \<longrightarrow> dget (rp_payloads s) k' = Some r' \<longrightarrow> qp_qr_type r = DYNAMIC \<longrightarrow>
        qp_qr_type r' = DYNAMIC \<longrightarrow> qp_payment_intent_id r = qp_payment_intent_id r' \<longrightarrow> k = k')"

lemma dvals_dget: "dict_ok d \<Longrightarrow> r \<in> set (dvals d) \<longleftrightarrow> (\<exists>k. dget d k = Some r)"
  by (force simp: dict_ok_def dvals_def)

lemma find_dynamic_iff:
  assumes "payloads_ok s"
  shows "find_dynamic_by_intent i s = Some r \<longleftrightarrow>
    (\<exists>k. dget (rp_payloads s) k = Some r) \<and> qp_qr_type r = DYNAMIC \<and> qp_payment_intent_id r = Some i"
proof
  assume "find_dynamic_by_intent i s = Some r"
  then have "r \<in> set (dvals (rp_payloads s))" "qp_qr_type r = DYNAMIC" "qp_payment_intent_id r = Some i"
    by (auto simp: find_dynamic_by_intent_def find_Some_iff)
  then show "(\<exists>k. dget (rp_payloads s) k = Some r) \<and> qp_qr_type r = DYNAMIC \<and> qp_payment_intent_id r = Some i"
    using assms dvals_dget [of "rp_payloads s" r] by (auto simp: payloads_ok_def)
next
  assume r: "(\<exists>k. dget (rp_payloads s) k = Some r) \<and> qp_qr_type r = DYNAMIC \<and> qp_payment_intent_id r = Some i"
  then have "r \<in> set (dvals (rp_payloads s))" using assms dvals_dget [of "rp_payloads s" r] by (auto simp: payloads_ok_def)
  then obtain q where q: "find_dynamic_by_intent i s = Some q"
    using r by (cases "find_dynamic_by_intent i s") (auto simp: find_dynamic_by_intent_def find_None_iff)
  then have "q \<in> set (dvals (rp_payloads s))" "qp_qr_type q = DYNAMIC" "qp_payment_intent_id q = Some i"
    by (auto simp: find_dynamic_by_intent_def find_Some_iff)
  then obtain k' where "dget (rp_payloads s) k' = Some q" using assms dvals_dget [of "rp_payloads s" q] by (auto simp: payloads_ok_def)
  then have "q = r"
    using r assms \<open>qp_qr_type q = DYNAMIC\<close> \<open>qp_payment_intent_id q = Some i\<close> unfolding payloads_ok_def by (metis option.inject)
  then show "find_dynamic_by_intent i s = Some r" using q by simp
qed

lemma code_of_iff:
  assumes "payloads_ok s"
  shows "code_of s i = Some t \<longleftrightarrow>
    (\<exists>k r. dget (rp_payloads s) k = Some r \<and> qp_qr_type r = DYNAMIC \<and> qp_payment_intent_id r = Some i \<and> qp_state r = t)"
  using find_dynamic_iff [OF assms] by (auto simp: code_of_def)

lemma code_ofI:
  "payloads_ok s \<Longrightarrow> dget (rp_payloads s) k = Some r \<Longrightarrow> qp_qr_type r = DYNAMIC \<Longrightarrow> qp_payment_intent_id r = Some i \<Longrightarrow>
     code_of s i = Some (qp_state r)"
  using code_of_iff by blast

lemma code_ofE:
  assumes "payloads_ok s" and "code_of s i = Some t"
  obtains k r where "dget (rp_payloads s) k = Some r" and "qp_qr_type r = DYNAMIC" and "qp_payment_intent_id r = Some i"
    and "qp_state r = t"
  using assms code_of_iff by blast

text \<open>Tables that agree on the rows of an intent agree on its code.\<close>

lemma code_of_agree:
  assumes "payloads_ok s" and "payloads_ok s'"
    and "\<And>k r. qp_qr_type r = DYNAMIC \<Longrightarrow> qp_payment_intent_id r = Some i \<Longrightarrow>
      dget (rp_payloads s') k = Some r \<longleftrightarrow> dget (rp_payloads s) k = Some r"
  shows "code_of s' i = code_of s i"
proof (cases "code_of s i")
  case (Some t)
  then show ?thesis using assms code_ofE [OF assms(1) Some] code_ofI [OF assms(2)] by metis
next
  case None
  show ?thesis
  proof (cases "code_of s' i")
    case (Some t)
    then show ?thesis using assms code_ofE [OF assms(2) Some] code_ofI [OF assms(1)] by metis
  qed (simp add: None)
qed

lemma payloads_okI:
  assumes "dict_ok (rp_payloads s)"
    and "\<And>k r. dget (rp_payloads s) k = Some r \<Longrightarrow> qp_payload_id r = k"
    and "\<And>k r. dget (rp_payloads s) k = Some r \<Longrightarrow> qp_qr_type r = DYNAMIC \<Longrightarrow> qp_payment_intent_id r \<noteq> None"
    and "\<And>k k' r r'. dget (rp_payloads s) k = Some r \<Longrightarrow> dget (rp_payloads s) k' = Some r' \<Longrightarrow> qp_qr_type r = DYNAMIC \<Longrightarrow>
      qp_qr_type r' = DYNAMIC \<Longrightarrow> qp_payment_intent_id r = qp_payment_intent_id r' \<Longrightarrow> k = k'"
  shows "payloads_ok s"
  unfolding payloads_ok_def using assms by blast

lemma payloads_okD:
  assumes "payloads_ok s" and "dget (rp_payloads s) k = Some r"
  shows "qp_payload_id r = k" and "qp_qr_type r = DYNAMIC \<Longrightarrow> \<exists>i. qp_payment_intent_id r = Some i"
    and "dget (rp_payloads s) k' = Some r' \<Longrightarrow> qp_qr_type r = DYNAMIC \<Longrightarrow> qp_qr_type r' = DYNAMIC \<Longrightarrow>
      qp_payment_intent_id r = qp_payment_intent_id r' \<Longrightarrow> k' = k"
  using assms unfolding payloads_ok_def by blast+

text \<open>A row that is replaced by itself in another state.\<close>

lemma restate_payload:
  assumes ok: "payloads_ok s" and row: "dget (rp_payloads s) (qp_payload_id row) = Some row" and dyn: "qp_qr_type row = DYNAMIC"
    and s': "s' = s\<lparr>rp_payloads := dput (qp_payload_id row) (row\<lparr>qp_state := t\<rparr>) (rp_payloads s)\<rparr>"
  shows "payloads_ok s'"
    and "\<exists>i. qp_payment_intent_id row = Some i \<and> code_of s i = Some (qp_state row) \<and> code_of s' = (code_of s)(i \<mapsto> t)"
proof -
  let ?k = "qp_payload_id row" and ?row = "row\<lparr>qp_state := t\<rparr>"
  have look: "dget (rp_payloads s') k = (if k = ?k then Some ?row else dget (rp_payloads s) k)" for k
    by (simp add: s' dict_simps)
  have old: "\<exists>q. dget (rp_payloads s) k = Some q \<and> qp_payload_id q = qp_payload_id r \<and> qp_qr_type q = qp_qr_type r \<and>
      qp_payment_intent_id q = qp_payment_intent_id r" if "dget (rp_payloads s') k = Some r" for k r
    using that row by (cases "k = ?k") (auto simp: look)
  show ok': "payloads_ok s'"
  proof (rule payloads_okI)
    show "dict_ok (rp_payloads s')" using ok by (simp add: s' payloads_ok_def dict_simps)
    show "qp_payload_id r = k" if "dget (rp_payloads s') k = Some r" for k r
      using old [OF that] payloads_okD(1) [OF ok] by metis
    show "qp_payment_intent_id r \<noteq> None" if "dget (rp_payloads s') k = Some r" "qp_qr_type r = DYNAMIC" for k r
      using old [OF that(1)] payloads_okD(2) [OF ok] that(2) by (metis option.distinct(1))
    show "k = k'" if "dget (rp_payloads s') k = Some r" "dget (rp_payloads s') k' = Some r'" "qp_qr_type r = DYNAMIC"
        "qp_qr_type r' = DYNAMIC" "qp_payment_intent_id r = qp_payment_intent_id r'" for k k' r r'
      using old [OF that(1)] old [OF that(2)] that(3-5) payloads_okD(3) [OF ok] by metis
  qed
  obtain i where i: "qp_payment_intent_id row = Some i" using payloads_okD(2) [OF ok row dyn] by blast
  have "code_of s' j = ((code_of s)(i \<mapsto> t)) j" for j
  proof (cases "j = i")
    case True
    then show ?thesis using code_ofI [OF ok', of ?k ?row i] i dyn by (simp add: look)
  next
    case False
    have "code_of s' j = code_of s j"
      by (rule code_of_agree [OF ok ok']) (use False i row in \<open>auto simp: look\<close>)
    then show ?thesis using False by simp
  qed
  then show "\<exists>i. qp_payment_intent_id row = Some i \<and> code_of s i = Some (qp_state row) \<and> code_of s' = (code_of s)(i \<mapsto> t)"
    using i code_ofI [OF ok row dyn i] by blast
qed

text \<open>A row that is added.\<close>

lemma new_payload:
  assumes ok: "payloads_ok s" and fresh: "dget (rp_payloads s) (qp_payload_id row) = None"
    and dyn: "qp_qr_type row = DYNAMIC \<Longrightarrow> \<exists>i. qp_payment_intent_id row = Some i \<and> code_of s i = None"
    and s': "rp_payloads s' = dput (qp_payload_id row) row (rp_payloads s)"
  shows "payloads_ok s'" and "qp_qr_type row = STATIC \<Longrightarrow> code_of s' = code_of s"
    and "qp_payment_intent_id row = Some i \<Longrightarrow> qp_qr_type row = DYNAMIC \<Longrightarrow> code_of s' = (code_of s)(i \<mapsto> qp_state row)"
proof -
  let ?k = "qp_payload_id row"
  have look: "dget (rp_payloads s') k = (if k = ?k then Some row else dget (rp_payloads s) k)" for k
    by (simp add: s' dict_simps)
  have clash: False if "dget (rp_payloads s) k = Some r" "qp_qr_type r = DYNAMIC" "qp_qr_type row = DYNAMIC"
      "qp_payment_intent_id r = qp_payment_intent_id row" for k r
    using dyn [OF that(3)] code_ofI [OF ok that(1,2)] that(4) by auto
  show ok': "payloads_ok s'"
  proof (rule payloads_okI)
    show "dict_ok (rp_payloads s')" using ok by (simp add: s' payloads_ok_def dict_simps)
    show "qp_payload_id r = k" if "dget (rp_payloads s') k = Some r" for k r
      using that payloads_okD(1) [OF ok] by (auto simp: look split: if_splits)
    show "qp_payment_intent_id r \<noteq> None" if "dget (rp_payloads s') k = Some r" "qp_qr_type r = DYNAMIC" for k r
      using that payloads_okD(2) [OF ok, of k r] dyn by (auto simp: look split: if_splits)
    show "k = k'" if "dget (rp_payloads s') k = Some r" "dget (rp_payloads s') k' = Some r'" "qp_qr_type r = DYNAMIC"
        "qp_qr_type r' = DYNAMIC" "qp_payment_intent_id r = qp_payment_intent_id r'" for k k' r r'
      using that clash [of k r] clash [of k' r'] payloads_okD(3) [OF ok, of k r k' r']
      by (auto simp: look split: if_splits)
  qed
  show "code_of s' = code_of s" if "qp_qr_type row = STATIC"
    by (rule ext, rule code_of_agree [OF ok ok']) (use that fresh in \<open>auto simp: look\<close>)
  show "code_of s' = (code_of s)(i \<mapsto> qp_state row)" if i: "qp_payment_intent_id row = Some i" "qp_qr_type row = DYNAMIC"
  proof
    fix j
    show "code_of s' j = ((code_of s)(i \<mapsto> qp_state row)) j"
    proof (cases "j = i")
      case True
      then show ?thesis using code_ofI [OF ok', of ?k row i] i by (simp add: look)
    next
      case False
      have "code_of s' j = code_of s j"
        by (rule code_of_agree [OF ok ok']) (use False i fresh in \<open>auto simp: look\<close>)
      then show ?thesis using False by simp
    qed
  qed
qed

subsection \<open>Calls that leave the payload table alone\<close>

definition evolves :: "qr_repo \<Rightarrow> qr_repo \<Rightarrow> bool" where
  "evolves s0 s \<longleftrightarrow> payloads_ok s \<and> code_step\<^sup>*\<^sup>* (code_of s0) (code_of s)"

lemma code_of_cong: "rp_payloads s' = rp_payloads s \<Longrightarrow> code_of s' = code_of s"
  by (rule ext) (simp add: code_of_def find_dynamic_by_intent_def)

lemma evolves_same: "evolves s0 s \<Longrightarrow> rp_payloads s' = rp_payloads s \<Longrightarrow> evolves s0 s'"
  unfolding evolves_def payloads_ok_def by (simp add: code_of_cong [of s' s])

lemma keeps_repo_transaction [keeps_intros]: "keeps I m \<Longrightarrow> keeps I (repo_transaction m)"
  unfolding keeps_def repo_transaction_def by (auto split: prod.splits sum.splits)

lemma keeps_catch_conflict [keeps_intros]:
  assumes "keeps I m" and "\<And>c. keeps I (h c)"
  shows "keeps I (catch_conflict m h)"
proof (rule keepsI)
  fix s assume "I s"
  then have "I (snd (m s))" using assms(1) by (rule keepsD [rotated])
  then show "I (snd (catch_conflict m h s))"
    using assms(2) [THEN keepsD] by (cases "m s") (auto simp: catch_conflict_def split: sum.splits qr_service_error.splits)
qed

lemma evolves_modify: "(\<And>s. rp_payloads (f s) = rp_payloads s) \<Longrightarrow> keeps (evolves s0) (modify_pm f)"
  by (rule keeps_modify) (auto intro: evolves_same)

lemma evolves_primitives [keeps_intros]:
  "keeps (evolves s0) (insert_merchant_qr mrow)" "keeps (evolves s0) (save_merchant_qr mrow)"
  "keeps (evolves s0) (insert_resolution rrow)" "keeps (evolves s0) (set_resolution_intent rid pid)"
  "keeps (evolves s0) (publish a b c d e)" "keeps (evolves s0) (audit_record a b c d e)"
  "keeps (evolves s0) (require_merchant_qr mid)"
  by (auto simp: insert_merchant_qr_def save_merchant_qr_def insert_resolution_def set_resolution_intent_def
      publish_def audit_record_def require_merchant_qr_def intro!: keeps_intros evolves_modify)

lemma evolves_lifecycle [keeps_intros]: "keeps (evolves s0) (lifecycle mid trigger reason now)"
  by (auto simp: lifecycle_def Let_def intro!: keeps_intros)

lemma evolves_cascade [keeps_intros]: "keeps (evolves s0) (cascade trigger reason clock rows)"
  by (induction rows) (auto intro!: keeps_intros)

lemma evolves_record_scan [keeps_intros]: "keeps (evolves s0) (record_scan env a b c d e f g h i)"
  by (auto simp: record_scan_def Let_def intro!: keeps_intros)

subsection \<open>Calls that move codes\<close>

text \<open>What holds after a call from one state, through prefixes that only read.\<close>

lemma after_readonly:
  assumes "readonly m" and "I s" and "\<And>a. m s = (Inr a, s) \<Longrightarrow> I (snd (k a s))"
  shows "I (snd (bind_pm m k s))"
proof (cases "m s")
  case (Pair r t)
  then have "t = s" using assms(1) by (metis readonly_def snd_conv)
  then show ?thesis using assms(2,3) Pair by (cases r) (auto simp: bind_pm_def)
qed

lemma after_keeps: "I (snd (m s)) \<Longrightarrow> (\<And>a. keeps I (k a)) \<Longrightarrow> I (snd (bind_pm m k s))"
  by (cases "m s") (auto simp: bind_pm_def keeps_def split: sum.splits)

lemma evolves_move:
  assumes "evolves s0 s" and "dget (rp_payloads s) (qp_payload_id row) = Some row" and "qp_qr_type row = DYNAMIC"
    and "advance_dynamic_payload (qp_state row) trigger = Inr t"
  shows "evolves s0 (snd (save_payload (row\<lparr>qp_state := t\<rparr>) s))"
proof -
  let ?s = "s\<lparr>rp_payloads := dput (qp_payload_id row) (row\<lparr>qp_state := t\<rparr>) (rp_payloads s)\<rparr>"
  have saved: "snd (save_payload (row\<lparr>qp_state := t\<rparr>) s) = ?s"
    using assms(2) by (simp add: save_payload_def bind_pm_def get_pm_def require_that_def ret_def modify_pm_def)
  have ok: "payloads_ok s" using assms(1) by (simp add: evolves_def)
  note r = restate_payload [OF ok assms(2,3) refl, of t]
  obtain i where i: "code_of s i = Some (qp_state row)" "code_of ?s = (code_of s)(i \<mapsto> t)" using r(2) by blast
  have "qp_state row = ISSUED \<and> t = SCANNED \<or> qp_state row \<in> {ISSUED, SCANNED} \<and> t \<in> {PAID, EXPIRED, CANCELLED}"
    using assms(4) by (auto simp: advance_dynamic_payload_def DYNAMIC_PAYLOAD_TRANSITIONS_def split: option.splits if_splits)
  then have "code_step (code_of s) (code_of ?s)"
    using i scan [of "code_of s" i] settle [of "code_of s" i "qp_state row" t] by auto
  then show ?thesis using assms(1) r(1) saved by (auto simp: evolves_def)
qed

lemma evolves_expire:
  assumes "evolves s0 s" and "dget (rp_payloads s) (qp_payload_id row) = Some row" and "qp_qr_type row = DYNAMIC"
  shows "evolves s0 (snd (expire_payload row now s))"
  unfolding expire_payload_def
proof (rule after_readonly [where I = "evolves s0", OF readonly_basic(4) assms(1)])
  fix t assume "lift_sum (advance_dynamic_payload (qp_state row) ''ttl_expired'') s = (Inr t, s)"
  then have t: "advance_dynamic_payload (qp_state row) ''ttl_expired'' = Inr t" by (simp add: lift_sum_def)
  show "evolves s0 (snd (bind_pm (save_payload (row\<lparr>qp_state := t\<rparr>)) (\<lambda>_. publish ''qr_payload.expired'' ''QrPayload''
      (qp_payload_id row) now [(''payload_id'', PStr (qp_payload_id row)), (''payment_intent_id'', intent_ref row)]) s))"
    by (rule after_keeps [where I = "evolves s0"]) (rule evolves_move [OF assms t], rule keeps_intros)
qed

text \<open>The liveness check of a stored payload: it returns without effect, or expires the payload.\<close>

lemma readonly_bind:
  assumes "readonly m" and "\<And>a. readonly (k a)"
  shows "readonly (bind_pm m k)"
  unfolding readonly_def
proof
  fix s show "snd (bind_pm m k s) = s"
    by (rule after_readonly [where I = "\<lambda>t. t = s", OF assms(1)]) (use assms(2) in \<open>simp_all add: readonly_def\<close>)
qed

lemma readonly_checks [atomic_intros]: "readonly (require_merchant_qr mid)" "readonly (check_merchant_qr_live env mq)"
  by (auto simp: require_merchant_qr_def check_merchant_qr_live_def intro!: readonly_bind readonly_basic split: option.splits)

lemma keeps_readonly: "readonly m \<Longrightarrow> keeps I m"
  by (simp add: readonly_def keeps_def)

lemma check_on_us_cases:
  "snd (check_on_us env row now s) = s \<or>
   qp_qr_type row = DYNAMIC \<and> snd (check_on_us env row now s) = snd (expire_payload row now s) \<and>
     (\<exists>e. fst (check_on_us env row now s) = Inl e)"
proof (cases "qp_qr_type row")
  case STATIC
  then have "readonly (check_on_us env row now)"
    by (auto simp: check_on_us_def intro!: readonly_bind atomic_intros split: option.splits)
  then show ?thesis by (simp add: readonly_def)
next
  case DYNAMIC
  then show ?thesis
    by (auto simp: check_on_us_def bind_pm_def require_that_def ret_def raise_err_def split: prod.splits sum.splits option.splits)
qed

lemma evolves_check_on_us:
  assumes "evolves s0 s" and "dget (rp_payloads s) (qp_payload_id row) = Some row"
  shows "evolves s0 (snd (check_on_us env row now s))"
  using check_on_us_cases [of env row now s] evolves_expire [OF assms] assms(1) by auto

lemma evolves_pay: "keeps (evolves s0) (pay env rid amount now)"
proof (rule keepsI)
  fix s assume s: "evolves s0 s"
  have dyn: "evolves s0 (snd (pay_dynamic env rid row amount now s))"
    if row: "\<And>r. row = Some r \<Longrightarrow> dget (rp_payloads s) (qp_payload_id r) = Some r" for row
  proof (cases row)
    case None
    then have "readonly (pay_dynamic env rid row amount now)"
      by (auto simp: pay_dynamic_def intro!: readonly_bind readonly_basic)
    then show ?thesis using s by (simp add: readonly_def)
  next
    case (Some r)
    show ?thesis
      unfolding pay_dynamic_def Some option.case
    proof (rule after_readonly [where I = "evolves s0", OF readonly_basic(5) s], rule after_keeps [where I = "evolves s0"])
      show "evolves s0 (snd (check_on_us env r now s))" by (rule evolves_check_on_us [OF s row [OF Some]])
    qed (auto intro!: keeps_intros)
  qed
  have stat: "keeps (evolves s0) (pay_static env resolution rid row amount now)" for resolution row
    by (auto simp: pay_static_def Let_def intro!: keeps_intros keeps_readonly [OF readonly_checks(2)] split: option.splits)
  note ro = after_readonly [where I = "evolves s0", OF _ s]
  show "evolves s0 (snd (pay env rid amount now s))"
    unfolding pay_def
  proof (rule ro [OF readonly_basic(3)], goal_cases)
    case (1 found)
    show ?case
    proof (cases found)
      case None
      then show ?thesis using s by (simp add: raise_err_def)
    next
      case (Some resolution)
      show ?thesis
        unfolding Some option.case
      proof (rule ro [OF readonly_basic(5)], rule ro [OF readonly_basic(5)], rule ro [OF readonly_basic(5)],
          rule ro [OF readonly_basic(3)], goal_cases)
        case (1 _ _ _ row)
        have "dget (rp_payloads s) (qp_payload_id r) = Some r" if "row = Some r" for r
          using 1(4) that s payloads_okD(1) [of s _ r] by (auto simp: get_pm_def evolves_def split: if_splits)
        then show ?case using dyn [of row] keepsD [OF stat s] by simp
      qed
    qed
  qed
qed

lemma evolves_insert:
  assumes "evolves s0 s" and "qp_qr_type row = DYNAMIC \<Longrightarrow> \<exists>i. qp_payment_intent_id row = Some i \<and> code_of s i = None"
    and "qp_state row = ISSUED"
  shows "evolves s0 (snd (insert_payload row s))"
proof (cases "dget (rp_payloads s) (qp_payload_id row) = None \<and> dget (rp_payloads_by_hash s) (qp_payload_hash row) = None")
  case True
  let ?s = "snd (insert_payload row s)"
  have rows: "rp_payloads ?s = dput (qp_payload_id row) row (rp_payloads s)"
    using True by (simp add: insert_payload_def bind_pm_def get_pm_def require_that_def ret_def modify_pm_def)
  have ok: "payloads_ok s" using assms(1) by (simp add: evolves_def)
  note n = new_payload [OF ok conjunct1 [OF True] assms(2) rows]
  show ?thesis
  proof (cases "qp_qr_type row")
    case STATIC
    then show ?thesis using n(1,2) assms(1) by (simp add: evolves_def)
  next
    case DYNAMIC
    obtain i where i: "qp_payment_intent_id row = Some i" "code_of s i = None" using assms(2) [OF DYNAMIC] by blast
    have "code_step (code_of s) (code_of ?s)" using n(3) [OF _ i(1) DYNAMIC] issue [of "code_of s" i] i(2) assms(2,3) by simp
    then show ?thesis using n(1) assms(1,2) by (auto simp: evolves_def)
  qed
next
  case False
  then have "snd (insert_payload row s) = s"
    by (auto simp: insert_payload_def bind_pm_def get_pm_def require_that_def raise_err_def)
  then show ?thesis using assms(1) by simp
qed

lemma new_payload_row_fields:
  "new_payload_row env parsed t mid pid amount expires now = Inr row \<Longrightarrow>
     qp_qr_type row = t \<and> qp_payment_intent_id row = pid \<and> qp_state row = ISSUED"
  by (auto simp: new_payload_row_def bind_sum_Inr_iff)

lemma code_of_None: "find_dynamic_by_intent i s = None \<Longrightarrow> code_of s i = None"
  by (simp add: code_of_def)

lemma evolves_issue_dynamic: "keeps (evolves s0) (issue_dynamic env pid ttl now)"
proof (rule keepsI)
  fix s assume s: "evolves s0 s"
  note ro = after_readonly [where I = "evolves s0", OF _ s]
  show "evolves s0 (snd (issue_dynamic env pid ttl now s))"
    unfolding issue_dynamic_def refuse_if_scan_only_def
  proof (rule ro [OF readonly_basic(5)], rule ro [OF readonly_basic(4)], goal_cases)
    case (1 _ t)
    show ?case
    proof (cases "sv_intents_get env pid")
      case None
      then show ?thesis using s by (simp add: raise_err_def)
    next
      case (Some intent)
      show ?thesis
        unfolding Some option.case
      proof (rule ro [OF readonly_basic(5)], rule ro [OF readonly_basic(3)], rule ro [OF readonly_basic(5)], goal_cases)
        case (1 _ existing)
        then have free: "code_of s pid = None"
          by (auto simp: get_pm_def require_that_def raise_err_def ret_def code_of_None split: if_splits)
        show ?case
        proof (cases "sv_merchants env (ir_merchant_id intent)")
          case None
          then show ?thesis using s by (simp add: raise_err_def)
        next
          case (Some merchant)
          have req: "readonly (require_issuable merchant)"
            by (auto simp: require_issuable_def intro!: readonly_bind readonly_basic)
          show ?thesis
            unfolding Some option.case Let_def
          proof (rule ro [OF req], rule ro [OF readonly_basic(4)], rule ro [OF readonly_basic(4)], rule ro [OF readonly_basic(4)], goal_cases)
            case (1 _ p parsed row)
            then have row: "new_payload_row env parsed DYNAMIC None (Some pid) (Some (ir_amount_minor intent)) (Some (now + seconds t)) now = Inr row"
              by (simp add: lift_sum_def)
            show ?case
              by (rule after_keeps [where I = "evolves s0"], rule evolves_insert [OF s])
                (use new_payload_row_fields [OF row] free in \<open>auto intro!: keeps_intros\<close>)
          qed
        qed
      qed
    qed
  qed
qed

lemma evolves_issue_static: "keeps (evolves s0) (issue_static env mid label store terminal now)"
proof -
  have insert: "keeps (evolves s0) (insert_payload row)" if "qp_qr_type row = STATIC" "qp_state row = ISSUED" for row
    by (rule keepsI, rule evolves_insert) (use that in auto)
  have req: "keeps (evolves s0) (require_issuable merchant)" for merchant
    by (auto simp: require_issuable_def intro!: keeps_intros)
  have lifted: "keeps (evolves s0) (bind_pm (lift_sum r) k)" if "\<And>a. r = Inr a \<Longrightarrow> keeps (evolves s0) (k a)" for r and k :: "_ \<Rightarrow> static_qr_issue_result qr_call"
    using that by (cases r) (auto simp: bind_pm_def lift_sum_def keeps_def)
  show ?thesis
    unfolding issue_static_def refuse_if_scan_only_def Let_def
    by (intro keeps_intros req lifted; (rule insert)?; (use new_payload_row_fields in blast)?)
qed

lemma find_dynamic_current:
  "payloads_ok s \<Longrightarrow> find_dynamic_by_intent i s = Some row \<Longrightarrow>
     dget (rp_payloads s) (qp_payload_id row) = Some row \<and> qp_qr_type row = DYNAMIC"
  using find_dynamic_iff payloads_okD(1) by metis

lemma evolves_on_intent_event: "keeps (evolves s0) (on_intent_event pid outcome now)"
proof (rule keepsI)
  fix s assume s: "evolves s0 s"
  note ro = after_readonly [where I = "evolves s0", OF _ s]
  show "evolves s0 (snd (on_intent_event pid outcome now s))"
  proof (cases "outcome_trigger outcome")
    case None
    then show ?thesis using s by (simp add: on_intent_event_def raise_err_def)
  next
    case trigger: (Some trigger)
    show ?thesis
      unfolding on_intent_event_def trigger option.case
    proof (rule ro [OF readonly_basic(3)], goal_cases)
      case (1 found)
      show ?case
      proof (cases "\<exists>row. found = Some row \<and> qp_state row \<in> {ISSUED, SCANNED}")
        case True
        then obtain row where row: "found = Some row" "qp_state row \<in> {ISSUED, SCANNED}" by blast
        have cur: "dget (rp_payloads s) (qp_payload_id row) = Some row \<and> qp_qr_type row = DYNAMIC"
          using 1 row(1) s find_dynamic_current [of s pid row] by (simp add: get_pm_def evolves_def)
        have live: "(qp_state row \<notin> {ISSUED, SCANNED}) = False" using row(2) by blast
        show ?thesis
          unfolding row(1) option.case live if_False
        proof (rule ro [OF readonly_basic(4)], goal_cases)
          case (1 t)
          then have t: "advance_dynamic_payload (qp_state row) trigger = Inr t" by (simp add: lift_sum_def)
          have "evolves s0 (snd (save_payload (row\<lparr>qp_state := t\<rparr>) s))" using evolves_move [OF s _ _ t] cur by simp
          then show ?case by (rule after_keeps [where I = "evolves s0"]) (rule keeps_intros)
        qed
      next
        case False
        then show ?thesis using s by (auto simp: ret_def split: option.splits)
      qed
    qed
  qed
qed


lemma expire_current:
  assumes "evolves s0 s" and "distinct (map qp_payload_id rows)" and "qp_payload_id row \<notin> qp_payload_id ` set rows"
    and "\<forall>r \<in> set rows. dget (rp_payloads s) (qp_payload_id r) = Some r"
  shows "\<forall>r \<in> set rows. dget (rp_payloads (snd (expire_payload row now s))) (qp_payload_id r) = Some r"
proof -
  have saved: "dget (rp_payloads (snd (save_payload x s))) k = dget (rp_payloads s) k" if "k \<noteq> qp_payload_id x" for x k
    using that by (auto simp: save_payload_def bind_pm_def get_pm_def require_that_def ret_def raise_err_def modify_pm_def dict_simps)
  have "rp_payloads (snd (expire_payload row now s)) = rp_payloads s \<or>
      (\<exists>t. rp_payloads (snd (expire_payload row now s)) = rp_payloads (snd (save_payload (row\<lparr>qp_state := t\<rparr>) s)))"
  proof (cases "advance_dynamic_payload (qp_state row) ''ttl_expired''")
    case (Inr t)
    obtain r x where "save_payload (row\<lparr>qp_state := t\<rparr>) s = (r, x)" by fastforce
    then have "rp_payloads (snd (expire_payload row now s)) = rp_payloads (snd (save_payload (row\<lparr>qp_state := t\<rparr>) s))"
      using Inr by (cases r) (simp_all add: expire_payload_def bind_pm_def lift_sum_def publish_def modify_pm_def)
    then show ?thesis by blast
  qed (simp add: expire_payload_def bind_pm_def lift_sum_def)
  then show ?thesis
  proof (elim disjE exE)
    fix t assume eq: "rp_payloads (snd (expire_payload row now s)) = rp_payloads (snd (save_payload (row\<lparr>qp_state := t\<rparr>) s))"
    show ?thesis
    proof
      fix r assume "r \<in> set rows"
      then have "qp_payload_id r \<noteq> qp_payload_id (row\<lparr>qp_state := t\<rparr>)" using assms(3) by (auto simp: image_iff)
      then show "dget (rp_payloads (snd (expire_payload row now s))) (qp_payload_id r) = Some r"
        using saved assms(4) \<open>r \<in> set rows\<close> by (simp add: eq)
    qed
  qed (use assms(4) in simp)
qed

lemma evolves_expire_all:
  assumes "evolves s0 s" and "distinct (map qp_payload_id rows)"
    and "\<forall>r \<in> set rows. dget (rp_payloads s) (qp_payload_id r) = Some r" and "\<forall>r \<in> set rows. qp_qr_type r = DYNAMIC"
  shows "evolves s0 (snd (for_each (\<lambda>row. expire_payload row now) rows s))"
  using assms
proof (induction rows arbitrary: s)
  case Nil
  then show ?case by (simp add: ret_def)
next
  case (Cons row rows)
  let ?s = "snd (expire_payload row now s)"
  have moved: "evolves s0 ?s" using Cons.prems by (intro evolves_expire) auto
  have "\<forall>r \<in> set rows. dget (rp_payloads ?s) (qp_payload_id r) = Some r"
    using Cons.prems by (intro expire_current [OF Cons.prems(1)]) auto
  then have "evolves s0 (snd (for_each (\<lambda>row. expire_payload row now) rows ?s))"
    using Cons.prems moved by (intro Cons.IH) auto
  then show ?case using moved by (cases "expire_payload row now s") (auto simp: bind_pm_def split: sum.splits)
qed

lemma evolves_sweep: "keeps (evolves s0) (sweep_expired now)"
proof (rule keepsI)
  fix s assume s: "evolves s0 s"
  let ?rows = "list_expirable now s"
  have ok: "payloads_ok s" using s by (simp add: evolves_def)
  have vals: "dget (rp_payloads s) (qp_payload_id r) = Some r" if "r \<in> set (dvals (rp_payloads s))" for r
    using that ok dvals_dget [of "rp_payloads s" r] payloads_okD(1) [OF ok] by (auto simp: payloads_ok_def)
  have "distinct (map qp_payload_id (dvals (rp_payloads s)))"
  proof -
    have "qp_payload_id r = k" if "(k, r) \<in> set (rp_payloads s)" for k r
      using that ok payloads_okD(1) [OF ok] by (simp add: payloads_ok_def dict_ok_def)
    then have "map qp_payload_id (dvals (rp_payloads s)) = map fst (rp_payloads s)" by (auto simp: dvals_def)
    then show ?thesis using ok by (simp add: payloads_ok_def dict_ok_def)
  qed
  then have dist: "distinct (map qp_payload_id ?rows)" by (simp add: list_expirable_def distinct_map_filter)
  have "evolves s0 (snd (for_each (\<lambda>row. expire_payload row now) ?rows s))"
    by (rule evolves_expire_all [OF s dist]) (auto simp: list_expirable_def vals)
  then show "evolves s0 (snd (sweep_expired now s))"
    unfolding sweep_expired_def
    by (auto simp: bind_pm_def get_pm_def ret_def split: prod.splits sum.splits)
qed

lemma check_returns: "check_on_us env row now s = (Inr u, t) \<Longrightarrow> t = s"
  using check_on_us_cases [of env row now s] by auto

lemma evolves_resolve: "keeps (evolves s0) (resolve_scan env payload customer now)"
proof -
  have accepted: "evolves s0 (snd (resolve_accepted env parsed customer now s))" if s: "evolves s0 s" for parsed s
  proof -
    note ro = after_readonly [where I = "evolves s0", OF _ s]
    show ?thesis
      unfolding resolve_accepted_def Let_def
    proof (rule ro [OF readonly_basic(3)], goal_cases)
      case (1 ours)
      have cur: "dget (rp_payloads s) (qp_payload_id r) = Some r" if "ours = Some r" for r
        using 1 that s payloads_okD(1) [of s _ r] by (auto simp: get_pm_def get_payload_by_hash_def evolves_def split: option.splits if_splits)
      let ?check = "case ours of None \<Rightarrow> ret () | Some row \<Rightarrow> check_on_us env row now"
      let ?refuse = "\<lambda>code. bind_pm (record_scan env (pp_payload_hash parsed) (map_option qp_payload_id ours) (ours \<noteq> None) customer
        (type_name (pp_qr_type parsed)) INVALID (Some code) None now) (\<lambda>_. raise_err (ConflictError code))"
      have checked: "evolves s0 (snd (?check s))"
        using evolves_check_on_us [OF s cur] s by (auto simp: ret_def split: option.splits)
      have refused: "keeps (evolves s0) (?refuse code)" for code by (auto intro!: keeps_intros)
      have caught: "evolves s0 (snd (catch_conflict ?check ?refuse s))"
        using checked keepsD [OF refused]
        by (cases "?check s") (auto simp: catch_conflict_def split: sum.splits qr_service_error.splits)
      have passed: "t = s" if "catch_conflict ?check ?refuse s = (Inr u, t)" for u t
      proof -
        have "fst (?refuse code x) \<noteq> Inr u" for code x
          by (auto simp: bind_pm_def raise_err_def split: prod.splits sum.splits)
        then have "?check s = (Inr u, t)"
          using that by (cases "?check s") (auto simp: catch_conflict_def split: sum.splits qr_service_error.splits; metis fst_conv)
        then show ?thesis using check_returns by (auto simp: ret_def split: option.splits)
      qed
      have marked: "evolves s0 (snd ((case ours of None \<Rightarrow> ret () | Some row \<Rightarrow> mark_scanned row) s))"
      proof (cases ours)
        case (Some row)
        show ?thesis
        proof (cases "qp_qr_type row = DYNAMIC \<and> qp_state row = ISSUED")
          case True
          have "advance_dynamic_payload (qp_state row) ''scanned'' = Inr SCANNED"
            using True by (simp add: advance_dynamic_payload_def DYNAMIC_PAYLOAD_TRANSITIONS_def)
          then show ?thesis
            using evolves_move [OF s cur [OF Some]] True Some by (simp add: mark_scanned_def bind_pm_def lift_sum_def)
        next
          case False
          then show ?thesis using s Some by (auto simp: mark_scanned_def ret_def)
        qed
      qed (use s in \<open>simp add: ret_def\<close>)
      have rest: "evolves s0 (snd (bind_pm (case ours of None \<Rightarrow> ret () | Some row \<Rightarrow> mark_scanned row) k s))"
        if "\<And>u. keeps (evolves s0) (k u)" for k :: "unit \<Rightarrow> resolve_result qr_call"
        using marked by (rule after_keeps [where I = "evolves s0"]) (rule that)
      show ?case
      proof (cases "catch_conflict ?check ?refuse s")
        case (Pair r t)
        show ?thesis
        proof (cases r)
          case (Inl e)
          then show ?thesis using caught Pair by (simp add: bind_pm_def)
        next
          case (Inr u)
          then have "t = s" using passed Pair by simp
          then show ?thesis
            unfolding bind_pm_def [of "catch_conflict ?check ?refuse"] Pair Inr
            by (simp only: prod.case sum.case) (rule rest, auto intro!: keeps_intros)
        qed
      qed
    qed
  qed
  show ?thesis
    unfolding resolve_scan_def
    using keepsI [where I = "evolves s0" and m = "resolve_accepted env p customer now" for p] accepted
    by (auto intro!: keeps_intros split: sum.splits qr_error.splits)
qed

subsection \<open>Reachable repositories\<close>

text \<open>One call of the service, whether it returns or raises. The ports may answer differently in every
  call.\<close>

inductive qr_step :: "qr_repo \<Rightarrow> qr_repo \<Rightarrow> bool" where
  "qr_step s (snd (issue_static env mid label store terminal now s))"
| "qr_step s (snd (issue_dynamic env pid ttl now s))"
| "qr_step s (snd (suspend_qr mid reason now s))"
| "qr_step s (snd (reactivate_qr env mid now s))"
| "qr_step s (snd (revoke_qr mid reason now s))"
| "qr_step s (snd (on_merchant_suspended mid clock s))"
| "qr_step s (snd (on_merchant_terminated mid clock s))"
| "qr_step s (snd (resolve_scan env payload customer now s))"
| "qr_step s (snd (pay env rid amount now s))"
| "qr_step s (snd (on_intent_event pid outcome now s))"
| "qr_step s (snd (sweep_expired now s))"

lemma qr_step_keeps:
  assumes "qr_step s s'" and "I s"
    and "\<And>env mid label store terminal now. keeps I (issue_static env mid label store terminal now)"
    and "\<And>env pid ttl now. keeps I (issue_dynamic env pid ttl now)"
    and "\<And>mid trigger reason now. keeps I (lifecycle mid trigger reason now)"
    and "\<And>env payload customer now. keeps I (resolve_scan env payload customer now)"
    and "\<And>env rid amount now. keeps I (pay env rid amount now)"
    and "\<And>pid outcome now. keeps I (on_intent_event pid outcome now)"
    and "\<And>now. keeps I (sweep_expired now)"
  shows "I s'"
proof -
  have cascade: "keeps I (cascade trigger reason clock rows)" for trigger reason clock rows
    by (induction rows) (auto intro!: keeps_intros assms(5))
  have requires: "keeps I (require_merchant_qr mid)" for mid
    by (rule keeps_readonly [OF readonly_checks(1)])
  show ?thesis
    using assms(1,2)
  proof (cases rule: qr_step.cases)
    case (4 env mid now)
    have "keeps I (reactivate_qr env mid now)"
      by (auto simp: reactivate_qr_def intro!: keeps_intros requires assms(5))
    then show ?thesis using 4 assms(2) by (auto dest: keepsD)
  next
    case (6 mid clock)
    have "keeps I (on_merchant_suspended mid clock)"
      by (auto simp: on_merchant_suspended_def intro!: keeps_intros cascade)
    then show ?thesis using 6 assms(2) by (auto dest: keepsD)
  next
    case (7 mid clock)
    have "keeps I (on_merchant_terminated mid clock)"
      by (auto simp: on_merchant_terminated_def intro!: keeps_intros cascade)
    then show ?thesis using 7 assms(2) by (auto dest: keepsD)
  qed (use assms(2) assms(3-9) [THEN keepsD] in \<open>auto simp: suspend_qr_def revoke_qr_def\<close>)
qed

lemma qr_step_evolves: "qr_step s s' \<Longrightarrow> evolves s0 s \<Longrightarrow> evolves s0 s'"
  by (erule qr_step_keeps [where I = "evolves s0"])
    (rule evolves_issue_static evolves_issue_dynamic evolves_lifecycle evolves_resolve evolves_pay
      evolves_on_intent_event evolves_sweep | assumption)+

lemma reachable_payloads_ok: "qr_step\<^sup>*\<^sup>* empty_repo s \<Longrightarrow> payloads_ok s"
proof -
  assume "qr_step\<^sup>*\<^sup>* empty_repo s"
  then have "evolves empty_repo s"
  proof (induction rule: rtranclp_induct)
    case base
    show ?case by (simp add: evolves_def payloads_ok_def empty_repo_def)
  qed (rule qr_step_evolves)
  then show ?thesis by (simp add: evolves_def)
qed

lemma qr_steps_evolve: "qr_step\<^sup>*\<^sup>* s s' \<Longrightarrow> payloads_ok s \<Longrightarrow> code_step\<^sup>*\<^sup>* (code_of s) (code_of s')"
proof -
  assume steps: "qr_step\<^sup>*\<^sup>* s s'" and ok: "payloads_ok s"
  from steps have "evolves s s'"
  proof (induction rule: rtranclp_induct)
    case base
    show ?case using ok by (simp add: evolves_def)
  qed (rule qr_step_evolves)
  then show ?thesis by (simp add: evolves_def)
qed

subsection \<open>Paid resolutions\<close>

definition resolution_paid :: "string \<Rightarrow> qr_repo \<Rightarrow> bool" where
  "resolution_paid rid s \<longleftrightarrow> (\<exists>row. dget (rp_resolutions s) rid = Some row \<and> qs_payment_intent_id row \<noteq> None)"

lemma paid_modify: "(\<And>s. rp_resolutions (f s) = rp_resolutions s) \<Longrightarrow> keeps (resolution_paid rid) (modify_pm f)"
  by (rule keeps_modify) (simp add: resolution_paid_def)

lemma paid_insert_resolution [keeps_intros]: "keeps (resolution_paid rid) (insert_resolution row)"
  by (rule keepsI) (auto simp: insert_resolution_def bind_pm_def get_pm_def require_that_def ret_def raise_err_def
    modify_pm_def resolution_paid_def dict_simps)

lemma paid_set_resolution_intent [keeps_intros]: "keeps (resolution_paid rid) (set_resolution_intent r pid)"
  by (rule keepsI) (auto simp: set_resolution_intent_def bind_pm_def get_pm_def raise_err_def modify_pm_def
    resolution_paid_def dict_simps split: option.splits)

lemma paid_primitives [keeps_intros]:
  "keeps (resolution_paid rid) (insert_merchant_qr mrow)" "keeps (resolution_paid rid) (save_merchant_qr mrow)"
  "keeps (resolution_paid rid) (insert_payload prow)" "keeps (resolution_paid rid) (save_payload prow)"
  "keeps (resolution_paid rid) (publish a b c d e)" "keeps (resolution_paid rid) (audit_record a b c d e)"
  by (auto simp: insert_merchant_qr_def save_merchant_qr_def insert_payload_def save_payload_def publish_def audit_record_def
      intro!: keeps_intros paid_modify)

lemma paid_checks [keeps_intros]:
  "keeps (resolution_paid rid) (require_merchant_qr mid)" "keeps (resolution_paid rid) (check_merchant_qr_live env mq)"
  by (rule keeps_readonly, rule readonly_checks)+

lemma paid_parts [keeps_intros]:
  "keeps (resolution_paid rid) (lifecycle mid trigger reason now)"
  "keeps (resolution_paid rid) (record_scan env a b c d e f g h i)"
  "keeps (resolution_paid rid) (expire_payload prow now)"
  "keeps (resolution_paid rid) (check_on_us env prow now)"
  "keeps (resolution_paid rid) (mark_scanned prow)"
  "keeps (resolution_paid rid) (require_issuable merchant)"
  by (auto simp: lifecycle_def record_scan_def expire_payload_def check_on_us_def mark_scanned_def require_issuable_def Let_def
      intro!: keeps_intros)

lemma qr_step_paid: "qr_step s s' \<Longrightarrow> resolution_paid rid s \<Longrightarrow> resolution_paid rid s'"
proof (erule qr_step_keeps [where I = "resolution_paid rid"], goal_cases)
  case (5 env payload customer now)
  have "keeps (resolution_paid rid) (resolve_accepted env parsed customer now)" for parsed
    by (auto simp: resolve_accepted_def Let_def intro!: keeps_intros)
  then show ?case
    unfolding resolve_scan_def by (auto intro!: keeps_intros split: sum.splits qr_error.splits)
next
  case (6 env r amount now)
  show ?case
    unfolding pay_def pay_dynamic_def pay_static_def Let_def by (intro keeps_intros)
qed (auto simp: issue_static_def issue_dynamic_def refuse_if_scan_only_def on_intent_event_def sweep_expired_def Let_def
    intro!: keeps_intros split: option.splits)

lemma pay_returns:
  assumes "pay env rid amount now s = (Inr intent, s')"
  obtains resolution where "dget (rp_resolutions s) rid = Some resolution" and "qs_validation_result resolution = VALID"
    and "now \<le> qs_scanned_at resolution + 300000000" and "qs_payment_intent_id resolution = None"
    and "qs_qr_type resolution \<noteq> ''DYNAMIC'' \<Longrightarrow> \<exists>n. amount = PInt n \<and> 0 < n \<and> n \<le> 2020000"
    and "resolution_paid rid s'"
proof -
  obtain resolution row where r: "dget (rp_resolutions s) rid = Some resolution" "qs_validation_result resolution = VALID"
      "now \<le> qs_scanned_at resolution + seconds RESOLUTION_TTL_SECONDS" "qs_payment_intent_id resolution = None"
    and call: "(if qs_qr_type resolution = ''DYNAMIC'' then pay_dynamic env rid row amount now
      else pay_static env resolution rid row amount now) s = (Inr intent, s')"
    using assms unfolding pay_def
    by (auto simp: bind_pm_Inr_iff get_pm_def require_that_def ret_def raise_err_def split: option.splits if_splits)
  have set: "resolution_paid rid t'" if "set_resolution_intent rid pid t = (Inr u, t')" for pid t u t'
    using that by (auto simp: set_resolution_intent_def bind_pm_Inr_iff get_pm_def raise_err_def modify_pm_def
      resolution_paid_def dict_simps split: option.splits)
  have paid: "resolution_paid rid s'"
  proof (cases "qs_qr_type resolution = ''DYNAMIC''")
    case True
    then have "pay_dynamic env rid row amount now s = (Inr intent, s')" using call by simp
    then show ?thesis
      unfolding pay_dynamic_def using set
      by (auto simp: bind_pm_Inr_iff ret_def raise_err_def split: option.splits)
  next
    case False
    then have "pay_static env resolution rid row amount now s = (Inr intent, s')" using call by simp
    then obtain pid t t' where "set_resolution_intent rid pid t = (Inr (), t')" "rp_resolutions s' = rp_resolutions t'"
      unfolding pay_static_def by (auto simp: bind_pm_Inr_iff Let_def ret_def audit_record_def modify_pm_def)
    then show ?thesis using set by (auto simp: resolution_paid_def)
  qed
  have "\<exists>n. amount = PInt n \<and> 0 < n \<and> n \<le> 2020000" if "qs_qr_type resolution \<noteq> ''DYNAMIC''"
    using call that unfolding pay_static_def
    by (auto simp: bind_pm_Inr_iff lift_sum_def require_that_def ret_def raise_err_def STATIC_LIMIT_MINOR_def
      split: pyobj.splits if_splits)
  then show ?thesis using that r paid by (simp add: seconds_def RESOLUTION_TTL_SECONDS_def)
qed

lemma pay_paid: "resolution_paid rid s \<Longrightarrow> \<exists>c. pay env rid amount now s = (Inl (ConflictError c), s)"
  by (auto simp: pay_def resolution_paid_def bind_pm_def get_pm_def require_that_def ret_def raise_err_def)

subsection \<open>A concrete run\<close>

text \<open>A shop issues a code for an intent, and the intent succeeds; a foreign static code is scanned.\<close>

definition sample_merchant :: merchant_record where
  "sample_merchant = \<lparr>mr_merchant_id = ''mer_1'', mr_state = ''ACTIVE'', mr_mcc = Some ''5411'', mr_name = ''Shop'',
     mr_name_bn = None, mr_city = ''Dhaka'', mr_merchant_pan = ''M1'', mr_bangla_qr_allowed = True\<rparr>"

definition sample_intent :: intent_record where
  "sample_intent = \<lparr>ir_payment_intent_id = ''pi_1'', ir_merchant_id = ''mer_1'', ir_state = ''REQUIRES_CONFIRMATION'',
     ir_amount_minor = 125050, ir_currency = ''BDT'', ir_method = ''BANGLA_QR''\<rparr>"

definition sample_service :: qr_service_env where
  "sample_service = \<lparr>sv_codec = sample_env, sv_config = sample_config, sv_merchants = [''mer_1'' \<mapsto> sample_merchant],
     sv_intents_get = [''pi_1'' \<mapsto> sample_intent], sv_intents_create = (\<lambda>_ _ _ _. sample_intent),
     sv_quote = (\<lambda>_ _ _. zero_fee_quote), sv_scan_only = False\<rparr>"

abbreviation sample_issued :: qr_repo where
  "sample_issued \<equiv> snd (issue_dynamic sample_service ''pi_1'' (PInt 300) 0 empty_repo)"

abbreviation sample_paid :: qr_repo where
  "sample_paid \<equiv> snd (on_intent_event ''pi_1'' ''succeeded'' 1000000 sample_issued)"

lemma sample_dynamic: "dynamic_request sample_service sample_merchant sample_intent ''pi_1'' = sample_request"
  by (simp add: dynamic_request_def sample_service_def sample_merchant_def sample_intent_def sample_request_def
    service_merchant_account_def sample_config_def bengali_language_def)

lemma sample_row:
  "\<exists>row. new_payload_row sample_service parsed DYNAMIC None (Some ''pi_1'') amount expires now = Inr row \<and>
     qp_state row = ISSUED \<and> qp_qr_type row = DYNAMIC \<and> qp_payment_intent_id row = Some ''pi_1''"
proof -
  have "\<exists>d. canonical_json (str_dict [(''payload_string'', PStr s)]) = Inr d" for s
    by (simp add: canonical_json_def bind_sum_def key_string_def check_sum_def sorted_items_def Let_def)
  then obtain d where "canonical_json (str_dict [(''payload_string'', PStr (pp_payload_string parsed))]) = Inr d" by metis
  then show ?thesis
    by (simp add: new_payload_row_def qr_make_id_def sha256_canonical_def QR_ID_PREFIXES_def)
qed

lemma sample_issued_payloads:
  obtains row where "rp_payloads sample_issued = [(qp_payload_id row, row)]" and "qp_state row = ISSUED"
    and "qp_qr_type row = DYNAMIC" and "qp_payment_intent_id row = Some ''pi_1''"
proof -
  have guid: "qe_upper sample_env (ma_guid (rq_merchant_account sample_request)) = qe_upper sample_env (cfg_scheme_guid sample_config)"
    by (simp add: sample_request_def sample_config_def)
  obtain scan where scan: "parse_and_validate sample_env (append_crc sample_body) sample_config = Inr scan"
    using built_request_parses [OF sample_encodes sample_request_text guid] by metis
  obtain row where row: "new_payload_row sample_service scan DYNAMIC None (Some ''pi_1'') (Some 125050) (Some (seconds 300)) 0 = Inr row"
      "qp_state row = ISSUED" "qp_qr_type row = DYNAMIC" "qp_payment_intent_id row = Some ''pi_1''"
    using sample_row by metis
  have env: "sv_codec sample_service = sample_env" "sv_config sample_service = sample_config" "\<not> sv_scan_only sample_service"
    "sv_merchants sample_service ''mer_1'' = Some sample_merchant" "sv_intents_get sample_service ''pi_1'' = Some sample_intent"
    "ir_merchant_id sample_intent = ''mer_1''" "ir_amount_minor sample_intent = 125050"
    "ir_state sample_intent \<in> set INTENT_PAYABLE_STATES" "require_issuable sample_merchant = ret ()"
    by (simp_all add: sample_service_def sample_intent_def INTENT_PAYABLE_STATES_def require_issuable_def sample_merchant_def
      require_that_def bind_pm_def ret_def)
  have "rp_payloads sample_issued = [(qp_payload_id row, row)]"
    using row(1) scan env sample_encodes
    by (simp add: issue_dynamic_def refuse_if_scan_only_def sample_dynamic bind_pm_def require_that_def ret_def raise_err_def
      lift_sum_def get_pm_def modify_pm_def DYNAMIC_TTL_MIN_SECONDS_def DYNAMIC_TTL_MAX_SECONDS_def lift_qr_def Let_def
      find_dynamic_by_intent_def dvals_def empty_repo_def insert_payload_def publish_def)
  then show ?thesis using that row by metis
qed

lemma sample_paid_code: "code_of sample_paid ''pi_1'' = Some PAID"
proof -
  obtain row where row: "rp_payloads sample_issued = [(qp_payload_id row, row)]" "qp_state row = ISSUED"
      "qp_qr_type row = DYNAMIC" "qp_payment_intent_id row = Some ''pi_1''"
    by (rule sample_issued_payloads)
  have "rp_payloads sample_paid = [(qp_payload_id row, row\<lparr>qp_state := PAID\<rparr>)]"
    using row by (simp add: on_intent_event_def outcome_trigger_def find_dynamic_by_intent_def dvals_def bind_pm_def get_pm_def
      lift_sum_def ret_def advance_dynamic_payload_def DYNAMIC_PAYLOAD_TRANSITIONS_def save_payload_def require_that_def
      modify_pm_def publish_def)
  then show ?thesis using row by (simp add: code_of_def find_dynamic_by_intent_def dvals_def)
qed

definition sample_resolution :: qr_scan_resolution where
  "sample_resolution = \<lparr>qs_resolution_id = ''qres_1'', qs_payload_hash = ''h'', qs_payload_id = None, qs_on_us = False,
     qs_customer_ref = ''cus_1'', qs_qr_type = ''STATIC'', qs_validation_result = VALID, qs_failure_code = None,
     qs_quoted_fee_minor = Some 0, qs_payment_intent_id = None, qs_scanned_at = 0\<rparr>"

abbreviation sample_scanned :: qr_repo where
  "sample_scanned \<equiv> empty_repo\<lparr>rp_resolutions := [(''qres_1'', sample_resolution)]\<rparr>"

subsection \<open>Properties\<close>

text \<open>C15. The service refines its specification: any sequence of calls on a reachable repository, with
  whatever answers of the merchant directory and the intent port and at whatever times, changes the
  states of the dynamic codes, one per payment intent, only by issuing a code for an intent that has
  none, by the first scan, and by settling a live code as paid, expired or cancelled.\<close>

theorem service_refines_code_lifecycle:
  assumes "qr_step\<^sup>*\<^sup>* empty_repo s" and "qr_step\<^sup>*\<^sup>* s s'"
  shows "code_step\<^sup>*\<^sup>* (code_of s) (code_of s')"
  using qr_steps_evolve [OF assms(2) reachable_payloads_ok [OF assms(1)]] .

theorem service_refines_code_lifecycle_witness:
  "code_step\<^sup>*\<^sup>* (code_of empty_repo) (code_of (snd (sweep_expired 0 empty_repo)))"
  by (rule service_refines_code_lifecycle) (auto intro: qr_step.intros)

text \<open>C16. A settled code stays settled: once the dynamic code of an intent is paid, expired or
  cancelled, no call moves it again, so a paid code is neither paid a second time nor cancelled.\<close>

theorem settled_code_stays_settled:
  assumes "qr_step\<^sup>*\<^sup>* empty_repo s" and "code_of s i = Some t" and "t \<in> {PAID, EXPIRED, CANCELLED}"
    and "qr_step\<^sup>*\<^sup>* s s'"
  shows "code_of s' i = Some t"
  using code_steps_settled [OF qr_steps_evolve [OF assms(4) reachable_payloads_ok [OF assms(1)]] assms(2)] assms(3)
  by (simp add: settled_def)

theorem settled_code_stays_settled_witness: "code_of (snd (sweep_expired 900000000 sample_paid)) ''pi_1'' = Some PAID"
proof (rule settled_code_stays_settled)
  have "qr_step empty_repo sample_issued" "qr_step sample_issued sample_paid" by (rule qr_step.intros)+
  then show "qr_step\<^sup>*\<^sup>* empty_repo sample_paid" by (meson converse_rtranclp_into_rtranclp rtranclp.rtrancl_refl)
  show "qr_step\<^sup>*\<^sup>* sample_paid (snd (sweep_expired 900000000 sample_paid))"
    by (rule r_into_rtranclp) (rule qr_step.intros)
qed (simp_all add: sample_paid_code)

text \<open>C17. A scan is paid at most once, and only within its guards: a payment that goes through finds a
  valid resolution that is unpaid and at most five minutes old, for a static code with a positive
  amount up to 2,020,000 paisa; after it, and after any further calls, paying the same resolution
  raises and changes nothing.\<close>

theorem resolution_paid_once:
  assumes "pay env rid amount now s = (Inr intent, s')" and "qr_step\<^sup>*\<^sup>* s' s''"
  shows "(\<exists>resolution. dget (rp_resolutions s) rid = Some resolution \<and> qs_validation_result resolution = VALID \<and>
      qs_payment_intent_id resolution = None \<and> now \<le> qs_scanned_at resolution + 300000000 \<and>
      (qs_qr_type resolution \<noteq> ''DYNAMIC'' \<longrightarrow> (\<exists>n. amount = PInt n \<and> 0 < n \<and> n \<le> 2020000))) \<and>
    (\<exists>c. pay env' rid amount' now' s'' = (Inl (ConflictError c), s''))"
proof -
  have "resolution_paid rid s''"
    using assms(2) pay_returns [OF assms(1)] by (induction rule: rtranclp_induct) (auto dest: qr_step_paid)
  then show ?thesis using pay_paid pay_returns [OF assms(1)] by metis
qed

theorem resolution_paid_once_witness:
  "\<exists>c. pay sample_service ''qres_1'' (PInt 125050) 2000000
     (snd (sweep_expired 0 (snd (pay sample_service ''qres_1'' (PInt 125050) 1000000 sample_scanned)))) =
     (Inl (ConflictError c), snd (sweep_expired 0 (snd (pay sample_service ''qres_1'' (PInt 125050) 1000000 sample_scanned))))"
proof -
  let ?paid = "snd (pay sample_service ''qres_1'' (PInt 125050) 1000000 sample_scanned)"
  have "pay sample_service ''qres_1'' (PInt 125050) 1000000 sample_scanned = (Inr sample_intent, ?paid)"
    by (simp add: pay_def pay_static_def sample_resolution_def sample_service_def empty_repo_def bind_pm_def get_pm_def
      require_that_def ret_def lift_sum_def seconds_def RESOLUTION_TTL_SECONDS_def STATIC_LIMIT_MINOR_def Let_def
      set_resolution_intent_def modify_pm_def audit_record_def)
  from resolution_paid_once [OF this] show ?thesis using qr_step.intros(11) by blast
qed

end
