(* ===== verification/Spec2Isabelle.thy ===== *)
theory Spec2Isabelle
  imports Ledger_Tamper Ledger_Safety Kernel_Machines Fees Qr_Walk Qr_Guarantees Qr_Lifecycle
begin

text \<open>
  Verification of the bd-pay payment platform (\<^verbatim>\<open>src/bdpay\<close>).

  \<^bold>\<open>The program.\<close> The platform books money in a double-entry ledger whose rows are sealed in a hash
  chain, moves its business objects (payments, offers, disbursements, merchants, customers) through
  transition tables that one arbiter enforces, computes fees in integer paisa, and issues and accepts
  Bangla QR codes. The parts meet in the canonical JSON encoding, which is hashed for ids and chain rows,
  and in the amounts, which are integers everywhere.

  \<^bold>\<open>Conventions\<close> (\<^verbatim>\<open>BD_Prelude\<close>, \<^verbatim>\<open>Py_Text\<close>, \<^verbatim>\<open>Py_Unicode\<close>). A method that reads and writes an object and
  may raise is a function from the state before the call to the result or error and the state after it;
  pure code that may raise returns a sum with the exception on the left. A dict is an association list in
  insertion order, a str is the list of its UTF-8 bytes, an instant is a number of microseconds, Python's
  int is \<open>int\<close>; the CRC register is a \<open>16 word\<close>. The messages of exceptions are abridged. The clock is an
  argument of each call.

  \<^bold>\<open>Canonical encoding\<close> (\<^verbatim>\<open>Canonical\<close>: \<^verbatim>\<open>platform/canonical.py\<close>, \<^verbatim>\<open>platform/ids.py\<close>, \<^verbatim>\<open>ledger/ids_ext.py\<close>,
  \<^verbatim>\<open>ledger/account_ids.py\<close>). The writer with its refusals and the id constructors. The encoding is
  injective up to the identifications it documents, so ids are content-addressed.

  \<^bold>\<open>Ledger\<close>. \<^verbatim>\<open>Ledger_Types\<close> has the rows and errors of \<^verbatim>\<open>ledger/types.py\<close> and \<^verbatim>\<open>ledger/errors.py\<close>;
  \<^verbatim>\<open>Ledger_Store\<close> the store of \<^verbatim>\<open>ledger/memory_store.py\<close> with its staged writes, its deferred balance check
  and its commit; \<^verbatim>\<open>Ledger_Service\<close> every operation of \<^verbatim>\<open>ledger/service.py\<close>, with \<^verbatim>\<open>hash_chain.py\<close> and
  \<^verbatim>\<open>payloads.py\<close>; \<^verbatim>\<open>Ledger_Verify\<close> the chain verifier. On them: the books stay balanced in every reachable
  state, a call that raises changes nothing (\<^verbatim>\<open>Ledger_Invariants\<close>, \<^verbatim>\<open>Ledger_Reach\<close>); the chain seals the
  journal (\<^verbatim>\<open>Ledger_Chain\<close>, \<^verbatim>\<open>Ledger_History\<close>); an honest ledger verifies and an altered one does not,
  unless hashed texts collide (\<^verbatim>\<open>Ledger_Assurance\<close>, \<^verbatim>\<open>Ledger_Tamper\<close>); the tables only grow, an engaged
  gate stops postings, an idempotency key is used once (\<^verbatim>\<open>Ledger_Safety\<close>). The locale \<open>unit_of_work\<close> states
  what a transaction promises to the operations inside it; it is interpreted on the store's transaction for
  each of these invariants.

  \<^bold>\<open>State machines\<close>. \<^verbatim>\<open>Fsm\<close> is the arbiter of \<^verbatim>\<open>kernel/fsm.py\<close>: the constructor of a table, its validation
  and \<open>resolve\<close>. \<^verbatim>\<open>Payment_States\<close>, \<^verbatim>\<open>Commerce_States\<close> and \<^verbatim>\<open>Onboarding_States\<close> hold the tables rule for rule.
  The locale \<open>transition_machine\<close> is the contract of a table that the constructor accepted; it is
  interpreted for all seventeen. The lemmas show what the tables exclude on every path: a second capture,
  an unapproved batch, an unscreened merchant; \<^verbatim>\<open>Kernel_Machines\<close> shows that no machine gets stuck.

  \<^bold>\<open>Money and fees\<close> (\<^verbatim>\<open>Money\<close>: \<^verbatim>\<open>platform/money.py\<close>; \<^verbatim>\<open>Fees\<close>: \<^verbatim>\<open>ledger/settlement/fees.py\<close>). The decimal
  module is modelled to the extent that it is used. Multiplication is rounding to the even neighbour,
  conversions round-trip, the fee is the documented function of the rule, and the rule chosen is the most
  specific one.

  \<^bold>\<open>QR codes\<close>. \<^verbatim>\<open>Qr_Wire\<close> has the CRC (\<^verbatim>\<open>qr/crc.py\<close>), the tag-length-value objects (\<^verbatim>\<open>qr/tlv.py\<close>) and the
  amount field (\<^verbatim>\<open>qr/amount54.py\<close>); \<^verbatim>\<open>Qr_Codec\<close> the encoder and the decoder of \<^verbatim>\<open>qr/codec.py\<close> with
  \<^verbatim>\<open>qr/text.py\<close> and \<^verbatim>\<open>qr/config.py\<close>; \<^verbatim>\<open>Qr_States\<close> the entities, tables, port records and NPSB rows;
  \<^verbatim>\<open>Qr_Service\<close> the service over its in-memory repository. \<^verbatim>\<open>Qr_Roundtrip\<close> and \<^verbatim>\<open>Qr_Guarantees\<close> show that the
  decoder returns what the encoder was given, that the budget holds, that a one-byte change is refused and
  that every refusal carries a declared code. \<^verbatim>\<open>Qr_Walk\<close> shows that the walk ends and accepts only what
  the encoder writes. \<^verbatim>\<open>Qr_Lifecycle\<close> states the specification \<open>code_step\<close>, one code per payment intent,
  and shows that every sequence of service calls refines it; a step of \<open>qr_step\<close> is one call, with any
  answers of the merchant directory and the intent port.

  \<^bold>\<open>Parameters.\<close> SHA-256, Ed25519 signing and verification, the PII redactor, the Unicode category test,
  \<open>str.upper\<close> and the ports of the QR service are arguments of the definitions. No property assumes that
  SHA-256 is injective: where a collision would matter, the conclusion names it.

  \<^bold>\<open>Loops.\<close> No definition uses fuel. Every recursion is structural or has a measure; the walk over the TLV
  objects is also given as the \<open>while\<close> loop of the source, which is proved to end on every input.

  \<^bold>\<open>Not modelled.\<close> The Postgres stores and the migrations (SQL); the HTTP gateway, the composition root and
  the web applications (a framework and TypeScript); connectors, rails and simulators (network protocols);
  the card vault (encryption and key custody by third-party code); rendering of QR images; platform
  infrastructure such as the outbox, the scheduler and notifications. Not modelled either are the services
  around the transition tables (orchestrator, offers, disbursement, subscriptions, KYB, KYC, participants),
  the settlement, netting and reconciliation engines, replay bundles and compliance reporting, nor the
  interop test matrix of the QR service: they run over stores and ports
  of their own.
\<close>

end
